(* ===== verification/Prelude.thy ===== *)
theory Prelude
  imports Main "HOL-Library.State_Monad" "HOL-Library.AList"
begin

text \<open>
  Shared vocabulary of the development: Go strings as character lists with the
  functions of package \<open>strings\<close> the operator uses, Go maps as association lists,
  error values, and the interface (a locale) through which the component theories
  use a string-keyed map.
\<close>

named_theorems go_simps \<open>equations that unfold the model of the Go library\<close>

lemma fold_unchanged: "(\<And>x s. f (h x s) = f s) \<Longrightarrow> f (fold h xs s) = f s"
  by (induction xs arbitrary: s) simp_all

section \<open>Strings\<close>

text \<open>
  A Go string is a byte sequence; \<^typ>\<open>string\<close> is a list of 8-bit characters. Case
  mapping and white space are modelled on ASCII, the alphabet of every pattern, image
  reference, cluster name and token type the operator compares.
\<close>

definition lowerChar :: "char \<Rightarrow> char" where
  "lowerChar c = (let n = of_char c :: nat in if 65 \<le> n \<and> n \<le> 90 then char_of (n + 32) else c)"

definition toLower :: "string \<Rightarrow> string" where
  "toLower s = map lowerChar s"

definition equalFold :: "string \<Rightarrow> string \<Rightarrow> bool" where
  "equalFold a b \<longleftrightarrow> toLower a = toLower b"

fun hasPrefix :: "string \<Rightarrow> string \<Rightarrow> bool" where
  "hasPrefix s [] = True"
| "hasPrefix [] (p # ps) = False"
| "hasPrefix (c # s) (p # ps) = (c = p \<and> hasPrefix s ps)"

fun contains :: "string \<Rightarrow> string \<Rightarrow> bool" where
  "contains [] sub = (sub = [])"
| "contains (c # s) sub = (hasPrefix (c # s) sub \<or> contains s sub)"

definition isSpace :: "char \<Rightarrow> bool" where
  "isSpace c = (let n = of_char c :: nat in n = 32 \<or> (9 \<le> n \<and> n \<le> 13))"

definition trimSpace :: "string \<Rightarrow> string" where
  "trimSpace s = rev (dropWhile isSpace (rev (dropWhile isSpace s)))"

text \<open>The part of \<open>s\<close> after the last \<open>c\<close>; all of \<open>s\<close> when there is none.\<close>

definition afterLast :: "char \<Rightarrow> string \<Rightarrow> string" where
  "afterLast c s = rev (takeWhile (\<lambda>x. x \<noteq> c) (rev s))"

fun join :: "string \<Rightarrow> string list \<Rightarrow> string" where
  "join sep [] = []"
| "join sep [s] = s"
| "join sep (s # ss) = s @ sep @ join sep ss"

fun showNat :: "nat \<Rightarrow> string" where
  "showNat n = (if n < 10 then [char_of (48 + n)] else showNat (n div 10) @ [char_of (48 + n mod 10)])"

declare showNat.simps [simp del]

definition showInt :: "int \<Rightarrow> string" where
  "showInt i = (if i < 0 then ''-'' @ showNat (nat (- i)) else showNat (nat i))"

text \<open>The \<open>%v\<close> verb on a slice of strings.\<close>

definition showStrings :: "string list \<Rightarrow> string" where
  "showStrings ss = ''['' @ join '' '' ss @ '']''"

text \<open>The \<open>%q\<close> verb. Bytes beyond ASCII are taken to belong to printable characters.\<close>

definition quotedChar :: "char \<Rightarrow> string" where
  "quotedChar c = (let n = of_char c :: nat;
       hex = (\<lambda>d. if d < 10 then char_of (48 + d) else char_of (87 + d)) in
     if n = 34 \<or> n = 92 then [char_of (92::nat), c]
     else if n = 7 then [char_of (92::nat), CHR ''a'']
     else if n = 8 then [char_of (92::nat), CHR ''b'']
     else if n = 9 then [char_of (92::nat), CHR ''t'']
     else if n = 10 then [char_of (92::nat), CHR ''n'']
     else if n = 11 then [char_of (92::nat), CHR ''v'']
     else if n = 12 then [char_of (92::nat), CHR ''f'']
     else if n = 13 then [char_of (92::nat), CHR ''r'']
     else if n < 32 \<or> n = 127 then [char_of (92::nat), CHR ''x'', hex (n div 16), hex (n mod 16)]
     else [c])"

definition showQuoted :: "string \<Rightarrow> string" where
  "showQuoted s = char_of (34::nat) # concat (map quotedChar s) @ [char_of (34::nat)]"

lemma hasPrefix_append [simp]: "hasPrefix (p @ s) p"
  by (induction p) auto

lemma hasPrefix_iff: "hasPrefix s p \<longleftrightarrow> (\<exists>t. s = p @ t)"
  by (induction s p rule: hasPrefix.induct) auto

lemma contains_iff: "contains s sub \<longleftrightarrow> (\<exists>a b. s = a @ sub @ b)"
proof (induction s)
  case Nil
  then show ?case by auto
next
  case (Cons c s)
  show ?case
    unfolding contains.simps Cons.IH hasPrefix_iff
  proof
    assume "(\<exists>t. c # s = sub @ t) \<or> (\<exists>a b. s = a @ sub @ b)"
    then show "\<exists>a b. c # s = a @ sub @ b"
      by (metis append_Cons append_Nil)
  next
    assume "\<exists>a b. c # s = a @ sub @ b"
    then obtain a b where "c # s = a @ sub @ b" by blast
    then show "(\<exists>t. c # s = sub @ t) \<or> (\<exists>a b. s = a @ sub @ b)"
      by (cases a) auto
  qed
qed

lemma equalFold_refl [simp]: "equalFold a a"
  by (simp add: equalFold_def)

lemma equalFold_sym: "equalFold a b \<longleftrightarrow> equalFold b a"
  by (auto simp: equalFold_def)

lemma dropWhile_no_head: "dropWhile p xs = [] \<or> \<not> p (hd (dropWhile p xs))"
  using hd_dropWhile[of p xs] by auto

lemma head_dropWhile_rev:
  assumes "ys = [] \<or> \<not> p (hd ys)"
  shows "dropWhile p (rev (dropWhile p (rev ys))) = rev (dropWhile p (rev ys))"
proof (cases "dropWhile p (rev ys) = []")
  case True
  show ?thesis unfolding True by simp
next
  case False
  have "rev ys = takeWhile p (rev ys) @ dropWhile p (rev ys)" by simp
  then have "ys = rev (dropWhile p (rev ys)) @ rev (takeWhile p (rev ys))"
    by (metis rev_append rev_rev_ident)
  with False have "hd ys = hd (rev (dropWhile p (rev ys)))" and "ys \<noteq> []"
    by (metis hd_append2 rev_is_Nil_conv, auto)
  with assms show ?thesis by (simp add: dropWhile_eq_self_iff)
qed

lemma trimSpace_idem [simp]: "trimSpace (trimSpace s) = trimSpace s"
proof -
  let ?d = "dropWhile isSpace s"
  have "dropWhile isSpace (rev (dropWhile isSpace (rev ?d))) = rev (dropWhile isSpace (rev ?d))"
    by (rule head_dropWhile_rev) (rule dropWhile_no_head)
  moreover have "dropWhile isSpace (dropWhile isSpace (rev ?d)) = dropWhile isSpace (rev ?d)"
    using dropWhile_no_head[of isSpace "rev ?d"] by (simp add: dropWhile_eq_self_iff)
  ultimately show ?thesis by (simp add: trimSpace_def)
qed

section \<open>Maps from strings\<close>

text \<open>
  A Go map is an association list without duplicate keys. Reading a missing key of a map
  of strings yields the empty string; the \<open>v, ok\<close> form is \<^const>\<open>map_of\<close>.
  A nil map reads as empty; whether a map is nil matters to \<open>reflect.DeepEqual\<close>, so
  the fields that are compared that way are optional maps.
\<close>

type_synonym 'v dict = "(string \<times> 'v) list"

definition dictGet :: "string dict \<Rightarrow> string \<Rightarrow> string" where
  "dictGet m k = (case map_of m k of None \<Rightarrow> [] | Some v \<Rightarrow> v)"

definition dictSet :: "string \<Rightarrow> 'v \<Rightarrow> 'v dict \<Rightarrow> 'v dict" where
  "dictSet k v m = AList.update k v m"

text \<open>The loop that deletes every key for which the test fails.\<close>

definition dictRetain :: "(string \<Rightarrow> bool) \<Rightarrow> 'v dict \<Rightarrow> 'v dict" where
  "dictRetain p m = filter (\<lambda>(k, v). p k) m"

definition dictEq :: "'v dict \<Rightarrow> 'v dict \<Rightarrow> bool" where
  "dictEq a b \<longleftrightarrow> (\<forall>k \<in> set (map fst a) \<union> set (map fst b). map_of a k = map_of b k)"

definition mapEq :: "'v dict option \<Rightarrow> 'v dict option \<Rightarrow> bool" where
  "mapEq a b = (case (a, b) of (None, None) \<Rightarrow> True | (Some x, Some y) \<Rightarrow> dictEq x y | _ \<Rightarrow> False)"

text \<open>A nil map reads like an empty one; \<open>if m == nil \<open>{\<close> m = make(...) \<open>}\<close>\<close> gives the same.\<close>

definition orEmpty :: "'v dict option \<Rightarrow> 'v dict" where
  "orEmpty m = (case m of None \<Rightarrow> [] | Some d \<Rightarrow> d)"

lemma orEmpty_simps [simp]: "orEmpty None = []" "orEmpty (Some d) = d"
  by (simp_all add: orEmpty_def)

lemma dictEq_iff: "dictEq a b \<longleftrightarrow> map_of a = map_of b"
proof
  assume eq: "dictEq a b"
  show "map_of a = map_of b"
  proof
    fix k
    show "map_of a k = map_of b k"
    proof (cases "k \<in> set (map fst a) \<union> set (map fst b)")
      case True
      with eq show ?thesis by (auto simp: dictEq_def)
    next
      case False
      then have "map_of a k = None" "map_of b k = None"
        by (auto simp: map_of_eq_None_iff)
      then show ?thesis by simp
    qed
  qed
qed (simp add: dictEq_def)

lemma mapEq_refl [simp]: "mapEq a a"
  by (auto simp: mapEq_def dictEq_iff split: option.splits)

lemma mapEq_iff: "mapEq a b \<longleftrightarrow> map_option map_of a = map_option map_of b"
  by (auto simp: mapEq_def dictEq_iff split: option.splits)

lemma map_of_dictSet [simp]: "map_of (dictSet k v m) = (map_of m)(k \<mapsto> v)"
  by (simp add: dictSet_def update_conv')

lemma map_of_dictRetain: "map_of (dictRetain p m) k = (if p k then map_of m k else None)"
  by (induction m) (auto simp: dictRetain_def)

text \<open>
  The interface the controllers use: lookups after a write and after a clean-up loop.
  Clients fold writes over a list of instances; the two folds they need are proved once.
\<close>

locale string_map =
  fixes get :: "'m \<Rightarrow> string \<Rightarrow> 'v option"
    and put :: "string \<Rightarrow> 'v \<Rightarrow> 'm \<Rightarrow> 'm"
    and retain :: "(string \<Rightarrow> bool) \<Rightarrow> 'm \<Rightarrow> 'm"
  assumes get_put: "get (put k v m) j = (if j = k then Some v else get m j)"
    and get_retain: "get (retain p m) j = (if p j then get m j else None)"
begin

lemma get_put_all:
  "get (fold (\<lambda>k m. put k (f k) m) ks m) j = (if j \<in> set ks then Some (f j) else get m j)"
  by (induction ks arbitrary: m) (auto simp: get_put)

lemma get_put_where:
  "get (fold (\<lambda>k m. if P k m then m else put k (f k) m) ks m) j = get m j" if "j \<notin> set ks"
  using that by (induction ks arbitrary: m) (auto simp: get_put)

lemma retain_dom: "get (retain p m) j = Some v \<Longrightarrow> p j \<and> get m j = Some v"
  by (auto simp: get_retain split: if_splits)

lemma retain_put: "p k \<Longrightarrow> get (retain p (put k v m)) j = get (put k v (retain p m)) j"
  by (simp add: get_retain get_put)

end

interpretation dict: string_map "map_of :: 'v dict \<Rightarrow> string \<Rightarrow> 'v option" dictSet dictRetain
  by unfold_locales (auto simp: map_of_dictRetain)

section \<open>Errors\<close>

text \<open>
  A Go error is its message together with what \<open>errors.Is\<close>, \<open>errors.As\<close> and the
  predicates of package \<open>apierrors\<close> can tell about it. Wrapping with \<open>%w\<close> prefixes the
  message and keeps the kind.
\<close>

datatype error_kind =
    NotFound | Conflict | AlreadyExists | Forbidden | Unauthorized
  | NamespaceMissing \<comment> \<open>not found, and the namespace is what is missing\<close>
  | Sentinel string
  | ApiStatus int string string \<comment> \<open>\<open>UnleashAPIError\<close>: status code, message, raw body\<close>
  | Plain

record go_error =
  errorKind :: error_kind
  errorMsg :: string

definition errorf :: "string \<Rightarrow> go_error" where
  "errorf m = \<lparr>errorKind = Plain, errorMsg = m\<rparr>"

definition wrapf :: "string \<Rightarrow> go_error \<Rightarrow> go_error" where
  "wrapf p e = e\<lparr>errorMsg := p @ '': '' @ errorMsg e\<rparr>"

definition isNotFound :: "go_error \<Rightarrow> bool" where
  "isNotFound e \<longleftrightarrow> errorKind e = NotFound \<or> errorKind e = NamespaceMissing"

definition isConflict :: "go_error \<Rightarrow> bool" where
  "isConflict e \<longleftrightarrow> errorKind e = Conflict"

lemma wrapf_kind [simp]: "errorKind (wrapf p e) = errorKind e"
  by (simp add: wrapf_def)

lemma isConflict_wrapf [simp]: "isConflict (wrapf p e) = isConflict e"
  by (simp add: isConflict_def)

lemma isNotFound_wrapf [simp]: "isNotFound (wrapf p e) = isNotFound e"
  by (simp add: isNotFound_def)

end
