(* ===== verification/Durations.thy ===== *)
theory Durations
  imports Prelude
begin

text \<open>
  Package \<open>time\<close> as the operator uses it. A \<open>time.Duration\<close> is a signed 64-bit number
  of nanoseconds: sums and products wrap (\<open>wrap64\<close>), \<open>time.Since\<close> saturates. An
  instant is a number of nanoseconds, a \<open>*metav1.Time\<close> an optional instant. \<open>showDuration\<close>
  is \<open>Duration.String\<close>, which ends up in the failure reasons that later phases inspect.
\<close>

definition wrap64 :: "int \<Rightarrow> int" where
  "wrap64 x = (x + 2 ^ 63) mod 2 ^ 64 - 2 ^ 63"

definition nanosecond :: int where "nanosecond = 1"
definition microsecond :: int where "microsecond = 1000"
definition millisecond :: int where "millisecond = 1000000"
definition second :: int where "second = 1000000000"
definition minute :: int where "minute = 60 * second"
definition hour :: int where "hour = 60 * minute"

lemmas time_units = nanosecond_def microsecond_def millisecond_def second_def minute_def hour_def

definition maxDuration :: int where "maxDuration = 2 ^ 63 - 1"
definition minDuration :: int where "minDuration = - (2 ^ 63)"

definition since :: "int \<Rightarrow> int \<Rightarrow> int" where
  "since now t = max minDuration (min maxDuration (now - t))"

text \<open>Integer division truncates towards zero.\<close>

definition goQuot :: "int \<Rightarrow> int \<Rightarrow> int" where
  "goQuot a b = sgn a * sgn b * (\<bar>a\<bar> div \<bar>b\<bar>)"

lemma goQuot_nonneg: "0 \<le> a \<Longrightarrow> 0 < b \<Longrightarrow> goQuot a b = a div b"
  by (cases "a = 0") (simp_all add: goQuot_def)

lemma wrap64_range: "- (2 ^ 63) \<le> wrap64 x \<and> wrap64 x < 2 ^ 63"
proof -
  have "0 \<le> (x + 2 ^ 63) mod 2 ^ 64 \<and> (x + 2 ^ 63) mod 2 ^ 64 < (2 ^ 64 :: int)" by simp
  then show ?thesis unfolding wrap64_def by simp
qed

lemma wrap64_id: "- (2 ^ 63) \<le> x \<Longrightarrow> x < 2 ^ 63 \<Longrightarrow> wrap64 x = x"
  by (simp add: wrap64_def)

section \<open>Rendering\<close>

text \<open>
  \<open>showFrac v prec\<close> renders the last \<open>prec\<close> digits of \<open>v\<close> as a fraction without
  trailing zeros, and nothing at all when they are all zero.
\<close>

fun digitsOf :: "nat \<Rightarrow> nat \<Rightarrow> string" where
  "digitsOf 0 v = []"
| "digitsOf (Suc p) v = digitsOf p (v div 10) @ [char_of (48 + v mod 10)]"

definition showFrac :: "nat \<Rightarrow> nat \<Rightarrow> string" where
  "showFrac v prec =
     (let ds = rev (dropWhile (\<lambda>c. c = CHR ''0'') (rev (digitsOf prec v)))
      in if ds = [] then [] else ''.'' @ ds)"

definition showSeconds :: "nat \<Rightarrow> string" where
  "showSeconds u =
     (let frac = showFrac u 9;
          s = u div 1000000000;
          m = s div 60;
          h = m div 60;
          secs = showNat (s mod 60) @ frac @ ''s''
      in if m = 0 then secs
         else if h = 0 then showNat (m mod 60) @ ''m'' @ secs
         else showNat h @ ''h'' @ showNat (m mod 60) @ ''m'' @ secs)"

definition showDuration :: "int \<Rightarrow> string" where
  "showDuration d =
     (let u = nat \<bar>d\<bar>;
          body =
            (if u = 0 then ''0s''
             else if u < 1000 then showNat u @ ''ns''
             else if u < 1000000 then
               showNat (u div 1000) @ showFrac u 3 @ [char_of (194 :: nat), char_of (181 :: nat)] @ ''s''
             else if u < 1000000000 then showNat (u div 1000000) @ showFrac u 6 @ ''ms''
             else showSeconds u)
      in (if d < 0 then ''-'' else []) @ body)"

text \<open>\<open>Duration.Round\<close>: to the nearest multiple, halves away from zero, saturating.\<close>

definition roundTo :: "int \<Rightarrow> int \<Rightarrow> int" where
  "roundTo d m =
     (if m \<le> 0 then d
      else if d < 0 then
        (let r = (- d) mod m
         in if r + r < m then d + r
            else if minDuration \<le> d - m + r then d - m + r else minDuration)
      else
        (let r = d mod m
         in if r + r < m then d - r
            else if d + m - r \<le> maxDuration then d + m - r else maxDuration))"

end
