(* ===== verification/ApiTypes.thy ===== *)
theory ApiTypes
  imports Durations
begin

text \<open>
  The custom resources of \<open>api/v1\<close>: object metadata, status conditions, \<open>Unleash\<close>
  and \<open>ReleaseChannel\<close>, field by field, and the validation and readiness methods defined
  on them. Go's \<open>int\<close> and \<open>int64\<close> counters are integers; a pointer is an option.
  A condition's \<open>LastTransitionTime\<close> is left out: the operator never reads it.
\<close>

section \<open>Metadata and conditions\<close>

type_synonym nsname = "string \<times> string" \<comment> \<open>namespace and name\<close>

record object_meta =
  mName :: string
  mNamespace :: string
  mLabels :: "string dict"
  mAnnotations :: "string dict"
  mFinalizers :: "string list"
  mGeneration :: int
  mDeletionTimestamp :: "int option"
  mOwners :: "string list" \<comment> \<open>names of the controlling owners\<close>
  mUID :: string
  mResourceVersion :: string
  mCreationTimestamp :: "int option"

datatype condition_status = ConditionTrue | ConditionFalse | ConditionUnknown

record condition =
  cType :: string
  cStatus :: condition_status
  cObservedGeneration :: int
  cReason :: string
  cMessage :: string

definition ConditionReconciled :: string where "ConditionReconciled = ''Reconciled''"
definition ConditionConnected :: string where "ConditionConnected = ''Connected''"
definition ConditionDegraded :: string where "ConditionDegraded = ''Degraded''"

lemmas condition_types = ConditionReconciled_def ConditionConnected_def ConditionDegraded_def

fun getConditionStatus :: "condition list \<Rightarrow> string \<Rightarrow> condition_status" where
  "getConditionStatus [] t = ConditionUnknown"
| "getConditionStatus (c # cs) t = (if cType c = t then cStatus c else getConditionStatus cs t)"

definition conditionStatusIsReady :: "condition list \<Rightarrow> bool" where
  "conditionStatusIsReady cs \<longleftrightarrow>
     getConditionStatus cs ConditionReconciled = ConditionTrue \<and>
     getConditionStatus cs ConditionConnected = ConditionTrue"

definition conditionStatusIsReadyForGeneration :: "condition list \<Rightarrow> int \<Rightarrow> bool" where
  "conditionStatusIsReadyForGeneration cs gen \<longleftrightarrow>
     (if list_ex (\<lambda>c. (cType c = ConditionReconciled \<or> cType c = ConditionConnected) \<and>
                      cObservedGeneration c \<noteq> gen) cs
      then False else conditionStatusIsReady cs)"

section \<open>Unleash\<close>

text \<open>Parts of an object that the operator copies without looking at them (volumes, resource
  requirements, an environment source it does not build itself) are carried as the text they
  were given in.\<close>

type_synonym opaque = string

datatype env_source = EnvValue string | EnvSecretKey string string | EnvOther opaque

record env_var =
  evName :: string
  evSource :: env_source

record container =
  ctName :: string
  ctImage :: string
  ctPullPolicy :: string
  ctLivenessPath :: string
  ctLivenessPort :: int
  ctLivenessTimes :: "int list" \<comment> \<open>initial delay, timeout, period, successes, failures\<close>
  ctPorts :: "(string \<times> int \<times> string) list" \<comment> \<open>name, port, protocol\<close>
  ctRunAsNonRoot :: bool
  ctRunAsUser :: int
  ctAllowPrivilegeEscalation :: bool
  ctDropCapabilities :: "string list"
  ctEnv :: "env_var list"
  ctResources :: opaque
  ctVolumeMounts :: "opaque list"

record selector_requirement =
  reqKey :: string
  reqOperator :: string
  reqValues :: "string list"

record label_selector =
  selMatchLabels :: "string dict option"
  selMatchExpressions :: "selector_requirement list"

datatype int_or_string = IntPort int | NamedPort string

record network_peer =
  peNamespaces :: "label_selector option"
  pePods :: "label_selector option"
  peIPBlock :: "opaque option"

record network_port =
  poProtocol :: string
  poPort :: int_or_string

record network_rule =
  nrPeers :: "network_peer list"
  nrPorts :: "network_port list"

record network_policy_config =
  npEnabled :: bool
  npAllowDNS :: bool
  npAllowAllFromCluster :: bool
  npAllowAllFromSameNamespace :: bool
  npAllowAllFromNamespaces :: "string list"
  npExtraIngressRules :: "network_rule list"
  npExtraEgressRules :: "network_rule list"

record ingress_tls =
  tlsSecretName :: string
  tlsSecretCertKey :: string
  tlsSecretKeyKey :: string

record ingress_config =
  igEnabled :: bool
  igHost :: string
  igPath :: string
  igTLS :: "ingress_tls option"
  igAnnotations :: "string dict"
  igClass :: string

record database_config =
  dbSecretName :: string
  dbSecretURLKey :: string
  dbSecretUserKey :: string
  dbSecretPassKey :: string
  dbSecretPortKey :: string
  dbSecretHostKey :: string
  dbSecretDatabaseNameKey :: string
  dbSecretSSLKey :: string
  dbURL :: string
  dbDatabaseName :: string
  dbHost :: string
  dbPort :: string
  dbUser :: string
  dbSSL :: string

record federation_config =
  fedEnabled :: bool
  fedClusters :: "string list"
  fedNamespaces :: "string list"
  fedSecretNonce :: string

record unleash_spec =
  usSize :: int
  usCustomImage :: string
  usReleaseChannelName :: string
  usPrometheusEnabled :: bool
  usDatabase :: database_config
  usWebIngress :: ingress_config
  usApiIngress :: ingress_config
  usNetworkPolicy :: network_policy_config
  usExtraEnvVars :: "env_var list"
  usExtraVolumes :: "opaque list"
  usExtraVolumeMounts :: "opaque list"
  usExtraContainers :: "container list"
  usExistingServiceAccountName :: string
  usResources :: opaque
  usFederation :: federation_config
  usPodAnnotations :: "string dict"
  usPodLabels :: "string dict"

record unleash_status =
  utConditions :: "condition list"
  utReconciled :: bool
  utConnected :: bool
  utVersion :: string
  utResolvedReleaseChannelImage :: string
  utReleaseChannelName :: string
  utLastPublishedHash :: int

record unleash =
  uMeta :: object_meta
  uSpec :: unleash_spec
  uStatus :: unleash_status

abbreviation uName :: "unleash \<Rightarrow> string" where "uName u \<equiv> mName (uMeta u)"
abbreviation uNamespace :: "unleash \<Rightarrow> string" where "uNamespace u \<equiv> mNamespace (uMeta u)"
abbreviation resolvedImage :: "unleash \<Rightarrow> string" where
  "resolvedImage u \<equiv> utResolvedReleaseChannelImage (uStatus u)"

definition unleashKey :: "unleash \<Rightarrow> nsname" where
  "unleashKey u = (uNamespace u, uName u)"

definition unleashURL :: "unleash \<Rightarrow> string" where
  "unleashURL u = ''http://'' @ uName u @ ''.'' @ uNamespace u"

definition publicApiURL :: "unleash \<Rightarrow> string" where
  "publicApiURL u =
     (if igHost (usApiIngress (uSpec u)) = [] then []
      else ''https://'' @ igHost (usApiIngress (uSpec u)))"

definition publicWebURL :: "unleash \<Rightarrow> string" where
  "publicWebURL u = ''https://'' @ igHost (usWebIngress (uSpec u))"

definition keyWithSuffix :: "unleash \<Rightarrow> string \<Rightarrow> nsname" where
  "keyWithSuffix u suffix = (uNamespace u, uName u @ ''-'' @ suffix)"

definition UnleashSecretNamePrefix :: string where "UnleashSecretNamePrefix = ''unleasherator''"
definition UnleashSecretTokenKey :: string where "UnleashSecretTokenKey = ''token''"
definition UnleashSecretServerURLKey :: string where "UnleashSecretServerURLKey = ''url''"

definition instanceSecretName :: "unleash \<Rightarrow> string" where
  "instanceSecretName u = UnleashSecretNamePrefix @ ''-'' @ uName u @ ''-admin-key''"

definition operatorSecretName :: "unleash \<Rightarrow> string" where
  "operatorSecretName u = UnleashSecretNamePrefix @ ''-'' @ uNamespace u @ ''-'' @ uName u @ ''-admin-key''"

definition instanceSecretKey :: "unleash \<Rightarrow> nsname" where
  "instanceSecretKey u = (uNamespace u, instanceSecretName u)"

definition operatorSecretKey :: "string \<Rightarrow> unleash \<Rightarrow> nsname" where
  "operatorSecretKey ns u = (ns, operatorSecretName u)"

lemmas secret_names = instanceSecretName_def operatorSecretName_def instanceSecretKey_def operatorSecretKey_def
  UnleashSecretNamePrefix_def

definition unleashIsReady :: "unleash \<Rightarrow> bool" where
  "unleashIsReady u = conditionStatusIsReadyForGeneration (utConditions (uStatus u)) (mGeneration (uMeta u))"

section \<open>ReleaseChannel\<close>

record canary_config =
  canaryEnabled :: bool
  canarySelector :: label_selector

record strategy =
  sgCanary :: canary_config
  sgMaxParallel :: int
  sgBatchInterval :: "int option"
  sgMaxUpgradeTime :: "int option"

record health_check_config =
  hcEnabled :: bool
  hcInitialDelay :: "int option"
  hcTimeout :: "int option"
  hcEndpoint :: string

record rollback_config =
  rbEnabled :: bool
  rbPreviousImage :: string
  rbOnFailure :: bool

record channel_spec =
  spImage :: string
  spStrategy :: strategy
  spHealthChecks :: health_check_config
  spRollback :: rollback_config
  spAllowDowngrade :: bool
  spBreakGlassImage :: string

text \<open>A phase is a string in Go; any value other than the named ones, the empty one
  included, is \<^term>\<open>PhaseOther\<close>.\<close>

datatype phase =
    PhaseIdle | PhaseValidating | PhaseCanary | PhaseRolling
  | PhaseCompleted | PhaseFailed | PhaseRollingBack
  | PhaseOther string

abbreviation PhaseEmpty :: phase where "PhaseEmpty \<equiv> PhaseOther []"

fun phaseString :: "phase \<Rightarrow> string" where
  "phaseString PhaseIdle = ''Idle''"
| "phaseString PhaseValidating = ''Validating''"
| "phaseString PhaseCanary = ''Canary''"
| "phaseString PhaseRolling = ''Rolling''"
| "phaseString PhaseCompleted = ''Completed''"
| "phaseString PhaseFailed = ''Failed''"
| "phaseString PhaseRollingBack = ''RollingBack''"
| "phaseString (PhaseOther s) = s"

record active_batch =
  abInstanceNames :: "string list"
  abTargetImage :: string
  abStartTime :: int

record instance_status =
  isName :: string
  isPhase :: string
  isStartTime :: "int option"
  isEndTime :: "int option"
  isMessage :: string
  isReady :: bool

record channel_status =
  stConditions :: "condition list"
  stPhase :: phase
  stVersion :: string
  stRollout :: bool
  stProgress :: int
  stInstances :: int
  stCanaryInstances :: int
  stInstancesUpToDate :: int
  stCanaryInstancesUpToDate :: int
  stLastReconcileTime :: "int option"
  stStartTime :: "int option"
  stEstimatedCompletion :: "int option"
  stInstanceStatus :: "instance_status list option"
  stFailureReason :: string
  stRetryCount :: int
  stLastFailureTime :: "int option"
  stPreviousImage :: string
  stLastImageChangeTime :: "int option"
  stInstanceImages :: "string dict option"
  stLastTargetImages :: "string dict option"
  stInstanceImagesGeneration :: int
  stActiveBatch :: "active_batch option"
  stResumeProgress :: int
  stFailedImage :: string
  stLastDeployTime :: "int option"

record release_channel =
  rcMeta :: object_meta
  rcSpec :: channel_spec
  rcStatus :: channel_status

abbreviation rcName :: "release_channel \<Rightarrow> string" where "rcName rc \<equiv> mName (rcMeta rc)"
abbreviation rcNamespace :: "release_channel \<Rightarrow> string" where "rcNamespace rc \<equiv> mNamespace (rcMeta rc)"
abbreviation rcImage :: "release_channel \<Rightarrow> string" where "rcImage rc \<equiv> spImage (rcSpec rc)"
abbreviation rcPhase :: "release_channel \<Rightarrow> phase" where "rcPhase rc \<equiv> stPhase (rcStatus rc)"
abbreviation assignedImage :: "channel_status \<Rightarrow> string \<Rightarrow> string" where
  "assignedImage st n \<equiv> dictGet (orEmpty (stInstanceImages st)) n"

definition channelKey :: "release_channel \<Rightarrow> nsname" where
  "channelKey rc = (rcNamespace rc, rcName rc)"

definition IsCandidate :: "release_channel \<Rightarrow> unleash \<Rightarrow> bool" where
  "IsCandidate rc u \<longleftrightarrow> rcName rc = usReleaseChannelName (uSpec u) \<and> rcNamespace rc = uNamespace u"

definition ShouldUpdate :: "release_channel \<Rightarrow> unleash \<Rightarrow> bool" where
  "ShouldUpdate rc u \<longleftrightarrow> IsCandidate rc u \<and> rcImage rc \<noteq> usCustomImage (uSpec u)"

definition validateChannel :: "release_channel \<Rightarrow> go_error option" where
  "validateChannel rc =
     (let sp = rcSpec rc; sg = spStrategy sp; sel = canarySelector (sgCanary sg) in
      if spImage sp = [] then Some (errorf ''image cannot be empty'')
      else if spBreakGlassImage sp \<noteq> [] \<and> spBreakGlassImage sp \<noteq> spImage sp
        then Some (errorf ''breakGlassImage must equal image'')
      else if sgMaxParallel sg < 1 \<or> sgMaxParallel sg > 50
        then Some (errorf ''maxParallel must be between 1 and 50'')
      else if canaryEnabled (sgCanary sg) \<and> selMatchLabels sel = None \<and> selMatchExpressions sel = []
        then Some (errorf ''canary label selector must be specified when canary is enabled'')
      else None)"

definition ValidateCreate :: "release_channel \<Rightarrow> go_error option" where
  "ValidateCreate rc = validateChannel rc"

definition ValidateUpdate :: "release_channel \<Rightarrow> release_channel \<Rightarrow> go_error option" where
  "ValidateUpdate rc old =
     (if rcPhase old \<noteq> PhaseIdle \<and> rcPhase old \<noteq> PhaseCompleted \<and> rcPhase old \<noteq> PhaseFailed \<and>
         rcImage rc \<noteq> rcImage old \<and>
         (spBreakGlassImage (rcSpec rc) = [] \<or> spBreakGlassImage (rcSpec rc) \<noteq> rcImage rc)
      then Some (errorf (''cannot change image during active rollout (current phase: '' @
                         phaseString (rcPhase old) @ '')''))
      else validateChannel rc)"

definition ValidateDelete :: "release_channel \<Rightarrow> go_error option" where
  "ValidateDelete rc =
     (if rcPhase rc \<noteq> PhaseIdle \<and> rcPhase rc \<noteq> PhaseCompleted \<and> rcPhase rc \<noteq> PhaseFailed \<and>
         rcPhase rc \<noteq> PhaseEmpty
      then Some (errorf (''warning: deleting ReleaseChannel with active rollout (phase: '' @
             phaseString (rcPhase rc) @
             ''); deletion may be blocked by finalizer if instances still reference this channel''))
      else None)"

section \<open>Fresh objects\<close>

text \<open>Objects as Go creates them: every field that is not given has its zero value. They
  serve as starting points of concrete runs.\<close>

definition zeroMeta :: "string \<Rightarrow> string \<Rightarrow> object_meta" where
  "zeroMeta ns n = \<lparr>mName = n, mNamespace = ns, mLabels = [], mAnnotations = [], mFinalizers = [],
     mGeneration = 0, mDeletionTimestamp = None, mOwners = [], mUID = [], mResourceVersion = [],
     mCreationTimestamp = None\<rparr>"

definition zeroStatus :: channel_status where
  "zeroStatus = \<lparr>stConditions = [], stPhase = PhaseEmpty, stVersion = [], stRollout = False, stProgress = 0,
     stInstances = 0, stCanaryInstances = 0, stInstancesUpToDate = 0, stCanaryInstancesUpToDate = 0,
     stLastReconcileTime = None, stStartTime = None, stEstimatedCompletion = None, stInstanceStatus = None,
     stFailureReason = [], stRetryCount = 0, stLastFailureTime = None, stPreviousImage = [],
     stLastImageChangeTime = None, stInstanceImages = None, stLastTargetImages = None,
     stInstanceImagesGeneration = 0, stActiveBatch = None, stResumeProgress = 0, stFailedImage = [],
     stLastDeployTime = None\<rparr>"

definition newChannel :: "string \<Rightarrow> string \<Rightarrow> string \<Rightarrow> release_channel" where
  "newChannel ns n img =
     \<lparr>rcMeta = zeroMeta ns n,
      rcSpec = \<lparr>spImage = img,
        spStrategy = \<lparr>sgCanary = \<lparr>canaryEnabled = False,
            canarySelector = \<lparr>selMatchLabels = None, selMatchExpressions = []\<rparr>\<rparr>,
          sgMaxParallel = 1, sgBatchInterval = None, sgMaxUpgradeTime = None\<rparr>,
        spHealthChecks = \<lparr>hcEnabled = False, hcInitialDelay = None, hcTimeout = None, hcEndpoint = []\<rparr>,
        spRollback = \<lparr>rbEnabled = False, rbPreviousImage = [], rbOnFailure = False\<rparr>,
        spAllowDowngrade = False, spBreakGlassImage = []\<rparr>,
      rcStatus = zeroStatus\<rparr>"

definition zeroIngress :: ingress_config where
  "zeroIngress = \<lparr>igEnabled = False, igHost = [], igPath = [], igTLS = None, igAnnotations = [], igClass = []\<rparr>"

definition zeroDatabase :: database_config where
  "zeroDatabase = \<lparr>dbSecretName = [], dbSecretURLKey = [], dbSecretUserKey = [], dbSecretPassKey = [],
     dbSecretPortKey = [], dbSecretHostKey = [], dbSecretDatabaseNameKey = [], dbSecretSSLKey = [],
     dbURL = [], dbDatabaseName = [], dbHost = [], dbPort = [], dbUser = [], dbSSL = []\<rparr>"

definition newUnleash :: "string \<Rightarrow> string \<Rightarrow> string \<Rightarrow> string \<Rightarrow> unleash" where
  "newUnleash ns n channel img =
     \<lparr>uMeta = zeroMeta ns n,
      uSpec = \<lparr>usSize = 0, usCustomImage = [], usReleaseChannelName = channel, usPrometheusEnabled = False,
        usDatabase = zeroDatabase, usWebIngress = zeroIngress, usApiIngress = zeroIngress,
        usNetworkPolicy = \<lparr>npEnabled = False, npAllowDNS = False, npAllowAllFromCluster = False,
          npAllowAllFromSameNamespace = False, npAllowAllFromNamespaces = [], npExtraIngressRules = [],
          npExtraEgressRules = []\<rparr>,
        usExtraEnvVars = [], usExtraVolumes = [], usExtraVolumeMounts = [], usExtraContainers = [],
        usExistingServiceAccountName = [], usResources = [],
        usFederation = \<lparr>fedEnabled = False, fedClusters = [], fedNamespaces = [], fedSecretNonce = []\<rparr>,
        usPodAnnotations = [], usPodLabels = []\<rparr>,
      uStatus = \<lparr>utConditions = [], utReconciled = False, utConnected = False, utVersion = [],
        utResolvedReleaseChannelImage = img, utReleaseChannelName = [], utLastPublishedHash = 0\<rparr>\<rparr>"

lemmas fresh_objects = zeroMeta_def zeroStatus_def newChannel_def newUnleash_def zeroIngress_def zeroDatabase_def

section \<open>Admission\<close>

text \<open>An update of a ReleaseChannel passes the admission check exactly when the new object
  is well formed and it does not change the image of a channel that is neither Idle,
  Completed nor Failed, unless break glass is set. A well-formed channel has an image,
  between 1 and 50 parallel instances, a break-glass image that is empty or the image
  itself, and a selector when canaries are enabled.\<close>

theorem ValidateUpdate_admits:
  "ValidateUpdate rc old = None \<longleftrightarrow>
     rcImage rc \<noteq> [] \<and>
     spBreakGlassImage (rcSpec rc) \<in> {[], rcImage rc} \<and>
     sgMaxParallel (spStrategy (rcSpec rc)) \<in> {1..50} \<and>
     \<not> (canaryEnabled (sgCanary (spStrategy (rcSpec rc))) \<and>
        selMatchLabels (canarySelector (sgCanary (spStrategy (rcSpec rc)))) = None \<and>
        selMatchExpressions (canarySelector (sgCanary (spStrategy (rcSpec rc)))) = []) \<and>
     (rcImage rc \<in> {rcImage old, spBreakGlassImage (rcSpec rc)} \<or>
      rcPhase old \<in> {PhaseIdle, PhaseCompleted, PhaseFailed})"
  by (auto simp: ValidateUpdate_def validateChannel_def Let_def)

text \<open>A channel whose status was never initialised counts as an active rollout here, although
  \<open>ValidateDelete\<close> treats the empty phase as inactive.\<close>

lemma ValidateUpdate_fresh:
  "ValidateUpdate (newChannel ns n new) (newChannel ns n old) = None \<longleftrightarrow> new \<noteq> [] \<and> new = old"
  by (auto simp: ValidateUpdate_def validateChannel_def fresh_objects)

end
