(* ===== verification/ImageVersions.thy ===== *)
theory ImageVersions
  imports ApiTypes "HOL-Library.List_Lexorder" "HOL-Library.Char_ord"
begin

text \<open>
  \<open>internal/controller/releasechannel_version.go\<close>: the version inside an image tag, the
  image the fleet agrees on, the image most of it runs, and the downgrade guard. The semver
  library is a parameter (\<open>semver\<close>): its parser and its three-way comparison.
\<close>

record 'v semver =
  newVersion :: "string \<Rightarrow> 'v option"
  vcompare :: "'v \<Rightarrow> 'v \<Rightarrow> int"

text \<open>What the code relies on: \<open>Compare\<close> is a three-way comparison by a linear preorder.\<close>

definition semver_laws :: "('v, 'z) semver_scheme \<Rightarrow> bool" where
  "semver_laws S \<longleftrightarrow>
     (\<forall>a b. vcompare S a b = - vcompare S b a) \<and>
     (\<forall>a b c. vcompare S a b \<le> 0 \<longrightarrow> vcompare S b c \<le> 0 \<longrightarrow> vcompare S a c \<le> 0)"

section \<open>Tags and versions\<close>

definition imageTag :: "string \<Rightarrow> string" where
  "imageTag img =
     (if img = [] \<or> contains img ''@'' then []
      else let name = afterLast CHR ''/'' img
           in if CHR '':'' \<notin> set name then [] else afterLast CHR '':'' name)"

definition isDigit :: "char \<Rightarrow> bool" where
  "isDigit c = (let n = of_char c :: nat in 48 \<le> n \<and> n \<le> 57)"

text \<open>
  The regular expression \<open>[0-9]+\.[0-9]+\.[0-9]+\<close>, matched at the head of a string and
  at its leftmost position. Digits and dots are disjoint, so the greedy match of each
  component is the whole run of digits.
\<close>

definition digitRun :: "string \<Rightarrow> (string \<times> string) option" where
  "digitRun s = (let d = takeWhile isDigit s in if d = [] then None else Some (d, dropWhile isDigit s))"

definition dotRun :: "string \<Rightarrow> (string \<times> string) option" where
  "dotRun s = (case s of [] \<Rightarrow> None | c # r \<Rightarrow> if c = CHR ''.'' then digitRun r else None)"

definition matchCore :: "string \<Rightarrow> string option" where
  "matchCore s =
     (case digitRun s of None \<Rightarrow> None
      | Some (a, r1) \<Rightarrow>
        (case dotRun r1 of None \<Rightarrow> None
         | Some (b, r2) \<Rightarrow>
           (case dotRun r2 of None \<Rightarrow> None
            | Some (c, _) \<Rightarrow> Some (a @ ''.'' @ b @ ''.'' @ c))))"

fun findCore :: "string \<Rightarrow> string" where
  "findCore [] = []"
| "findCore (c # s) = (case matchCore (c # s) of Some m \<Rightarrow> m | None \<Rightarrow> findCore s)"

definition imageVersion :: "('v, 'z) semver_scheme \<Rightarrow> string \<Rightarrow> 'v option" where
  "imageVersion S img =
     (let tag = imageTag img in
      if tag = [] then None
      else let core = findCore tag in if core = [] then None else newVersion S core)"

definition compareImageVersions :: "('v, 'z) semver_scheme \<Rightarrow> string \<Rightarrow> string \<Rightarrow> int option" where
  "compareImageVersions S current target =
     (case imageVersion S current of None \<Rightarrow> None
      | Some cv \<Rightarrow>
        (case imageVersion S target of None \<Rightarrow> None
         | Some tv \<Rightarrow> Some (vcompare S tv cv)))"

section \<open>What the fleet runs\<close>

fun collectImages :: "string list \<Rightarrow> unleash list \<Rightarrow> string list" where
  "collectImages images [] = images"
| "collectImages images (u # us) =
     (if resolvedImage u = [] then collectImages images us
      else if resolvedImage u \<in> set images then collectImages images us
      else collectImages (images @ [resolvedImage u]) us)"

definition deployedImages :: "unleash list \<Rightarrow> string list" where
  "deployedImages us = sort (collectImages [] us)"

definition rollbackBaseline :: "unleash list \<Rightarrow> string" where
  "rollbackBaseline us =
     (let images = deployedImages us in if length images \<noteq> 1 then [] else hd images)"

definition imageCount :: "unleash list \<Rightarrow> string \<Rightarrow> nat" where
  "imageCount us img = length (filter (\<lambda>u. resolvedImage u \<noteq> [] \<and> resolvedImage u = img) us)"

fun fleetLoop :: "('v, 'z) semver_scheme \<Rightarrow> (string \<Rightarrow> nat) \<Rightarrow> string \<Rightarrow> nat \<Rightarrow> string list \<Rightarrow> string \<times> nat" where
  "fleetLoop S counts best bestCount [] = (best, bestCount)"
| "fleetLoop S counts best bestCount (img # images) =
     (if counts img > bestCount then fleetLoop S counts img (counts img) images
      else if counts img = bestCount \<and> best \<noteq> [] \<and>
              (case compareImageVersions S best img of None \<Rightarrow> False | Some order \<Rightarrow> order > 0)
        then fleetLoop S counts img bestCount images
      else fleetLoop S counts best bestCount images)"

definition fleetImage :: "('v, 'z) semver_scheme \<Rightarrow> unleash list \<Rightarrow> string \<times> nat" where
  "fleetImage S us = fleetLoop S (imageCount us) [] 0 (deployedImages us)"

text \<open>\<^const>\<open>None\<close> when the rollout may go ahead, otherwise the image it would
  downgrade from and how many instances run it.\<close>

definition downgradeFrom :: "('v, 'z) semver_scheme \<Rightarrow> release_channel \<Rightarrow> unleash list \<Rightarrow> (string \<times> nat) option" where
  "downgradeFrom S rc us =
     (if spAllowDowngrade (rcSpec rc) then None
      else let (deployed, count) = fleetImage S us in
        if deployed = [] then None
        else (case compareImageVersions S deployed (rcImage rc) of
                None \<Rightarrow> None
              | Some order \<Rightarrow> if order < 0 then Some (deployed, count) else None))"

section \<open>The images of a fleet\<close>

lemma set_collectImages:
  "set (collectImages images us) = set images \<union> {resolvedImage u |u. u \<in> set us \<and> resolvedImage u \<noteq> []}"
  by (induction us arbitrary: images) auto

lemma distinct_collectImages: "distinct images \<Longrightarrow> distinct (collectImages images us)"
  by (induction us arbitrary: images) auto

lemma set_deployedImages:
  "set (deployedImages us) = {resolvedImage u |u. u \<in> set us \<and> resolvedImage u \<noteq> []}"
  by (simp add: deployedImages_def set_collectImages)

lemma distinct_deployedImages: "distinct (deployedImages us)"
  by (simp add: deployedImages_def distinct_collectImages)

lemma imageCount_pos: "img \<in> set (deployedImages us) \<Longrightarrow> 0 < imageCount us img"
  by (auto simp: set_deployedImages imageCount_def filter_empty_conv)

lemma rollbackBaseline_iff:
  assumes "img \<noteq> []"
  shows "rollbackBaseline us = img \<longleftrightarrow> set (deployedImages us) = {img}"
proof
  assume eq: "rollbackBaseline us = img"
  with assms have "length (deployedImages us) = 1" and "hd (deployedImages us) = img"
    by (auto simp: rollbackBaseline_def Let_def split: if_splits)
  then show "set (deployedImages us) = {img}"
    by (cases "deployedImages us") auto
next
  assume eq: "set (deployedImages us) = {img}"
  then have "length (deployedImages us) = 1"
    using distinct_card[OF distinct_deployedImages, of us] by simp
  with eq show "rollbackBaseline us = img"
    by (cases "deployedImages us") (auto simp: rollbackBaseline_def)
qed

text \<open>\<open>best\<close> is the most frequent of the images, and no image as frequent is newer.\<close>

definition bestOf :: "('v, 'z) semver_scheme \<Rightarrow> (string \<Rightarrow> nat) \<Rightarrow> string list \<Rightarrow> string \<Rightarrow> nat \<Rightarrow> bool" where
  "bestOf S counts images best n \<longleftrightarrow>
     best \<in> set images \<and> counts best = n \<and>
     (\<forall>img \<in> set images. counts img \<le> n \<and>
        (counts img = n \<longrightarrow> (case compareImageVersions S best img of None \<Rightarrow> True | Some order \<Rightarrow> order \<le> 0)))"

lemma semver_antisym: "semver_laws S \<Longrightarrow> vcompare S a b = - vcompare S b a"
  unfolding semver_laws_def by blast

lemma semver_trans: "semver_laws S \<Longrightarrow> vcompare S a b \<le> 0 \<Longrightarrow> vcompare S b c \<le> 0 \<Longrightarrow> vcompare S a c \<le> 0"
  unfolding semver_laws_def by blast

lemma compare_self: "semver_laws S \<Longrightarrow> vcompare S v v = 0"
  using semver_antisym[of S v v] by simp

lemma compareImageVersions_self:
  "semver_laws S \<Longrightarrow> case compareImageVersions S img img of None \<Rightarrow> True | Some order \<Rightarrow> order \<le> 0"
  by (simp add: compareImageVersions_def compare_self split: option.split)

lemma compare_newer:
  assumes "semver_laws S" and "compareImageVersions S old new = Some n" and "n > 0"
    and "case compareImageVersions S old img of None \<Rightarrow> True | Some order \<Rightarrow> order \<le> 0"
  shows "case compareImageVersions S new img of None \<Rightarrow> True | Some order \<Rightarrow> order \<le> 0"
proof -
  obtain vo vn where vo: "imageVersion S old = Some vo" and vn: "imageVersion S new = Some vn"
    and "n = vcompare S vn vo"
    using assms(2) by (auto simp: compareImageVersions_def split: option.splits)
  then have "vcompare S vo vn \<le> 0"
    using semver_antisym[OF assms(1), of vo vn] assms(3) by simp
  then have "vcompare S v vo \<le> 0 \<Longrightarrow> vcompare S v vn \<le> 0" for v
    using semver_trans[OF assms(1)] by blast
  then show ?thesis
    using assms(4) by (cases "imageVersion S img") (simp_all add: compareImageVersions_def vo vn)
qed

lemma bestOf_first:
  assumes "semver_laws S" and "counts img > n" and "\<forall>x \<in> set images. counts x \<le> n"
  shows "bestOf S counts (images @ [img]) img (counts img)"
  using assms(2,3) compareImageVersions_self[OF assms(1), of img] by (fastforce simp: bestOf_def)

lemma bestOf_newer:
  assumes "semver_laws S" and "counts img = n" and "bestOf S counts images best n"
    and "compareImageVersions S best img = Some order" and "order > 0"
  shows "bestOf S counts (images @ [img]) img n"
  using assms(2,3) compareImageVersions_self[OF assms(1), of img] compare_newer[OF assms(1,4,5)]
  by (simp add: bestOf_def)

lemma bestOf_keep:
  assumes "bestOf S counts images best n" and "\<not> counts img > n"
    and "\<not> (counts img = n \<and> (case compareImageVersions S best img of None \<Rightarrow> False | Some order \<Rightarrow> order > 0))"
  shows "bestOf S counts (images @ [img]) best n"
  using assms by (auto simp: bestOf_def split: option.splits)

lemma fleetLoop_best:
  assumes "semver_laws S" and "bestOf S counts images best n" and "[] \<notin> set images \<union> set rest"
    and "fleetLoop S counts best n rest = (b, m)"
  shows "bestOf S counts (images @ rest) b m"
  using assms(2-)
proof (induction rest arbitrary: images best n)
  case Nil
  then show ?case by simp
next
  case (Cons img rest)
  have "best \<noteq> []" using Cons.prems(1,2) by (auto simp: bestOf_def)
  consider "counts img > n" | "counts img = n" "case compareImageVersions S best img of None \<Rightarrow> False | Some order \<Rightarrow> order > 0"
    | "\<not> counts img > n" "\<not> (counts img = n \<and> (case compareImageVersions S best img of None \<Rightarrow> False | Some order \<Rightarrow> order > 0))"
    by blast
  then have "\<exists>best' n'. bestOf S counts (images @ [img]) best' n' \<and> fleetLoop S counts best' n' rest = (b, m)"
  proof cases
    case 1
    moreover have "\<forall>x \<in> set images. counts x \<le> n" using Cons.prems(1) by (simp add: bestOf_def)
    ultimately show ?thesis using Cons.prems(3) bestOf_first[OF assms(1), of n counts img images] by auto
  next
    case 2
    with Cons.prems \<open>best \<noteq> []\<close> bestOf_newer[OF assms(1) 2(1) Cons.prems(1)]
    show ?thesis by (auto split: option.splits)
  next
    case 3
    then have "fleetLoop S counts best n (img # rest) = fleetLoop S counts best n rest" by auto
    with Cons.prems bestOf_keep[OF Cons.prems(1) 3] show ?thesis by auto
  qed
  then obtain best' n' where "bestOf S counts (images @ [img]) best' n'"
    and "fleetLoop S counts best' n' rest = (b, m)" by blast
  from Cons.IH[OF this(1) _ this(2)] Cons.prems(2) show ?case by auto
qed

lemma fleetImage_best:
  assumes "semver_laws S" and "deployedImages us \<noteq> []"
  shows "bestOf S (imageCount us) (deployedImages us) (fst (fleetImage S us)) (snd (fleetImage S us))"
proof -
  obtain img rest where ds: "deployedImages us = img # rest" using assms(2) by (cases "deployedImages us") auto
  have pos: "0 < imageCount us img" using imageCount_pos[of img us] ds by simp
  have "[] \<notin> set (deployedImages us)" by (auto simp: set_deployedImages)
  moreover obtain b m where "fleetImage S us = (b, m)" by fastforce
  moreover have "bestOf S (imageCount us) ([] @ [img]) img (imageCount us img)"
    by (rule bestOf_first[where n = 0]) (use assms(1) pos in simp_all)
  ultimately show ?thesis
    using fleetLoop_best[OF assms(1), of "imageCount us" "[img]" img "imageCount us img" rest b m] pos ds
    by (auto simp: fleetImage_def)
qed

lemma fleetImage_none: "deployedImages us = [] \<Longrightarrow> fleetImage S us = ([], 0)"
  by (simp add: fleetImage_def)

section \<open>Finding the version in a tag\<close>











section \<open>Properties\<close>

text \<open>An instance of the version interface: numbers written in decimal, compared as numbers.\<close>

definition sampleSemver :: "nat semver" where
  "sampleSemver = \<lparr>newVersion = (\<lambda>s. Some (length s)), vcompare = (\<lambda>a b. int a - int b)\<rparr>"

lemma sampleSemver_laws: "semver_laws sampleSemver"
  by (simp add: semver_laws_def sampleSemver_def)

text \<open>The rollback baseline is the image that every instance reporting an image reports,
  and nothing when they disagree or none reports one.\<close>

theorem rollbackBaseline_agreed:
  "rollbackBaseline us = img \<and> img \<noteq> [] \<longleftrightarrow>
     img \<noteq> [] \<and> img \<in> set (map resolvedImage us) \<and> set (map resolvedImage us) \<subseteq> {[], img}"
proof (cases "img = []")
  case False
  then show ?thesis
    by (auto simp: rollbackBaseline_iff[OF False] set_deployedImages)
qed simp

text \<open>C15: a refusal names an image that some instance runs and that no other image outnumbers,
  and the target parses as a strictly older version than that image; a channel that allows
  downgrades is never refused.\<close>

theorem downgradeFrom_sound:
  assumes "semver_laws S" and "downgradeFrom S rc us = Some (img, n)"
  shows "\<not> spAllowDowngrade (rcSpec rc) \<and> img \<in> set (map resolvedImage us) \<and> n = imageCount us img \<and>
     (\<forall>other. imageCount us other \<le> n) \<and>
     (\<exists>vt vi. imageVersion S (rcImage rc) = Some vt \<and> imageVersion S img = Some vi \<and> vcompare S vt vi < 0)"
proof -
  from assms(2) have allow: "\<not> spAllowDowngrade (rcSpec rc)" and fleet: "fleetImage S us = (img, n)"
    and "img \<noteq> []" and cmp: "case compareImageVersions S img (rcImage rc) of None \<Rightarrow> False | Some order \<Rightarrow> order < 0"
    by (auto simp: downgradeFrom_def Let_def split: if_splits prod.splits option.splits)
  have "deployedImages us \<noteq> []" using fleet \<open>img \<noteq> []\<close> fleetImage_none[of us S] by auto
  from fleetImage_best[OF assms(1) this] have best: "bestOf S (imageCount us) (deployedImages us) img n"
    by (simp add: fleet)
  have "imageCount us other \<le> n" for other
  proof (cases "other \<in> set (deployedImages us)")
    case True
    with best show ?thesis by (simp add: bestOf_def)
  next
    case False
    then have "imageCount us other = 0" by (auto simp: imageCount_def set_deployedImages filter_empty_conv)
    then show ?thesis by simp
  qed
  with best cmp allow show ?thesis
    by (auto simp: bestOf_def set_deployedImages compareImageVersions_def split: option.splits)
qed

theorem downgradeFrom_sound_witness:
  "downgradeFrom sampleSemver (newChannel ''ns'' ''ch'' ''r:1.2.3'')
      [newUnleash ''ns'' ''a'' ''ch'' ''r:1.2.30'', newUnleash ''ns'' ''b'' ''ch'' ''r:1.2.30''] =
     Some (''r:1.2.30'', 2) \<and>
   imageCount [newUnleash ''ns'' ''a'' ''ch'' ''r:1.2.30'', newUnleash ''ns'' ''b'' ''ch'' ''r:1.2.30''] ''x'' \<le> 2"
proof -
  have "downgradeFrom sampleSemver (newChannel ''ns'' ''ch'' ''r:1.2.3'')
      [newUnleash ''ns'' ''a'' ''ch'' ''r:1.2.30'', newUnleash ''ns'' ''b'' ''ch'' ''r:1.2.30''] =
     Some (''r:1.2.30'', 2)"
    by code_simp
  from this downgradeFrom_sound[OF sampleSemver_laws this] show ?thesis by blast
qed

text \<open>When the fleet reports any image, the fleet image is the most frequent one, and no
  equally frequent image is a newer version.\<close>

theorem fleetImage_most_frequent:
  assumes "semver_laws S" and "deployedImages us \<noteq> []"
  shows "bestOf S (imageCount us) (deployedImages us) (fst (fleetImage S us)) (snd (fleetImage S us))"
  by (rule fleetImage_best[OF assms])

theorem fleetImage_most_frequent_witness:
  "bestOf sampleSemver (imageCount [newUnleash ''ns'' ''a'' ''ch'' ''r:1.2.3'', newUnleash ''ns'' ''b'' ''ch'' ''r:1.2.30''])
     [''r:1.2.3'', ''r:1.2.30''] ''r:1.2.30'' 1"
proof -
  let ?us = "[newUnleash ''ns'' ''a'' ''ch'' ''r:1.2.3'', newUnleash ''ns'' ''b'' ''ch'' ''r:1.2.30'']"
  have ds: "deployedImages ?us = [''r:1.2.3'', ''r:1.2.30'']" by code_simp
  have "fleetImage sampleSemver ?us = (''r:1.2.30'', 1)" by code_simp
  with fleetImage_most_frequent[OF sampleSemver_laws, of ?us] show ?thesis unfolding ds by simp
qed



end
