(* ===== verification/Effects.thy ===== *)
theory Effects
  imports Prelude "HOL-Library.State_Monad" "HOL-Library.Monad_Syntax"
begin

text \<open>
  Programs that interact. A program runs in the state monad over the log of its
  interactions: each call to the outside appends one entry with the request and the answer,
  and an answer is a function of everything that happened before. The entries are a type
  parameter, so every controller brings its own calls. The second half is the program logic
  the proofs use: weakest preconditions, and disciplines on the calls that hold whatever
  the environment answers.
\<close>

type_synonym ('c, 'a) program = "('c list, 'a) state"

abbreviation ret :: "'a \<Rightarrow> ('c, 'a) program" where "ret \<equiv> State_Monad.return"

definition perform :: "('c list \<Rightarrow> 'r) \<Rightarrow> ('r \<Rightarrow> 'c) \<Rightarrow> ('c, 'r) program" where
  "perform ask entry = State (\<lambda>l. let r = ask l in (r, l @ [entry r]))"

definition emit :: "'c \<Rightarrow> ('c, unit) program" where
  "emit c = State (\<lambda>l. ((), l @ [c]))"

text \<open>\<open>x, err := m(); if err != nil \<open>{\<close> return fail(err) \<open>}\<close>\<close>, and the same for an error alone.\<close>

definition onError :: "('c, 'e + 'a) program \<Rightarrow> ('e \<Rightarrow> ('c, 'b) program) \<Rightarrow> ('a \<Rightarrow> ('c, 'b) program) \<Rightarrow> ('c, 'b) program" where
  "onError m fail k = do { r \<leftarrow> m; (case r of Inl e \<Rightarrow> fail e | Inr x \<Rightarrow> k x) }"

definition onFailure :: "('c, 'e option \<times> 'a) program \<Rightarrow> ('e \<Rightarrow> 'a \<Rightarrow> ('c, 'b) program) \<Rightarrow> ('a \<Rightarrow> ('c, 'b) program) \<Rightarrow> ('c, 'b) program" where
  "onFailure m fail k = do { (err, x) \<leftarrow> m; (case err of Some e \<Rightarrow> fail e x | None \<Rightarrow> k x) }"

section \<open>Retrying on conflict\<close>

text \<open>
  \<open>retry.RetryOnConflict\<close> calls its function again while it answers with a conflict, a
  bounded number of times, and returns the last answer. The function is a Go closure: the
  variable it assigns (\<open>s\<close>) keeps its value from one attempt to the next.
\<close>

fun retryOnConflict :: "nat \<Rightarrow> ('s \<Rightarrow> ('c, go_error option \<times> 's) program) \<Rightarrow> 's \<Rightarrow> ('c, go_error option \<times> 's) program" where
  "retryOnConflict 0 f s = f s"
| "retryOnConflict (Suc n) f s = do {
     (err, s') \<leftarrow> f s;
     (case err of
        None \<Rightarrow> ret (None, s')
      | Some e \<Rightarrow> if isConflict e then retryOnConflict n f s' else ret (Some e, s'))
   }"

section \<open>Reasoning about actions\<close>

text \<open>
  \<open>wp m Q l\<close>: running \<open>m\<close> from log \<open>l\<close> ends in a result and a log that satisfy \<open>Q\<close>.
  \<open>runs P l m Q\<close> adds a discipline on the calls: \<open>m\<close> only appends entries, each entry
  \<open>c\<close> satisfies \<open>P h c\<close> for the history \<open>h\<close> of everything logged before it, and result and
  final log satisfy \<open>Q\<close>, whatever the environment answers.
\<close>

named_theorems wp_simps \<open>weakest preconditions of the building blocks\<close>
named_theorems runs_intros \<open>introduction rules for the call discipline\<close>

definition wp :: "('c, 'a) program \<Rightarrow> ('a \<Rightarrow> 'c list \<Rightarrow> bool) \<Rightarrow> 'c list \<Rightarrow> bool" where
  "wp m Q l = (case run_state m l of (x, l') \<Rightarrow> Q x l')"

fun follows :: "('c list \<Rightarrow> 'c \<Rightarrow> bool) \<Rightarrow> 'c list \<Rightarrow> 'c list \<Rightarrow> bool" where
  "follows P l [] = True"
| "follows P l (c # cs) = (P l c \<and> follows P (l @ [c]) cs)"

definition runs :: "('c list \<Rightarrow> 'c \<Rightarrow> bool) \<Rightarrow> 'c list \<Rightarrow> ('c, 'a) program \<Rightarrow> ('a \<Rightarrow> 'c list \<Rightarrow> bool) \<Rightarrow> bool" where
  "runs P l m Q \<longleftrightarrow> wp m (\<lambda>x l'. \<exists>new. l' = l @ new \<and> follows P l new \<and> Q x l') l"

definition newCalls :: "('c, 'a) program \<Rightarrow> 'c list \<Rightarrow> 'c list" where
  "newCalls m l = drop (length l) (snd (run_state m l))"

definition result :: "('c, 'a) program \<Rightarrow> 'c list \<Rightarrow> 'a" where
  "result m l = fst (run_state m l)"

lemma wp_return [wp_simps]: "wp (ret x) Q l = Q x l"
  by (simp add: wp_def)

lemma wp_bind [wp_simps]: "wp (State_Monad.bind m f) Q l = wp m (\<lambda>x. wp (f x) Q) l"
  by (simp add: wp_def split: prod.splits)

lemma wp_perform [wp_simps]: "wp (perform ask entry) Q l = Q (ask l) (l @ [entry (ask l)])"
  by (simp add: wp_def perform_def Let_def)

lemma wp_emit [wp_simps]: "wp (emit c) Q l = Q () (l @ [c])"
  by (simp add: wp_def emit_def)

lemma wp_mono: "wp m Q l \<Longrightarrow> (\<And>x l'. Q x l' \<Longrightarrow> Q' x l') \<Longrightarrow> wp m Q' l"
  by (auto simp: wp_def split: prod.splits)

lemma wp_run: "wp m Q l \<longleftrightarrow> Q (result m l) (snd (run_state m l))"
  by (simp add: wp_def result_def split: prod.splits)

lemma follows_append: "follows P l (a @ b) = (follows P l a \<and> follows P (l @ a) b)"
  by (induction a arbitrary: l) auto

lemma follows_mono:
  "follows P l cs \<Longrightarrow> (\<And>m c. P (l @ m) c \<Longrightarrow> P' (l @ m) c) \<Longrightarrow> follows P' l cs"
proof (induction cs arbitrary: l)
  case (Cons c cs)
  have "follows P' (l @ [c]) cs"
    by (rule Cons.IH) (use Cons.prems in \<open>auto simp flip: append.assoc\<close>)
  with Cons.prems(1) Cons.prems(2)[of "[]"] show ?case by simp
qed simp

lemma follows_conj: "follows (\<lambda>h c. P h c \<and> P' h c) l cs = (follows P l cs \<and> follows P' l cs)"
  by (induction cs arbitrary: l) auto

lemma follows_mem: "follows P l (a @ c # b) \<Longrightarrow> P (l @ a) c"
  by (simp add: follows_append)

lemma follows_all: "follows (\<lambda>_. p) l cs \<longleftrightarrow> (\<forall>c \<in> set cs. p c)"
  by (induction cs arbitrary: l) auto

lemma runs_return [runs_intros]: "Q x l \<Longrightarrow> runs P l (ret x) Q"
  by (simp add: runs_def wp_simps)

lemma runs_bind:
  assumes "runs P l m Q'" and "\<And>x new. Q' x (l @ new) \<Longrightarrow> runs P (l @ new) (f x) Q"
  shows "runs P l (State_Monad.bind m f) Q"
  unfolding runs_def wp_bind
proof (rule wp_mono[OF assms(1)[unfolded runs_def]])
  fix x l'
  assume "\<exists>new. l' = l @ new \<and> follows P l new \<and> Q' x l'"
  then obtain new where l': "l' = l @ new" and new: "follows P l new" and "Q' x (l @ new)" by blast
  from assms(2)[OF this(3)]
  have "wp (f x) (\<lambda>y l''. \<exists>more. l'' = (l @ new) @ more \<and> follows P (l @ new) more \<and> Q y l'') (l @ new)"
    by (simp add: runs_def)
  then show "wp (f x) (\<lambda>y l''. \<exists>new. l'' = l @ new \<and> follows P l new \<and> Q y l'') l'"
    unfolding l' by (rule wp_mono) (use new in \<open>auto simp: follows_append\<close>)
qed

lemma runs_perform:
  assumes "P l (entry (ask l))" and "Q (ask l) (l @ [entry (ask l)])"
  shows "runs P l (perform ask entry) Q"
  using assms by (simp add: runs_def wp_simps)

lemma runs_bind_perform:
  assumes "P l (entry (ask l))" and "runs P (l @ [entry (ask l)]) (f (ask l)) Q"
  shows "runs P l (State_Monad.bind (perform ask entry) f) Q"
  by (rule runs_bind[where Q' = "\<lambda>x l'. x = ask l \<and> l' = l @ [entry (ask l)]"])
     (auto intro: runs_perform assms)

lemma runs_emit: "P l c \<Longrightarrow> Q () (l @ [c]) \<Longrightarrow> runs P l (emit c) Q"
  by (simp add: runs_def wp_simps)

lemma runs_weaken:
  assumes "runs P l m Q"
    and "\<And>h c. P (l @ h) c \<Longrightarrow> P' (l @ h) c" and "\<And>x new. Q x (l @ new) \<Longrightarrow> Q' x (l @ new)"
  shows "runs P' l m Q'"
  using assms(1) unfolding runs_def by (rule wp_mono) (auto intro: follows_mono assms(2) assms(3))

lemma runs_trace:
  "runs P l m Q \<Longrightarrow> runs P l m (\<lambda>x l'. Q x l' \<and> (\<exists>new. l' = l @ new \<and> follows P l new))"
  unfolding runs_def by (erule wp_mono) auto

lemma runs_ret_bind: "runs P l (State_Monad.bind (ret x) f) Q = runs P l (f x) Q"
  by (simp add: runs_def wp_simps)

lemma runs_conj: "runs P l m Q \<Longrightarrow> runs P' l m Q' \<Longrightarrow> runs (\<lambda>h c. P h c \<and> P' h c) l m (\<lambda>x l'. Q x l' \<and> Q' x l')"
  unfolding runs_def wp_def by (auto split: prod.splits simp: follows_conj)

lemma runs_case_sum [runs_intros]:
  "(\<And>e. s = Inl e \<Longrightarrow> runs P l (f e) Q) \<Longrightarrow> (\<And>x. s = Inr x \<Longrightarrow> runs P l (g x) Q) \<Longrightarrow>
   runs P l (case s of Inl e \<Rightarrow> f e | Inr x \<Rightarrow> g x) Q"
  by (cases s) auto

lemma runs_case_option [runs_intros]:
  "(s = None \<Longrightarrow> runs P l m Q) \<Longrightarrow> (\<And>x. s = Some x \<Longrightarrow> runs P l (g x) Q) \<Longrightarrow>
   runs P l (case s of None \<Rightarrow> m | Some x \<Rightarrow> g x) Q"
  by (cases s) auto

lemma runs_case_prod [runs_intros]:
  "(\<And>a b. p = (a, b) \<Longrightarrow> runs P l (f a b) Q) \<Longrightarrow> runs P l (case p of (a, b) \<Rightarrow> f a b) Q"
  by (cases p) auto

lemma runs_if [runs_intros]:
  "(b \<Longrightarrow> runs P l m Q) \<Longrightarrow> (\<not> b \<Longrightarrow> runs P l n Q) \<Longrightarrow> runs P l (if b then m else n) Q"
  by simp

lemma runs_let [runs_intros]: "(\<And>x. x = t \<Longrightarrow> runs P l (f x) Q) \<Longrightarrow> runs P l (let x = t in f x) Q"
  by simp

lemma runs_onError:
  assumes "runs P l m Q'"
    and "\<And>e new. Q' (Inl e) (l @ new) \<Longrightarrow> runs P (l @ new) (fail e) Q"
    and "\<And>x new. Q' (Inr x) (l @ new) \<Longrightarrow> runs P (l @ new) (k x) Q"
  shows "runs P l (onError m fail k) Q"
  unfolding onError_def by (rule runs_bind[OF assms(1)]) (use assms in \<open>auto intro!: runs_intros\<close>)

lemma runs_onError_perform:
  assumes "\<And>e. ask l = Inl e \<Longrightarrow> P l (entry (Inl e)) \<and> runs P (l @ [entry (Inl e)]) (fail e) Q"
    and "\<And>x. ask l = Inr x \<Longrightarrow> P l (entry (Inr x)) \<and> runs P (l @ [entry (Inr x)]) (k x) Q"
  shows "runs P l (onError (perform ask entry) fail k) Q"
  unfolding onError_def by (cases "ask l") (use assms in \<open>auto intro!: runs_bind_perform\<close>)

lemma runs_onFailure:
  assumes "runs P l m Q'"
    and "\<And>e x new. Q' (Some e, x) (l @ new) \<Longrightarrow> runs P (l @ new) (fail e x) Q"
    and "\<And>x new. Q' (None, x) (l @ new) \<Longrightarrow> runs P (l @ new) (k x) Q"
  shows "runs P l (onFailure m fail k) Q"
  unfolding onFailure_def by (rule runs_bind[OF assms(1)]) (use assms in \<open>auto intro!: runs_intros\<close>)

text \<open>The invariant has to survive an attempt only when that attempt is repeated.\<close>

definition retryInv :: "('s \<Rightarrow> 'c list \<Rightarrow> bool) \<Rightarrow> go_error option \<times> 's \<Rightarrow> 'c list \<Rightarrow> bool" where
  "retryInv I r l = (case r of (Some e, s') \<Rightarrow> isConflict e \<longrightarrow> I s' l | (None, s') \<Rightarrow> True)"

lemma retryInv_True [simp]: "retryInv (\<lambda>_ _. True) r l"
  by (simp add: retryInv_def split: option.split prod.split)

lemma retryInv_simps [simp]:
  "retryInv I (None, s) l" "retryInv I (Some e, s) l = (isConflict e \<longrightarrow> I s l)"
  by (simp_all add: retryInv_def)

lemma runs_retry:
  assumes "\<And>s new. I s (l @ new) \<Longrightarrow> runs P (l @ new) (f s) (\<lambda>r l'. retryInv I r l' \<and> Q r l')"
    and "I s l"
  shows "runs P l (retryOnConflict n f s) Q"
  using assms
proof (induction n arbitrary: s l)
  case 0
  from 0(1)[of s "[]"] 0(2) show ?case
    by (auto elim!: runs_weaken)
next
  case (Suc n)
  show ?case
    unfolding retryOnConflict.simps
  proof (rule runs_bind)
    from Suc.prems(1)[of s "[]"] Suc.prems(2)
    show "runs P l (f s) (\<lambda>r l'. retryInv I r l' \<and> Q r l')" by simp
  next
    fix r new
    assume r: "retryInv I r (l @ new) \<and> Q r (l @ new)"
    obtain err s' where [simp]: "r = (err, s')" by (cases r)
    have "runs P (l @ new) (retryOnConflict n f s') Q" if "I s' (l @ new)"
      by (rule Suc.IH) (use Suc.prems(1)[of _ "new @ _"] that in auto)
    with r show "runs P (l @ new) (case r of (err, s') \<Rightarrow>
        (case err of None \<Rightarrow> ret (None, s')
         | Some e \<Rightarrow> if isConflict e then retryOnConflict n f s' else ret (Some e, s'))) Q"
      by (auto intro!: runs_intros)
  qed
qed

text \<open>The number of calls of a bounded retry.\<close>

definition callsAtMost :: "nat \<Rightarrow> ('c, 'a) program \<Rightarrow> bool" where
  "callsAtMost n m \<longleftrightarrow> (\<forall>l. wp m (\<lambda>x l'. length l' \<le> length l + n) l)"

lemma callsAtMost_return: "callsAtMost n (ret x)"
  by (simp add: callsAtMost_def wp_simps)

lemma callsAtMost_perform: "1 \<le> n \<Longrightarrow> callsAtMost n (perform ask entry)"
  by (simp add: callsAtMost_def wp_simps)

lemma callsAtMost_emit: "1 \<le> n \<Longrightarrow> callsAtMost n (emit c)"
  by (simp add: callsAtMost_def wp_simps)

lemma callsAtMost_bind:
  fixes m :: "('c, 'a) program"
  assumes "callsAtMost a m" and "\<And>x. callsAtMost b (f x)"
  shows "callsAtMost (a + b) (State_Monad.bind m f)"
  unfolding callsAtMost_def wp_bind
proof
  fix l
  show "wp m (\<lambda>x. wp (f x) (\<lambda>x l'. length l' \<le> length l + (a + b))) l"
    using assms(1)[unfolded callsAtMost_def, rule_format, of l]
  proof (rule wp_mono)
    fix x and l' :: "'c list"
    assume "length l' \<le> length l + a"
    moreover have "wp (f x) (\<lambda>x l''. length l'' \<le> length l' + b) l'"
      using assms(2)[of x] by (simp add: callsAtMost_def)
    ultimately show "wp (f x) (\<lambda>x l'. length l' \<le> length l + (a + b)) l'"
      by (elim wp_mono) simp
  qed
qed

lemma callsAtMost_mono: "callsAtMost a m \<Longrightarrow> a \<le> b \<Longrightarrow> callsAtMost b m"
  unfolding callsAtMost_def by (blast intro: wp_mono le_trans add_left_mono)

lemma callsAtMost_retry:
  assumes "\<And>s. callsAtMost k (f s)"
  shows "callsAtMost (k * Suc n) (retryOnConflict n f s)"
proof (induction n arbitrary: s)
  case 0
  then show ?case using assms by simp
next
  case (Suc n)
  have "callsAtMost (k + k * Suc n) (retryOnConflict (Suc n) f s)"
    unfolding retryOnConflict.simps
    by (rule callsAtMost_bind[OF assms])
       (auto split: option.split intro: callsAtMost_return Suc.IH simp del: mult_Suc_right)
  then show ?case by simp
qed

lemma callsAtMost_length: "callsAtMost n m \<Longrightarrow> length (newCalls m l) \<le> n"
  unfolding callsAtMost_def newCalls_def wp_run
  by (drule spec[of _ l]) simp

lemma runs_elim:
  assumes "runs P l m Q"
  obtains "snd (run_state m l) = l @ newCalls m l" and "follows P l (newCalls m l)"
    and "Q (result m l) (l @ newCalls m l)"
proof -
  obtain x l' where run: "run_state m l = (x, l')" by fastforce
  with assms obtain new where "l' = l @ new" "follows P l new" "Q x (l @ new)"
    by (auto simp: runs_def wp_def)
  with run show ?thesis
    by (intro that) (simp_all add: newCalls_def result_def)
qed

lemma runs_call: "runs P l m Q \<Longrightarrow> newCalls m l = a @ c # b \<Longrightarrow> P (l @ a) c"
  by (erule runs_elim) (simp add: follows_mem)

lemma runs_result: "runs P l m Q \<Longrightarrow> Q (result m l) (l @ newCalls m l)"
  by (erule runs_elim)

lemma runs_result_is: "runs P l m Q \<Longrightarrow> runs P l m (\<lambda>x l'. Q x l' \<and> x = result m l)"
  by (auto simp: runs_def wp_def result_def split: prod.splits)

text \<open>The latest entry of a log that answers a question.\<close>

fun latestOf :: "('c \<Rightarrow> 'a option) \<Rightarrow> 'c list \<Rightarrow> 'a option" where
  "latestOf f [] = None"
| "latestOf f (c # cs) = (case latestOf f cs of Some x \<Rightarrow> Some x | None \<Rightarrow> f c)"

lemma latestOf_append [simp]:
  "latestOf f (a @ b) = (case latestOf f b of Some x \<Rightarrow> Some x | None \<Rightarrow> latestOf f a)"
  by (induction a) (auto split: option.splits)

section \<open>Programs that issue only certain calls\<close>

definition issues :: "('c \<Rightarrow> bool) \<Rightarrow> ('c, 'a) program \<Rightarrow> bool" where
  "issues p m \<longleftrightarrow> (\<forall>l. runs (\<lambda>_. p) l m (\<lambda>_ _. True))"

named_theorems issues_intros \<open>introduction rules for the calls a program may issue\<close>

lemma issues_ret [issues_intros]: "issues p (ret x)"
  by (simp add: issues_def runs_return)

lemma issues_perform [issues_intros]: "(\<And>r. p (entry r)) \<Longrightarrow> issues p (perform ask entry)"
  by (simp add: issues_def runs_perform)

lemma issues_emit [issues_intros]: "p c \<Longrightarrow> issues p (emit c)"
  by (simp add: issues_def runs_emit)

lemma issues_bind [issues_intros]:
  "issues p m \<Longrightarrow> (\<And>x. issues p (f x)) \<Longrightarrow> issues p (State_Monad.bind m f)"
  unfolding issues_def by (blast intro: runs_bind)

lemma issues_onError [issues_intros]:
  "issues p m \<Longrightarrow> (\<And>e. issues p (fail e)) \<Longrightarrow> (\<And>x. issues p (f x)) \<Longrightarrow> issues p (onError m fail f)"
  unfolding issues_def by (blast intro: runs_onError)

lemma issues_onFailure [issues_intros]:
  "issues p m \<Longrightarrow> (\<And>e x. issues p (fail e x)) \<Longrightarrow> (\<And>x. issues p (f x)) \<Longrightarrow> issues p (onFailure m fail f)"
  unfolding issues_def by (blast intro: runs_onFailure)

lemma issues_retry [issues_intros]: "(\<And>x. issues p (f x)) \<Longrightarrow> issues p (retryOnConflict n f x)"
  unfolding issues_def by (auto intro!: runs_retry[where I = "\<lambda>_ _. True"])

lemma issues_if [issues_intros]: "(b \<Longrightarrow> issues p m) \<Longrightarrow> (\<not> b \<Longrightarrow> issues p n) \<Longrightarrow> issues p (if b then m else n)"
  by simp

lemma issues_let [issues_intros]: "(\<And>x. x = t \<Longrightarrow> issues p (f x)) \<Longrightarrow> issues p (let x = t in f x)"
  by simp

lemma issues_case [issues_intros]:
  "(\<And>e. s = Inl e \<Longrightarrow> issues p (f e)) \<Longrightarrow> (\<And>x. s = Inr x \<Longrightarrow> issues p (g x)) \<Longrightarrow>
     issues p (case s of Inl e \<Rightarrow> f e | Inr x \<Rightarrow> g x)"
  "(z = None \<Longrightarrow> issues p m) \<Longrightarrow> (\<And>x. z = Some x \<Longrightarrow> issues p (h x)) \<Longrightarrow>
     issues p (case z of None \<Rightarrow> m | Some x \<Rightarrow> h x)"
  "(\<And>a b. q = (a, b) \<Longrightarrow> issues p (k a b)) \<Longrightarrow> issues p (case q of (a, b) \<Rightarrow> k a b)"
  by (auto split: sum.split option.split prod.split)

lemma issues_mono: "issues p m \<Longrightarrow> (\<And>c. p c \<Longrightarrow> p' c) \<Longrightarrow> issues p' m"
  unfolding issues_def by (blast intro: runs_weaken)

lemma issues_runs:
  "issues p m \<Longrightarrow> (\<And>h c. p c \<Longrightarrow> P (l @ h) c) \<Longrightarrow> runs P l m (\<lambda>_ l'. \<exists>new. l' = l @ new \<and> list_all p new)"
  unfolding issues_def
  by (rule runs_weaken[OF runs_trace, of "\<lambda>_. p" l m "\<lambda>_ _. True"]) (auto simp: follows_all list_all_iff)

lemma issues_calls: "issues p m \<Longrightarrow> list_all p (newCalls m l)"
  unfolding issues_def by (drule spec[of _ l], elim runs_elim) (simp add: follows_all list_all_iff)

end
