(* ===== verification/KubeEnv.thy ===== *)
theory KubeEnv
  imports ImageVersions Effects
begin

text \<open>
  The operator's surroundings as a parameter. Everything a ReleaseChannel handler asks of
  code outside this repository (the API server through the controller-runtime client, the
  apimachinery helpers, the clock, an HTTP endpoint) is a field of the record \<open>env\<close>. A
  field that interacts is a function of the log of all earlier interactions, so the
  environment may answer differently every time, fail at any call and let other actors
  change any object in between; the theorems quantify over it.

  A handler runs in the state monad over that log. Each interaction appends one entry
  holding the request and the answer, which makes the sequence of calls a handler issues
  the observable behaviour the theorems speak about.
\<close>

section \<open>Interactions\<close>

datatype http_outcome = HttpBadRequest go_error | HttpFailed go_error | HttpStatus int

datatype health_gauge = GaugeHealthy \<comment> \<open>1\<close> | GaugeInProgress \<comment> \<open>0.5\<close> | GaugeFailed \<comment> \<open>0\<close>

datatype call =
    ReadClock int
  | GetChannel nsname "go_error + release_channel"
  | UpdateChannel release_channel "go_error + release_channel"
  | UpdateChannelStatus release_channel "go_error + release_channel"
  | ListUnleashes string "go_error + unleash list"
  | GetUnleash nsname "go_error + unleash"
  | HttpGet string http_outcome
  | EmitEvent string string string \<comment> \<open>type, reason, message\<close>
  | CountTransition nsname phase
  | CountRollout nsname string
  | CountConflict nsname
  | CountTransientRetry nsname
  | CountHealthCheck nsname string
  | SetChannelGauges nsname health_gauge int int
  | ObserveRollout nsname int
  | DropChannelGauges nsname

type_synonym log = "call list"

text \<open>The pure helpers of apimachinery. \<open>selectorMatches\<close> is
  \<open>LabelSelectorAsSelector\<close> followed by \<open>Matches\<close>; \<^const>\<open>None\<close> is a selector that
  does not convert.\<close>

record 'v apimachinery = "'v semver" +
  selectorMatches :: "label_selector \<Rightarrow> string dict \<Rightarrow> bool option"
  setStatusCondition :: "condition list \<Rightarrow> condition \<Rightarrow> condition list"
  findStatusCondition :: "condition list \<Rightarrow> string \<Rightarrow> condition option"
  containsFinalizer :: "string list \<Rightarrow> string \<Rightarrow> bool"
  addFinalizer :: "string list \<Rightarrow> string \<Rightarrow> string list"
  removeFinalizer :: "string list \<Rightarrow> string \<Rightarrow> string list"

text \<open>What the code relies on: a condition that was set is found, and setting one type
  leaves the others alone.\<close>

definition condition_laws :: "('v, 'z) apimachinery_scheme \<Rightarrow> bool" where
  "condition_laws L \<longleftrightarrow>
     (\<forall>cs c. findStatusCondition L (setStatusCondition L cs c) (cType c) = Some c) \<and>
     (\<forall>cs c t. t \<noteq> cType c \<longrightarrow>
        findStatusCondition L (setStatusCondition L cs c) t = findStatusCondition L cs t)"

text \<open>The finalizer helpers of controller-runtime: removing one finalizer leaves the
  others, adding one makes it present.\<close>

definition finalizer_laws :: "('v, 'z) apimachinery_scheme \<Rightarrow> bool" where
  "finalizer_laws L \<longleftrightarrow>
     (\<forall>fs f. containsFinalizer L (addFinalizer L fs f) f) \<and>
     (\<forall>fs f. \<not> containsFinalizer L (removeFinalizer L fs f) f) \<and>
     (\<forall>fs f g. g \<noteq> f \<longrightarrow>
        containsFinalizer L (removeFinalizer L fs f) g = containsFinalizer L fs g)"

record 'v env = "'v apimachinery" +
  eNow :: "log \<Rightarrow> int"
  eGetChannel :: "log \<Rightarrow> nsname \<Rightarrow> go_error + release_channel"
  eUpdateChannel :: "log \<Rightarrow> release_channel \<Rightarrow> go_error + release_channel"
  eUpdateChannelStatus :: "log \<Rightarrow> release_channel \<Rightarrow> go_error + release_channel"
  eListUnleashes :: "log \<Rightarrow> string \<Rightarrow> go_error + unleash list"
  eGetUnleash :: "log \<Rightarrow> nsname \<Rightarrow> go_error + unleash"
  eHttpGet :: "log \<Rightarrow> string \<Rightarrow> http_outcome"
  eRetries :: nat \<comment> \<open>further attempts \<open>retry.DefaultRetry\<close> allows after the first\<close>

type_synonym 'a action = "(log, 'a) state"

definition readClock :: "'v env \<Rightarrow> int action" where
  "readClock E = perform (eNow E) ReadClock"

definition getChannel :: "'v env \<Rightarrow> nsname \<Rightarrow> (go_error + release_channel) action" where
  "getChannel E k = perform (\<lambda>l. eGetChannel E l k) (GetChannel k)"

definition updateChannel :: "'v env \<Rightarrow> release_channel \<Rightarrow> (go_error + release_channel) action" where
  "updateChannel E rc = perform (\<lambda>l. eUpdateChannel E l rc) (UpdateChannel rc)"

definition updateChannelStatus :: "'v env \<Rightarrow> release_channel \<Rightarrow> (go_error + release_channel) action" where
  "updateChannelStatus E rc = perform (\<lambda>l. eUpdateChannelStatus E l rc) (UpdateChannelStatus rc)"

definition listUnleashes :: "'v env \<Rightarrow> string \<Rightarrow> (go_error + unleash list) action" where
  "listUnleashes E ns = perform (\<lambda>l. eListUnleashes E l ns) (ListUnleashes ns)"

definition getUnleash :: "'v env \<Rightarrow> nsname \<Rightarrow> (go_error + unleash) action" where
  "getUnleash E k = perform (\<lambda>l. eGetUnleash E l k) (GetUnleash k)"

definition httpGet :: "'v env \<Rightarrow> string \<Rightarrow> http_outcome action" where
  "httpGet E url = perform (\<lambda>l. eHttpGet E l url) (HttpGet url)"

lemmas requests = readClock_def getChannel_def updateChannel_def updateChannelStatus_def
  listUnleashes_def getUnleash_def httpGet_def

section \<open>Reading the log\<close>

fun channelAnswers :: "call \<Rightarrow> release_channel list" where
  "channelAnswers (GetChannel k (Inr rc)) = [rc]"
| "channelAnswers (UpdateChannelStatus p (Inr rc)) = [rc]"
| "channelAnswers _ = []"

text \<open>Every channel the API server returned, by a read or in answer to a status write.\<close>

definition answered :: "log \<Rightarrow> release_channel list" where
  "answered l = concat (map channelAnswers l)"

fun statusWrite :: "call \<Rightarrow> release_channel option" where
  "statusWrite (UpdateChannelStatus p r) = Some p"
| "statusWrite _ = None"

text \<open>The channel returned by the last successful read of \<open>k\<close>.\<close>

fun latestRead :: "nsname \<Rightarrow> log \<Rightarrow> release_channel option" where
  "latestRead k [] = None"
| "latestRead k (c # cs) =
     (case latestRead k cs of Some rc \<Rightarrow> Some rc
      | None \<Rightarrow> (case c of GetChannel k' (Inr rc) \<Rightarrow> if k' = k then Some rc else None | _ \<Rightarrow> None))"

fun unleashAnswers :: "nsname \<Rightarrow> call \<Rightarrow> unleash list" where
  "unleashAnswers k (GetUnleash k' (Inr u)) = (if k' = k then [u] else [])"
| "unleashAnswers k _ = []"

text \<open>What the API server returned for the Unleash \<open>k\<close>.\<close>

definition observed :: "nsname \<Rightarrow> log \<Rightarrow> unleash list" where
  "observed k l = concat (map (unleashAnswers k) l)"

lemma answered_simps [simp]:
  "answered [] = []" "answered (a @ b) = answered a @ answered b"
  "answered (c # cs) = channelAnswers c @ answered cs"
  by (simp_all add: answered_def)

lemma observed_simps [simp]:
  "observed k [] = []" "observed k (a @ b) = observed k a @ observed k b"
  "observed k (c # cs) = unleashAnswers k c @ observed k cs"
  by (simp_all add: observed_def)

lemma latestRead_append [simp]:
  "latestRead k (a @ b) = (case latestRead k b of Some rc \<Rightarrow> Some rc | None \<Rightarrow> latestRead k a)"
  by (induction a) (auto split: option.splits call.splits sum.splits)

end
