(* ===== verification/ChannelStatus.thy ===== *)
theory ChannelStatus
  imports KubeEnv
begin

text \<open>
  The status of a ReleaseChannel: its initial value, the condition derived from the phase,
  the counters recomputed from the fleet, the comparison that decides whether a status is
  written at all, and the write itself (\<open>internal/controller/releasechannel_controller.go\<close>).
\<close>

record ctrl_result =
  requeue :: bool
  requeueAfter :: int

definition resultZero :: ctrl_result where
  "resultZero = \<lparr>requeue = False, requeueAfter = 0\<rparr>"

definition resultAfter :: "int \<Rightarrow> ctrl_result" where
  "resultAfter d = \<lparr>requeue = False, requeueAfter = d\<rparr>"

text \<open>A handler returns Go's pair of result and error, and the channel its pointer
  argument holds when it returns.\<close>

type_synonym outcome = "ctrl_result \<times> go_error option"
type_synonym handler_ret = "outcome \<times> release_channel"

definition releaseChannelStatusUpdateSuccess :: int where
  "releaseChannelStatusUpdateSuccess = 30 * second"

section \<open>Conditions\<close>

definition newCondition :: "string \<Rightarrow> condition_status \<Rightarrow> string \<Rightarrow> string \<Rightarrow> condition" where
  "newCondition t s r m =
     \<lparr>cType = t, cStatus = s, cObservedGeneration = 0, cReason = r, cMessage = m\<rparr>"

definition setReconciled ::
  "('v, 'z) apimachinery_scheme \<Rightarrow> condition_status \<Rightarrow> string \<Rightarrow> string \<Rightarrow> release_channel \<Rightarrow> release_channel" where
  "setReconciled L s r m rc =
     rcStatus_update (\<lambda>st. st\<lparr>stConditions :=
       setStatusCondition L (stConditions st) (newCondition ConditionReconciled s r m)\<rparr>) rc"

definition initializeStatus :: "('v, 'z) apimachinery_scheme \<Rightarrow> release_channel \<Rightarrow> release_channel" where
  "initializeStatus L rc =
     (if stConditions (rcStatus rc) = [] \<or> rcPhase rc = PhaseEmpty
      then setReconciled L ConditionUnknown ''Initializing'' ''Initializing ReleaseChannel''
             (rcStatus_update (\<lambda>st. st\<lparr>stPhase := PhaseIdle\<rparr>) rc)
      else rc)"

definition updateConditionForPhase :: "('v, 'z) apimachinery_scheme \<Rightarrow> release_channel \<Rightarrow> release_channel" where
  "updateConditionForPhase L rc =
     (let ph = rcPhase rc;
          st = rcStatus rc;
          n = stInstances st in
      if n = 0 then
        setReconciled L ConditionTrue ''NoInstances''
          ''No Unleash instances are managed by this ReleaseChannel'' rc
      else if ph = PhaseFailed then
        setReconciled L ConditionFalse ''Failed'' (''Rollout failed: '' @ stFailureReason st) rc
      else if ph = PhaseRollingBack then
        setReconciled L ConditionFalse ''RollingBack'' ''Rolling back to previous image'' rc
      else if ph = PhaseCanary \<or> ph = PhaseRolling \<or> ph = PhaseValidating then
        setReconciled L ConditionUnknown ''Progressing''
          (''Rollout in progress ('' @ showInt (stInstancesUpToDate st) @ ''/'' @ showInt n @
           '' instances up to date)'') rc
      else if stRollout st \<or> ph = PhaseCompleted \<or> (ph = PhaseIdle \<and> n > 0) then
        setReconciled L ConditionTrue ''Ready'' (''All '' @ showInt n @ '' instances are up to date'') rc
      else
        setReconciled L ConditionUnknown ''Unknown'' (''Unknown phase: '' @ phaseString ph) rc)"

section \<open>Counting the fleet\<close>

definition matchesLabelSelector :: "('v, 'z) apimachinery_scheme \<Rightarrow> unleash \<Rightarrow> label_selector \<Rightarrow> bool" where
  "matchesLabelSelector L u sel =
     (case selectorMatches L sel (mLabels (uMeta u)) of None \<Rightarrow> False | Some b \<Rightarrow> b)"

definition isCanaryOf :: "('v, 'z) apimachinery_scheme \<Rightarrow> release_channel \<Rightarrow> unleash \<Rightarrow> bool" where
  "isCanaryOf L rc u \<longleftrightarrow>
     canaryEnabled (sgCanary (spStrategy (rcSpec rc))) \<and>
     matchesLabelSelector L u (canarySelector (sgCanary (spStrategy (rcSpec rc))))"

record instance_counts =
  icUpToDate :: int
  icCanary :: int
  icCanaryUpToDate :: int
  icVersion :: string

definition countInstance ::
  "('v, 'z) apimachinery_scheme \<Rightarrow> release_channel \<Rightarrow> unleash \<Rightarrow> instance_counts \<Rightarrow> instance_counts" where
  "countInstance L rc u k =
     (let upToDate = (resolvedImage u = rcImage rc);
          k1 = (if isCanaryOf L rc u
                then k\<lparr>icCanary := icCanary k + 1,
                       icCanaryUpToDate := (if upToDate then icCanaryUpToDate k + 1 else icCanaryUpToDate k)\<rparr>
                else k)
      in if upToDate then
           k1\<lparr>icUpToDate := icUpToDate k1 + 1,
              icVersion :=
                (if icVersion k1 = [] \<and> utVersion (uStatus u) \<noteq> [] \<and>
                    utReleaseChannelName (uStatus u) = rcName rc
                 then utVersion (uStatus u) else icVersion k1)\<rparr>
         else k1)"

definition countInstances ::
  "('v, 'z) apimachinery_scheme \<Rightarrow> release_channel \<Rightarrow> unleash list \<Rightarrow> instance_counts" where
  "countInstances L rc us =
     fold (countInstance L rc) us \<lparr>icUpToDate = 0, icCanary = 0, icCanaryUpToDate = 0, icVersion = []\<rparr>"

definition updateInstanceCounts ::
  "('v, 'z) apimachinery_scheme \<Rightarrow> release_channel \<Rightarrow> unleash list \<Rightarrow> release_channel" where
  "updateInstanceCounts L rc us =
     (let k = countInstances L rc us;
          n = int (length us);
          current = (\<lambda>name. name \<in> set (map uName us)) in
      updateConditionForPhase L
        (rcStatus_update (\<lambda>st. st\<lparr>
           stInstances := n,
           stInstancesUpToDate := icUpToDate k,
           stCanaryInstances := icCanary k,
           stCanaryInstancesUpToDate := icCanaryUpToDate k,
           stVersion := (if icVersion k \<noteq> [] then icVersion k else stVersion st),
           stRollout := (icUpToDate k = n \<and> n > 0),
           stProgress := (if n > 0 then (icUpToDate k * 100) div n else 100),
           stInstanceImages := map_option (dictRetain current) (stInstanceImages st),
           stLastTargetImages := map_option (dictRetain current) (stLastTargetImages st)\<rparr>) rc))"

section \<open>Change detection\<close>

fun conditionsEqualLoop :: "(string \<rightharpoonup> condition) \<Rightarrow> condition list \<Rightarrow> bool" where
  "conditionsEqualLoop aMap [] = True"
| "conditionsEqualLoop aMap (cb # b) =
     (case aMap (cType cb) of
        None \<Rightarrow> False
      | Some ca \<Rightarrow>
          if cType ca \<noteq> cType cb \<or> cStatus ca \<noteq> cStatus cb \<or> cReason ca \<noteq> cReason cb \<or>
             cMessage ca \<noteq> cMessage cb
          then False else conditionsEqualLoop aMap b)"

text \<open>The map built from \<open>a\<close> keeps the last condition of each type.\<close>

definition conditionsEqual :: "condition list \<Rightarrow> condition list \<Rightarrow> bool" where
  "conditionsEqual a b =
     (if length a \<noteq> length b then False
      else conditionsEqualLoop (map_of (rev (map (\<lambda>c. (cType c, c)) a))) b)"

definition timeEqual :: "int option \<Rightarrow> int option \<Rightarrow> bool" where
  "timeEqual a b =
     (if (a = None) \<noteq> (b = None) then False
      else (case (a, b) of (Some x, Some y) \<Rightarrow> x = y | _ \<Rightarrow> True))"

definition releaseChannelStatusEqual :: "channel_status \<Rightarrow> channel_status \<Rightarrow> bool" where
  "releaseChannelStatusEqual a b \<longleftrightarrow>
     stPhase a = stPhase b \<and>
     stVersion a = stVersion b \<and>
     stRollout a = stRollout b \<and>
     stProgress a = stProgress b \<and>
     stInstances a = stInstances b \<and>
     stCanaryInstances a = stCanaryInstances b \<and>
     stInstancesUpToDate a = stInstancesUpToDate b \<and>
     stCanaryInstancesUpToDate a = stCanaryInstancesUpToDate b \<and>
     stFailureReason a = stFailureReason b \<and>
     stRetryCount a = stRetryCount b \<and>
     timeEqual (stLastFailureTime a) (stLastFailureTime b) \<and>
     stPreviousImage a = stPreviousImage b \<and>
     stFailedImage a = stFailedImage b \<and>
     stResumeProgress a = stResumeProgress b \<and>
     timeEqual (stLastDeployTime a) (stLastDeployTime b) \<and>
     stActiveBatch a = stActiveBatch b \<and>
     stInstanceImagesGeneration a = stInstanceImagesGeneration b \<and>
     mapEq (stInstanceImages a) (stInstanceImages b) \<and>
     mapEq (stLastTargetImages a) (stLastTargetImages b) \<and>
     stInstanceStatus a = stInstanceStatus b \<and>
     conditionsEqual (stConditions a) (stConditions b) \<and>
     timeEqual (stLastImageChangeTime a) (stLastImageChangeTime b) \<and>
     timeEqual (stStartTime a) (stStartTime b) \<and>
     timeEqual (stEstimatedCompletion a) (stEstimatedCompletion b)"

section \<open>Writing the status\<close>

definition updateReleaseChannelStatus :: "'v env \<Rightarrow> release_channel \<Rightarrow> handler_ret action" where
  "updateReleaseChannelStatus E rc = (let statusToApply = rcStatus rc in do {
     (err, rc') \<leftarrow> retryOnConflict (eRetries E) (\<lambda>cur. do {
       got \<leftarrow> getChannel E (channelKey cur);
       (case got of
          Inl e \<Rightarrow> ret (Some e, cur)
        | Inr fresh \<Rightarrow>
            if releaseChannelStatusEqual (rcStatus fresh) statusToApply then ret (None, fresh)
            else do {
              wrote \<leftarrow> updateChannelStatus E (fresh\<lparr>rcStatus := statusToApply\<rparr>);
              (case wrote of
                 Inr stored \<Rightarrow> ret (None, stored)
               | Inl e \<Rightarrow> do {
                   _ \<leftarrow> (if isConflict e then emit (CountConflict (channelKey cur)) else ret ());
                   ret (Some e, cur) })
            })
     }) rc;
     ret (case err of
            Some e \<Rightarrow> ((resultZero, Some (wrapf ''failed to update ReleaseChannel status'' e)), rc')
          | None \<Rightarrow> ((resultAfter releaseChannelStatusUpdateSuccess, None), rc'))
   })"

section \<open>Metrics and errors\<close>

definition recordMetricsFor :: "nsname \<Rightarrow> release_channel \<Rightarrow> unit action" where
  "recordMetricsFor labels rc =
     emit (SetChannelGauges labels
       (if rcPhase rc = PhaseCompleted \<or> rcPhase rc = PhaseIdle then GaugeHealthy
        else if rcPhase rc = PhaseFailed then GaugeFailed
        else GaugeInProgress)
       (stInstances (rcStatus rc)) (stInstancesUpToDate (rcStatus rc)))"

abbreviation recordMetrics :: "release_channel \<Rightarrow> unit action" where
  "recordMetrics rc \<equiv> recordMetricsFor (channelKey rc) rc"

definition recordPhaseTransition :: "release_channel \<Rightarrow> phase \<Rightarrow> unit action" where
  "recordPhaseTransition rc ph = emit (CountTransition (channelKey rc) ph)"

definition recordEvent :: "string \<Rightarrow> string \<Rightarrow> string \<Rightarrow> unit action" where
  "recordEvent kind reason message = emit (EmitEvent kind reason message)"

definition recordError :: "'v env \<Rightarrow> release_channel \<Rightarrow> go_error \<Rightarrow> release_channel action" where
  "recordError E rc err = (let
       failed = rcStatus_update (\<lambda>st. st\<lparr>stPhase := PhaseFailed, stFailureReason := errorMsg err\<rparr>) rc
     in do {
       stamped \<leftarrow> (if stLastFailureTime (rcStatus failed) = None
                   then do { now \<leftarrow> readClock E;
                             ret (rcStatus_update (\<lambda>st. st\<lparr>stLastFailureTime := Some now\<rparr>) failed) }
                   else ret failed);
       ret (setReconciled E ConditionFalse ''Failed''
              (''ReleaseChannel failed: '' @ errorMsg err) stamped)
     })"

section \<open>The counters\<close>

text \<open>What the loop of \<open>updateInstanceCounts\<close> computes.\<close>

definition runsTarget :: "release_channel \<Rightarrow> unleash \<Rightarrow> bool" where
  "runsTarget rc u \<longleftrightarrow> resolvedImage u = rcImage rc"

definition countWhere :: "('a \<Rightarrow> bool) \<Rightarrow> 'a list \<Rightarrow> int" where
  "countWhere p xs = int (length (filter p xs))"

lemma countWhere_simps [simp]:
  "countWhere p [] = 0" "countWhere p (x # xs) = (if p x then 1 else 0) + countWhere p xs"
  by (simp_all add: countWhere_def)

lemma countWhere_nonneg [simp]: "0 \<le> countWhere p xs"
  by (simp add: countWhere_def)

lemma countWhere_mono: "(\<And>x. p x \<Longrightarrow> q x) \<Longrightarrow> countWhere p xs \<le> countWhere q xs"
  by (induction xs) auto

lemma countWhere_le: "countWhere p xs \<le> int (length xs)"
  by (simp add: countWhere_def)

lemma countWhere_full: "countWhere p xs = int (length xs) \<longleftrightarrow> (\<forall>x \<in> set xs. p x)"
  unfolding countWhere_def of_nat_eq_iff by (metis filter_True length_filter_less less_irrefl)

lemma fold_countInstance:
  "icUpToDate (fold (countInstance L rc) us k) = icUpToDate k + countWhere (runsTarget rc) us"
  "icCanary (fold (countInstance L rc) us k) = icCanary k + countWhere (isCanaryOf L rc) us"
  "icCanaryUpToDate (fold (countInstance L rc) us k) =
     icCanaryUpToDate k + countWhere (\<lambda>u. isCanaryOf L rc u \<and> runsTarget rc u) us"
  by (induction us arbitrary: k) (simp_all add: countInstance_def runsTarget_def Let_def)

lemma countInstances_simps [simp]:
  "icUpToDate (countInstances L rc us) = countWhere (runsTarget rc) us"
  "icCanary (countInstances L rc us) = countWhere (isCanaryOf L rc) us"
  "icCanaryUpToDate (countInstances L rc us) =
     countWhere (\<lambda>u. isCanaryOf L rc u \<and> runsTarget rc u) us"
  by (simp_all add: countInstances_def fold_countInstance)

lemma setReconciled_simps [simp]:
  "rcSpec (setReconciled L s r m rc) = rcSpec rc"
  "rcMeta (setReconciled L s r m rc) = rcMeta rc"
  "rcStatus (setReconciled L s r m rc) =
     (rcStatus rc)\<lparr>stConditions := setStatusCondition L (stConditions (rcStatus rc))
        (newCondition ConditionReconciled s r m)\<rparr>"
  by (simp_all add: setReconciled_def)

lemma updateConditionForPhase_frame:
  "rcSpec (updateConditionForPhase L rc) = rcSpec rc"
  "rcMeta (updateConditionForPhase L rc) = rcMeta rc"
  "\<exists>cs. rcStatus (updateConditionForPhase L rc) = (rcStatus rc)\<lparr>stConditions := cs\<rparr>"
  by (auto simp: updateConditionForPhase_def Let_def)

lemma updateConditionForPhase_simps [simp]:
  "rcSpec (updateConditionForPhase L rc) = rcSpec rc"
  "rcMeta (updateConditionForPhase L rc) = rcMeta rc"
  "stPhase (rcStatus (updateConditionForPhase L rc)) = rcPhase rc"
  "stInstances (rcStatus (updateConditionForPhase L rc)) = stInstances (rcStatus rc)"
  "stInstancesUpToDate (rcStatus (updateConditionForPhase L rc)) = stInstancesUpToDate (rcStatus rc)"
  "stCanaryInstances (rcStatus (updateConditionForPhase L rc)) = stCanaryInstances (rcStatus rc)"
  "stCanaryInstancesUpToDate (rcStatus (updateConditionForPhase L rc)) = stCanaryInstancesUpToDate (rcStatus rc)"
  "stProgress (rcStatus (updateConditionForPhase L rc)) = stProgress (rcStatus rc)"
  "stRollout (rcStatus (updateConditionForPhase L rc)) = stRollout (rcStatus rc)"
  "stInstanceImages (rcStatus (updateConditionForPhase L rc)) = stInstanceImages (rcStatus rc)"
  "stLastTargetImages (rcStatus (updateConditionForPhase L rc)) = stLastTargetImages (rcStatus rc)"
  "stPreviousImage (rcStatus (updateConditionForPhase L rc)) = stPreviousImage (rcStatus rc)"
  "stActiveBatch (rcStatus (updateConditionForPhase L rc)) = stActiveBatch (rcStatus rc)"
  "stFailureReason (rcStatus (updateConditionForPhase L rc)) = stFailureReason (rcStatus rc)"
  using updateConditionForPhase_frame[of L rc] by auto

lemma updateInstanceCounts_simps [simp]:
  "rcSpec (updateInstanceCounts L rc us) = rcSpec rc"
  "rcMeta (updateInstanceCounts L rc us) = rcMeta rc"
  "stPhase (rcStatus (updateInstanceCounts L rc us)) = rcPhase rc"
  "stPreviousImage (rcStatus (updateInstanceCounts L rc us)) = stPreviousImage (rcStatus rc)"
  "stActiveBatch (rcStatus (updateInstanceCounts L rc us)) = stActiveBatch (rcStatus rc)"
  "stFailureReason (rcStatus (updateInstanceCounts L rc us)) = stFailureReason (rcStatus rc)"
  "stInstances (rcStatus (updateInstanceCounts L rc us)) = int (length us)"
  "stInstancesUpToDate (rcStatus (updateInstanceCounts L rc us)) = countWhere (runsTarget rc) us"
  "stCanaryInstances (rcStatus (updateInstanceCounts L rc us)) = countWhere (isCanaryOf L rc) us"
  "stCanaryInstancesUpToDate (rcStatus (updateInstanceCounts L rc us)) =
     countWhere (\<lambda>u. isCanaryOf L rc u \<and> runsTarget rc u) us"
  "stRollout (rcStatus (updateInstanceCounts L rc us)) \<longleftrightarrow> us \<noteq> [] \<and> (\<forall>u \<in> set us. runsTarget rc u)"
  "stInstanceImages (rcStatus (updateInstanceCounts L rc us)) =
     map_option (dictRetain (\<lambda>n. n \<in> set (map uName us))) (stInstanceImages (rcStatus rc))"
  "stLastTargetImages (rcStatus (updateInstanceCounts L rc us)) =
     map_option (dictRetain (\<lambda>n. n \<in> set (map uName us))) (stLastTargetImages (rcStatus rc))"
  by (auto simp: updateInstanceCounts_def Let_def countWhere_full[symmetric])

lemma assignedImage_updateInstanceCounts:
  "assignedImage (rcStatus (updateInstanceCounts L rc us)) n =
     (if n \<in> set (map uName us) then assignedImage (rcStatus rc) n else [])"
  by (cases "stInstanceImages (rcStatus rc)") (simp_all add: dictGet_def dict.get_retain)

lemma updateInstanceCounts_progress:
  "stProgress (rcStatus (updateInstanceCounts L rc us)) =
     (if us = [] then 100 else (countWhere (runsTarget rc) us * 100) div int (length us))"
  by (auto simp: updateInstanceCounts_def Let_def)

lemma progress_range:
  assumes "us \<noteq> []"
  shows "0 \<le> (countWhere p us * 100) div int (length us)"
    and "(countWhere p us * 100) div int (length us) \<le> 100"
    and "(countWhere p us * 100) div int (length us) = 100 \<longleftrightarrow> (\<forall>u \<in> set us. p u)"
proof -
  let ?n = "int (length us)" and ?k = "countWhere p us"
  have n: "0 < ?n" using assms by simp
  have k: "0 \<le> ?k" "?k \<le> ?n" by (simp_all add: countWhere_le)
  show "0 \<le> (?k * 100) div ?n" using n k by (simp add: pos_imp_zdiv_nonneg_iff)
  have "(?k * 100) div ?n \<le> (?n * 100) div ?n" using n k by (intro zdiv_mono1) auto
  then show "(?k * 100) div ?n \<le> 100" using n by simp
  have "(?k * 100) div ?n = 100 \<longleftrightarrow> ?k = ?n"
  proof
    assume eq: "(?k * 100) div ?n = 100"
    have "(?k * 100) div ?n * ?n \<le> ?k * 100"
      using n by (metis pos_mod_sign div_mult_mod_eq le_add_same_cancel1)
    with eq k show "?k = ?n" by simp
  qed (use n in simp)
  then show "(?k * 100) div ?n = 100 \<longleftrightarrow> (\<forall>u \<in> set us. p u)"
    by (simp add: countWhere_full)
qed

section \<open>Equality of statuses\<close>

text \<open>What \<open>conditionsEqual\<close> looks at, and what \<open>releaseChannelStatusEqual\<close> looks at.\<close>

definition conditionView :: "condition list \<Rightarrow> string \<rightharpoonup> condition_status \<times> string \<times> string" where
  "conditionView cs t =
     map_option (\<lambda>c. (cStatus c, cReason c, cMessage c)) (map_of (map (\<lambda>c. (cType c, c)) cs) t)"

definition distinctTypes :: "condition list \<Rightarrow> bool" where
  "distinctTypes cs \<longleftrightarrow> distinct (map cType cs)"

definition statusView ::
  "channel_status \<Rightarrow> channel_status \<times> (string \<rightharpoonup> string) option \<times> (string \<rightharpoonup> string) option \<times>
     (string \<rightharpoonup> condition_status \<times> string \<times> string)" where
  "statusView st =
     (st\<lparr>stLastReconcileTime := None, stConditions := [], stInstanceImages := None, stLastTargetImages := None\<rparr>,
      map_option map_of (stInstanceImages st), map_option map_of (stLastTargetImages st),
      conditionView (stConditions st))"

lemma timeEqual_iff [simp]: "timeEqual a b \<longleftrightarrow> a = b"
  by (auto simp: timeEqual_def split: option.splits)

lemma map_of_types:
  "distinctTypes cs \<Longrightarrow> map_of (rev (map (\<lambda>c. (cType c, c)) cs)) = map_of (map (\<lambda>c. (cType c, c)) cs)"
  by (subst map_of_inject_set) (auto simp: distinctTypes_def comp_def rev_map[symmetric])

lemma conditionsEqualLoop_iff:
  "conditionsEqualLoop m b \<longleftrightarrow>
     (\<forall>cb \<in> set b. \<exists>ca. m (cType cb) = Some ca \<and> cType ca = cType cb \<and> cStatus ca = cStatus cb \<and>
        cReason ca = cReason cb \<and> cMessage ca = cMessage cb)"
  by (induction b) (auto split: option.splits)

lemma conditionView_mem:
  "distinctTypes b \<Longrightarrow> cb \<in> set b \<Longrightarrow> conditionView b (cType cb) = Some (cStatus cb, cReason cb, cMessage cb)"
  by (auto simp: conditionView_def distinctTypes_def comp_def intro!: map_of_is_SomeI)

lemma conditionView_dom: "dom (conditionView cs) = cType ` set cs"
proof -
  have "conditionView cs t = None \<longleftrightarrow> t \<notin> cType ` set cs" for t
    by (simp add: conditionView_def map_of_eq_None_iff image_image)
  then show ?thesis by (auto simp: dom_def)
qed

lemma map_of_typed: "map_of (map (\<lambda>c. (cType c, c)) cs) t = Some c \<Longrightarrow> cType c = t"
  by (auto dest: map_of_SomeD)

lemma conditionView_lookup:
  "conditionView a t = Some (s, r, m) \<longleftrightarrow>
     (\<exists>ca. map_of (map (\<lambda>c. (cType c, c)) a) t = Some ca \<and> cType ca = t \<and> cStatus ca = s \<and>
        cReason ca = r \<and> cMessage ca = m)"
  by (auto simp: conditionView_def dest: map_of_typed)

lemma conditionsEqual_iff:
  assumes "distinctTypes a" and "distinctTypes b"
  shows "conditionsEqual a b \<longleftrightarrow> conditionView a = conditionView b"
proof -
  have loop: "conditionsEqualLoop (map_of (rev (map (\<lambda>c. (cType c, c)) a))) b \<longleftrightarrow>
      (\<forall>t \<in> cType ` set b. conditionView a t = conditionView b t)"
    unfolding conditionsEqualLoop_iff map_of_types[OF assms(1)]
    by (simp add: conditionView_mem[OF assms(2)] conditionView_lookup)
  have card: "card (cType ` set cs) = length cs" if "distinctTypes cs" for cs
    using that by (metis distinctTypes_def distinct_card length_map list.set_map)
  show ?thesis
  proof
    assume eq: "conditionsEqual a b"
    then have len: "length a = length b" and ag: "\<forall>t \<in> cType ` set b. conditionView a t = conditionView b t"
      by (auto simp: conditionsEqual_def loop split: if_splits)
    have "cType ` set b \<subseteq> cType ` set a"
      using ag conditionView_dom[of a] conditionView_dom[of b] by (metis domIff subsetI)
    then have "cType ` set b = cType ` set a"
      using len card[OF assms(1)] card[OF assms(2)] by (intro card_subset_eq) auto
    then show "conditionView a = conditionView b"
      using ag conditionView_dom[of a] conditionView_dom[of b]
      by (intro ext) (metis domIff)
  next
    assume eq: "conditionView a = conditionView b"
    then have "cType ` set a = cType ` set b"
      by (metis conditionView_dom)
    then have "length a = length b"
      using card[OF assms(1)] card[OF assms(2)] by simp
    with eq show "conditionsEqual a b" by (simp add: conditionsEqual_def loop)
  qed
qed

lemma statusEqual_iff:
  assumes "distinctTypes (stConditions a)" and "distinctTypes (stConditions b)"
  shows "releaseChannelStatusEqual a b \<longleftrightarrow> statusView a = statusView b"
  unfolding releaseChannelStatusEqual_def statusView_def conditionsEqual_iff[OF assms] timeEqual_iff mapEq_iff
  by (cases a, cases b) auto

section \<open>What a status write does\<close>

text \<open>
  Every call of \<open>updateReleaseChannelStatus\<close> is a read of its channel, a counted conflict,
  or a write of the requested status over the channel read last, and only when that channel
  carried a different status.
\<close>

definition writesOver :: "nsname \<Rightarrow> channel_status \<Rightarrow> log \<Rightarrow> call \<Rightarrow> bool" where
  "writesOver k wanted h c =
     (case c of
        GetChannel k' _ \<Rightarrow> k' = k
      | CountConflict k' \<Rightarrow> k' = k
      | UpdateChannelStatus p _ \<Rightarrow>
          (case latestRead k h of
             None \<Rightarrow> False
           | Some fresh \<Rightarrow> p = fresh\<lparr>rcStatus := wanted\<rparr> \<and> \<not> releaseChannelStatusEqual (rcStatus fresh) wanted)
      | _ \<Rightarrow> False)"

definition storedAs :: "channel_status \<Rightarrow> release_channel \<Rightarrow> call \<Rightarrow> bool" where
  "storedAs wanted stored c =
     (case c of UpdateChannelStatus p (Inr s) \<Rightarrow> rcStatus p = wanted \<and> s = stored | _ \<Rightarrow> False)"

text \<open>On success the caller holds what the API server answered last; on failure it holds
  the channel it had.\<close>

definition statusOutcome :: "release_channel \<Rightarrow> handler_ret \<Rightarrow> log \<Rightarrow> bool" where
  "statusOutcome rc r l =
     (case r of
        ((res, None), rc') \<Rightarrow> res = resultAfter releaseChannelStatusUpdateSuccess \<and>
          rc' \<in> set (answered l) \<and>
          (releaseChannelStatusEqual (rcStatus rc') (rcStatus rc) \<or>
           list_ex (storedAs (rcStatus rc) rc') l)
      | ((res, Some e), rc') \<Rightarrow> res = resultZero \<and> rc' = rc)"

lemma statusAttempt_runs:
  "runs (writesOver (channelKey rc) wanted) l
     (do {
       got \<leftarrow> getChannel E (channelKey rc);
       (case got of
          Inl e \<Rightarrow> ret (Some e, rc)
        | Inr fresh \<Rightarrow>
            if releaseChannelStatusEqual (rcStatus fresh) wanted then ret (None, fresh)
            else do {
              wrote \<leftarrow> updateChannelStatus E (fresh\<lparr>rcStatus := wanted\<rparr>);
              (case wrote of
                 Inr stored \<Rightarrow> ret (None, stored)
               | Inl e \<Rightarrow> do {
                   _ \<leftarrow> (if isConflict e then emit (CountConflict (channelKey rc)) else ret ());
                   ret (Some e, rc) })
            })
     })
     (\<lambda>r l'. case r of
        (Some e, rc') \<Rightarrow> rc' = rc
      | (None, rc') \<Rightarrow> rc' \<in> set (answered l') \<and>
          (releaseChannelStatusEqual (rcStatus rc') wanted \<or>
           list_ex (storedAs wanted rc') l'))"
  unfolding runs_def requests
  by (auto simp: wp_simps writesOver_def storedAs_def split: sum.splits if_splits)

lemma updateReleaseChannelStatus_runs:
  "runs (writesOver (channelKey rc) (rcStatus rc)) l (updateReleaseChannelStatus E rc) (statusOutcome rc)"
  unfolding updateReleaseChannelStatus_def Let_def
proof (rule runs_bind)
  let ?Q = "\<lambda>r l'. case r of
        (Some e, rc') \<Rightarrow> rc' = rc
      | (None, rc') \<Rightarrow> rc' \<in> set (answered l') \<and>
          (releaseChannelStatusEqual (rcStatus rc') (rcStatus rc) \<or>
           list_ex (storedAs (rcStatus rc) rc') l' )"
  show "runs (writesOver (channelKey rc) (rcStatus rc)) l
     (retryOnConflict (eRetries E) (\<lambda>cur. do {
       got \<leftarrow> getChannel E (channelKey cur);
       (case got of
          Inl e \<Rightarrow> ret (Some e, cur)
        | Inr fresh \<Rightarrow>
            if releaseChannelStatusEqual (rcStatus fresh) (rcStatus rc) then ret (None, fresh)
            else do {
              wrote \<leftarrow> updateChannelStatus E (fresh\<lparr>rcStatus := rcStatus rc\<rparr>);
              (case wrote of
                 Inr stored \<Rightarrow> ret (None, stored)
               | Inl e \<Rightarrow> do {
                   _ \<leftarrow> (if isConflict e then emit (CountConflict (channelKey cur)) else ret ());
                   ret (Some e, cur) })
            })
     }) rc) ?Q"
    by (rule runs_retry[where I = "\<lambda>s l. s = rc"])
       (auto intro!: statusAttempt_runs[THEN runs_weaken] split: option.splits)
qed (auto simp: statusOutcome_def split: option.splits intro!: runs_intros)

text \<open>An attempt is a read, a write and at most one counted conflict.\<close>

lemma statusUpdate_calls: "callsAtMost (3 * Suc (eRetries E)) (updateReleaseChannelStatus E rc)"
proof -
  have "callsAtMost (3 * Suc (eRetries E) + 0) (updateReleaseChannelStatus E rc)"
    unfolding updateReleaseChannelStatus_def requests Let_def
    by (intro callsAtMost_bind callsAtMost_retry)
       (auto simp: callsAtMost_def wp_simps split: sum.split option.split)
  then show ?thesis by simp
qed

end
