(* ===== verification/RolloutPolicy.thy ===== *)
theory RolloutPolicy
  imports ChannelStatus
begin

text \<open>
  The decisions of the rollout that do not write anything: which instances are canaries,
  which still need the image, which make up the active batch, when an instance counts as
  ready, how long a rollout may take, when a failure is retried, and where a failed rollout
  goes next (\<open>internal/controller/releasechannel_controller.go\<close>).
\<close>

section \<open>Delays\<close>

definition upgradeTimeoutReasonPrefix :: string where
  "upgradeTimeoutReasonPrefix = ''Rollout exceeded maxUpgradeTime''"

definition releaseChannelReconciliationAllowance :: int where
  "releaseChannelReconciliationAllowance = 30 * second"
definition releaseChannelErrorRetryDelay :: int where
  "releaseChannelErrorRetryDelay = 5 * second"
definition releaseChannelIdleRequeueInterval :: int where
  "releaseChannelIdleRequeueInterval = 10 * minute"
definition releaseChannelValidatingRetryDelay :: int where
  "releaseChannelValidatingRetryDelay = 5 * minute"
definition releaseChannelValidatingTransition :: int where
  "releaseChannelValidatingTransition = 5 * second"
definition releaseChannelCanaryWaitDelay :: int where
  "releaseChannelCanaryWaitDelay = 30 * second"
definition releaseChannelRollingWaitDelay :: int where
  "releaseChannelRollingWaitDelay = 30 * second"
definition releaseChannelRollingBackWaitDelay :: int where
  "releaseChannelRollingBackWaitDelay = 1 * minute"
definition releaseChannelFailedRetryDelay :: int where
  "releaseChannelFailedRetryDelay = 10 * minute"
definition releaseChannelBackoffBase :: int where
  "releaseChannelBackoffBase = 10 * second"
definition releaseChannelBackoffMedium :: int where
  "releaseChannelBackoffMedium = 20 * second"
definition releaseChannelBackoffLong :: int where
  "releaseChannelBackoffLong = 30 * second"
definition releaseChannelBatchInterval :: int where
  "releaseChannelBatchInterval = 30 * second"
definition releaseChannelDeletionCheckInterval :: int where
  "releaseChannelDeletionCheckInterval = 30 * second"
definition releaseChannelHealthCheckInitialDelay :: int where
  "releaseChannelHealthCheckInitialDelay = 30 * second"
definition releaseChannelDefaultMaxUpgradeTime :: int where
  "releaseChannelDefaultMaxUpgradeTime = 10 * minute"
definition releaseChannelDefaultHealthCheckTimeout :: int where
  "releaseChannelDefaultHealthCheckTimeout = 5 * minute"
definition releaseChannelMaxDerivedUpgradeTime :: int where
  "releaseChannelMaxDerivedUpgradeTime = 2 * hour"
definition releaseChannelLegacyDefaultMaxUpgradeTime :: int where
  "releaseChannelLegacyDefaultMaxUpgradeTime = 10 * minute"
definition releaseChannelTransientRetryBase :: int where
  "releaseChannelTransientRetryBase = 30 * second"
definition releaseChannelMaxTransientRetries :: int where
  "releaseChannelMaxTransientRetries = 5"

lemmas channel_delays =
  releaseChannelReconciliationAllowance_def releaseChannelErrorRetryDelay_def
  releaseChannelIdleRequeueInterval_def releaseChannelValidatingRetryDelay_def
  releaseChannelValidatingTransition_def releaseChannelCanaryWaitDelay_def
  releaseChannelRollingWaitDelay_def releaseChannelRollingBackWaitDelay_def
  releaseChannelFailedRetryDelay_def releaseChannelBackoffBase_def
  releaseChannelBackoffMedium_def releaseChannelBackoffLong_def
  releaseChannelBatchInterval_def releaseChannelDeletionCheckInterval_def
  releaseChannelHealthCheckInitialDelay_def releaseChannelDefaultMaxUpgradeTime_def
  releaseChannelDefaultHealthCheckTimeout_def releaseChannelMaxDerivedUpgradeTime_def
  releaseChannelLegacyDefaultMaxUpgradeTime_def releaseChannelTransientRetryBase_def
  releaseChannelMaxTransientRetries_def releaseChannelStatusUpdateSuccess_def

section \<open>Break glass\<close>

definition breakGlassEnabled :: "release_channel \<Rightarrow> bool" where
  "breakGlassEnabled rc \<longleftrightarrow>
     spBreakGlassImage (rcSpec rc) \<noteq> [] \<and> spBreakGlassImage (rcSpec rc) = rcImage rc"

fun someInstanceNotAssigned :: "channel_status \<Rightarrow> string \<Rightarrow> unleash list \<Rightarrow> bool" where
  "someInstanceNotAssigned st img [] = False"
| "someInstanceNotAssigned st img (u # us) =
     (if assignedImage st (uName u) \<noteq> img then True else someInstanceNotAssigned st img us)"

definition breakGlassAssignmentsNeeded :: "unleash list \<Rightarrow> release_channel \<Rightarrow> bool" where
  "breakGlassAssignmentsNeeded us rc =
     (if \<not> breakGlassEnabled rc then False
      else someInstanceNotAssigned (rcStatus rc) (rcImage rc) us)"

section \<open>Selecting instances\<close>

definition getCanaryInstances ::
  "('v, 'z) apimachinery_scheme \<Rightarrow> unleash list \<Rightarrow> release_channel \<Rightarrow> unleash list" where
  "getCanaryInstances L us rc =
     (let canary = sgCanary (spStrategy (rcSpec rc)) in
      if \<not> canaryEnabled canary then []
      else filter (\<lambda>u. matchesLabelSelector L u (canarySelector canary)) us)"

definition getInstancesToUpdate :: "unleash list \<Rightarrow> release_channel \<Rightarrow> unleash list" where
  "getInstancesToUpdate us rc = filter (\<lambda>u. resolvedImage u \<noteq> rcImage rc) us"

definition activeBatchInstances :: "unleash list \<Rightarrow> active_batch \<Rightarrow> unleash list" where
  "activeBatchInstances us batch = filter (\<lambda>u. uName u \<in> set (abInstanceNames batch)) us"

section \<open>Readiness of an instance\<close>

fun conditionTrueAt :: "int \<Rightarrow> string \<Rightarrow> condition list \<Rightarrow> bool" where
  "conditionTrueAt gen t [] = False"
| "conditionTrueAt gen t (c # cs) =
     (if cType c = t then cStatus c = ConditionTrue \<and> cObservedGeneration c = gen
      else conditionTrueAt gen t cs)"

definition instanceConditionIsTrueForCurrentGeneration :: "unleash \<Rightarrow> string \<Rightarrow> bool" where
  "instanceConditionIsTrueForCurrentGeneration u t =
     conditionTrueAt (mGeneration (uMeta u)) t (utConditions (uStatus u))"

definition instanceReady :: "unleash \<Rightarrow> bool" where
  "instanceReady u = instanceConditionIsTrueForCurrentGeneration u ConditionReconciled"

definition instanceConnected :: "unleash \<Rightarrow> bool" where
  "instanceConnected u = instanceConditionIsTrueForCurrentGeneration u ConditionConnected"

text \<open>The instances whose assignment is the target but which have not settled on it.\<close>

definition unsettledNames :: "unleash list \<Rightarrow> release_channel \<Rightarrow> string list" where
  "unsettledNames us rc =
     map uName
       (filter (\<lambda>u. assignedImage (rcStatus rc) (uName u) = rcImage rc \<and>
                    (resolvedImage u \<noteq> rcImage rc \<or> \<not> instanceReady u \<or> \<not> instanceConnected u)) us)"

definition recoverActiveBatch :: "'v env \<Rightarrow> unleash list \<Rightarrow> release_channel \<Rightarrow> active_batch option action" where
  "recoverActiveBatch E us rc =
     (let names = unsettledNames us rc in
      if names = [] then ret None
      else do {
        now \<leftarrow> readClock E;
        ret (Some \<lparr>abInstanceNames = names, abTargetImage = rcImage rc,
                   abStartTime = (case stStartTime (rcStatus rc) of None \<Rightarrow> now | Some t \<Rightarrow> t)\<rparr>)
      })"

definition adoptUpToDateInstances :: "release_channel \<Rightarrow> unleash list \<Rightarrow> release_channel" where
  "adoptUpToDateInstances rc us =
     fold (\<lambda>u rc.
        if resolvedImage u \<noteq> rcImage rc then rc
        else if map_of (orEmpty (stInstanceImages (rcStatus rc))) (uName u) \<noteq> None then rc
        else rcStatus_update (\<lambda>st. st\<lparr>
               stInstanceImages := Some (dictSet (uName u) (rcImage rc) (orEmpty (stInstanceImages st))),
               stInstanceImagesGeneration := stInstanceImagesGeneration st + 1\<rparr>) rc) us rc"

definition settleReference :: "release_channel \<Rightarrow> int option" where
  "settleReference rc =
     (if stLastDeployTime (rcStatus rc) \<noteq> None then stLastDeployTime (rcStatus rc)
      else stStartTime (rcStatus rc))"

section \<open>Failure handling\<close>

definition rollbackTarget :: "release_channel \<Rightarrow> string" where
  "rollbackTarget rc =
     (if rbPreviousImage (spRollback (rcSpec rc)) \<noteq> [] then rbPreviousImage (spRollback (rcSpec rc))
      else stPreviousImage (rcStatus rc))"

definition releasePhaseOnFailure :: "release_channel \<Rightarrow> phase" where
  "releasePhaseOnFailure rc =
     (if rbEnabled (spRollback (rcSpec rc)) \<and> rbOnFailure (spRollback (rcSpec rc)) \<and> rollbackTarget rc \<noteq> []
      then PhaseRollingBack else PhaseFailed)"

definition transientPatterns :: "string list" where
  "transientPatterns =
     [''conflict'', ''the object has been modified'', ''timeout'', ''context deadline exceeded'',
      ''connection refused'', ''connection reset'', ''no such host'', ''i/o timeout'',
      ''temporary failure'']"

definition isTransientError :: "string \<Rightarrow> bool" where
  "isTransientError reason = list_ex (contains (toLower reason)) transientPatterns"

definition calculateTransientBackoff :: "int \<Rightarrow> int" where
  "calculateTransientBackoff retryCount =
     (let backoff = ((\<lambda>b. wrap64 (b * 2)) ^^ nat retryCount) releaseChannelTransientRetryBase
      in if backoff > 8 * minute then 8 * minute else backoff)"

definition getBackoffDuration :: "'v env \<Rightarrow> release_channel \<Rightarrow> int action" where
  "getBackoffDuration E rc =
     (case stLastReconcileTime (rcStatus rc) of
        None \<Rightarrow> ret releaseChannelBackoffBase
      | Some t \<Rightarrow> do {
          now \<leftarrow> readClock E;
          ret (if since now t > minute * 2 then releaseChannelBackoffLong
               else if since now t > minute then releaseChannelBackoffMedium
               else releaseChannelBackoffBase)
        })"

section \<open>The upgrade budget\<close>

definition durationOr :: "int \<Rightarrow> int option \<Rightarrow> int" where
  "durationOr d configured = (case configured of None \<Rightarrow> d | Some x \<Rightarrow> x)"

definition batchAllowance :: "release_channel \<Rightarrow> int" where
  "batchAllowance rc =
     (let settle = durationOr releaseChannelHealthCheckInitialDelay (hcInitialDelay (spHealthChecks (rcSpec rc)));
          verify = durationOr releaseChannelDefaultHealthCheckTimeout (hcTimeout (spHealthChecks (rcSpec rc)));
          interval = durationOr releaseChannelBatchInterval (sgBatchInterval (spStrategy (rcSpec rc)))
      in wrap64 (wrap64 (settle + verify) + interval))"

definition effectiveMaxParallel :: "release_channel \<Rightarrow> int" where
  "effectiveMaxParallel rc =
     (let m = sgMaxParallel (spStrategy (rcSpec rc)) in if m \<le> 0 then 1 else m)"

definition budgetBatches :: "release_channel \<Rightarrow> int" where
  "budgetBatches rc =
     (let maxParallel = effectiveMaxParallel rc;
          n = stInstances (rcStatus rc);
          instances = (if n < 0 then 0 else n)
      in goQuot (wrap64 (wrap64 (instances + maxParallel) - 1)) maxParallel)"

definition derivedBudget :: "release_channel \<Rightarrow> int" where
  "derivedBudget rc =
     (let batches = budgetBatches rc;
          reconciliationAllowance = wrap64 (wrap64 (batches + 1) * releaseChannelReconciliationAllowance);
          budget = wrap64 (wrap64 (batches * batchAllowance rc) + reconciliationAllowance);
          floored = (if budget < releaseChannelDefaultMaxUpgradeTime
                     then releaseChannelDefaultMaxUpgradeTime else budget)
      in if floored > releaseChannelMaxDerivedUpgradeTime
         then releaseChannelMaxDerivedUpgradeTime else floored)"

definition budgetDerivation :: "release_channel \<Rightarrow> bool \<Rightarrow> string" where
  "budgetDerivation rc legacyDefault =
     (let batches = budgetBatches rc;
          n = stInstances (rcStatus rc)
      in ''derived from '' @ showInt batches @ '' batch(es) of '' @ showDuration (batchAllowance rc) @
         '' plus '' @ showDuration (wrap64 (wrap64 (batches + 1) * releaseChannelReconciliationAllowance)) @
         '' reconciliation allowance for '' @ showInt (if n < 0 then 0 else n) @
         '' instance(s) at maxParallel '' @ showInt (effectiveMaxParallel rc) @
         '', capped at '' @ showDuration releaseChannelMaxDerivedUpgradeTime @
         (if legacyDefault
          then ''; the stored '' @ showDuration releaseChannelLegacyDefaultMaxUpgradeTime @
               '' came from a removed CRD default and was treated as unset''
          else []))"

definition upgradeTimeBudget :: "release_channel \<Rightarrow> int \<times> string" where
  "upgradeTimeBudget rc =
     (case sgMaxUpgradeTime (spStrategy (rcSpec rc)) of
        Some configured \<Rightarrow>
          if configured \<noteq> releaseChannelLegacyDefaultMaxUpgradeTime then (configured, [])
          else (derivedBudget rc, budgetDerivation rc True)
      | None \<Rightarrow> (derivedBudget rc, budgetDerivation rc False))"

definition isUpgradeTimeout :: "string \<Rightarrow> bool" where
  "isUpgradeTimeout reason = hasPrefix reason upgradeTimeoutReasonPrefix"

definition upgradeTimeoutReason :: "int \<Rightarrow> int \<Rightarrow> string \<Rightarrow> string" where
  "upgradeTimeoutReason elapsed limit derivation =
     upgradeTimeoutReasonPrefix @ '' ('' @ showDuration (roundTo elapsed second) @
     '' elapsed, limit '' @ showDuration limit @
     (if derivation \<noteq> []
      then '' '' @ derivation @ ''; set spec.strategy.maxUpgradeTime to override)''
      else '')'')"

definition checkMaxUpgradeTimeExceeded :: "'v env \<Rightarrow> release_channel \<Rightarrow> (bool \<times> string) action" where
  "checkMaxUpgradeTimeExceeded E rc =
     (case stStartTime (rcStatus rc) of
        None \<Rightarrow> ret (False, [])
      | Some start \<Rightarrow> do {
          now \<leftarrow> readClock E;
          (let (limit, derivation) = upgradeTimeBudget rc;
               elapsed = since now start
           in if elapsed \<le> limit then ret (False, [])
              else ret (True, upgradeTimeoutReason elapsed limit derivation))
        })"

section \<open>Bounds\<close>

lemma derivedBudget_bounds: "10 * minute \<le> derivedBudget rc \<and> derivedBudget rc \<le> 2 * hour"
  by (simp add: derivedBudget_def Let_def channel_delays time_units)

text \<open>The upgrade budget is the configured one when the operator pinned it, and otherwise
  lies between the old flat default of ten minutes and the cap of two hours; a stored ten
  minutes counts as not pinned.\<close>

theorem upgradeTimeBudget_bounds:
  "(case sgMaxUpgradeTime (spStrategy (rcSpec rc)) of
      None \<Rightarrow> fst (upgradeTimeBudget rc) \<in> {10 * minute..2 * hour}
    | Some d \<Rightarrow> if d = 10 * minute then fst (upgradeTimeBudget rc) \<in> {10 * minute..2 * hour}
              else upgradeTimeBudget rc = (d, []))"
  using derivedBudget_bounds[of rc]
  by (auto simp: upgradeTimeBudget_def channel_delays split: option.split)



lemma doubling: "m \<le> 28 \<Longrightarrow> ((\<lambda>b. wrap64 (b * 2)) ^^ m) (30 * second) = 30 * second * 2 ^ m"
proof (induction m)
  case (Suc m)
  then have "(2::int) ^ m \<le> 2 ^ 27" by (intro power_increasing) auto
  then have "30 * second * 2 ^ m * 2 < 2 ^ 63" "- (2 ^ 63) \<le> 30 * second * 2 ^ m * 2"
    by (simp_all add: time_units order_trans[of _ 0])
  with Suc show ?case by (simp add: wrap64_id mult.assoc)
qed simp

text \<open>The delay before an automatic retry doubles from thirty seconds and is capped at eight
  minutes, for every retry count the controller can reach and far beyond: the first count
  at which the 64-bit doubling wraps is 29.\<close>

theorem calculateTransientBackoff_doubles:
  assumes "0 \<le> k" and "k \<le> 28"
  shows "calculateTransientBackoff k = min (8 * minute) (30 * second * 2 ^ nat k)"
  using assms doubling[of "nat k"]
  by (simp add: calculateTransientBackoff_def channel_delays min_def)

theorem calculateTransientBackoff_doubles_witness: "calculateTransientBackoff 3 = 4 * minute"
  using calculateTransientBackoff_doubles[of 3] by (simp add: time_units)

text \<open>A rollout is reported as timed out exactly when it has a start time further back than
  its budget, and the reason given then, and only then, is one the failed phase recognises
  as a timeout.\<close>

theorem checkMaxUpgradeTimeExceeded_exact:
  "wp (checkMaxUpgradeTimeExceeded E rc)
     (\<lambda>(exceeded, reason) l'.
        exceeded = isUpgradeTimeout reason \<and>
        exceeded = (case stStartTime (rcStatus rc) of
                      None \<Rightarrow> False
                    | Some t \<Rightarrow> fst (upgradeTimeBudget rc) < since (eNow E l) t)) l"
proof -
  have "isUpgradeTimeout (upgradeTimeoutReason e b d)" for e b d
    by (simp add: isUpgradeTimeout_def upgradeTimeoutReason_def)
  moreover have "\<not> isUpgradeTimeout []"
    by (simp add: isUpgradeTimeout_def upgradeTimeoutReasonPrefix_def)
  ultimately show ?thesis
    by (auto simp: checkMaxUpgradeTimeExceeded_def requests wp_simps Let_def split: option.split prod.split)
qed

end
