(* ===== verification/ChannelDeploy.thy ===== *)
theory ChannelDeploy
  imports RolloutPolicy
begin

text \<open>
  The steps the phases are built from
  (\<open>internal/controller/releasechannel_controller.go\<close>): listing the instances of a
  channel, the image each is expected to run, assigning images together with the active
  batch, observing readiness and health, refusing a downgrade, and capturing the rollback
  baseline.
\<close>

section \<open>Listing instances\<close>

definition isReferencing :: "release_channel \<Rightarrow> unleash \<Rightarrow> bool" where
  "isReferencing rc u \<longleftrightarrow> usReleaseChannelName (uSpec u) = rcName rc"

definition isTarget :: "release_channel \<Rightarrow> unleash \<Rightarrow> bool" where
  "isTarget rc u \<longleftrightarrow> usReleaseChannelName (uSpec u) = rcName rc \<and> usCustomImage (uSpec u) = []"

definition listing :: "('a \<Rightarrow> bool) \<Rightarrow> go_error + 'a list \<Rightarrow> go_error + 'a list" where
  "listing p r = (case r of
       Inl e \<Rightarrow> Inl (wrapf ''failed to list Unleash instances'' e)
     | Inr us \<Rightarrow> Inr (filter p us))"

definition getReferencingInstances :: "'v env \<Rightarrow> release_channel \<Rightarrow> (go_error + unleash list) action" where
  "getReferencingInstances E rc = do {
     r \<leftarrow> listUnleashes E (rcNamespace rc);
     ret (listing (isReferencing rc) r)
   }"

definition getTargetInstances :: "'v env \<Rightarrow> release_channel \<Rightarrow> (go_error + unleash list) action" where
  "getTargetInstances E rc = do {
     r \<leftarrow> listUnleashes E (rcNamespace rc);
     ret (listing (isTarget rc) r)
   }"

section \<open>The image an instance should run\<close>

definition expectedImageFor ::
  "('v, 'z) apimachinery_scheme \<Rightarrow> release_channel \<Rightarrow> unleash \<Rightarrow> string \<Rightarrow> string" where
  "expectedImageFor L rc u target =
     (let override = rbPreviousImage (spRollback (rcSpec rc));
          previous = stPreviousImage (rcStatus rc) in
      if rcPhase rc = PhaseRollingBack \<and> override \<noteq> [] then override
      else if breakGlassEnabled rc then target
      else if previous = [] then target
      else (case rcPhase rc of
              PhaseCanary \<Rightarrow> if isCanaryOf L rc u then target else previous
            | PhaseRolling \<Rightarrow> target
            | PhaseCompleted \<Rightarrow> target
            | PhaseRollingBack \<Rightarrow> previous
            | _ \<Rightarrow> target))"

definition getExpectedImageForInstance :: "'v env \<Rightarrow> unleash \<Rightarrow> string \<Rightarrow> string action" where
  "getExpectedImageForInstance E u target =
     (if usReleaseChannelName (uSpec u) = [] then ret target
      else do {
        got \<leftarrow> getChannel E (uNamespace u, usReleaseChannelName (uSpec u));
        ret (case got of Inl _ \<Rightarrow> target | Inr rc \<Rightarrow> expectedImageFor E rc u target)
      })"

section \<open>Assigning images\<close>

fun desiredImages :: "'v env \<Rightarrow> string \<Rightarrow> unleash list \<Rightarrow> string dict \<Rightarrow> string dict action" where
  "desiredImages E target [] desired = ret desired"
| "desiredImages E target (u # us) desired = do {
     img \<leftarrow> getExpectedImageForInstance E u target;
     desiredImages E target us (dictSet (uName u) img desired)
   }"

definition initImageMaps :: "channel_status \<Rightarrow> channel_status" where
  "initImageMaps st = st\<lparr>stInstanceImages := Some (orEmpty (stInstanceImages st)),
                         stLastTargetImages := Some (orEmpty (stLastTargetImages st))\<rparr>"

definition opensBatch :: "release_channel \<Rightarrow> bool" where
  "opensBatch fresh \<longleftrightarrow>
     rcPhase fresh = PhaseRolling \<and> (stActiveBatch (rcStatus fresh) = None \<or> breakGlassEnabled fresh)"

definition openBatch :: "string list \<Rightarrow> int \<Rightarrow> release_channel \<Rightarrow> release_channel" where
  "openBatch names now fresh =
     rcStatus_update (\<lambda>st. st\<lparr>stActiveBatch :=
       Some \<lparr>abInstanceNames = names, abTargetImage = rcImage fresh, abStartTime = now\<rparr>\<rparr>) fresh"

definition assignImage :: "string \<times> string \<Rightarrow> channel_status \<times> bool \<Rightarrow> channel_status \<times> bool" where
  "assignImage d s = (case (d, s) of ((name, img), (st, changed)) \<Rightarrow>
     (let differs = (assignedImage st name \<noteq> img) in
      (st\<lparr>stInstanceImages :=
            (if differs then Some (dictSet name img (orEmpty (stInstanceImages st))) else stInstanceImages st),
          stLastTargetImages := Some (dictSet name img (orEmpty (stLastTargetImages st)))\<rparr>,
       changed \<or> differs)))"

definition assignImages :: "string dict \<Rightarrow> channel_status \<Rightarrow> channel_status \<times> bool" where
  "assignImages desired st = fold assignImage desired (st, False)"

definition stampDeploy :: "int \<Rightarrow> channel_status \<Rightarrow> channel_status" where
  "stampDeploy now st =
     st\<lparr>stInstanceImagesGeneration := stInstanceImagesGeneration st + 1, stLastDeployTime := Some now\<rparr>"

definition deployAttempt ::
  "'v env \<Rightarrow> string list \<Rightarrow> string dict \<Rightarrow> release_channel \<Rightarrow> (go_error option \<times> release_channel) action" where
  "deployAttempt E names desired rc = do {
     got \<leftarrow> getChannel E (channelKey rc);
     (case got of
        Inl e \<Rightarrow> ret (Some e, rc)
      | Inr read \<Rightarrow> (let fresh = rcStatus_update initImageMaps read in do {
          batched \<leftarrow> (if opensBatch fresh
                      then do { now \<leftarrow> readClock E; ret (openBatch names now fresh) }
                      else ret fresh);
          (let (assigned, changed) = assignImages desired (rcStatus batched) in do {
             st \<leftarrow> (if changed then do { now \<leftarrow> readClock E; ret (stampDeploy now assigned) }
                    else ret assigned);
             wrote \<leftarrow> updateChannelStatus E (batched\<lparr>rcStatus := st\<rparr>);
             (case wrote of
                Inr stored \<Rightarrow> ret (None, stored)
              | Inl e \<Rightarrow> do {
                  _ \<leftarrow> (if isConflict e then emit (CountConflict (channelKey rc)) else ret ());
                  ret (Some e, rc) })
           })
        }))
   }"

definition deployToInstances :: "'v env \<Rightarrow> release_channel \<Rightarrow> unleash list \<Rightarrow> handler_ret action" where
  "deployToInstances E rc us = do {
     desired \<leftarrow> desiredImages E (rcImage rc) us [];
     (err, rc') \<leftarrow> retryOnConflict (eRetries E) (deployAttempt E (map uName us) desired) rc;
     ret (case err of
            Some e \<Rightarrow> ((resultZero, Some (wrapf ''failed to update ReleaseChannel status'' e)), rc')
          | None \<Rightarrow> ((resultZero, None), rc'))
   }"

section \<open>Observing instances\<close>

fun areInstancesReady :: "'v env \<Rightarrow> unleash list \<Rightarrow> string \<Rightarrow> bool \<Rightarrow> bool action" where
  "areInstancesReady E [] target requireConnected = ret True"
| "areInstancesReady E (u # us) target requireConnected = do {
     got \<leftarrow> getUnleash E (unleashKey u);
     (case got of
        Inl _ \<Rightarrow> ret False
      | Inr cur \<Rightarrow> do {
          expected \<leftarrow> getExpectedImageForInstance E cur target;
          (if resolvedImage cur \<noteq> expected then ret False
           else if \<not> instanceReady cur then ret False
           else if requireConnected \<and> \<not> instanceConnected cur then ret False
           else areInstancesReady E us target requireConnected)
        })
   }"

fun failedCondition :: "int \<Rightarrow> condition list \<Rightarrow> string option" where
  "failedCondition gen [] = None"
| "failedCondition gen (c # cs) =
     (if cType c = ConditionReconciled \<and> cStatus c = ConditionFalse \<and>
         cObservedGeneration c = gen \<and> cReason c = ''Failed''
      then Some (cMessage c) else failedCondition gen cs)"

definition instanceFailure :: "unleash \<Rightarrow> string option" where
  "instanceFailure u = failedCondition (mGeneration (uMeta u)) (utConditions (uStatus u))"

fun terminalInstanceFailure :: "'v env \<Rightarrow> unleash list \<Rightarrow> go_error option action" where
  "terminalInstanceFailure E [] = ret None"
| "terminalInstanceFailure E (u # us) = do {
     got \<leftarrow> getUnleash E (unleashKey u);
     (case got of
        Inl _ \<Rightarrow> ret None
      | Inr cur \<Rightarrow>
          (case instanceFailure cur of
             Some m \<Rightarrow> ret (Some (errorf (''instance '' @ uName cur @ '' failed: '' @ m)))
           | None \<Rightarrow> terminalInstanceFailure E us))
   }"

definition performHTTPHealthCheck :: "'v env \<Rightarrow> unleash \<Rightarrow> string \<Rightarrow> (bool \<times> go_error option) action" where
  "performHTTPHealthCheck E u endpoint = do {
     r \<leftarrow> httpGet E (unleashURL u @ endpoint);
     ret (case r of
            HttpBadRequest e \<Rightarrow> (False, Some (wrapf ''failed to create health check request'' e))
          | HttpFailed _ \<Rightarrow> (False, None)
          | HttpStatus code \<Rightarrow> if code < 200 \<or> code \<ge> 300 then (False, None) else (True, None))
   }"

fun checkEachInstance :: "'v env \<Rightarrow> release_channel \<Rightarrow> unleash list \<Rightarrow> (bool \<times> go_error option) action" where
  "checkEachInstance E rc [] = do {
     _ \<leftarrow> emit (CountHealthCheck (channelKey rc) ''success'');
     ret (True, None)
   }"
| "checkEachInstance E rc (u # us) = do {
     got \<leftarrow> getUnleash E (unleashKey u);
     (case got of
        Inl e \<Rightarrow> ret (False, Some (wrapf (''failed to get instance '' @ uName u) e))
      | Inr cur \<Rightarrow>
          (case instanceFailure cur of
             Some m \<Rightarrow> do {
               _ \<leftarrow> emit (CountHealthCheck (channelKey rc) ''failed'');
               ret (False, Some (errorf (''instance '' @ uName u @ '' failed: '' @ m))) }
           | None \<Rightarrow>
               if \<not> instanceConnected cur then ret (False, None)
               else if hcEndpoint (spHealthChecks (rcSpec rc)) = [] then checkEachInstance E rc us
               else do {
                 (healthy, err) \<leftarrow> performHTTPHealthCheck E cur (hcEndpoint (spHealthChecks (rcSpec rc)));
                 (case err of
                    Some e \<Rightarrow> do {
                      _ \<leftarrow> emit (CountHealthCheck (channelKey rc) ''failed'');
                      ret (False, Some (wrapf (''HTTP health check failed for instance '' @ uName u) e)) }
                  | None \<Rightarrow> if \<not> healthy then ret (False, None) else checkEachInstance E rc us)
               }))
   }"

definition performHealthChecks ::
  "'v env \<Rightarrow> unleash list \<Rightarrow> release_channel \<Rightarrow> int option \<Rightarrow> (bool \<times> go_error option) action" where
  "performHealthChecks E us rc startTime = (let
       initialDelay = durationOr releaseChannelHealthCheckInitialDelay (hcInitialDelay (spHealthChecks (rcSpec rc)))
     in do {
       waiting \<leftarrow> (case startTime of
                    None \<Rightarrow> ret False
                  | Some t \<Rightarrow> do { now \<leftarrow> readClock E; ret (since now t < initialDelay) });
       (if waiting then ret (False, None) else checkEachInstance E rc us)
     })"

section \<open>Guards\<close>

definition downgradeMessage :: "release_channel \<Rightarrow> string \<Rightarrow> nat \<Rightarrow> nat \<Rightarrow> string" where
  "downgradeMessage rc from count n =
     ''Refusing rollout: target image '' @ rcImage rc @ '' is an older version than '' @ from @
     '', which '' @ showNat count @ '' of '' @ showNat n @
     '' instance(s) run; set spec.allowDowngrade to override''"

text \<open>\<^const>\<open>Some\<close> outcome when the channel was handled and the caller returns it.\<close>

definition refuseDowngrade ::
  "'v env \<Rightarrow> release_channel \<Rightarrow> unleash list \<Rightarrow> (outcome option \<times> release_channel) action" where
  "refuseDowngrade E rc us =
     (case downgradeFrom E rc us of
        None \<Rightarrow> ret (None, rc)
      | Some (from, count) \<Rightarrow>
          (let message = downgradeMessage rc from count (length us);
               idle = rcStatus_update (\<lambda>st. st\<lparr>stPhase := PhaseIdle, stActiveBatch := None\<rparr>) rc;
               counted = updateInstanceCounts E idle us;
               refused = setReconciled E ConditionFalse ''DowngradeRefused'' message counted
           in do {
             _ \<leftarrow> recordMetrics counted;
             _ \<leftarrow> recordEvent ''Warning'' ''DowngradeRefused'' message;
             ((statusResult, err), rc') \<leftarrow> updateReleaseChannelStatus E refused;
             ret (case err of
                    Some e \<Rightarrow> (Some (statusResult, Some e), rc')
                  | None \<Rightarrow> (Some (resultAfter releaseChannelIdleRequeueInterval, None), rc'))
           }))"

definition captureAttempt ::
  "'v env \<Rightarrow> string \<Rightarrow> release_channel \<Rightarrow> (go_error option \<times> release_channel) action" where
  "captureAttempt E captured rc = do {
     got \<leftarrow> getChannel E (channelKey rc);
     (case got of
        Inl e \<Rightarrow> ret (Some e, rc)
      | Inr fresh \<Rightarrow>
          if stPreviousImage (rcStatus fresh) = captured then ret (None, fresh)
          else if captured = rcImage fresh then ret (None, fresh)
          else do {
            now \<leftarrow> readClock E;
            (let marked = rcStatus_update (\<lambda>st. st\<lparr>stPreviousImage := captured,
                                                   stLastImageChangeTime := Some now\<rparr>) fresh
             in do {
               wrote \<leftarrow> updateChannelStatus E marked;
               ret (case wrote of Inl e \<Rightarrow> (Some e, marked) | Inr stored \<Rightarrow> (None, stored))
             })
          })
   }"

definition ensurePreviousImageTracked ::
  "'v env \<Rightarrow> release_channel \<Rightarrow> unleash list \<Rightarrow> ((bool \<times> go_error option) \<times> release_channel) action" where
  "ensurePreviousImageTracked E rc us =
     (if us = [] then ret ((False, None), rc)
      else let current = rollbackBaseline us in
        if current = [] \<and> length (deployedImages us) > 1 then ret ((False, None), rc)
        else if current \<noteq> [] \<and> current \<noteq> rcImage rc \<and> stPreviousImage (rcStatus rc) \<noteq> current
        then do {
          (err, rc') \<leftarrow> retryOnConflict (eRetries E) (captureAttempt E current) rc;
          ret (case err of Some e \<Rightarrow> ((False, Some e), rc') | None \<Rightarrow> ((True, None), rc'))
        }
        else ret ((False, None), rc))"

end
