(* ===== verification/ChannelPhases.thy ===== *)
theory ChannelPhases
  imports ChannelDeploy
begin

text \<open>
  The phase handlers of a ReleaseChannel
  (\<open>internal/controller/releasechannel_controller.go\<close>, \<open>executePhase\<close> and the
  \<open>execute...Phase\<close> methods). The long handlers are cut where the source has its blank
  lines: a step that may handle the channel returns an optional outcome, and
  \<open>orElse\<close> continues with the rest of the function when it did not.
\<close>

definition orElse :: "handler_ret option action \<Rightarrow> handler_ret action \<Rightarrow> handler_ret action" where
  "orElse step rest = do {
     handled \<leftarrow> step;
     (case handled of Some h \<Rightarrow> ret h | None \<Rightarrow> rest)
   }"

definition answering :: "handler_ret action \<Rightarrow> handler_ret option action" where
  "answering m = do { h \<leftarrow> m; ret (Some h) }"

definition setPhase :: "phase \<Rightarrow> release_channel \<Rightarrow> release_channel" where
  "setPhase ph rc = rcStatus_update (\<lambda>st. st\<lparr>stPhase := ph\<rparr>) rc"

definition setFailure :: "phase \<Rightarrow> string \<Rightarrow> release_channel \<Rightarrow> release_channel" where
  "setFailure ph reason rc = rcStatus_update (\<lambda>st. st\<lparr>stPhase := ph, stFailureReason := reason\<rparr>) rc"

definition clearBatch :: "release_channel \<Rightarrow> release_channel" where
  "clearBatch rc = rcStatus_update (\<lambda>st. st\<lparr>stActiveBatch := None\<rparr>) rc"

lemmas status_edits = setPhase_def setFailure_def clearBatch_def

text \<open>The status is written, but an error of the write is only logged.\<close>

definition tryUpdateStatus :: "'v env \<Rightarrow> release_channel \<Rightarrow> release_channel action" where
  "tryUpdateStatus E rc = do { (_, rc') \<leftarrow> updateReleaseChannelStatus E rc; ret rc' }"

text \<open>The status is written before waiting; an error of the write is returned.\<close>

definition updateThenAfter :: "'v env \<Rightarrow> release_channel \<Rightarrow> int \<Rightarrow> handler_ret action" where
  "updateThenAfter E rc d = do {
     ((_, err), rc') \<leftarrow> updateReleaseChannelStatus E rc;
     ret (case err of Some e \<Rightarrow> ((resultZero, Some e), rc') | None \<Rightarrow> ((resultAfter d, None), rc'))
   }"

section \<open>Idle\<close>

fun instancesOffTarget :: "'v env \<Rightarrow> string \<Rightarrow> unleash list \<Rightarrow> unleash list action" where
  "instancesOffTarget E target [] = ret []"
| "instancesOffTarget E target (u # us) = do {
     expected \<leftarrow> getExpectedImageForInstance E u target;
     rest \<leftarrow> instancesOffTarget E target us;
     ret (if resolvedImage u \<noteq> expected then u # rest else rest)
   }"

definition idleWithoutInstances :: "'v env \<Rightarrow> release_channel \<Rightarrow> handler_ret action" where
  "idleWithoutInstances E rc =
     updateReleaseChannelStatus E (updateConditionForPhase E
       (rcStatus_update (\<lambda>st. st\<lparr>stPhase := PhaseIdle, stInstances := 0, stInstancesUpToDate := 0,
                                 stRollout := False\<rparr>) rc))"

definition idleUpToDate :: "'v env \<Rightarrow> release_channel \<Rightarrow> unleash list \<Rightarrow> handler_ret action" where
  "idleUpToDate E rc us = (let counted = updateInstanceCounts E (adoptUpToDateInstances rc us) us in do {
     _ \<leftarrow> recordMetrics counted;
     ((statusResult, err), rc') \<leftarrow> updateReleaseChannelStatus E counted;
     ret (case err of
            Some e \<Rightarrow> ((statusResult, Some e), rc')
          | None \<Rightarrow> ((resultAfter releaseChannelIdleRequeueInterval, None), rc'))
   })"

definition rolloutPhase :: "release_channel \<Rightarrow> phase" where
  "rolloutPhase rc = (if canaryEnabled (sgCanary (spStrategy (rcSpec rc))) then PhaseCanary else PhaseRolling)"

definition startRollout :: "'v env \<Rightarrow> release_channel \<Rightarrow> unleash list \<Rightarrow> handler_ret action" where
  "startRollout E rc us = (let
       current = rollbackBaseline us;
       based = (if stPreviousImage (rcStatus rc) = [] \<and> current \<noteq> []
                then rcStatus_update (\<lambda>st. st\<lparr>stPreviousImage := current\<rparr>) rc else rc);
       counted = updateInstanceCounts E based us
     in do {
       _ \<leftarrow> recordMetrics counted;
       now \<leftarrow> readClock E;
       (let started = rcStatus_update (\<lambda>st. st\<lparr>stStartTime := Some now\<rparr>) counted;
            ph = rolloutPhase started;
            moved = setPhase ph started
        in do {
          _ \<leftarrow> recordPhaseTransition moved ph;
          updateReleaseChannelStatus E moved
        })
     })"

definition executeIdlePhase :: "'v env \<Rightarrow> release_channel \<Rightarrow> handler_ret action" where
  "executeIdlePhase E rc0 = (let rc = clearBatch rc0 in do {
     listed \<leftarrow> getTargetInstances E rc;
     (case listed of
        Inl e \<Rightarrow> ret ((resultZero, Some (wrapf ''failed to get target instances'' e)), rc)
      | Inr us \<Rightarrow>
          if us = [] then idleWithoutInstances E rc
          else do {
            ((_, err), rc1) \<leftarrow> ensurePreviousImageTracked E rc us;
            (case err of
               Some e \<Rightarrow> ret ((resultAfter releaseChannelErrorRetryDelay, Some e), rc1)
             | None \<Rightarrow> do {
                 pending \<leftarrow> instancesOffTarget E (rcImage rc) us;
                 (if pending = [] then idleUpToDate E rc1 us
                  else do {
                    (refused, rc2) \<leftarrow> refuseDowngrade E rc1 us;
                    (case refused of
                       Some out \<Rightarrow> ret (out, rc2)
                     | None \<Rightarrow> startRollout E rc2 us)
                  })
               })
          })
   })"

section \<open>Completed\<close>

definition clearRolloutState :: "release_channel \<Rightarrow> release_channel" where
  "clearRolloutState rc =
     rcStatus_update (\<lambda>st. st\<lparr>stPhase := PhaseIdle, stStartTime := None, stFailureReason := [],
       stRetryCount := 0, stLastFailureTime := None, stActiveBatch := None, stFailedImage := [],
       stResumeProgress := 0\<rparr>) rc"

definition executeCompletedPhase :: "'v env \<Rightarrow> release_channel \<Rightarrow> handler_ret action" where
  "executeCompletedPhase E rc = updateReleaseChannelStatus E (clearRolloutState rc)"

section \<open>Failed\<close>

text \<open>Back to Idle with the failure forgotten; some callers clear less.\<close>

definition forgetFailure :: "release_channel \<Rightarrow> release_channel" where
  "forgetFailure rc =
     rcStatus_update (\<lambda>st. st\<lparr>stPhase := PhaseIdle, stFailureReason := [], stFailedImage := [],
       stRetryCount := 0, stLastFailureTime := None\<rparr>) rc"

definition forgetFailureAndStart :: "release_channel \<Rightarrow> release_channel" where
  "forgetFailureAndStart rc = rcStatus_update (\<lambda>st. st\<lparr>stStartTime := None\<rparr>) (forgetFailure rc)"

definition failedBreakGlass :: "'v env \<Rightarrow> release_channel \<Rightarrow> handler_ret option action" where
  "failedBreakGlass E rc =
     (if \<not> breakGlassEnabled rc then ret None
      else do {
        listed \<leftarrow> getTargetInstances E rc;
        (case listed of
           Inl e \<Rightarrow> ret (Some ((resultZero, Some (wrapf ''getting target instances for failed rollout'' e)), rc))
         | Inr us \<Rightarrow>
             if \<not> breakGlassAssignmentsNeeded us rc then ret None
             else answering (do {
               _ \<leftarrow> recordEvent ''Warning'' ''BreakGlassRetry''
                      (''Retrying failed rollout with break-glass image '' @ rcImage rc);
               _ \<leftarrow> recordPhaseTransition rc PhaseIdle;
               updateReleaseChannelStatus E (forgetFailureAndStart rc)
             }))
      })"

definition failedImageMoved :: "release_channel \<Rightarrow> bool" where
  "failedImageMoved rc \<longleftrightarrow> stFailedImage (rcStatus rc) \<noteq> [] \<and> rcImage rc \<noteq> stFailedImage (rcStatus rc)"

definition failedRetryImage :: "'v env \<Rightarrow> release_channel \<Rightarrow> handler_ret option action" where
  "failedRetryImage E rc =
     (if \<not> failedImageMoved rc then ret None
      else answering (let cleared = forgetFailure rc in do {
        _ \<leftarrow> recordPhaseTransition rc PhaseIdle;
        _ \<leftarrow> recordEvent ''Normal'' ''RetryAfterImageChange''
               (''Retrying rollout with '' @ rcImage cleared @ '' after failure on '' @
                stFailedImage (rcStatus cleared));
        updateReleaseChannelStatus E cleared
      }))"

definition markFailedImage :: "release_channel \<Rightarrow> release_channel" where
  "markFailedImage rc =
     (if stFailedImage (rcStatus rc) = []
      then rcStatus_update (\<lambda>st. st\<lparr>stFailedImage := rcImage rc\<rparr>) rc else rc)"

definition failedBudgetRaised :: "'v env \<Rightarrow> release_channel \<Rightarrow> handler_ret option action" where
  "failedBudgetRaised E rc =
     (if stStartTime (rcStatus rc) = None then ret None
      else do {
        (exceeded, _) \<leftarrow> checkMaxUpgradeTimeExceeded E rc;
        (if exceeded then ret None
         else answering (do {
           _ \<leftarrow> recordEvent ''Normal'' ''RolloutBudgetIncreased''
                  ''Resuming rollout because spec.strategy.maxUpgradeTime now exceeds the elapsed rollout time'';
           _ \<leftarrow> recordPhaseTransition rc PhaseIdle;
           updateReleaseChannelStatus E (forgetFailureAndStart rc)
         }))
      })"

definition resumeProgressing :: "release_channel \<Rightarrow> release_channel" where
  "resumeProgressing rc =
     rcStatus_update (\<lambda>st. st\<lparr>stResumeProgress := stInstancesUpToDate st, stPhase := PhaseIdle,
       stFailureReason := [], stFailedImage := [], stStartTime := None\<rparr>) rc"

definition failedResume :: "'v env \<Rightarrow> release_channel \<Rightarrow> handler_ret option action" where
  "failedResume E rc = (let
       base = stResumeProgress (rcStatus rc);
       reached = stInstancesUpToDate (rcStatus rc) in
     if base > reached then answering (do {
       _ \<leftarrow> recordEvent ''Warning'' ''RolloutProgressReset''
              (''Resetting invalid rollout progress baseline ('' @ showInt base @ '' > '' @
               showInt reached @ '') before retrying'');
       _ \<leftarrow> recordPhaseTransition rc PhaseIdle;
       updateReleaseChannelStatus E
         (forgetFailureAndStart (rcStatus_update (\<lambda>st. st\<lparr>stResumeProgress := 0\<rparr>) rc))
     })
     else if reached > base then answering (do {
       _ \<leftarrow> recordEvent ''Warning'' ''RolloutResumed''
              (''Rollout ran out of budget with '' @ showInt reached @ ''/'' @
               showInt (stInstances (rcStatus rc)) @ '' instances updated and is being resumed: '' @
               stFailureReason (rcStatus rc));
       _ \<leftarrow> recordPhaseTransition rc PhaseIdle;
       updateReleaseChannelStatus E (resumeProgressing rc)
     })
     else ret None)"

definition retryAgain :: "release_channel \<Rightarrow> release_channel" where
  "retryAgain rc =
     rcStatus_update (\<lambda>st. st\<lparr>stRetryCount := stRetryCount st + 1, stPhase := PhaseIdle,
       stFailureReason := [], stLastFailureTime := None\<rparr>) rc"

definition failedTransient :: "'v env \<Rightarrow> release_channel \<Rightarrow> handler_ret option action" where
  "failedTransient E rc =
     (if \<not> isTransientError (stFailureReason (rcStatus rc)) then ret None
      else if \<not> stRetryCount (rcStatus rc) < releaseChannelMaxTransientRetries then ret None
      else answering (do {
        now \<leftarrow> readClock E;
        (case stLastFailureTime (rcStatus rc) of
           None \<Rightarrow> updateReleaseChannelStatus E
                     (rcStatus_update (\<lambda>st. st\<lparr>stLastFailureTime := Some now\<rparr>) rc)
         | Some failed \<Rightarrow>
             (let backoff = calculateTransientBackoff (stRetryCount (rcStatus rc));
                  timeSinceFailure = since now failed;
                  retried = retryAgain rc in
              if timeSinceFailure \<ge> backoff then do {
                _ \<leftarrow> emit (CountTransientRetry (channelKey rc));
                _ \<leftarrow> recordEvent ''Normal'' ''TransientRetry''
                       (''Auto-retrying after transient failure (attempt '' @
                        showInt (stRetryCount (rcStatus retried)) @ ''/'' @
                        showInt releaseChannelMaxTransientRetries @ '')'');
                updateReleaseChannelStatus E retried
              }
              else ret ((resultAfter (wrap64 (backoff - timeSinceFailure)), None), rc)))
      }))"

definition rollbackUnavailableMessage :: "release_channel \<Rightarrow> string" where
  "rollbackUnavailableMessage rc =
     ''Rollout failed and cannot be rolled back automatically: no rollback baseline was captured. '' @
     ''Original failure: '' @ stFailureReason (rcStatus rc) @
     ''. Set spec.rollback.previousImage to roll back explicitly, or correct spec.image.''"

definition rollbackUnavailable :: "'v env \<Rightarrow> release_channel \<Rightarrow> handler_ret action" where
  "rollbackUnavailable E rc =
     (if (case findStatusCondition E (stConditions (rcStatus rc)) ConditionReconciled of
            None \<Rightarrow> False | Some c \<Rightarrow> cReason c = ''RollbackUnavailable'')
      then ret ((resultZero, None), rc)
      else let message = rollbackUnavailableMessage rc in do {
        _ \<leftarrow> recordEvent ''Warning'' ''RollbackUnavailable'' message;
        ((_, err), rc') \<leftarrow> updateReleaseChannelStatus E
            (setReconciled E ConditionFalse ''RollbackUnavailable'' message rc);
        ret (case err of Some e \<Rightarrow> ((resultZero, Some e), rc') | None \<Rightarrow> ((resultZero, None), rc'))
      })"

definition failedRollback :: "'v env \<Rightarrow> release_channel \<Rightarrow> handler_ret action" where
  "failedRollback E rc =
     (if rbEnabled (spRollback (rcSpec rc)) \<and> rbOnFailure (spRollback (rcSpec rc)) then
        (if rollbackTarget rc \<noteq> [] then do {
           _ \<leftarrow> recordPhaseTransition rc PhaseRollingBack;
           _ \<leftarrow> recordEvent ''Warning'' ''AutomaticRollback''
                  (''Automatic rollback triggered due to: '' @ stFailureReason (rcStatus rc));
           updateReleaseChannelStatus E (setPhase PhaseRollingBack rc)
         }
         else rollbackUnavailable E rc)
      else updateThenAfter E rc releaseChannelFailedRetryDelay)"

definition executeFailedPhase :: "'v env \<Rightarrow> release_channel \<Rightarrow> handler_ret action" where
  "executeFailedPhase E rc =
     (if stActiveBatch (rcStatus rc) \<noteq> None then updateReleaseChannelStatus E (clearBatch rc)
      else orElse (failedBreakGlass E rc)
        (orElse (failedRetryImage E rc)
          (let marked = markFailedImage rc;
               rest = orElse (failedTransient E marked) (failedRollback E marked) in
           if isUpgradeTimeout (stFailureReason (rcStatus marked))
           then orElse (failedBudgetRaised E marked) (orElse (failedResume E marked) rest)
           else rest)))"

section \<open>Validating\<close>

text \<open>\<open>r.Status().Update\<close> whose error is only logged: on success the answer overwrites the
  object, on failure the object in memory is kept.\<close>

definition writeStatusOrKeep :: "'v env \<Rightarrow> release_channel \<Rightarrow> release_channel action" where
  "writeStatusOrKeep E rc = do {
     wrote \<leftarrow> updateChannelStatus E rc;
     ret (case wrote of Inl _ \<Rightarrow> rc | Inr stored \<Rightarrow> stored)
   }"

definition executeValidatingPhase :: "'v env \<Rightarrow> release_channel \<Rightarrow> handler_ret action" where
  "executeValidatingPhase E rc =
     (if rcImage rc = []
      then ret ((resultZero, None), setFailure PhaseFailed ''Invalid image specification'' rc)
      else do {
        listed \<leftarrow> getTargetInstances E rc;
        (case listed of
           Inl e \<Rightarrow> ret ((resultZero, Some e),
                       setFailure PhaseFailed (''Failed to get target instances: '' @ errorMsg e) rc)
         | Inr us \<Rightarrow>
             if us = [] then ret ((resultAfter releaseChannelValidatingRetryDelay, None), setPhase PhaseIdle rc)
             else do {
               (refused, rc1) \<leftarrow> refuseDowngrade E rc us;
               (case refused of
                  Some out \<Rightarrow> ret (out, rc1)
                | None \<Rightarrow> (let counted = updateInstanceCounts E rc1 us in do {
                    _ \<leftarrow> recordMetrics counted;
                    written \<leftarrow> writeStatusOrKeep E counted;
                    (let ph = rolloutPhase written; moved = setPhase ph written in do {
                      _ \<leftarrow> recordPhaseTransition moved ph;
                      ret ((resultAfter releaseChannelValidatingTransition, None), moved)
                    })
                  }))
             })
      })"

section \<open>Gates shared by the canary and the rolling phase\<close>

text \<open>The rollout ran out of its budget and no break-glass assignment is pending.\<close>

definition rolloutTimeout ::
  "'v env \<Rightarrow> (release_channel \<Rightarrow> release_channel) \<Rightarrow> release_channel \<Rightarrow> unleash list \<Rightarrow> handler_ret option action" where
  "rolloutTimeout E also_clear rc us = do {
     (exceeded, reason) \<leftarrow> checkMaxUpgradeTimeExceeded E rc;
     (if exceeded \<and> \<not> breakGlassAssignmentsNeeded us rc
      then answering (let ph = releasePhaseOnFailure rc in do {
        _ \<leftarrow> recordPhaseTransition rc ph;
        _ \<leftarrow> recordEvent ''Warning'' ''RolloutTimeout'' reason;
        updateReleaseChannelStatus E (setFailure ph reason (also_clear rc))
      })
      else ret None)
   }"

definition breakGlassMessage :: "string \<Rightarrow> release_channel \<Rightarrow> unleash list \<Rightarrow> string" where
  "breakGlassMessage gates rc us =
     ''Assigning '' @ rcImage rc @ '' to all '' @ showNat (length us) @ '' instances without '' @ gates"

definition breakGlassRollout ::
  "'v env \<Rightarrow> string \<Rightarrow> release_channel \<Rightarrow> unleash list \<Rightarrow> handler_ret option action" where
  "breakGlassRollout E gates rc us =
     (if breakGlassAssignmentsNeeded us rc
      then answering (do {
        _ \<leftarrow> recordEvent ''Warning'' ''BreakGlassRollout'' (breakGlassMessage gates rc us);
        deployToInstances E rc us
      })
      else ret None)"

text \<open>A failed rollout whose handler reports the outcome of the status write.\<close>

definition failRollout :: "'v env \<Rightarrow> release_channel \<Rightarrow> string \<Rightarrow> handler_ret action" where
  "failRollout E rc reason = (let
       ph = releasePhaseOnFailure rc;
       failed = setFailure ph reason rc
     in do {
       _ \<leftarrow> recordPhaseTransition rc ph;
       _ \<leftarrow> recordMetrics failed;
       updateReleaseChannelStatus E failed
     })"

text \<open>A failed rollout whose handler returns the error; the write is best effort.\<close>

definition failRolloutWith :: "'v env \<Rightarrow> release_channel \<Rightarrow> string \<Rightarrow> go_error \<Rightarrow> handler_ret action" where
  "failRolloutWith E rc reason e = do {
     (_, rc') \<leftarrow> failRollout E rc reason;
     ret ((resultZero, Some e), rc')
   }"

section \<open>Canary\<close>

definition canaryVerified :: "'v env \<Rightarrow> release_channel \<Rightarrow> handler_ret action" where
  "canaryVerified E rc = (let moved = setPhase PhaseRolling rc in do {
     _ \<leftarrow> recordPhaseTransition rc PhaseRolling;
     _ \<leftarrow> recordMetrics moved;
     updateReleaseChannelStatus E moved
   })"

definition canaryGate :: "'v env \<Rightarrow> release_channel \<Rightarrow> unleash list \<Rightarrow> handler_ret action" where
  "canaryGate E rc canaries = do {
     failure \<leftarrow> terminalInstanceFailure E canaries;
     (case failure of
        Some e \<Rightarrow> failRollout E rc (''Canary deployment failed: '' @ errorMsg e)
      | None \<Rightarrow> do {
          complete \<leftarrow> areInstancesReady E canaries (rcImage rc) True;
          (if \<not> complete then updateThenAfter E rc releaseChannelCanaryWaitDelay
           else if \<not> hcEnabled (spHealthChecks (rcSpec rc)) then canaryVerified E rc
           else do {
             (healthy, err) \<leftarrow> performHealthChecks E canaries rc (settleReference rc);
             (case err of
                Some e \<Rightarrow> failRolloutWith E rc (''Canary health check failed: '' @ errorMsg e) e
              | None \<Rightarrow> if \<not> healthy then ret ((resultAfter releaseChannelCanaryWaitDelay, None), rc)
                        else canaryVerified E rc)
           })
        })
   }"

definition canaryDeploy :: "'v env \<Rightarrow> release_channel \<Rightarrow> unleash list \<Rightarrow> handler_ret action" where
  "canaryDeploy E rc us = (let canaries = getCanaryInstances E us rc in
     if canaries = [] then do {
       _ \<leftarrow> recordPhaseTransition rc PhaseRolling;
       updateReleaseChannelStatus E (setPhase PhaseRolling rc)
     }
     else do {
       ((_, err), rc1) \<leftarrow> deployToInstances E rc us;
       (case err of
          Some e \<Rightarrow>
            if isConflict e then ret ((resultZero, Some e), rc1)
            else failRolloutWith E rc1 (''Canary deployment failed: '' @ errorMsg e) e
        | None \<Rightarrow> (let counted = updateInstanceCounts E rc1 us in do {
            _ \<leftarrow> recordMetrics counted;
            canaryGate E counted canaries
          }))
     })"

definition executeCanaryPhase :: "'v env \<Rightarrow> release_channel \<Rightarrow> handler_ret action" where
  "executeCanaryPhase E rc = do {
     listed \<leftarrow> getTargetInstances E rc;
     (case listed of
        Inl e \<Rightarrow> ret ((resultZero, Some e),
                    setFailure PhaseFailed (''Failed to get target instances: '' @ errorMsg e) rc)
      | Inr us \<Rightarrow> do {
          (refused, rc1) \<leftarrow> refuseDowngrade E rc us;
          (case refused of
             Some out \<Rightarrow> ret (out, rc1)
           | None \<Rightarrow>
               orElse (rolloutTimeout E id rc1 us) (do {
                 ((_, err), rc2) \<leftarrow> ensurePreviousImageTracked E rc1 us;
                 (case err of
                    Some e \<Rightarrow> ret ((resultAfter releaseChannelErrorRetryDelay, Some e), rc2)
                  | None \<Rightarrow>
                      orElse (breakGlassRollout E ''progressive rollout gates'' rc2 us)
                             (canaryDeploy E rc2 us))
               }))
        })
   }"

section \<open>Rolling\<close>

definition batchCompleted :: "'v env \<Rightarrow> release_channel \<Rightarrow> handler_ret action" where
  "batchCompleted E rc =
     do {
       ((_, err), rc') \<leftarrow> updateReleaseChannelStatus E (clearBatch rc);
       ret (case err of
              Some e \<Rightarrow> ((resultZero, Some e), rc')
            | None \<Rightarrow> ((resultAfter (durationOr releaseChannelBatchInterval
                                      (sgBatchInterval (spStrategy (rcSpec rc')))), None), rc'))
     }"

definition batchTargetImage :: "release_channel \<Rightarrow> active_batch \<Rightarrow> string" where
  "batchTargetImage rc batch = (if abTargetImage batch = [] then rcImage rc else abTargetImage batch)"

definition rollingActiveBatch :: "'v env \<Rightarrow> release_channel \<Rightarrow> unleash list \<Rightarrow> active_batch \<Rightarrow> handler_ret action" where
  "rollingActiveBatch E rc us active = (let batch = activeBatchInstances us active in
     if batch = [] then updateReleaseChannelStatus E (clearBatch rc)
     else do {
       failure \<leftarrow> terminalInstanceFailure E batch;
       (case failure of
          Some e \<Rightarrow> failRollout E (clearBatch rc) (''Rolling deployment failed: '' @ errorMsg e)
        | None \<Rightarrow> do {
            ready \<leftarrow> areInstancesReady E batch (batchTargetImage rc active) True;
            (if \<not> ready then do { d \<leftarrow> getBackoffDuration E rc; ret ((resultAfter d, None), rc) }
             else if \<not> hcEnabled (spHealthChecks (rcSpec rc)) then batchCompleted E rc
             else do {
               (healthy, err) \<leftarrow> performHealthChecks E batch rc (Some (abStartTime active));
               (case err of
                  Some e \<Rightarrow> failRollout E (clearBatch rc)
                              (''Rolling deployment health check failed: '' @ errorMsg e)
                | None \<Rightarrow> if \<not> healthy then ret ((resultAfter releaseChannelRollingWaitDelay, None), rc)
                          else batchCompleted E rc)
             })
          })
     })"

definition rolloutCompleted :: "'v env \<Rightarrow> release_channel \<Rightarrow> handler_ret action" where
  "rolloutCompleted E rc = (let moved = setPhase PhaseCompleted rc in do {
     _ \<leftarrow> recordPhaseTransition rc PhaseCompleted;
     _ \<leftarrow> recordMetrics moved;
     updateReleaseChannelStatus E moved
   })"

definition rollingCompletion :: "'v env \<Rightarrow> release_channel \<Rightarrow> unleash list \<Rightarrow> handler_ret action" where
  "rollingCompletion E rc us = do {
     failure \<leftarrow> terminalInstanceFailure E us;
     (case failure of
        Some e \<Rightarrow> failRollout E rc (''Rolling deployment failed: '' @ errorMsg e)
      | None \<Rightarrow> do {
          ready \<leftarrow> areInstancesReady E us (rcImage rc) True;
          (if \<not> ready then do { d \<leftarrow> getBackoffDuration E rc; ret ((resultAfter d, None), rc) }
           else if \<not> hcEnabled (spHealthChecks (rcSpec rc)) then rolloutCompleted E rc
           else do {
             (healthy, err) \<leftarrow> performHealthChecks E us rc (settleReference rc);
             (case err of
                Some e \<Rightarrow> failRollout E rc (''Rolling deployment health check failed: '' @ errorMsg e)
              | None \<Rightarrow> if \<not> healthy then ret ((resultAfter releaseChannelRollingWaitDelay, None), rc)
                        else rolloutCompleted E rc)
           })
        })
   }"

definition nextBatch :: "release_channel \<Rightarrow> unleash list \<Rightarrow> unleash list" where
  "nextBatch rc pending =
     take (nat (min (int (length pending)) (effectiveMaxParallel rc))) pending"

definition rollingNextBatch :: "'v env \<Rightarrow> release_channel \<Rightarrow> unleash list \<Rightarrow> handler_ret action" where
  "rollingNextBatch E rc pending = do {
     ((_, err), rc1) \<leftarrow> deployToInstances E rc (nextBatch rc pending);
     (case err of
        Some e \<Rightarrow>
          if isConflict e then ret ((resultZero, Some e), rc1)
          else failRolloutWith E (clearBatch rc1) (''Rolling deployment failed: '' @ errorMsg e) e
      | None \<Rightarrow> ret ((resultAfter releaseChannelRollingWaitDelay, None), rc1))
   }"

definition rollingStep :: "'v env \<Rightarrow> release_channel \<Rightarrow> unleash list \<Rightarrow> handler_ret action" where
  "rollingStep E rc us = (let counted = updateInstanceCounts E rc us in do {
     _ \<leftarrow> recordMetrics counted;
     rc1 \<leftarrow> tryUpdateStatus E counted;
     (case stActiveBatch (rcStatus rc1) of
        Some active \<Rightarrow> rollingActiveBatch E rc1 us active
      | None \<Rightarrow> (let pending = getInstancesToUpdate us rc1 in
          if pending = [] then rollingCompletion E rc1 us else rollingNextBatch E rc1 pending))
   })"

definition rollingRecover :: "'v env \<Rightarrow> release_channel \<Rightarrow> unleash list \<Rightarrow> handler_ret option action" where
  "rollingRecover E rc us =
     (if stActiveBatch (rcStatus rc) \<noteq> None then ret None
      else do {
        recovered \<leftarrow> recoverActiveBatch E us rc;
        (case recovered of
           None \<Rightarrow> ret None
         | Some batch \<Rightarrow> answering (updateReleaseChannelStatus E
             (rcStatus_update (\<lambda>st. st\<lparr>stActiveBatch := Some batch\<rparr>) rc)))
      })"

definition rollingListFailed :: "'v env \<Rightarrow> release_channel \<Rightarrow> go_error \<Rightarrow> handler_ret action" where
  "rollingListFailed E rc e = (let
       failed = clearBatch (setFailure PhaseFailed (''Failed to get target instances: '' @ errorMsg e) rc)
     in do {
       _ \<leftarrow> recordPhaseTransition rc PhaseFailed;
       _ \<leftarrow> recordMetrics failed;
       rc' \<leftarrow> tryUpdateStatus E failed;
       ret ((resultZero, Some e), rc')
     })"

definition executeRollingPhase :: "'v env \<Rightarrow> release_channel \<Rightarrow> handler_ret action" where
  "executeRollingPhase E rc = do {
     listed \<leftarrow> getTargetInstances E rc;
     (case listed of
        Inl e \<Rightarrow> rollingListFailed E rc e
      | Inr us \<Rightarrow> do {
          (refused, rc1) \<leftarrow> refuseDowngrade E rc us;
          (case refused of
             Some out \<Rightarrow> ret (out, rc1)
           | None \<Rightarrow>
               orElse (rolloutTimeout E clearBatch rc1 us) (do {
                 ((_, err), rc2) \<leftarrow> ensurePreviousImageTracked E rc1 us;
                 (case err of
                    Some e \<Rightarrow> ret ((resultAfter releaseChannelErrorRetryDelay, Some e), rc2)
                  | None \<Rightarrow>
                      orElse (breakGlassRollout E ''rollout gates'' rc2 us)
                        (orElse (rollingRecover E rc2 us) (rollingStep E rc2 us)))
               }))
        })
   }"

section \<open>Rolling back\<close>

definition noRollbackImageReason :: string where
  "noRollbackImageReason =
     ''No previous image available for rollback (neither spec.rollback.previousImage nor '' @
     ''status.previousImage is set)''"

definition rollbackUnknown :: "'v env \<Rightarrow> release_channel \<Rightarrow> handler_ret action" where
  "rollbackUnknown E rc = (let failed = setFailure PhaseFailed noRollbackImageReason rc in do {
     _ \<leftarrow> recordPhaseTransition rc PhaseFailed;
     _ \<leftarrow> recordMetrics failed;
     updateReleaseChannelStatus E failed
   })"

definition rollbackListFailed :: "'v env \<Rightarrow> release_channel \<Rightarrow> go_error \<Rightarrow> handler_ret action" where
  "rollbackListFailed E rc e = (let
       failed = setFailure PhaseFailed (''Failed to get target instances for rollback: '' @ errorMsg e) rc
     in do {
       _ \<leftarrow> recordPhaseTransition rc PhaseFailed;
       _ \<leftarrow> recordMetrics failed;
       rc' \<leftarrow> tryUpdateStatus E failed;
       ret ((resultZero, Some e), rc')
     })"

text \<open>Assigning \<open>image\<close> to every instance; a name that already has it is left alone.\<close>

definition assignRollback :: "string \<Rightarrow> unleash list \<Rightarrow> release_channel \<Rightarrow> release_channel" where
  "assignRollback img us rc =
     rcStatus_update (\<lambda>st. st\<lparr>
       stInstanceImages :=
         Some (fold (\<lambda>u m. if dictGet m (uName u) \<noteq> img then dictSet (uName u) img m else m) us
                (orEmpty (stInstanceImages st))),
       stInstanceImagesGeneration := stInstanceImagesGeneration st + 1\<rparr>) rc"

definition rollbackDone :: "release_channel \<Rightarrow> release_channel" where
  "rollbackDone rc =
     rcStatus_update (\<lambda>st. st\<lparr>stPreviousImage := [], stPhase := PhaseIdle, stRetryCount := 0,
                              stLastFailureTime := None\<rparr>) rc"

definition rollbackObserve :: "'v env \<Rightarrow> release_channel \<Rightarrow> unleash list \<Rightarrow> string \<Rightarrow> handler_ret action" where
  "rollbackObserve E rc us img = do {
     failure \<leftarrow> terminalInstanceFailure E us;
     (case failure of
        Some e \<Rightarrow> (let failed = setFailure PhaseFailed (''Rollback failed: '' @ errorMsg e) rc in do {
          _ \<leftarrow> recordMetrics failed;
          updateReleaseChannelStatus E failed
        })
      | None \<Rightarrow> do {
          complete \<leftarrow> areInstancesReady E us img False;
          (if \<not> complete then do {
             _ \<leftarrow> recordMetrics rc;
             ret ((resultAfter releaseChannelRollingBackWaitDelay, None), rc)
           }
           else do {
             _ \<leftarrow> recordMetrics (rollbackDone rc);
             updateReleaseChannelStatus E (rollbackDone rc)
           })
        })
   }"

definition executeRollingBackPhase :: "'v env \<Rightarrow> release_channel \<Rightarrow> handler_ret action" where
  "executeRollingBackPhase E rc0 = (let rc = clearBatch rc0; img = rollbackTarget rc in
     if img = [] then rollbackUnknown E rc
     else do {
       listed \<leftarrow> getTargetInstances E rc;
       (case listed of
          Inl e \<Rightarrow> rollbackListFailed E rc e
        | Inr us \<Rightarrow> (let counted = updateInstanceCounts E rc us;
                        assigned = assignRollback img us counted in do {
            _ \<leftarrow> recordMetrics counted;
            wrote \<leftarrow> updateChannelStatus E assigned;
            (case wrote of
               Inl e \<Rightarrow> ret ((resultAfter releaseChannelErrorRetryDelay, Some e), assigned)
             | Inr stored \<Rightarrow> rollbackObserve E stored us img)
          }))
     })"

section \<open>Dispatch\<close>

definition executePhase :: "'v env \<Rightarrow> release_channel \<Rightarrow> handler_ret action" where
  "executePhase E rc =
     (case rcPhase rc of
        PhaseIdle \<Rightarrow> executeIdlePhase E rc
      | PhaseValidating \<Rightarrow> executeValidatingPhase E rc
      | PhaseCanary \<Rightarrow> executeCanaryPhase E rc
      | PhaseRolling \<Rightarrow> executeRollingPhase E rc
      | PhaseCompleted \<Rightarrow> executeCompletedPhase E rc
      | PhaseFailed \<Rightarrow> executeFailedPhase E rc
      | PhaseRollingBack \<Rightarrow> executeRollingBackPhase E rc
      | PhaseOther s \<Rightarrow>
          if s = [] then executeIdlePhase E rc
          else ret ((resultAfter releaseChannelErrorRetryDelay, None), setPhase PhaseIdle rc))"

end
