(* ===== verification/ChannelReconcile.thy ===== *)
theory ChannelReconcile
  imports ChannelPhases
begin

text \<open>
  The outer loop of the ReleaseChannel controller
  (\<open>internal/controller/releasechannel_controller.go\<close>): \<open>Reconcile\<close>, deletion with orphan
  protection, the watch predicates and the mapping from an Unleash to its channel.
\<close>

definition ReleaseChannelFinalizer :: string where
  "ReleaseChannelFinalizer = ''releasechannel.unleash.nais.io/finalizer''"

section \<open>Deletion\<close>

definition deletionBlockedMessage :: "string list \<Rightarrow> string" where
  "deletionBlockedMessage names =
     ''Cannot delete: '' @ showNat (length names) @
     '' Unleash instance(s) still reference this ReleaseChannel: '' @ showStrings names"

definition blockDeletion :: "'v env \<Rightarrow> nsname \<Rightarrow> string list \<Rightarrow> (go_error option \<times> unit) action" where
  "blockDeletion E k names = do {
     got \<leftarrow> getChannel E k;
     (case got of
        Inl e \<Rightarrow> ret (Some e, ())
      | Inr fresh \<Rightarrow> do {
          wrote \<leftarrow> updateChannelStatus E (rcStatus_update (\<lambda>st. st\<lparr>stConditions :=
            setStatusCondition E (stConditions st)
              (newCondition ''DeletionBlocked'' ConditionTrue ''ReferencingInstancesExist''
                 (deletionBlockedMessage names))\<rparr>) fresh);
          ret (case wrote of Inl e \<Rightarrow> (Some e, ()) | Inr _ \<Rightarrow> (None, ()))
        })
   }"

definition dropFinalizer :: "'v env \<Rightarrow> nsname \<Rightarrow> (go_error option \<times> unit) action" where
  "dropFinalizer E k = do {
     got \<leftarrow> getChannel E k;
     (case got of
        Inl e \<Rightarrow> ret (Some e, ())
      | Inr fresh \<Rightarrow> do {
          wrote \<leftarrow> updateChannel E (rcMeta_update (\<lambda>m. m\<lparr>mFinalizers :=
            removeFinalizer E (mFinalizers m) ReleaseChannelFinalizer\<rparr>) fresh);
          ret (case wrote of Inl e \<Rightarrow> (Some e, ()) | Inr _ \<Rightarrow> (None, ()))
        })
   }"

definition handleDeletion :: "'v env \<Rightarrow> release_channel \<Rightarrow> outcome action" where
  "handleDeletion E rc = do {
     listed \<leftarrow> getReferencingInstances E rc;
     (case listed of
        Inl e \<Rightarrow> ret (resultZero, Some (wrapf ''failed to check for referencing instances'' e))
      | Inr us \<Rightarrow>
          if us \<noteq> [] then do {
            _ \<leftarrow> retryOnConflict (eRetries E) (\<lambda>_. blockDeletion E (channelKey rc) (map uName us)) ();
            ret (resultAfter releaseChannelDeletionCheckInterval, None)
          }
          else do {
            (err, _) \<leftarrow> retryOnConflict (eRetries E) (\<lambda>_. dropFinalizer E (channelKey rc)) ();
            ret (case err of
                   Some e \<Rightarrow> (resultZero, Some (wrapf ''failed to remove finalizer'' e))
                 | None \<Rightarrow> (resultZero, None))
          })
   }"

section \<open>Reconcile\<close>

definition claimAttempt :: "'v env \<Rightarrow> nsname \<Rightarrow> release_channel \<Rightarrow> (go_error option \<times> release_channel) action" where
  "claimAttempt E k rc = do {
     got \<leftarrow> getChannel E k;
     (case got of
        Inl e \<Rightarrow> ret (Some e, rc)
      | Inr fresh \<Rightarrow>
          if containsFinalizer E (mFinalizers (rcMeta fresh)) ReleaseChannelFinalizer then ret (None, fresh)
          else do {
            wrote \<leftarrow> updateChannel E (rcMeta_update (\<lambda>m. m\<lparr>mFinalizers :=
              addFinalizer E (mFinalizers m) ReleaseChannelFinalizer\<rparr>) fresh);
            ret (case wrote of Inl e \<Rightarrow> (Some e, rc) | Inr stored \<Rightarrow> (None, stored))
          })
   }"

definition claimChannel :: "'v env \<Rightarrow> nsname \<Rightarrow> release_channel \<Rightarrow> outcome action" where
  "claimChannel E k rc = do {
     (err, _) \<leftarrow> retryOnConflict (eRetries E) (claimAttempt E k) rc;
     ret (case err of
            Some e \<Rightarrow> (resultZero, Some e)
          | None \<Rightarrow> (\<lparr>requeue = True, requeueAfter = 0\<rparr>, None))
   }"

definition failReconcile :: "'v env \<Rightarrow> nsname \<Rightarrow> release_channel \<Rightarrow> ctrl_result \<Rightarrow> go_error \<Rightarrow> outcome action" where
  "failReconcile E k rc res e = do {
     failed \<leftarrow> recordError E rc e;
     _ \<leftarrow> emit (CountRollout k ''failed'');
     _ \<leftarrow> updateChannelStatus E failed;
     ret (res, Some e)
   }"

definition finishReconcile :: "'v env \<Rightarrow> nsname \<Rightarrow> release_channel \<Rightarrow> unit action" where
  "finishReconcile E k rc = do {
     _ \<leftarrow> recordMetricsFor k rc;
     (case stLastReconcileTime (rcStatus rc) of
        None \<Rightarrow> ret ()
      | Some t \<Rightarrow>
          if rcPhase rc = PhaseCompleted then do {
            now \<leftarrow> readClock E;
            _ \<leftarrow> emit (ObserveRollout k (since now t));
            emit (CountRollout k ''success'')
          }
          else ret ())
   }"

definition reconcilePhase :: "'v env \<Rightarrow> nsname \<Rightarrow> release_channel \<Rightarrow> outcome action" where
  "reconcilePhase E k rc = do {
     ((res, err), rc') \<leftarrow> executePhase E (initializeStatus E rc);
     (case err of
        Some e \<Rightarrow>
          if isConflict e then ret (\<lparr>requeue = True, requeueAfter = 0\<rparr>, None)
          else failReconcile E k rc' res e
      | None \<Rightarrow> do {
          _ \<leftarrow> finishReconcile E k rc';
          ret (res, None)
        })
   }"

definition Reconcile :: "'v env \<Rightarrow> nsname \<Rightarrow> outcome action" where
  "Reconcile E k = do {
     got \<leftarrow> getChannel E k;
     (case got of
        Inl e \<Rightarrow>
          if isNotFound e then do { _ \<leftarrow> emit (DropChannelGauges k); ret (resultZero, None) }
          else ret (resultZero, Some e)
      | Inr rc \<Rightarrow>
          if mDeletionTimestamp (rcMeta rc) \<noteq> None then handleDeletion E rc
          else if \<not> containsFinalizer E (mFinalizers (rcMeta rc)) ReleaseChannelFinalizer
            then claimChannel E k rc
          else reconcilePhase E k rc)
   }"

section \<open>Watches\<close>

definition createTriggers :: "unleash \<Rightarrow> bool" where
  "createTriggers u \<longleftrightarrow> usReleaseChannelName (uSpec u) \<noteq> []"

definition updateTriggers :: "unleash \<Rightarrow> unleash \<Rightarrow> bool" where
  "updateTriggers old new =
     (if usReleaseChannelName (uSpec new) = [] then False
      else if resolvedImage old \<noteq> resolvedImage new then True
      else \<not> conditionsEqual (utConditions (uStatus old)) (utConditions (uStatus new)))"

definition deleteTriggers :: "unleash \<Rightarrow> bool" where
  "deleteTriggers u = False"

definition findReleaseChannelsForUnleash :: "unleash \<Rightarrow> nsname list" where
  "findReleaseChannelsForUnleash u =
     (if usReleaseChannelName (uSpec u) = [] then []
      else [(uNamespace u, usReleaseChannelName (uSpec u))])"

end
