(* ===== verification/ChannelRules.thy ===== *)
theory ChannelRules
  imports ChannelReconcile
begin

text \<open>
  Rules for reasoning about the phase handlers: actions that only observe, and disciplines
  on the status writes that follow one field of the status (its phase, its rollback
  baseline) through a handler. The last part is the contract of a phase handler, stated as
  a locale and discharged by all seven of them.
\<close>

section \<open>Observing actions\<close>

fun observation :: "call \<Rightarrow> bool" where
  "observation (UpdateChannel _ _) = False"
| "observation (UpdateChannelStatus _ _) = False"
| "observation _ = True"

definition observes :: "'a action \<Rightarrow> bool" where
  "observes m \<longleftrightarrow> (\<forall>l. runs (\<lambda>_. observation) l m (\<lambda>_ _. True))"

text \<open>A discipline that does not restrict observations.\<close>

definition onWrites :: "(log \<Rightarrow> call \<Rightarrow> bool) \<Rightarrow> bool" where
  "onWrites P \<longleftrightarrow> (\<forall>h c. observation c \<longrightarrow> P h c)"

named_theorems observes_intros \<open>actions that only observe\<close>

lemma observes_return [observes_intros]: "observes (ret x)"
  by (simp add: observes_def runs_return)

lemma observes_bind [observes_intros]:
  "observes m \<Longrightarrow> (\<And>x. observes (f x)) \<Longrightarrow> observes (State_Monad.bind m f)"
  unfolding observes_def by (blast intro: runs_bind)

lemma observes_perform [observes_intros]: "(\<And>r. observation (entry r)) \<Longrightarrow> observes (perform ask entry)"
  by (simp add: observes_def runs_perform)

lemma observes_emit [observes_intros]: "observation c \<Longrightarrow> observes (emit c)"
  by (simp add: observes_def runs_emit)

lemma observes_cases [observes_intros]:
  "(\<And>e. observes (f e)) \<Longrightarrow> (\<And>x. observes (g x)) \<Longrightarrow> observes (case s of Inl e \<Rightarrow> f e | Inr x \<Rightarrow> g x)"
  "observes n \<Longrightarrow> (\<And>x. observes (h x)) \<Longrightarrow> observes (case t of None \<Rightarrow> n | Some x \<Rightarrow> h x)"
  "(\<And>a b. observes (k a b)) \<Longrightarrow> observes (case p of (a, b) \<Rightarrow> k a b)"
  "(b \<Longrightarrow> observes m) \<Longrightarrow> (\<not> b \<Longrightarrow> observes n) \<Longrightarrow> observes (if b then m else n)"
  "(\<And>x. observes (k' x)) \<Longrightarrow> observes (let x = u in k' x)"
  by (auto split: sum.split option.split prod.split simp: Let_def)

lemma observes_requests [observes_intros]:
  "observes (readClock E)" "observes (getChannel E k)" "observes (listUnleashes E ns)"
  "observes (getUnleash E k)" "observes (httpGet E url)"
  by (auto simp: requests intro!: observes_intros)

lemma observes_records [observes_intros]:
  "observes (recordMetricsFor k rc)" "observes (recordPhaseTransition rc ph)" "observes (recordEvent t r m)"
  by (auto simp: recordMetricsFor_def recordPhaseTransition_def recordEvent_def intro!: observes_intros)

lemma observes_lists [observes_intros]:
  "observes (getTargetInstances E rc)" "observes (getReferencingInstances E rc)"
  by (auto simp: getTargetInstances_def getReferencingInstances_def intro!: observes_intros)

lemma observes_expected [observes_intros]: "observes (getExpectedImageForInstance E u img)"
  by (auto simp: getExpectedImageForInstance_def intro!: observes_intros)

lemma observes_desired [observes_intros]: "observes (desiredImages E img us d)"
  by (induction us arbitrary: d) (auto intro!: observes_intros)

lemma observes_off_target [observes_intros]: "observes (instancesOffTarget E img us)"
  by (induction us) (auto intro!: observes_intros)

lemma observes_ready [observes_intros]: "observes (areInstancesReady E us img b)"
  by (induction us) (auto intro!: observes_intros)

lemma observes_terminal [observes_intros]: "observes (terminalInstanceFailure E us)"
  by (induction us) (auto intro!: observes_intros)

lemma observes_http [observes_intros]: "observes (performHTTPHealthCheck E u e)"
  by (auto simp: performHTTPHealthCheck_def intro!: observes_intros)

lemma observes_each [observes_intros]: "observes (checkEachInstance E rc us)"
  by (induction us) (auto intro!: observes_intros)

lemma observes_health [observes_intros]: "observes (performHealthChecks E us rc t)"
  by (auto simp: performHealthChecks_def intro!: observes_intros)

lemma observes_clocked [observes_intros]:
  "observes (checkMaxUpgradeTimeExceeded E rc)" "observes (getBackoffDuration E rc)"
  "observes (recoverActiveBatch E us rc)" "observes (recordError E rc e)"
  by (auto simp: checkMaxUpgradeTimeExceeded_def getBackoffDuration_def recoverActiveBatch_def
      recordError_def Let_def intro!: observes_intros)

lemma runs_observes:
  "observes m \<Longrightarrow> onWrites P \<Longrightarrow> runs P l m (\<lambda>_ _. True)"
  unfolding observes_def onWrites_def by (blast intro: runs_weaken)

lemma runs_bind_observes:
  "observes m \<Longrightarrow> onWrites P \<Longrightarrow> (\<And>x new. runs P (l @ new) (f x) Q) \<Longrightarrow>
   runs P l (State_Monad.bind m f) Q"
  by (blast intro: runs_bind runs_observes)

text \<open>An observing action whose result satisfies \<open>R\<close>.\<close>

definition yields :: "'a action \<Rightarrow> ('a \<Rightarrow> bool) \<Rightarrow> bool" where
  "yields m R \<longleftrightarrow> (\<forall>l. runs (\<lambda>_. observation) l m (\<lambda>x _. R x))"

lemma yields_return: "R x \<Longrightarrow> yields (ret x) R"
  by (simp add: yields_def runs_return)

lemma yields_bind: "observes m \<Longrightarrow> (\<And>x. yields (f x) R) \<Longrightarrow> yields (State_Monad.bind m f) R"
  unfolding observes_def yields_def by (blast intro: runs_bind)

lemma yields_if: "(b \<Longrightarrow> yields m R) \<Longrightarrow> (\<not> b \<Longrightarrow> yields n R) \<Longrightarrow> yields (if b then m else n) R"
  by simp

lemma runs_bind_yields:
  assumes "yields m R" and "onWrites P" and "\<And>x new. R x \<Longrightarrow> runs P (l @ new) (f x) Q"
  shows "runs P l (State_Monad.bind m f) Q"
proof (rule runs_bind[where Q' = "\<lambda>x _. R x"])
  show "runs P l m (\<lambda>x _. R x)"
    using assms(1)[unfolded yields_def, rule_format, of l] assms(2)
    by (elim runs_weaken) (auto simp: onWrites_def)
qed (rule assms(3))

section \<open>Following one field of the status\<close>

text \<open>The field has a value of \<open>A\<close>, or one that the API server returned earlier.\<close>

definition known :: "(channel_status \<Rightarrow> 'b) \<Rightarrow> 'b set \<Rightarrow> log \<Rightarrow> channel_status \<Rightarrow> bool" where
  "known g A l st \<longleftrightarrow> g st \<in> A \<or> (\<exists>x \<in> set (answered l). g st = g (rcStatus x))"

definition writesKnown :: "(channel_status \<Rightarrow> 'b) \<Rightarrow> 'b set \<Rightarrow> log \<Rightarrow> call \<Rightarrow> bool" where
  "writesKnown g A h c = (case statusWrite c of None \<Rightarrow> True | Some p \<Rightarrow> known g A h (rcStatus p))"

definition tracks ::
  "(channel_status \<Rightarrow> 'b) \<Rightarrow> 'b set \<Rightarrow> log \<Rightarrow> ('x \<times> release_channel) action \<Rightarrow> bool" where
  "tracks g A l m \<longleftrightarrow> runs (writesKnown g A) l m (\<lambda>r l'. known g A l' (rcStatus (snd r)))"

definition tracksOpt ::
  "(channel_status \<Rightarrow> 'b) \<Rightarrow> 'b set \<Rightarrow> log \<Rightarrow> ('x \<times> release_channel) option action \<Rightarrow> bool" where
  "tracksOpt g A l m \<longleftrightarrow>
     runs (writesKnown g A) l m (\<lambda>r l'. case r of None \<Rightarrow> True | Some h \<Rightarrow> known g A l' (rcStatus (snd h)))"

named_theorems tracks_intros \<open>rules that follow a status field through a handler\<close>

lemma known_append: "known g A l st \<Longrightarrow> known g A (l @ m) st"
  by (auto simp: known_def)

text \<open>The same for logs whose extensions are associated to the right.\<close>

lemma known_appends:
  "known g A (l @ a) st \<Longrightarrow> known g A (l @ a @ m) st"
  "known g A (l @ a @ b) st \<Longrightarrow> known g A (l @ a @ b @ m) st"
  "known g A (l @ a @ b @ c) st \<Longrightarrow> known g A (l @ a @ b @ c @ m) st"
  "known g A (l @ a @ b @ c @ d) st \<Longrightarrow> known g A (l @ a @ b @ c @ d @ m) st"
  "known g A (l @ a @ b) st \<Longrightarrow> known g A (l @ a @ b @ m @ n) st"
  by (auto simp: known_def)

lemma known_in: "g st \<in> A \<Longrightarrow> known g A l st"
  by (simp add: known_def)

lemma known_cong: "g st = g st' \<Longrightarrow> known g A l st' \<Longrightarrow> known g A l st"
  by (simp add: known_def)

lemma known_answer: "x \<in> set (answered l) \<Longrightarrow> known g A l (rcStatus x)"
  by (auto simp: known_def)

lemma onWrites_known [simp]: "onWrites (writesKnown g A)"
proof -
  have "statusWrite c = None" if "observation c" for c
    using that by (cases c) auto
  then show ?thesis by (simp add: onWrites_def writesKnown_def)
qed

lemma tracks_return [tracks_intros]: "known g A l (rcStatus (snd r)) \<Longrightarrow> tracks g A l (ret r)"
  by (simp add: tracks_def runs_return)

lemma tracksOpt_return [tracks_intros]:
  "tracksOpt g A l (ret None)" "known g A l (rcStatus (snd r)) \<Longrightarrow> tracksOpt g A l (ret (Some r))"
  by (simp_all add: tracksOpt_def runs_return)

lemma tracks_observe:
  assumes "observes m" and "\<And>x new. tracks g A (l @ new) (f x)"
  shows "tracks g A l (State_Monad.bind m f)"
  unfolding tracks_def
  by (rule runs_bind_observes[OF assms(1)]) (auto simp: assms(2)[unfolded tracks_def])

lemma tracksOpt_observe:
  assumes "observes m" and "\<And>x new. tracksOpt g A (l @ new) (f x)"
  shows "tracksOpt g A l (State_Monad.bind m f)"
  unfolding tracksOpt_def
  by (rule runs_bind_observes[OF assms(1)]) (auto simp: assms(2)[unfolded tracksOpt_def])

lemma tracks_bind:
  assumes "tracks g A l m"
    and "\<And>x rc new. known g A (l @ new) (rcStatus rc) \<Longrightarrow> tracks g A (l @ new) (f (x, rc))"
  shows "tracks g A l (State_Monad.bind m f)"
  unfolding tracks_def
  by (rule runs_bind[OF assms(1)[unfolded tracks_def]]) (use assms(2)[unfolded tracks_def] in force)

lemma tracks_orElse [tracks_intros]:
  assumes "tracksOpt g A l m" and "\<And>new. tracks g A (l @ new) k"
  shows "tracks g A l (orElse m k)"
  unfolding tracks_def orElse_def
  by (rule runs_bind[OF assms(1)[unfolded tracksOpt_def]])
     (auto simp: assms(2)[unfolded tracks_def] split: option.splits intro!: runs_intros)

lemma tracks_answering [tracks_intros]: "tracks g A l m \<Longrightarrow> tracksOpt g A l (answering m)"
  unfolding tracks_def tracksOpt_def answering_def
  by (erule runs_bind) (auto intro!: runs_intros)

lemma tracks_cases [tracks_intros]:
  "(\<And>e. s = Inl e \<Longrightarrow> tracks g A l (f e)) \<Longrightarrow> (\<And>x. s = Inr x \<Longrightarrow> tracks g A l (f' x)) \<Longrightarrow>
   tracks g A l (case s of Inl e \<Rightarrow> f e | Inr x \<Rightarrow> f' x)"
  "(t = None \<Longrightarrow> tracks g A l n) \<Longrightarrow> (\<And>x. t = Some x \<Longrightarrow> tracks g A l (h x)) \<Longrightarrow>
   tracks g A l (case t of None \<Rightarrow> n | Some x \<Rightarrow> h x)"
  "(\<And>a b. p = (a, b) \<Longrightarrow> tracks g A l (k a b)) \<Longrightarrow> tracks g A l (case p of (a, b) \<Rightarrow> k a b)"
  "(b \<Longrightarrow> tracks g A l m) \<Longrightarrow> (\<not> b \<Longrightarrow> tracks g A l m') \<Longrightarrow> tracks g A l (if b then m else m')"
  "(\<And>x. x = u \<Longrightarrow> tracks g A l (k' x)) \<Longrightarrow> tracks g A l (let x = u in k' x)"
  by (auto split: sum.split option.split prod.split)

lemma tracksOpt_cases [tracks_intros]:
  "(\<And>e. s = Inl e \<Longrightarrow> tracksOpt g A l (f e)) \<Longrightarrow> (\<And>x. s = Inr x \<Longrightarrow> tracksOpt g A l (f' x)) \<Longrightarrow>
   tracksOpt g A l (case s of Inl e \<Rightarrow> f e | Inr x \<Rightarrow> f' x)"
  "(t = None \<Longrightarrow> tracksOpt g A l n) \<Longrightarrow> (\<And>x. t = Some x \<Longrightarrow> tracksOpt g A l (h x)) \<Longrightarrow>
   tracksOpt g A l (case t of None \<Rightarrow> n | Some x \<Rightarrow> h x)"
  "(\<And>a b. p = (a, b) \<Longrightarrow> tracksOpt g A l (k a b)) \<Longrightarrow> tracksOpt g A l (case p of (a, b) \<Rightarrow> k a b)"
  "(b \<Longrightarrow> tracksOpt g A l m) \<Longrightarrow> (\<not> b \<Longrightarrow> tracksOpt g A l m') \<Longrightarrow> tracksOpt g A l (if b then m else m')"
  "(\<And>x. x = u \<Longrightarrow> tracksOpt g A l (k' x)) \<Longrightarrow> tracksOpt g A l (let x = u in k' x)"
  by (auto split: sum.split option.split prod.split)

lemma tracks_status [tracks_intros]:
  assumes "known g A l (rcStatus rc)"
  shows "tracks g A l (updateReleaseChannelStatus E rc)"
  unfolding tracks_def
proof (rule runs_weaken[OF updateReleaseChannelStatus_runs])
  fix h c
  assume "writesOver (channelKey rc) (rcStatus rc) (l @ h) c"
  then show "writesKnown g A (l @ h) c"
    using known_append[OF assms, of h]
    by (cases c) (auto simp: writesOver_def writesKnown_def split: option.splits)
next
  fix r :: handler_ret and new
  assume "statusOutcome rc r (l @ new)"
  then show "known g A (l @ new) (rcStatus (snd r))"
    using known_append[OF assms, of new]
    by (cases r) (auto simp: statusOutcome_def known_answer split: option.splits simp del: answered_simps)
qed

lemma tracks_try [tracks_intros]:
  assumes "known g A l (rcStatus rc)"
    and "\<And>rc' new. known g A (l @ new) (rcStatus rc') \<Longrightarrow> tracks g A (l @ new) (f rc')"
  shows "tracks g A l (State_Monad.bind (tryUpdateStatus E rc) f)"
  unfolding tryUpdateStatus_def bind_assoc
  by (rule tracks_bind[OF tracks_status[OF assms(1)]]) (auto intro: assms(2))

lemma tracks_then_after [tracks_intros]:
  "known g A l (rcStatus rc) \<Longrightarrow> tracks g A l (updateThenAfter E rc d)"
  unfolding updateThenAfter_def
  by (erule tracks_bind[OF tracks_status]) (auto intro!: tracks_intros intro: known_append split: option.splits)

lemma tracks_write [tracks_intros]:
  assumes "known g A l (rcStatus rc)"
    and "\<And>e new. tracks g A (l @ new) (f (Inl e))"
    and "\<And>stored new. known g A (l @ new) (rcStatus stored) \<Longrightarrow> tracks g A (l @ new) (f (Inr stored))"
  shows "tracks g A l (State_Monad.bind (updateChannelStatus E rc) f)"
proof -
  let ?r = "eUpdateChannelStatus E l rc"
  have "known g A (l @ [UpdateChannelStatus rc ?r]) (rcStatus stored)" if "?r = Inr stored" for stored
    using that by (intro known_answer) simp
  then have "tracks g A (l @ [UpdateChannelStatus rc ?r]) (f ?r)"
    using assms(2,3) by (cases ?r) auto
  with assms(1) show ?thesis
    unfolding tracks_def requests by (intro runs_bind_perform) (simp_all add: writesKnown_def)
qed

lemma tracks_read [tracks_intros]:
  assumes "\<And>e new. tracks g A (l @ new) (f (Inl e))"
    and "\<And>fresh new. known g A (l @ new) (rcStatus fresh) \<Longrightarrow> tracks g A (l @ new) (f (Inr fresh))"
  shows "tracks g A l (State_Monad.bind (getChannel E k) f)"
proof -
  let ?r = "eGetChannel E l k"
  have "known g A (l @ [GetChannel k ?r]) (rcStatus fresh)" if "?r = Inr fresh" for fresh
    using that by (intro known_answer) simp
  then have "tracks g A (l @ [GetChannel k ?r]) (f ?r)"
    using assms by (cases ?r) auto
  then show ?thesis
    unfolding tracks_def requests by (intro runs_bind_perform) (simp_all add: writesKnown_def)
qed

lemma tracks_retry:
  assumes "\<And>rc new. known g A (l @ new) (rcStatus rc) \<Longrightarrow> tracks g A (l @ new) (f rc)"
    and "known g A l (rcStatus rc)"
  shows "tracks g A l (retryOnConflict n f rc)"
  unfolding tracks_def
proof (rule runs_retry[where I = "\<lambda>rc l. known g A l (rcStatus rc)"])
  fix s :: release_channel and new
  assume "known g A (l @ new) (rcStatus s)"
  from assms(1)[OF this, unfolded tracks_def]
  show "runs (writesKnown g A) (l @ new) (f s) (\<lambda>r l'.
      retryInv (\<lambda>rc l. known g A l (rcStatus rc)) r l' \<and> known g A l' (rcStatus (snd r)))"
    by (rule runs_weaken) (auto simp: retryInv_def split: option.splits prod.splits)
qed (rule assms(2))

text \<open>Binding each of the observing actions.\<close>

lemmas observing = observes_records observes_lists observes_desired observes_off_target observes_ready
  observes_terminal observes_health observes_clocked observes_requests(1) observes_emit

lemma observes_if: "observes m \<Longrightarrow> observes n \<Longrightarrow> observes (if b then m else n)"
  by simp

lemmas tracks_observing [tracks_intros] = observing[THEN tracks_observe] observes_if[THEN tracks_observe]
lemmas tracksOpt_observing [tracks_intros] = observing[THEN tracksOpt_observe]

section \<open>Edits of the status\<close>

text \<open>A field that only depends on the phase and the rollback baseline, the phases it may be
  set to, and the baselines it may be given.\<close>

definition coreField :: "(channel_status \<Rightarrow> 'b) \<Rightarrow> bool" where
  "coreField g \<longleftrightarrow>
     (\<forall>st st'. stPhase st' = stPhase st \<longrightarrow> stPreviousImage st' = stPreviousImage st \<longrightarrow> g st' = g st)"

definition allowsPhase :: "(channel_status \<Rightarrow> 'b) \<Rightarrow> 'b set \<Rightarrow> phase \<Rightarrow> bool" where
  "allowsPhase g A ph \<longleftrightarrow> (\<forall>st. g (st\<lparr>stPhase := ph\<rparr>) \<in> insert (g st) A)"

definition allowsBase :: "(channel_status \<Rightarrow> 'b) \<Rightarrow> 'b set \<Rightarrow> string \<Rightarrow> bool" where
  "allowsBase g A img \<longleftrightarrow> (\<forall>st. g (st\<lparr>stPreviousImage := img\<rparr>) \<in> insert (g st) A)"

lemma core_phase [simp]: "coreField stPhase"
  by (simp add: coreField_def)

lemma core_base [simp]: "coreField stPreviousImage"
  by (simp add: coreField_def)

lemma allows_simps [simp]:
  "ph \<in> A \<Longrightarrow> allowsPhase stPhase A ph" "allowsBase stPhase A img"
  "allowsPhase stPreviousImage B ph" "img \<in> B \<Longrightarrow> allowsBase stPreviousImage B img"
  by (simp_all add: allowsPhase_def allowsBase_def)

lemma known_same:
  assumes "coreField g" and "known g A l st"
    and "stPhase st' = stPhase st" and "stPreviousImage st' = stPreviousImage st"
  shows "known g A l st'"
proof -
  have "g st' = g st" using assms(1,3,4) unfolding coreField_def by blast
  with assms(2) show ?thesis by (simp add: known_def)
qed

lemma known_phase:
  assumes "coreField g" and "allowsPhase g A ph" and "known g A l st"
    and "stPhase st' = ph" and "stPreviousImage st' = stPreviousImage st"
  shows "known g A l st'"
proof -
  have "known g A l (st\<lparr>stPhase := ph\<rparr>)"
    using assms(2)[unfolded allowsPhase_def, rule_format, of st] assms(3) by (auto simp: known_def)
  then show ?thesis by (rule known_same[OF assms(1)]) (simp_all add: assms)
qed

lemma known_base:
  assumes "coreField g" and "allowsBase g A img" and "known g A l st"
    and "stPhase st' = stPhase st" and "stPreviousImage st' = img"
  shows "known g A l st'"
proof -
  have "known g A l (st\<lparr>stPreviousImage := img\<rparr>)"
    using assms(2)[unfolded allowsBase_def, rule_format, of st] assms(3) by (auto simp: known_def)
  then show ?thesis by (rule known_same[OF assms(1)]) (simp_all add: assms)
qed

text \<open>The effect of each edit on the two fields.\<close>

lemma adopt_core [simp]:
  "stPhase (rcStatus (adoptUpToDateInstances rc us)) = rcPhase rc"
  "stPreviousImage (rcStatus (adoptUpToDateInstances rc us)) = stPreviousImage (rcStatus rc)"
  "stActiveBatch (rcStatus (adoptUpToDateInstances rc us)) = stActiveBatch (rcStatus rc)"
  "rcSpec (adoptUpToDateInstances rc us) = rcSpec rc"
  "rcMeta (adoptUpToDateInstances rc us) = rcMeta rc"
  unfolding adoptUpToDateInstances_def
      apply (rule fold_unchanged[where f = "\<lambda>rc. rcPhase rc"], simp)
     apply (rule fold_unchanged[where f = "\<lambda>rc. stPreviousImage (rcStatus rc)"], simp)
    apply (rule fold_unchanged[where f = "\<lambda>rc. stActiveBatch (rcStatus rc)"], simp)
   apply (rule fold_unchanged[where f = rcSpec], simp)
  apply (rule fold_unchanged[where f = rcMeta], simp)
  done

lemma assignImage_pair:
  "assignImage (name, img) (st, changed) =
     (st\<lparr>stInstanceImages :=
            (if assignedImage st name \<noteq> img then Some (dictSet name img (orEmpty (stInstanceImages st)))
             else stInstanceImages st),
          stLastTargetImages := Some (dictSet name img (orEmpty (stLastTargetImages st)))\<rparr>,
       changed \<or> assignedImage st name \<noteq> img)"
  by (simp add: assignImage_def Let_def)

lemma assignImage_core [simp]:
  "stPhase (fst (assignImage x s)) = stPhase (fst s)"
  "stPreviousImage (fst (assignImage x s)) = stPreviousImage (fst s)"
  "stActiveBatch (fst (assignImage x s)) = stActiveBatch (fst s)"
  by (simp_all add: assignImage_pair[of "fst x" "snd x" "fst s" "snd s", unfolded prod.collapse])

lemma assignImages_core [simp]:
  "stPhase (fst (assignImages d st)) = stPhase st"
  "stPreviousImage (fst (assignImages d st)) = stPreviousImage st"
  "stActiveBatch (fst (assignImages d st)) = stActiveBatch st"
  unfolding assignImages_def
    apply (subst fold_unchanged[where f = "\<lambda>s. stPhase (fst s)"]; simp)
   apply (subst fold_unchanged[where f = "\<lambda>s. stPreviousImage (fst s)"]; simp)
  apply (subst fold_unchanged[where f = "\<lambda>s. stActiveBatch (fst s)"]; simp)
  done

lemma deploy_edits [simp]:
  "stPhase (initImageMaps st) = stPhase st"
  "stPreviousImage (initImageMaps st) = stPreviousImage st"
  "stActiveBatch (initImageMaps st) = stActiveBatch st"
  "stPhase (stampDeploy now st) = stPhase st"
  "stPreviousImage (stampDeploy now st) = stPreviousImage st"
  "stActiveBatch (stampDeploy now st) = stActiveBatch st"
  "stPhase (rcStatus (openBatch names now rc)) = rcPhase rc"
  "stPreviousImage (rcStatus (openBatch names now rc)) = stPreviousImage (rcStatus rc)"
  "rcSpec (openBatch names now rc) = rcSpec rc"
  "rcMeta (openBatch names now rc) = rcMeta rc"
  by (simp_all add: initImageMaps_def stampDeploy_def openBatch_def)

lemma phase_edits [simp]:
  "rcPhase (setPhase ph rc) = ph" "rcPhase (setFailure ph reason rc) = ph"
  "rcPhase (clearBatch rc) = rcPhase rc"
  "rcPhase (clearRolloutState rc) = PhaseIdle" "rcPhase (forgetFailure rc) = PhaseIdle"
  "rcPhase (forgetFailureAndStart rc) = PhaseIdle" "rcPhase (retryAgain rc) = PhaseIdle"
  "rcPhase (resumeProgressing rc) = PhaseIdle" "rcPhase (markFailedImage rc) = rcPhase rc"
  "rcPhase (assignRollback img us rc) = rcPhase rc" "rcPhase (rollbackDone rc) = PhaseIdle"
  by (simp_all add: status_edits clearRolloutState_def forgetFailure_def forgetFailureAndStart_def
      retryAgain_def resumeProgressing_def markFailedImage_def assignRollback_def rollbackDone_def)

lemma base_edits [simp]:
  "stPreviousImage (rcStatus (setPhase ph rc)) = stPreviousImage (rcStatus rc)"
  "stPreviousImage (rcStatus (setFailure ph reason rc)) = stPreviousImage (rcStatus rc)"
  "stPreviousImage (rcStatus (clearBatch rc)) = stPreviousImage (rcStatus rc)"
  "stPreviousImage (rcStatus (clearRolloutState rc)) = stPreviousImage (rcStatus rc)"
  "stPreviousImage (rcStatus (forgetFailure rc)) = stPreviousImage (rcStatus rc)"
  "stPreviousImage (rcStatus (forgetFailureAndStart rc)) = stPreviousImage (rcStatus rc)"
  "stPreviousImage (rcStatus (retryAgain rc)) = stPreviousImage (rcStatus rc)"
  "stPreviousImage (rcStatus (resumeProgressing rc)) = stPreviousImage (rcStatus rc)"
  "stPreviousImage (rcStatus (markFailedImage rc)) = stPreviousImage (rcStatus rc)"
  "stPreviousImage (rcStatus (assignRollback img us rc)) = stPreviousImage (rcStatus rc)"
  "stPreviousImage (rcStatus (rollbackDone rc)) = []"
  by (simp_all add: status_edits clearRolloutState_def forgetFailure_def forgetFailureAndStart_def
      retryAgain_def resumeProgressing_def markFailedImage_def assignRollback_def rollbackDone_def)

lemma known_edits [tracks_intros]:
  assumes "coreField g" and "known g A l (rcStatus rc)"
  shows "known g A l (rcStatus (clearBatch rc))"
    and "known g A l (rcStatus (updateInstanceCounts L rc us))"
    and "known g A l (rcStatus (adoptUpToDateInstances rc us))"
    and "known g A l (rcStatus (setReconciled L s r m rc))"
    and "known g A l (rcStatus (markFailedImage rc))"
    and "known g A l (rcStatus (assignRollback img us rc))"
    and "known g A l ((rcStatus rc)\<lparr>stStartTime := t\<rparr>)"
    and "known g A l ((rcStatus rc)\<lparr>stLastFailureTime := t\<rparr>)"
    and "known g A l ((rcStatus rc)\<lparr>stActiveBatch := b\<rparr>)"
  by (rule known_same[OF assms]; simp)+

lemma known_idle_edits [tracks_intros]:
  assumes "coreField g" and "allowsPhase g A PhaseIdle" and "known g A l (rcStatus rc)"
  shows "known g A l (rcStatus (clearRolloutState rc))"
    and "known g A l (rcStatus (forgetFailure rc))"
    and "known g A l (rcStatus (forgetFailureAndStart rc))"
    and "known g A l (rcStatus (retryAgain rc))"
    and "known g A l (rcStatus (resumeProgressing rc))"
  by (rule known_phase[OF assms]; simp)+

lemma known_phase_edits [tracks_intros]:
  assumes "coreField g" and "allowsPhase g A ph" and "known g A l (rcStatus rc)"
  shows "known g A l (rcStatus (setPhase ph rc))" and "known g A l (rcStatus (setFailure ph reason rc))"
  by (rule known_phase[OF assms]; simp)+

section \<open>The shared steps\<close>

lemma tracks_yields:
  assumes "yields m R" and "\<And>x new. R x \<Longrightarrow> tracks g A (l @ new) (f x)"
  shows "tracks g A l (State_Monad.bind m f)"
  unfolding tracks_def
  by (rule runs_bind_yields[OF assms(1)]) (auto simp: assms(2)[unfolded tracks_def])

definition sameCore :: "channel_status \<Rightarrow> channel_status \<Rightarrow> bool" where
  "sameCore st st' \<longleftrightarrow> stPhase st' = stPhase st \<and> stPreviousImage st' = stPreviousImage st"

lemma known_sameCore: "coreField g \<Longrightarrow> sameCore st st' \<Longrightarrow> known g A l st \<Longrightarrow> known g A (l @ m) st'"
  by (auto simp: sameCore_def intro: known_same known_append)

lemma tracks_deploy_attempt:
  assumes "coreField g" and "known g A l (rcStatus rc)"
  shows "tracks g A l (deployAttempt E names d rc)"
  unfolding deployAttempt_def Let_def case_prod_beta
proof (rule tracks_read, goal_cases)
  case 1
  then show ?case by (auto intro!: tracks_intros known_append assms)
next
  case (2 read new)
  note read = 2
  let ?ok = "\<lambda>st. sameCore (rcStatus read) st"
  show ?case
    unfolding sum.case
  proof (rule tracks_yields[where R = "\<lambda>b. ?ok (rcStatus b)"], goal_cases)
    case 1
    show ?case by (auto intro!: yields_return yields_if yields_bind observes_intros simp: sameCore_def)
  next
    case (2 batched new')
    then show ?case
    proof (rule_tac tracks_yields[where R = ?ok], goal_cases)
      case 1
      then show ?case by (auto intro!: yields_return yields_if yields_bind observes_intros simp: sameCore_def)
    next
      case (2 st new'')
      then have "known g A ((l @ new) @ new' @ new'') st"
        by (intro known_sameCore[OF assms(1) _ read])
      then show ?case
        by (auto intro!: tracks_intros assms observes_intros intro: known_append)
    qed
  qed
qed

lemma tracks_deploy [tracks_intros]:
  assumes "coreField g" and "known g A l (rcStatus rc)"
  shows "tracks g A l (deployToInstances E rc us)"
  unfolding deployToInstances_def
proof (rule tracks_observe[OF observes_desired], rule tracks_bind, goal_cases)
  case (1 d new)
  show ?case by (rule tracks_retry) (auto intro: tracks_deploy_attempt assms known_append)
qed (auto intro!: tracks_intros split: option.splits)

lemma tracks_capture:
  assumes "coreField g" and "allowsBase g A img" and "known g A l (rcStatus rc)"
  shows "tracks g A l (captureAttempt E img rc)"
  unfolding captureAttempt_def Let_def
proof (rule tracks_read, goal_cases)
  case (2 fresh new)
  have *: "known g A (l @ new @ m) ((rcStatus fresh)\<lparr>stPreviousImage := img, stLastImageChangeTime := Some t\<rparr>)"
    for m t
    using known_append[OF known_base[OF assms(1,2) 2], of _ m] by simp
  show ?case using 2 by (auto intro!: tracks_intros * intro: known_append)
qed (auto intro!: tracks_intros known_append assms)

lemma tracks_ensure [tracks_intros]:
  assumes "coreField g" and "allowsBase g A (rollbackBaseline us)" and "known g A l (rcStatus rc)"
  shows "tracks g A l (ensurePreviousImageTracked E rc us)"
proof -
  have "tracks g A l (retryOnConflict (eRetries E) (captureAttempt E (rollbackBaseline us)) rc)"
    by (rule tracks_retry) (auto intro: tracks_capture assms)
  then show ?thesis
    unfolding ensurePreviousImageTracked_def Let_def
    by (auto intro!: tracks_intros tracks_bind assms split: option.splits)
qed

lemma tracks_refuse [tracks_intros]:
  assumes "coreField g" and "allowsPhase g A PhaseIdle" and "known g A l (rcStatus rc)"
  shows "tracks g A l (refuseDowngrade E rc us)"
proof -
  have "known g A l (rcStatus (rcStatus_update (\<lambda>st. st\<lparr>stPhase := PhaseIdle, stActiveBatch := None\<rparr>) rc))"
    by (rule known_phase[OF assms]) simp_all
  then show ?thesis
    unfolding refuseDowngrade_def Let_def
    by (auto intro!: tracks_intros assms tracks_status[THEN tracks_bind] intro: known_append split: option.splits)
qed

lemmas tracks_binding [tracks_intros] =
  tracks_status[THEN tracks_bind] tracks_deploy[THEN tracks_bind] tracks_ensure[THEN tracks_bind]
  tracks_refuse[THEN tracks_bind]

section \<open>The phase handlers\<close>

lemma tracks_idle:
  assumes "coreField g" and "\<And>ph. ph \<in> {PhaseIdle, PhaseCanary, PhaseRolling} \<Longrightarrow> allowsPhase g A ph"
    and "\<And>us. allowsBase g A (rollbackBaseline us)" and "known g A l (rcStatus rc)"
  shows "tracks g A l (executeIdlePhase E rc)"
proof -
  have none: "tracks g A h (idleWithoutInstances E rc)" if "known g A h (rcStatus rc)" for h rc
  proof -
    have "known g A h (rcStatus (updateConditionForPhase E (rcStatus_update (\<lambda>st. st\<lparr>stPhase := PhaseIdle,
        stInstances := 0, stInstancesUpToDate := 0, stRollout := False\<rparr>) rc)))"
      by (rule known_phase[OF assms(1) _ that]) (auto simp: assms)
    then show ?thesis unfolding idleWithoutInstances_def by (rule tracks_status)
  qed
  have upToDate: "tracks g A h (idleUpToDate E rc us)" if "known g A h (rcStatus rc)" for h rc us
    unfolding idleUpToDate_def Let_def
    by (auto intro!: tracks_intros assms that intro: known_append split: option.splits)
  have start: "tracks g A h (startRollout E rc us)" if "known g A h (rcStatus rc)" for h rc us
  proof -
    define based where "based = (if stPreviousImage (rcStatus rc) = [] \<and> rollbackBaseline us \<noteq> []
      then rcStatus_update (\<lambda>st. st\<lparr>stPreviousImage := rollbackBaseline us\<rparr>) rc else rc)"
    have "known g A h (rcStatus based)"
      using known_base[OF assms(1,3) that] that by (simp add: based_def)
    then show ?thesis
      unfolding startRollout_def Let_def based_def[symmetric]
      by (auto intro!: tracks_intros assms intro: known_append simp: rolloutPhase_def)
  qed
  show ?thesis
    unfolding executeIdlePhase_def Let_def
    by (auto intro!: tracks_intros assms none upToDate start intro: known_append)
qed

lemma tracks_completed:
  assumes "coreField g" and "allowsPhase g A PhaseIdle" and "known g A l (rcStatus rc)"
  shows "tracks g A l (executeCompletedPhase E rc)"
  unfolding executeCompletedPhase_def by (intro tracks_intros assms)

lemma tracks_failed:
  assumes "coreField g" and "\<And>ph. ph \<in> {PhaseIdle, PhaseRollingBack} \<Longrightarrow> allowsPhase g A ph"
    and "known g A l (rcStatus rc)"
  shows "tracks g A l (executeFailedPhase E rc)"
proof -
  note edits = assms(1) assms(2)
  have glass: "tracksOpt g A h (failedBreakGlass E rc)" if "known g A h (rcStatus rc)" for h rc
    unfolding failedBreakGlass_def by (auto intro!: tracks_intros edits that intro: that known_append[OF that])
  have image: "tracksOpt g A h (failedRetryImage E rc)" if "known g A h (rcStatus rc)" for h rc
    unfolding failedRetryImage_def Let_def by (auto intro!: tracks_intros edits intro: that known_append[OF that])
  have budget: "tracksOpt g A h (failedBudgetRaised E rc)" if "known g A h (rcStatus rc)" for h rc
    unfolding failedBudgetRaised_def by (auto intro!: tracks_intros edits intro: that known_append[OF that])
  have resume: "tracksOpt g A h (failedResume E rc)" if "known g A h (rcStatus rc)" for h rc
  proof -
    have "known g A h (rcStatus (rcStatus_update (\<lambda>st. st\<lparr>stResumeProgress := 0\<rparr>) rc))"
      by (rule known_same[OF assms(1) that]) simp_all
    note reset = known_append[OF this]
    show ?thesis
      unfolding failedResume_def Let_def
      by (auto intro!: tracks_intros edits reset[simplified] intro: that known_append[OF that])
  qed
  have transient: "tracksOpt g A h (failedTransient E rc)" if "known g A h (rcStatus rc)" for h rc
    unfolding failedTransient_def Let_def by (auto intro!: tracks_intros edits intro: that known_append[OF that])
  have rollback: "tracks g A h (failedRollback E rc)" if "known g A h (rcStatus rc)" for h rc
    unfolding failedRollback_def rollbackUnavailable_def Let_def
    by (auto intro!: tracks_intros edits intro: that known_append[OF that] split: option.splits)
  show ?thesis
    unfolding executeFailedPhase_def Let_def
    by (auto intro!: tracks_intros edits glass image budget resume transient rollback assms(3) known_append[OF assms(3)])
qed

lemma tracks_gates:
  assumes "coreField g" and "\<And>ph. ph \<in> {PhaseFailed, PhaseRollingBack} \<Longrightarrow> allowsPhase g A ph"
    and "known g A l (rcStatus rc)"
  shows "tracksOpt g A l (rolloutTimeout E id rc us)"
    and "tracksOpt g A l (rolloutTimeout E clearBatch rc us)"
    and "tracksOpt g A l (breakGlassRollout E msg rc us)"
    and "tracks g A l (failRollout E rc reason)"
    and "tracks g A l (failRolloutWith E rc reason e)"
proof -
  have ph: "allowsPhase g A (releasePhaseOnFailure rc)" for rc
    by (simp add: releasePhaseOnFailure_def assms(2))
  note k = assms(3) known_append[OF assms(3)]
  show "tracksOpt g A l (rolloutTimeout E id rc us)" "tracksOpt g A l (rolloutTimeout E clearBatch rc us)"
    unfolding rolloutTimeout_def Let_def by (auto intro!: tracks_intros assms(1) ph k)
  show "tracksOpt g A l (breakGlassRollout E msg rc us)"
    unfolding breakGlassRollout_def by (auto intro!: tracks_intros assms(1) k)
  show fail: "tracks g A l (failRollout E rc reason)"
    unfolding failRollout_def Let_def by (auto intro!: tracks_intros assms(1) ph k)
  show "tracks g A l (failRolloutWith E rc reason e)"
    unfolding failRolloutWith_def by (auto intro!: tracks_intros tracks_bind[OF fail])
qed

lemma tracks_canary:
  assumes "coreField g"
    and "\<And>ph. ph \<in> {PhaseIdle, PhaseRolling, PhaseFailed, PhaseRollingBack} \<Longrightarrow> allowsPhase g A ph"
    and "\<And>us. allowsBase g A (rollbackBaseline us)" and "known g A l (rcStatus rc)"
  shows "tracks g A l (executeCanaryPhase E rc)"
proof -
  note gates = tracks_gates[OF assms(1,2)]
  have verified: "tracks g A h (canaryVerified E rc)" if "known g A h (rcStatus rc)" for h rc
    unfolding canaryVerified_def Let_def by (auto intro!: tracks_intros assms(1,2) that known_append[OF that])
  have gate: "tracks g A h (canaryGate E rc us)" if "known g A h (rcStatus rc)" for h rc us
    unfolding canaryGate_def
    by (auto intro!: tracks_intros assms(1,2) gates verified that known_append[OF that])
  have deploy: "tracks g A h (canaryDeploy E rc us)" if "known g A h (rcStatus rc)" for h rc us
    unfolding canaryDeploy_def Let_def
    by (auto intro!: tracks_intros assms(1,2) gates gate that known_append[OF that] intro: known_append)
  show ?thesis
    unfolding executeCanaryPhase_def
    by (auto intro!: tracks_intros assms gates deploy known_append[OF assms(4)] intro: known_append)
qed

lemma tracks_rolling_parts:
  assumes "coreField g"
    and "\<And>ph. ph \<in> {PhaseIdle, PhaseFailed, PhaseRollingBack} \<Longrightarrow> allowsPhase g A ph"
    and "known g A l (rcStatus rc)"
  shows "tracks g A l (batchCompleted E rc)"
    and "tracks g A l (rollingActiveBatch E rc us b)"
    and "tracks g A l (rollingNextBatch E rc us)"
    and "tracksOpt g A l (rollingRecover E rc us)"
    and "tracks g A l (rollingListFailed E rc e)"
proof -
  note gates = tracks_gates[OF assms(1,2)]
  note k = assms(3) known_append[OF assms(3)]
  have batchDone: "tracks g A h (batchCompleted E rc)" if "known g A h (rcStatus rc)" for h
    unfolding batchCompleted_def
    by (auto intro!: tracks_intros assms(1,2) that known_append[OF that] split: option.splits)
  show "tracks g A l (batchCompleted E rc)" by (rule batchDone) (rule k)
  show "tracks g A l (rollingActiveBatch E rc us b)"
    unfolding rollingActiveBatch_def Let_def by (auto intro!: tracks_intros assms(1,2) gates batchDone k)
  show "tracks g A l (rollingNextBatch E rc us)"
    unfolding rollingNextBatch_def Let_def by (auto intro!: tracks_intros assms(1,2) gates k)
  show "tracksOpt g A l (rollingRecover E rc us)"
    unfolding rollingRecover_def by (auto intro!: tracks_intros assms(1,2) k)
  show "tracks g A l (rollingListFailed E rc e)"
    unfolding rollingListFailed_def Let_def by (auto intro!: tracks_intros assms(1,2) k)
qed

lemma tracks_rolling:
  assumes "coreField g"
    and "\<And>ph. ph \<in> {PhaseIdle, PhaseCompleted, PhaseFailed, PhaseRollingBack} \<Longrightarrow> allowsPhase g A ph"
    and "\<And>us. allowsBase g A (rollbackBaseline us)" and "known g A l (rcStatus rc)"
  shows "tracks g A l (executeRollingPhase E rc)"
proof -
  note gates = tracks_gates[OF assms(1,2)]
  note parts = tracks_rolling_parts[OF assms(1,2)]
  have completed: "tracks g A h (rolloutCompleted E rc)" if "known g A h (rcStatus rc)" for h rc
    unfolding rolloutCompleted_def Let_def by (auto intro!: tracks_intros assms(1,2) that known_append[OF that])
  have completion: "tracks g A h (rollingCompletion E rc us)" if "known g A h (rcStatus rc)" for h rc us
    unfolding rollingCompletion_def
    by (auto intro!: tracks_intros assms(1,2) gates completed that known_append[OF that])
  have step: "tracks g A h (rollingStep E rc us)" if "known g A h (rcStatus rc)" for h rc us
    unfolding rollingStep_def Let_def
    by (auto intro!: tracks_intros assms(1,2) parts completion that known_append[OF that] intro: known_append)
  show ?thesis
    unfolding executeRollingPhase_def
    by (auto intro!: tracks_intros assms gates step parts known_append[OF assms(4)] intro: known_append)
qed

lemma tracks_rolling_back:
  assumes "coreField g" and "\<And>ph. ph \<in> {PhaseIdle, PhaseFailed} \<Longrightarrow> allowsPhase g A ph"
    and "allowsBase g A []" and "known g A l (rcStatus rc)"
  shows "tracks g A l (executeRollingBackPhase E rc)"
proof -
  have finished: "known g A h (rcStatus (rollbackDone rc))" if "known g A h (rcStatus rc)" for h rc
  proof -
    have "known g A h ((rcStatus rc)\<lparr>stPreviousImage := []\<rparr>)"
      by (rule known_base[OF assms(1,3) that]) simp_all
    then show ?thesis by (rule known_phase[OF assms(1) assms(2)[of PhaseIdle], rotated]) simp_all
  qed
  have unknown: "tracks g A h (rollbackUnknown E rc)" if "known g A h (rcStatus rc)" for h rc
    unfolding rollbackUnknown_def Let_def by (auto intro!: tracks_intros assms(1,2) that known_append[OF that])
  have list: "tracks g A h (rollbackListFailed E rc e)" if "known g A h (rcStatus rc)" for h rc e
    unfolding rollbackListFailed_def Let_def by (auto intro!: tracks_intros assms(1,2) that known_append[OF that])
  have observe: "tracks g A h (rollbackObserve E rc us img)" if "known g A h (rcStatus rc)" for h rc us img
    unfolding rollbackObserve_def Let_def
    by (auto intro!: tracks_intros assms(1,2) finished that known_append[OF that])
  show ?thesis
    unfolding executeRollingBackPhase_def Let_def
    by (auto intro!: tracks_intros assms(1,2,4) unknown list observe known_append[OF assms(4)] intro: known_append)
qed

lemma tracks_validating:
  assumes "coreField g"
    and "\<And>ph. ph \<in> {PhaseIdle, PhaseFailed, PhaseCanary, PhaseRolling} \<Longrightarrow> allowsPhase g A ph"
    and "known g A l (rcStatus rc)"
  shows "tracks g A l (executeValidatingPhase E rc)"
  unfolding executeValidatingPhase_def writeStatusOrKeep_def bind_assoc Let_def
  by (auto intro!: tracks_intros assms known_append[OF assms(3)]
      simp: rolloutPhase_def split: sum.splits) (erule known_appends)+

end
