(* ===== verification/PhaseMachine.thy ===== *)
theory PhaseMachine
  imports ChannelRules
begin

text \<open>
  The state machine of a ReleaseChannel. \<open>transition\<close> is the abstract specification: the
  phases a handler may persist when it starts in a given phase. Every handler satisfies the
  contract \<open>phase_handler\<close>; the dispatcher then refines the specification, and an induction
  over whole sequences of reconciles bounds the phases that are ever persisted.
\<close>

section \<open>Specification\<close>

inductive transition :: "phase \<Rightarrow> phase \<Rightarrow> bool" where
  stay: "transition ph ph"
| start_canary: "ph = PhaseIdle \<or> ph = PhaseEmpty \<Longrightarrow> transition ph PhaseCanary"
| start_rolling: "ph = PhaseIdle \<or> ph = PhaseEmpty \<Longrightarrow> transition ph PhaseRolling"
| settle: "transition PhaseEmpty PhaseIdle"
| refuse: "ph \<in> {PhaseValidating, PhaseCanary, PhaseRolling} \<Longrightarrow> transition ph PhaseIdle"
| promote: "transition PhaseCanary PhaseRolling"
| complete: "transition PhaseRolling PhaseCompleted"
| give_up: "ph \<in> {PhaseCanary, PhaseRolling, PhaseRollingBack} \<Longrightarrow> transition ph PhaseFailed"
| roll_back: "ph \<in> {PhaseCanary, PhaseRolling, PhaseFailed} \<Longrightarrow> transition ph PhaseRollingBack"
| rest: "ph \<in> {PhaseCompleted, PhaseFailed, PhaseRollingBack} \<Longrightarrow> transition ph PhaseIdle"

inductive_simps transition_idle: "transition PhaseIdle ph"
inductive_simps transition_completed: "transition PhaseCompleted ph"
inductive_simps transition_validating: "transition PhaseValidating ph"
inductive_simps transition_other: "transition (PhaseOther s) ph"
inductive_cases transition_into_completed: "transition ph PhaseCompleted"

code_pred transition .

section \<open>The contract of a handler\<close>

text \<open>A handler persists only its own phase, one of its targets, or a phase the API server
  reported.\<close>

definition persists :: "phase set \<Rightarrow> log \<Rightarrow> 'a action \<Rightarrow> bool" where
  "persists A l m \<longleftrightarrow> runs (writesKnown stPhase A) l m (\<lambda>_ _. True)"

lemma tracks_persists: "tracks stPhase A l m \<Longrightarrow> persists A l m"
  unfolding tracks_def persists_def by (erule runs_weaken) auto

lemma persists_mono: "persists A l m \<Longrightarrow> A \<subseteq> B \<Longrightarrow> persists B l m"
  unfolding persists_def by (erule runs_weaken) (auto simp: writesKnown_def known_def split: option.splits)

locale phase_handler =
  fixes handler :: "'v env \<Rightarrow> release_channel \<Rightarrow> handler_ret action"
    and targets :: "phase set"
  assumes contract: "persists (insert (rcPhase rc) targets) l (handler E rc)"
begin

lemma persists_within:
  "rcPhase rc \<in> A \<Longrightarrow> targets \<subseteq> A \<Longrightarrow> persists A l (handler E rc)"
  by (rule persists_mono[OF contract]) auto

lemma refines:
  assumes "\<And>ph. ph \<in> targets \<Longrightarrow> transition (rcPhase rc) ph"
  shows "persists {ph. transition (rcPhase rc) ph} l (handler E rc)"
  by (rule persists_within) (auto intro: transition.stay assms)

lemma write_known:
  assumes "newCalls (handler E rc) l = a @ UpdateChannelStatus p r # b"
  shows "rcPhase p \<in> insert (rcPhase rc) targets \<or> rcPhase p \<in> rcPhase ` set (answered (l @ a))"
  using runs_call[OF contract[unfolded persists_def] assms]
  by (auto simp: writesKnown_def known_def)

end

interpretation idle_handler: phase_handler executeIdlePhase "{PhaseIdle, PhaseCanary, PhaseRolling}"
  by unfold_locales (rule tracks_persists, rule tracks_idle, auto intro: known_in)

interpretation completed_handler: phase_handler executeCompletedPhase "{PhaseIdle}"
  by unfold_locales (rule tracks_persists, rule tracks_completed, auto intro: known_in)

interpretation failed_handler: phase_handler executeFailedPhase "{PhaseIdle, PhaseRollingBack}"
  by unfold_locales (rule tracks_persists, rule tracks_failed, auto intro: known_in)

interpretation canary_handler:
  phase_handler executeCanaryPhase "{PhaseIdle, PhaseRolling, PhaseFailed, PhaseRollingBack}"
  by unfold_locales (rule tracks_persists, rule tracks_canary, auto intro: known_in)

interpretation rolling_handler:
  phase_handler executeRollingPhase "{PhaseIdle, PhaseCompleted, PhaseFailed, PhaseRollingBack}"
  by unfold_locales (rule tracks_persists, rule tracks_rolling, auto intro: known_in)

interpretation rollback_handler:
  phase_handler executeRollingBackPhase "{PhaseIdle, PhaseFailed}"
  by unfold_locales (rule tracks_persists, rule tracks_rolling_back, auto intro: known_in)

text \<open>The validating handler computes further phases but persists only a refusal.\<close>

lemma persists_observe:
  "observes m \<Longrightarrow> (\<And>x new. persists A (l @ new) (f x)) \<Longrightarrow> persists A l (State_Monad.bind m f)"
  unfolding persists_def by (auto intro: runs_bind_observes)

lemma persists_bind:
  assumes "tracks stPhase A l m"
    and "\<And>x rc new. known stPhase A (l @ new) (rcStatus rc) \<Longrightarrow> persists A (l @ new) (f (x, rc))"
  shows "persists A l (State_Monad.bind m f)"
  unfolding persists_def
  by (rule runs_bind[OF assms(1)[unfolded tracks_def]]) (use assms(2)[unfolded persists_def] in force)

lemma persists_write:
  "known stPhase A l (rcStatus rc) \<Longrightarrow> (\<And>r new. persists A (l @ new) (f r)) \<Longrightarrow>
   persists A l (State_Monad.bind (updateChannelStatus E rc) f)"
  unfolding persists_def requests by (intro runs_bind_perform) (auto simp: writesKnown_def)

lemma persists_return: "persists A l (ret x)"
  by (simp add: persists_def runs_return)

lemma persists_cases:
  "(\<And>e. s = Inl e \<Longrightarrow> persists A l (f e)) \<Longrightarrow> (\<And>x. s = Inr x \<Longrightarrow> persists A l (f' x)) \<Longrightarrow>
   persists A l (case s of Inl e \<Rightarrow> f e | Inr x \<Rightarrow> f' x)"
  "(t = None \<Longrightarrow> persists A l n) \<Longrightarrow> (\<And>x. t = Some x \<Longrightarrow> persists A l (h x)) \<Longrightarrow>
   persists A l (case t of None \<Rightarrow> n | Some x \<Rightarrow> h x)"
  "(\<And>a b. p = (a, b) \<Longrightarrow> persists A l (k a b)) \<Longrightarrow> persists A l (case p of (a, b) \<Rightarrow> k a b)"
  "(b \<Longrightarrow> persists A l m) \<Longrightarrow> (\<not> b \<Longrightarrow> persists A l m') \<Longrightarrow> persists A l (if b then m else m')"
  "(\<And>x. x = u \<Longrightarrow> persists A l (k' x)) \<Longrightarrow> persists A l (let x = u in k' x)"
  by (auto split: sum.split option.split prod.split)

lemmas persists_intros = persists_return persists_cases observing[THEN persists_observe]
  tracks_refuse[THEN persists_bind] persists_write

interpretation validating_handler: phase_handler executeValidatingPhase "{PhaseIdle}"
proof
  fix rc l and E :: "'v env"
  let ?A = "insert (rcPhase rc) {PhaseIdle}"
  have k: "known stPhase ?A h (rcStatus rc)" for h by (simp add: known_in)
  show "persists ?A l (executeValidatingPhase E rc)"
    unfolding executeValidatingPhase_def writeStatusOrKeep_def bind_assoc Let_def
    by (auto intro!: persists_intros k intro: known_edits known_append)
qed

section \<open>The dispatcher refines the specification\<close>

text \<open>A status write of \<open>executePhase\<close> carries a phase the state machine allows from the
  phase the handler started in, or one that the API server had reported during the run.\<close>

lemma executePhase_refines: "persists {ph. transition (rcPhase rc) ph} l (executePhase E rc)"
proof (cases "rcPhase rc")
  case (PhaseOther s)
  show ?thesis
  proof (cases "s = []")
    case True
    with PhaseOther have "rcPhase rc = PhaseEmpty" by simp
    then show ?thesis
      unfolding executePhase_def by (auto intro!: idle_handler.persists_within intro: transition.intros)
  next
    case False
    with PhaseOther show ?thesis by (simp add: executePhase_def persists_return)
  qed
qed (auto simp: executePhase_def intro!: idle_handler.persists_within completed_handler.persists_within
      failed_handler.persists_within canary_handler.persists_within rolling_handler.persists_within
      rollback_handler.persists_within validating_handler.persists_within intro: transition.intros)

section \<open>Sequences of reconciles\<close>

text \<open>The phases a ReleaseChannel can carry in the cluster when only this controller writes
  its status; \<open>PhaseEmpty\<close> is a freshly created object.\<close>

definition lifecycle :: "phase set" where
  "lifecycle = {PhaseEmpty, PhaseIdle, PhaseCanary, PhaseRolling, PhaseCompleted, PhaseFailed, PhaseRollingBack}"

fun writtenPhases :: "log \<Rightarrow> phase list" where
  "writtenPhases [] = []"
| "writtenPhases (c # cs) = (case statusWrite c of None \<Rightarrow> writtenPhases cs | Some p \<Rightarrow> rcPhase p # writtenPhases cs)"

text \<open>The API server returns objects as created or as last written by this controller.\<close>

definition storeAnswer :: "log \<Rightarrow> call \<Rightarrow> bool" where
  "storeAnswer h c =
     (case c of
        GetChannel k (Inr rc) \<Rightarrow> rcPhase rc = PhaseEmpty \<or> rcPhase rc \<in> set (writtenPhases h)
      | UpdateChannelStatus p (Inr rc) \<Rightarrow> rcPhase rc = rcPhase p
      | _ \<Rightarrow> True)"

definition soleWriter :: "log \<Rightarrow> bool" where
  "soleWriter l = follows storeAnswer [] l"

text \<open>Any number of reconciles, of any channels, one after the other: the controller runs
  with \<open>MaxConcurrentReconciles: 1\<close>.\<close>

inductive reconciled :: "'v env \<Rightarrow> log \<Rightarrow> bool" for E where
  init: "reconciled E []"
| again: "reconciled E l \<Longrightarrow> reconciled E (snd (run_state (Reconcile E k) l))"

lemma known_lifecycle: "rcPhase rc \<in> lifecycle \<Longrightarrow> known stPhase lifecycle l (rcStatus rc)"
  by (simp add: known_in)

lemma allows_lifecycle [simp]:
  "ph \<in> {PhaseIdle, PhaseCanary, PhaseRolling, PhaseCompleted, PhaseFailed, PhaseRollingBack} \<Longrightarrow>
   allowsPhase stPhase lifecycle ph"
  by (auto simp: lifecycle_def)

lemma failed_lifecycle: "PhaseFailed \<in> lifecycle"
  by (simp add: lifecycle_def)

lemma executePhase_tracks:
  assumes "known stPhase lifecycle l (rcStatus rc)"
  shows "tracks stPhase lifecycle l (executePhase E rc)"
proof (cases "rcPhase rc")
  case (PhaseOther s)
  have "known stPhase lifecycle l (rcStatus (setPhase PhaseIdle rc))"
    by (simp add: known_in lifecycle_def)
  with PhaseOther show ?thesis
    by (cases "s = []") (auto simp: executePhase_def intro!: tracks_idle tracks_return assms)
qed (auto simp: executePhase_def intro!: tracks_idle tracks_completed tracks_failed tracks_canary
      tracks_rolling tracks_rolling_back tracks_validating assms)

lemma persists_bind_any:
  "persists A l m \<Longrightarrow> (\<And>x new. persists A (l @ new) (f x)) \<Longrightarrow> persists A l (State_Monad.bind m f)"
  unfolding persists_def by (erule runs_bind) auto

lemma persists_retry:
  "(\<And>s new. persists A (l @ new) (f s)) \<Longrightarrow> persists A l (retryOnConflict n f s)"
  unfolding persists_def
  by (rule runs_retry[where I = "\<lambda>_ _. True"]) simp_all

lemma persists_read:
  assumes "\<And>e new. persists A (l @ new) (f (Inl e))"
    and "\<And>fresh new. known stPhase A (l @ new) (rcStatus fresh) \<Longrightarrow> persists A (l @ new) (f (Inr fresh))"
  shows "persists A l (State_Monad.bind (getChannel E k) f)"
proof -
  let ?r = "eGetChannel E l k"
  have "known stPhase A (l @ [GetChannel k ?r]) (rcStatus fresh)" if "?r = Inr fresh" for fresh
    using that by (intro known_answer) simp
  then have "persists A (l @ [GetChannel k ?r]) (f ?r)"
    using assms by (cases ?r) auto
  then show ?thesis
    unfolding persists_def requests by (intro runs_bind_perform) (simp_all add: writesKnown_def)
qed

lemma persists_update:
  "(\<And>r new. persists A (l @ new) (f r)) \<Longrightarrow> persists A l (State_Monad.bind (updateChannel E rc) f)"
  unfolding persists_def requests by (intro runs_bind_perform) (auto simp: writesKnown_def)

lemma persists_deletion: "persists A l (handleDeletion E rc)"
proof -
  have block: "persists A h (blockDeletion E k names)" for h k names
  proof -
    have "known stPhase A l ((rcStatus rc)\<lparr>stConditions := cs\<rparr>)" if "known stPhase A l (rcStatus rc)" for l rc cs
      by (rule known_same[OF core_phase that]) simp_all
    then show ?thesis
      unfolding blockDeletion_def by (auto intro!: persists_intros persists_read)
  qed
  have drop: "persists A h (dropFinalizer E k)" for h k
    unfolding dropFinalizer_def by (auto intro!: persists_intros persists_read persists_update)
  show ?thesis
    unfolding handleDeletion_def
    by (auto intro!: persists_intros block drop persists_retry[THEN persists_bind_any])
qed

lemma persists_claim: "persists A l (claimChannel E k rc)"
proof -
  have "persists A h (claimAttempt E k rc)" for h rc
    unfolding claimAttempt_def by (auto intro!: persists_intros persists_read persists_update)
  then show ?thesis
    unfolding claimChannel_def by (auto intro!: persists_intros persists_retry[THEN persists_bind_any])
qed

lemma persists_failure: "PhaseFailed \<in> A \<Longrightarrow> persists A l (failReconcile E k rc res e)"
proof -
  assume A: "PhaseFailed \<in> A"
  have recorded: "yields (recordError E rc e) (\<lambda>rc'. rcPhase rc' = PhaseFailed)"
    unfolding recordError_def Let_def
    by (auto intro!: yields_bind yields_return observes_intros)
  show ?thesis
    unfolding failReconcile_def persists_def
  proof (rule runs_bind_yields[OF recorded])
    fix rc' :: release_channel and new
    assume "rcPhase rc' = PhaseFailed"
    with A have "known stPhase A h (rcStatus rc')" for h by (simp add: known_in)
    then show "runs (writesKnown stPhase A) (l @ new) (do {
        _ \<leftarrow> emit (CountRollout k ''failed''); _ \<leftarrow> updateChannelStatus E rc'; ret (res, Some e) }) (\<lambda>_ _. True)"
      unfolding persists_def[symmetric] by (auto intro!: persists_intros)
  qed simp
qed

lemma persists_finish: "persists A l (finishReconcile E k rc)"
proof -
  have "observes (finishReconcile E k rc)"
    unfolding finishReconcile_def by (auto intro!: observes_intros)
  then show ?thesis unfolding persists_def by (simp add: runs_observes)
qed

lemma initializeStatus_core [simp]:
  "rcPhase (initializeStatus L rc) =
     (if stConditions (rcStatus rc) = [] \<or> rcPhase rc = PhaseEmpty then PhaseIdle else rcPhase rc)"
  "stPreviousImage (rcStatus (initializeStatus L rc)) = stPreviousImage (rcStatus rc)"
  by (auto simp: initializeStatus_def)

lemma persists_reconcile: "persists lifecycle l (Reconcile E k)"
proof -
  have phase: "persists lifecycle h (reconcilePhase E k rc)" if "known stPhase lifecycle h (rcStatus rc)" for h rc
  proof -
    have "known stPhase lifecycle h (rcStatus (initializeStatus E rc))"
      using that by (auto simp: known_def lifecycle_def)
    then show ?thesis
      unfolding reconcilePhase_def
      by (auto intro!: persists_bind[OF executePhase_tracks] persists_cases persists_return persists_failure
          persists_bind_any[OF persists_finish] failed_lifecycle)
  qed
  show ?thesis
    unfolding Reconcile_def
    by (auto intro!: persists_read persists_cases persists_return persists_deletion persists_claim phase
        observing[THEN persists_observe])
qed

lemma writtenPhases_append: "writtenPhases (a @ b) = writtenPhases a @ writtenPhases b"
  by (induction a) (auto split: option.split)

text \<open>Against such a server every written and every returned phase is one of the life cycle.\<close>

lemma phases_closed:
  assumes "soleWriter l" and "follows (writesKnown stPhase lifecycle) [] l"
  shows "set (writtenPhases l) \<subseteq> lifecycle \<and> (\<forall>rc \<in> set (answered l). rcPhase rc \<in> lifecycle)"
  using assms
proof (induction l rule: rev_induct)
  case (snoc c l)
  then have before: "set (writtenPhases l) \<subseteq> lifecycle" "\<forall>rc \<in> set (answered l). rcPhase rc \<in> lifecycle"
    and store: "storeAnswer l c" and wrote: "writesKnown stPhase lifecycle l c"
    by (auto simp: soleWriter_def follows_append)
  have written: "rcPhase p \<in> lifecycle" if "statusWrite c = Some p" for p
    using wrote before(2) that by (auto simp: writesKnown_def known_def)
  have "PhaseEmpty \<in> lifecycle" by (simp add: lifecycle_def)
  then have "rcPhase rc \<in> lifecycle" if "rc \<in> set (channelAnswers c)" for rc
    using that store before(1) written
    by (cases c) (auto simp: storeAnswer_def split: sum.splits)
  with before written show ?case
    by (auto simp: writtenPhases_append split: option.splits)
qed simp

lemma reconciled_writes: "reconciled E l \<Longrightarrow> follows (writesKnown stPhase lifecycle) [] l"
proof (induction rule: reconciled.induct)
  case (again l k)
  show ?case
    using again.IH persists_reconcile[of l E k, unfolded persists_def]
    by (elim runs_elim) (simp add: follows_append)
qed simp

end
