(* ===== verification/RolloutGates.thy ===== *)
theory RolloutGates
  imports PhaseMachine
begin

text \<open>
  What has to have been observed before a rollout moves on, and what an assignment of images
  may change: the writes of the canary and the rolling phase related to the reads that
  precede them in the log.
\<close>

section \<open>Observed health\<close>

text \<open>During the run that started with log \<open>l0\<close>, the API server returned the Unleash of \<open>u\<close>
  ready and connected at its current generation.\<close>

definition seenHealthy :: "log \<Rightarrow> log \<Rightarrow> unleash \<Rightarrow> bool" where
  "seenHealthy l0 h u \<longleftrightarrow>
     list_ex (\<lambda>cur. instanceReady cur \<and> instanceConnected cur) (observed (unleashKey u) (drop (length l0) h))"

text \<open>The instances of the channel in a listing returned during the run.\<close>

fun listAnswers :: "string \<Rightarrow> call \<Rightarrow> unleash list list" where
  "listAnswers ns (ListUnleashes ns' (Inr us)) = (if ns' = ns then [us] else [])"
| "listAnswers ns _ = []"

definition listed :: "log \<Rightarrow> log \<Rightarrow> string \<Rightarrow> unleash list list" where
  "listed l0 h ns = concat (map (listAnswers ns) (drop (length l0) h))"

definition isListing :: "log \<Rightarrow> log \<Rightarrow> string \<Rightarrow> unleash list \<Rightarrow> bool" where
  "isListing l0 h ns us \<longleftrightarrow> length l0 \<le> length h \<and> us \<in> set (listed l0 h ns)"

lemma listed_append: "length l0 \<le> length h \<Longrightarrow> listed l0 (h @ m) ns = listed l0 h ns @ listed [] m ns"
  by (simp add: listed_def)

lemma isListing_append: "isListing l0 h ns us \<Longrightarrow> isListing l0 (h @ m) ns us"
  by (auto simp: isListing_def listed_append)

lemma isListing_entry: "isListing l (l @ [ListUnleashes ns (Inr us)]) ns us"
  by (simp add: isListing_def listed_def)

text \<open>A write of phase \<open>ph\<close> needs \<open>gate\<close> to hold of the log; other writes carry a phase of \<open>A\<close> or
  one that the API server returned.\<close>

definition gatedWrites :: "phase \<Rightarrow> (log \<Rightarrow> bool) \<Rightarrow> phase set \<Rightarrow> log \<Rightarrow> call \<Rightarrow> bool" where
  "gatedWrites ph gate A h c \<longleftrightarrow>
     writesKnown stPhase A h c \<or>
     (case statusWrite c of None \<Rightarrow> True | Some p \<Rightarrow> rcPhase p = ph \<and> gate h)"

definition gated :: "phase \<Rightarrow> (log \<Rightarrow> bool) \<Rightarrow> phase set \<Rightarrow> log \<Rightarrow> 'a action \<Rightarrow> bool" where
  "gated ph gate A l m \<longleftrightarrow> runs (gatedWrites ph gate A) l m (\<lambda>_ _. True)"

definition persistentGate :: "(log \<Rightarrow> bool) \<Rightarrow> log \<Rightarrow> bool" where
  "persistentGate gate l \<longleftrightarrow> (\<forall>m. gate (l @ m))"

lemma onWrites_gated [simp]: "onWrites (gatedWrites ph gate A)"
  using onWrites_known[of stPhase A] by (auto simp: onWrites_def gatedWrites_def)

lemma gated_tracks: "tracks stPhase A l m \<Longrightarrow> gated ph gate A l m"
  unfolding tracks_def gated_def by (erule runs_weaken) (auto simp: gatedWrites_def)

lemma gated_return: "gated ph gate A l (ret x)"
  by (simp add: gated_def runs_return)

lemma gated_observe:
  "observes m \<Longrightarrow> (\<And>x new. gated ph gate A (l @ new) (f x)) \<Longrightarrow> gated ph gate A l (State_Monad.bind m f)"
  unfolding gated_def by (auto intro: runs_bind_observes)

lemma gated_bind:
  assumes "tracks stPhase A l m"
    and "\<And>x rc new. known stPhase A (l @ new) (rcStatus rc) \<Longrightarrow> gated ph gate A (l @ new) (f (x, rc))"
  shows "gated ph gate A l (State_Monad.bind m f)"
  unfolding gated_def
proof (rule runs_bind)
  from assms(1) show "runs (gatedWrites ph gate A) l m (\<lambda>r l'. known stPhase A l' (rcStatus (snd r)))"
    unfolding tracks_def by (rule runs_weaken) (auto simp: gatedWrites_def)
qed (use assms(2)[unfolded gated_def] in force)

lemma gated_orElse:
  assumes "tracksOpt stPhase A l m" and "\<And>new. gated ph gate A (l @ new) k"
  shows "gated ph gate A l (orElse m k)"
  unfolding gated_def orElse_def
proof (rule runs_bind)
  from assms(1) show "runs (gatedWrites ph gate A) l m (\<lambda>_ _. True)"
    unfolding tracksOpt_def by (rule runs_weaken) (auto simp: gatedWrites_def)
qed (auto simp: assms(2)[unfolded gated_def] split: option.splits intro!: runs_intros)

lemma gated_try:
  assumes "known stPhase A l (rcStatus rc)"
    and "\<And>rc' new. known stPhase A (l @ new) (rcStatus rc') \<Longrightarrow> gated ph gate A (l @ new) (f rc')"
  shows "gated ph gate A l (State_Monad.bind (tryUpdateStatus E rc) f)"
  unfolding tryUpdateStatus_def bind_assoc
  by (rule gated_bind[OF tracks_status[OF assms(1)]]) (simp add: assms(2))

lemma gated_cases:
  "(\<And>e. s = Inl e \<Longrightarrow> gated ph gate A l (f e)) \<Longrightarrow> (\<And>x. s = Inr x \<Longrightarrow> gated ph gate A l (f' x)) \<Longrightarrow>
   gated ph gate A l (case s of Inl e \<Rightarrow> f e | Inr x \<Rightarrow> f' x)"
  "(t = None \<Longrightarrow> gated ph gate A l n) \<Longrightarrow> (\<And>x. t = Some x \<Longrightarrow> gated ph gate A l (g x)) \<Longrightarrow>
   gated ph gate A l (case t of None \<Rightarrow> n | Some x \<Rightarrow> g x)"
  "(\<And>a b. p = (a, b) \<Longrightarrow> gated ph gate A l (k a b)) \<Longrightarrow> gated ph gate A l (case p of (a, b) \<Rightarrow> k a b)"
  "(b \<Longrightarrow> gated ph gate A l m) \<Longrightarrow> (\<not> b \<Longrightarrow> gated ph gate A l m') \<Longrightarrow> gated ph gate A l (if b then m else m')"
  "(\<And>x. x = u \<Longrightarrow> gated ph gate A l (k' x)) \<Longrightarrow> gated ph gate A l (let x = u in k' x)"
  by (auto split: sum.split option.split prod.split)

lemma persistentGate_append: "persistentGate gate l \<Longrightarrow> persistentGate gate (l @ m)"
  by (simp add: persistentGate_def)

lemma gated_open:
  assumes "persistentGate gate l" and "rcPhase rc = ph"
  shows "gated ph gate A l (updateReleaseChannelStatus E rc)"
  unfolding gated_def
proof (rule runs_weaken[OF updateReleaseChannelStatus_runs])
  fix h c
  assume "writesOver (channelKey rc) (rcStatus rc) (l @ h) c"
  then show "gatedWrites ph gate A (l @ h) c"
    using assms by (cases c) (auto simp: writesOver_def gatedWrites_def writesKnown_def persistentGate_def
        split: option.splits)
qed simp

lemma gated_list:
  assumes "\<And>e new. gated ph gate A (l @ new) (f (Inl e))"
    and "\<And>all h. isListing l h (rcNamespace rc) all \<Longrightarrow> gated ph gate A h (f (Inr (filter (isTarget rc) all)))"
  shows "gated ph gate A l (State_Monad.bind (getTargetInstances E rc) f)"
proof -
  let ?r = "eListUnleashes E l (rcNamespace rc)"
  let ?l1 = "l @ [ListUnleashes (rcNamespace rc) ?r]"
  have "gated ph gate A ?l1 (f (listing (isTarget rc) ?r))"
    by (cases ?r) (auto simp: listing_def intro!: assms isListing_entry)
  moreover have "gatedWrites ph gate A l (ListUnleashes (rcNamespace rc) ?r)"
    using onWrites_gated[of ph gate A] by (simp add: onWrites_def)
  ultimately show ?thesis
    unfolding getTargetInstances_def requests bind_assoc gated_def
    by (intro runs_bind_perform) (simp_all add: runs_def wp_simps)
qed

lemmas gated_intros = gated_return gated_cases observing[THEN gated_observe] tracks_refuse[THEN gated_bind]
  tracks_ensure[THEN gated_bind] gated_try

section \<open>Readiness is observed\<close>

lemma areInstancesReady_observed:
  "runs (\<lambda>_. observation) l (areInstancesReady E us img True)
     (\<lambda>ok l'. ok \<longrightarrow> (\<forall>u \<in> set us. list_ex (\<lambda>cur. instanceReady cur \<and> instanceConnected cur)
        (observed (unleashKey u) (drop (length l) l'))))"
proof (induction us arbitrary: l)
  case Nil
  show ?case by (auto intro!: runs_intros)
next
  case (Cons u us)
  show ?case
    unfolding areInstancesReady.simps requests
  proof (rule runs_bind_perform)
    let ?got = "eGetUnleash E l (unleashKey u)"
    let ?l1 = "l @ [GetUnleash (unleashKey u) ?got]"
    show "runs (\<lambda>_. observation) ?l1
     (case ?got of Inl _ \<Rightarrow> ret False
      | Inr cur \<Rightarrow> do {
          expected \<leftarrow> getExpectedImageForInstance E cur img;
          (if resolvedImage cur \<noteq> expected then ret False
           else if \<not> instanceReady cur then ret False
           else if True \<and> \<not> instanceConnected cur then ret False
           else areInstancesReady E us img True) })
     (\<lambda>ok l'. ok \<longrightarrow> (\<forall>u \<in> set (u # us). list_ex (\<lambda>cur. instanceReady cur \<and> instanceConnected cur)
        (observed (unleashKey u) (drop (length l) l'))))"
    proof (cases ?got)
      case (Inr cur)
      have rest: "runs (\<lambda>_. observation) (?l1 @ new) (areInstancesReady E us img True)
          (\<lambda>ok l'. ok \<longrightarrow> (\<forall>u \<in> set (u # us). list_ex (\<lambda>cur. instanceReady cur \<and> instanceConnected cur)
            (observed (unleashKey u) (drop (length l) l'))))"
        if "instanceReady cur" and "instanceConnected cur" for new
        using Cons.IH[of "?l1 @ new"]
        by (rule runs_weaken) (use that Inr in auto)
      show ?thesis
        unfolding Inr sum.case
        by (rule runs_bind_observes[OF observes_expected])
           (use rest Inr in \<open>auto simp: onWrites_def intro!: runs_intros\<close>)
    qed (auto intro!: runs_intros)
  qed simp
qed

lemma gated_ready:
  assumes "length l0 \<le> length l"
    and "\<And>new. (\<And>u m. u \<in> set us \<Longrightarrow> seenHealthy l0 ((l @ new) @ m) u) \<Longrightarrow> gated ph gate A (l @ new) (f True)"
    and "\<And>new. gated ph gate A (l @ new) (f False)"
  shows "gated ph gate A l (State_Monad.bind (areInstancesReady E us img True) f)"
  unfolding gated_def
proof (rule runs_bind)
  show "runs (gatedWrites ph gate A) l (areInstancesReady E us img True)
     (\<lambda>ok l'. ok \<longrightarrow> (\<forall>u \<in> set us. list_ex (\<lambda>cur. instanceReady cur \<and> instanceConnected cur)
        (observed (unleashKey u) (drop (length l) l'))))"
    by (rule runs_weaken[OF areInstancesReady_observed])
       (use onWrites_gated[of ph gate A] in \<open>auto simp: onWrites_def\<close>)
next
  fix ok new
  assume seen: "ok \<longrightarrow> (\<forall>u \<in> set us. list_ex (\<lambda>cur. instanceReady cur \<and> instanceConnected cur)
        (observed (unleashKey u) (drop (length l) (l @ new))))"
  show "runs (gatedWrites ph gate A) (l @ new) (f ok) (\<lambda>_ _. True)"
  proof (cases ok)
    case True
    with seen assms(1) have "seenHealthy l0 ((l @ new) @ m) u" if "u \<in> set us" for u m
      using that by (auto simp: seenHealthy_def)
    then have "gated ph gate A (l @ new) (f True)" by (rule assms(2))
    with True show ?thesis by (simp add: gated_def)
  next
    case False
    with assms(3) show ?thesis by (simp add: gated_def)
  qed
qed

section \<open>Completion\<close>

text \<open>Every instance of some listing of the run was seen healthy during the run.\<close>

definition fleetSeenHealthy :: "release_channel \<Rightarrow> log \<Rightarrow> log \<Rightarrow> bool" where
  "fleetSeenHealthy rc l0 h \<longleftrightarrow>
     list_ex (\<lambda>all. list_all (seenHealthy l0 h) (filter (isTarget rc) all)) (listed l0 h (rcNamespace rc))"

definition rollingOthers :: "phase set" where
  "rollingOthers = {PhaseRolling, PhaseIdle, PhaseFailed, PhaseRollingBack}"

lemma allows_rolling [simp]:
  "ph \<in> {PhaseIdle, PhaseFailed, PhaseRollingBack} \<Longrightarrow> allowsPhase stPhase rollingOthers ph"
  by (auto simp: rollingOthers_def)

lemma gated_completion:
  assumes "known stPhase rollingOthers l (rcStatus rc)" and "length l0 \<le> length l"
    and "\<And>m. (\<And>u. u \<in> set us \<Longrightarrow> seenHealthy l0 (l @ m) u) \<Longrightarrow> gate (l @ m)"
  shows "gated PhaseCompleted gate rollingOthers l (rollingCompletion E rc us)"
proof -
  note k = known_append[OF assms(1)]
  note gates = tracks_gates[OF core_phase, of rollingOthers, simplified]
  have completed: "gated PhaseCompleted gate rollingOthers h (rolloutCompleted E rc)"
    if "persistentGate gate h" for h
    unfolding rolloutCompleted_def Let_def
    by (auto intro!: gated_intros gated_open persistentGate_append that)
  have ready: "gated PhaseCompleted gate rollingOthers (l @ new) (do {
          ready \<leftarrow> areInstancesReady E us (rcImage rc) True;
          (if \<not> ready then do { d \<leftarrow> getBackoffDuration E rc; ret ((resultAfter d, None), rc) }
           else if \<not> hcEnabled (spHealthChecks (rcSpec rc)) then rolloutCompleted E rc
           else do {
             (healthy, err) \<leftarrow> performHealthChecks E us rc (settleReference rc);
             (case err of
                Some e \<Rightarrow> failRollout E rc (''Rolling deployment health check failed: '' @ errorMsg e)
              | None \<Rightarrow> if \<not> healthy then ret ((resultAfter releaseChannelRollingWaitDelay, None), rc)
                        else rolloutCompleted E rc)
           }) })" for new
  proof (rule gated_ready[of l0], goal_cases)
    case (2 new')
    then have "persistentGate gate (l @ new @ new')"
      using assms(3)[of "new @ new' @ _"] by (simp add: persistentGate_def)
    then show ?case
      by (auto intro!: gated_intros completed gates(4)[THEN gated_tracks] k
          persistentGate_append[of gate "l @ new @ new'", simplified])
  qed (use assms(2) in \<open>auto intro!: gated_intros\<close>)
  show ?thesis
    unfolding rollingCompletion_def
    by (rule gated_observe[OF observes_terminal], rule gated_cases(2), rule ready,
        rule gates(4)[THEN gated_tracks], rule k)
qed

lemma rolling_gated:
  assumes "rcPhase rc = PhaseRolling"
  shows "gated PhaseCompleted (fleetSeenHealthy rc l) rollingOthers l (executeRollingPhase E rc)"
proof -
  let ?ns = "rcNamespace rc" and ?gate = "fleetSeenHealthy rc l"
  note gates = tracks_gates[OF core_phase, of rollingOthers, simplified]
  note parts = tracks_rolling_parts[OF core_phase, of rollingOthers, simplified]
  have k: "known stPhase rollingOthers h (rcStatus rc)" for h
    by (simp add: known_in assms rollingOthers_def)
  have rest: "gated PhaseCompleted ?gate rollingOthers h (do {
          (refused, rc1) \<leftarrow> refuseDowngrade E rc us;
          (case refused of
             Some out \<Rightarrow> ret (out, rc1)
           | None \<Rightarrow>
               orElse (rolloutTimeout E clearBatch rc1 us) (do {
                 ((_, err), rc2) \<leftarrow> ensurePreviousImageTracked E rc1 us;
                 (case err of
                    Some e \<Rightarrow> ret ((resultAfter releaseChannelErrorRetryDelay, Some e), rc2)
                  | None \<Rightarrow>
                      orElse (breakGlassRollout E ''rollout gates'' rc2 us)
                        (orElse (rollingRecover E rc2 us) (rollingStep E rc2 us)))
               }))
        })" if us: "us = filter (isTarget rc) all" and base: "isListing l h ?ns all" for all us h
  proof -
    have completion: "gated PhaseCompleted ?gate rollingOthers h' (rollingCompletion E rc' us)"
      if "known stPhase rollingOthers h' (rcStatus rc')" and "isListing l h' ?ns all" for h' rc'
      by (rule gated_completion[OF that(1), of l])
         (use that(2) us in \<open>auto simp: fleetSeenHealthy_def isListing_def listed_append list_all_iff list_ex_iff\<close>)
    have step: "gated PhaseCompleted ?gate rollingOthers h' (rollingStep E rc' us)"
      if "known stPhase rollingOthers h' (rcStatus rc')" and "isListing l h' ?ns all" for h' rc'
      unfolding rollingStep_def Let_def
      by (auto intro!: gated_intros parts(2,3)[THEN gated_tracks] completion
          known_edits[OF core_phase] that known_append[OF that(1)] isListing_append)
    show ?thesis
      by (auto intro!: gated_intros gated_orElse gates parts(4) step k base isListing_append
          core_phase intro: known_append known_appends)
  qed
  show ?thesis
    unfolding executeRollingPhase_def
    by (rule gated_list; simp only: sum.case)
       (rule gated_tracks[OF parts(5)[OF k]], rule rest[OF refl])
qed

section \<open>Promotion of canaries\<close>

text \<open>The channel a handler continues with is the one it was given or one it read.\<close>

lemma capture_source:
  "runs (\<lambda>_ _. True) l (captureAttempt E img rc) (\<lambda>r l'. fst r = None \<longrightarrow> snd r \<in> set (answered l'))"
  unfolding captureAttempt_def requests runs_def
  by (auto simp: wp_simps follows_all Let_def split: sum.splits)

lemma ensure_source:
  "runs (\<lambda>_ _. True) l (ensurePreviousImageTracked E rc us)
     (\<lambda>r l'. snd (fst r) = None \<longrightarrow> snd r = rc \<or> snd r \<in> set (answered l'))"
proof -
  have "runs (\<lambda>_ _. True) l (retryOnConflict (eRetries E) (captureAttempt E img) rc)
      (\<lambda>r l'. fst r = None \<longrightarrow> snd r \<in> set (answered l'))" for img
    by (rule runs_retry[where I = "\<lambda>_ _. True"]) (simp_all add: capture_source)
  from runs_bind[OF this] show ?thesis
    unfolding ensurePreviousImageTracked_def Let_def
    by (auto intro!: runs_intros runs_bind[OF \<open>\<And>img. runs _ l (retryOnConflict _ (captureAttempt E img) rc) _\<close>]
        split: option.splits)
qed

lemma refuse_source:
  "runs (\<lambda>_ _. True) l (refuseDowngrade E rc us) (\<lambda>r l'. fst r = None \<longrightarrow> snd r = rc)"
proof (cases "downgradeFrom E rc us")
  case None
  then show ?thesis by (simp add: refuseDowngrade_def runs_return)
next
  case (Some d)
  obtain img n where d: "d = (img, n)" by (cases d)
  have upd: "runs (\<lambda>_ _. True) h (updateReleaseChannelStatus E x) (\<lambda>_ _. True)" for h x
    by (rule runs_weaken[OF updateReleaseChannelStatus_runs]) simp_all
  show ?thesis
    unfolding refuseDowngrade_def Some option.case d prod.case Let_def
    by (rule runs_bind_observes[OF observes_records(1)], simp add: onWrites_def,
        rule runs_bind_observes[OF observes_records(3)], simp add: onWrites_def,
        rule runs_bind[OF upd]) (auto intro!: runs_intros split: option.splits)
qed

lemma gated_bind_source:
  assumes "tracks stPhase A l m" and "runs (\<lambda>_ _. True) l m R"
    and "\<And>x rc new. known stPhase A (l @ new) (rcStatus rc) \<Longrightarrow> R (x, rc) (l @ new) \<Longrightarrow>
           gated ph gate A (l @ new) (f (x, rc))"
  shows "gated ph gate A l (State_Monad.bind m f)"
  unfolding gated_def
proof (rule runs_bind)
  show "runs (gatedWrites ph gate A) l m (\<lambda>r l'. known stPhase A l' (rcStatus (snd r)) \<and> R r l')"
    by (rule runs_weaken[OF runs_conj[OF assms(1)[unfolded tracks_def] assms(2)]])
       (auto simp: gatedWrites_def)
qed (use assms(3)[unfolded gated_def] in force)

definition canaryOthers :: "phase set" where
  "canaryOthers = {PhaseCanary, PhaseIdle, PhaseFailed, PhaseRollingBack}"

lemma allows_canary [simp]:
  "ph \<in> {PhaseIdle, PhaseFailed, PhaseRollingBack} \<Longrightarrow> allowsPhase stPhase canaryOthers ph"
  by (auto simp: canaryOthers_def)

text \<open>Every canary of some listing of the run was seen healthy during the run, where canaries
  are selected by the channel the handler was given or one it read.\<close>

definition canariesSeenHealthy ::
  "('v, 'z) apimachinery_scheme \<Rightarrow> release_channel \<Rightarrow> log \<Rightarrow> log \<Rightarrow> bool" where
  "canariesSeenHealthy L rc l0 h \<longleftrightarrow>
     list_ex (\<lambda>all. list_ex (\<lambda>x.
        list_all (seenHealthy l0 h) (getCanaryInstances L (filter (isTarget rc) all) x)) (rc # answered h))
       (listed l0 h (rcNamespace rc))"

lemma gated_canary_gate:
  assumes "known stPhase canaryOthers l (rcStatus rc)" and "length l0 \<le> length l"
    and "\<And>m. (\<And>u. u \<in> set canaries \<Longrightarrow> seenHealthy l0 (l @ m) u) \<Longrightarrow> gate (l @ m)"
  shows "gated PhaseRolling gate canaryOthers l (canaryGate E rc canaries)"
proof -
  note k = known_append[OF assms(1)]
  note gates = tracks_gates[OF core_phase, of canaryOthers, simplified]
  have verified: "gated PhaseRolling gate canaryOthers h (canaryVerified E rc)"
    if "persistentGate gate h" for h
    unfolding canaryVerified_def Let_def
    by (auto intro!: gated_intros gated_open persistentGate_append that)
  have ready: "gated PhaseRolling gate canaryOthers (l @ new) (do {
          complete \<leftarrow> areInstancesReady E canaries (rcImage rc) True;
          (if \<not> complete then updateThenAfter E rc releaseChannelCanaryWaitDelay
           else if \<not> hcEnabled (spHealthChecks (rcSpec rc)) then canaryVerified E rc
           else do {
             (healthy, err) \<leftarrow> performHealthChecks E canaries rc (settleReference rc);
             (case err of
                Some e \<Rightarrow> failRolloutWith E rc (''Canary health check failed: '' @ errorMsg e) e
              | None \<Rightarrow> if \<not> healthy then ret ((resultAfter releaseChannelCanaryWaitDelay, None), rc)
                        else canaryVerified E rc)
           }) })" for new
  proof (rule gated_ready[of l0], goal_cases)
    case (2 new')
    then have "persistentGate gate (l @ new @ new')"
      using assms(3)[of "new @ new' @ _"] by (simp add: persistentGate_def)
    then show ?case
      by (auto intro!: gated_intros verified gates(5)[THEN gated_tracks] k
          persistentGate_append[of gate "l @ new @ new'", simplified])
  qed (use assms(2) in \<open>auto intro!: tracks_then_after[THEN gated_tracks] k\<close>)
  show ?thesis
    unfolding canaryGate_def
    by (rule gated_observe[OF observes_terminal], rule gated_cases(2), rule ready,
        rule gates(4)[THEN gated_tracks], rule k)
qed

lemma gated_canary_deploy:
  assumes "known stPhase canaryOthers l (rcStatus rc)" and "length l0 \<le> length l"
    and "\<And>m. (\<And>u. u \<in> set (getCanaryInstances E us rc) \<Longrightarrow> seenHealthy l0 (l @ m) u) \<Longrightarrow> gate (l @ m)"
  shows "gated PhaseRolling gate canaryOthers l (canaryDeploy E rc us)"
proof -
  note gates = tracks_gates[OF core_phase, of canaryOthers, simplified]
  have none: "gated PhaseRolling gate canaryOthers (l @ new) (updateReleaseChannelStatus E (setPhase PhaseRolling rc))"
    if "getCanaryInstances E us rc = []" for new
    by (rule gated_open) (use assms(3)[of "new @ _"] that in \<open>auto simp: persistentGate_def\<close>)
  have gate: "gated PhaseRolling gate canaryOthers (l @ new) (canaryGate E x (getCanaryInstances E us rc))"
    if "known stPhase canaryOthers (l @ new) (rcStatus x)" for new x
    by (rule gated_canary_gate[OF that, of l0]) (use assms(2,3) in auto)
  show ?thesis
    unfolding canaryDeploy_def Let_def
    by (auto intro!: gated_cases gated_return observing[THEN gated_observe] tracks_deploy[THEN gated_bind]
        none gate gates(5)[THEN gated_tracks] assms(1) known_edits[OF core_phase]
        intro: known_append known_appends)
qed

lemma canary_gated:
  assumes "rcPhase rc = PhaseCanary"
  shows "gated PhaseRolling (canariesSeenHealthy E rc l) canaryOthers l (executeCanaryPhase E rc)"
proof -
  let ?ns = "rcNamespace rc" and ?gate = "canariesSeenHealthy E rc l"
  note gates = tracks_gates[OF core_phase, of canaryOthers, simplified]
  have k: "known stPhase canaryOthers h (rcStatus rc)" for h
    by (simp add: known_in assms canaryOthers_def)
  have fail: "known stPhase canaryOthers h (rcStatus (setFailure PhaseFailed reason rc))" for h reason
    by (simp add: known_in canaryOthers_def)
  have deploy: "gated PhaseRolling ?gate canaryOthers h (canaryDeploy E x (filter (isTarget rc) all))"
    if "known stPhase canaryOthers h (rcStatus x)" and "isListing l h ?ns all" and "x = rc \<or> x \<in> set (answered h)"
    for h x all
    by (rule gated_canary_deploy[OF that(1), of l])
       (use that(2,3) in \<open>auto simp: canariesSeenHealthy_def isListing_def listed_append list_all_iff list_ex_iff\<close>)
  show ?thesis
    unfolding executeCanaryPhase_def
  proof (rule gated_list; simp only: sum.case)
    show "gated PhaseRolling ?gate canaryOthers (l @ new) (ret ((resultZero, Some e),
        setFailure PhaseFailed (''Failed to get target instances: '' @ errorMsg e) rc))" for e new
      by (rule gated_return)
  next
    fix all h
    let ?us = "filter (isTarget rc) all"
    assume base: "isListing l h ?ns all"
    have guarded: "gated PhaseRolling ?gate canaryOthers h'
        (case err of
           Some e \<Rightarrow> ret ((resultAfter releaseChannelErrorRetryDelay, Some e), rc2)
         | None \<Rightarrow> orElse (breakGlassRollout E ''progressive rollout gates'' rc2 ?us) (canaryDeploy E rc2 ?us))"
      if "known stPhase canaryOthers h' (rcStatus rc2)" and "isListing l h' ?ns all"
        and "err = None \<longrightarrow> rc2 = rc \<or> rc2 \<in> set (answered h')" for err :: "go_error option" and rc2 h'
      using that
      by (auto intro!: gated_cases gated_return gated_orElse gates(3) deploy isListing_append
          intro: known_append)
    show "gated PhaseRolling ?gate canaryOthers h (do {
          (refused, rc1) \<leftarrow> refuseDowngrade E rc ?us;
          (case refused of
             Some out \<Rightarrow> ret (out, rc1)
           | None \<Rightarrow>
               orElse (rolloutTimeout E id rc1 ?us) (do {
                 ((_, err), rc2) \<leftarrow> ensurePreviousImageTracked E rc1 ?us;
                 (case err of
                    Some e \<Rightarrow> ret ((resultAfter releaseChannelErrorRetryDelay, Some e), rc2)
                  | None \<Rightarrow>
                      orElse (breakGlassRollout E ''progressive rollout gates'' rc2 ?us)
                             (canaryDeploy E rc2 ?us))
               })) })"
    proof (rule gated_bind_source[OF tracks_refuse refuse_source])
      fix x :: "outcome option" and rc1 new
      assume "fst (x, rc1) = None \<longrightarrow> snd (x, rc1) = rc"
      then show "gated PhaseRolling ?gate canaryOthers (h @ new) (case (x, rc1) of (refused, rc1) \<Rightarrow>
          (case refused of
             Some out \<Rightarrow> ret (out, rc1)
           | None \<Rightarrow>
               orElse (rolloutTimeout E id rc1 ?us) (do {
                 ((_, err), rc2) \<leftarrow> ensurePreviousImageTracked E rc1 ?us;
                 (case err of
                    Some e \<Rightarrow> ret ((resultAfter releaseChannelErrorRetryDelay, Some e), rc2)
                  | None \<Rightarrow>
                      orElse (breakGlassRollout E ''progressive rollout gates'' rc2 ?us)
                             (canaryDeploy E rc2 ?us))
               })))"
      proof (cases x)
        case None
        with \<open>fst (x, rc1) = None \<longrightarrow> snd (x, rc1) = rc\<close> have [simp]: "rc1 = rc" by simp
        show ?thesis
          unfolding None prod.case option.case \<open>rc1 = rc\<close>
        proof (rule gated_orElse[OF gates(1)[OF k]], rule gated_bind_source[OF tracks_ensure ensure_source])
          fix y :: "bool \<times> go_error option" and rc2 new' new''
          assume "known stPhase canaryOthers (((h @ new) @ new') @ new'') (rcStatus rc2)"
            and "snd (fst (y, rc2)) = None \<longrightarrow>
              snd (y, rc2) = rc \<or> snd (y, rc2) \<in> set (answered (((h @ new) @ new') @ new''))"
          then show "gated PhaseRolling ?gate canaryOthers (((h @ new) @ new') @ new'')
              ((\<lambda>((_, err), rc2).
                 (case err of
                    Some e \<Rightarrow> ret ((resultAfter releaseChannelErrorRetryDelay, Some e), rc2)
                  | None \<Rightarrow>
                      orElse (breakGlassRollout E ''progressive rollout gates'' rc2 ?us)
                             (canaryDeploy E rc2 ?us))) (y, rc2))"
            by (cases y) (simp only: prod.case, rule guarded, simp_all add: isListing_append base)
        qed (simp_all add: k)
      qed (simp add: gated_return)
    qed (simp_all add: k)
  qed
qed

end
