(* ===== verification/Assignments.thy ===== *)
theory Assignments
  imports RolloutGates
begin

text \<open>
  What \<open>deployToInstances\<close> may change: its writes related to the channel read just before,
  instance by instance, and the size of a batch of the rolling phase.
\<close>

section \<open>The map of assignments\<close>

lemma assignedImage_assignImage:
  "assignedImage (fst (assignImage (name, img) s)) n = (if n = name then img else assignedImage (fst s) n)"
  by (cases s) (auto simp: assignImage_pair dictGet_def)

lemma fold_assignImage_lookup:
  "distinct (map fst d) \<Longrightarrow>
   assignedImage (fst (fold assignImage d s)) n =
     (case map_of d n of Some img \<Rightarrow> img | None \<Rightarrow> assignedImage (fst s) n)"
proof (induction d arbitrary: s)
  case (Cons x d)
  obtain name img where x: "x = (name, img)" by (cases x)
  have fresh: "name \<notin> fst ` set d" and dist: "distinct (map fst d)" using Cons.prems x by auto
  then have "map_of d name = None" by (simp add: map_of_eq_None_iff)
  then show ?case
    unfolding fold_simps Cons.IH[OF dist] x by (simp add: assignedImage_assignImage split: option.split)
qed simp

lemma fold_assignImage_changed:
  "distinct (map fst d) \<Longrightarrow>
   snd (fold assignImage d s) \<longleftrightarrow> snd s \<or> (\<exists>x \<in> set d. assignedImage (fst s) (fst x) \<noteq> snd x)"
proof (induction d arbitrary: s)
  case (Cons x d)
  obtain name img where x: "x = (name, img)" by (cases x)
  have fresh: "name \<notin> fst ` set d" and dist: "distinct (map fst d)" using Cons.prems x by auto
  have "snd (assignImage x s) \<longleftrightarrow> snd s \<or> assignedImage (fst s) name \<noteq> img"
    by (cases s) (simp add: x assignImage_pair)
  moreover have "assignedImage (fst (assignImage x s)) (fst y) = assignedImage (fst s) (fst y)" if "y \<in> set d" for y
    using fresh that by (auto simp: x assignedImage_assignImage)
  ultimately show ?case
    unfolding fold_simps Cons.IH[OF dist] by (auto simp: x)
qed simp

lemma assignImages_spec:
  assumes "distinct (map fst d)"
  shows "assignedImage (fst (assignImages d st)) n =
      (case map_of d n of Some img \<Rightarrow> img | None \<Rightarrow> assignedImage st n)"
    and "snd (assignImages d st) \<longleftrightarrow> (\<exists>n \<in> fst ` set d. assignedImage (fst (assignImages d st)) n \<noteq> assignedImage st n)"
proof -
  show lookup: "assignedImage (fst (assignImages d st)) n =
      (case map_of d n of Some img \<Rightarrow> img | None \<Rightarrow> assignedImage st n)" for n
    using fold_assignImage_lookup[OF assms, of "(st, False)" n] unfolding assignImages_def fst_conv .
  have "snd (assignImages d st) \<longleftrightarrow> (\<exists>x \<in> set d. assignedImage st (fst x) \<noteq> snd x)"
    using fold_assignImage_changed[OF assms, of "(st, False)"] unfolding assignImages_def fst_conv snd_conv by simp
  also have "\<dots> \<longleftrightarrow> (\<exists>n \<in> fst ` set d. assignedImage (fst (assignImages d st)) n \<noteq> assignedImage st n)"
    using map_of_is_SomeI[OF assms] unfolding lookup by (force split: option.split)
  finally show "snd (assignImages d st) \<longleftrightarrow>
      (\<exists>n \<in> fst ` set d. assignedImage (fst (assignImages d st)) n \<noteq> assignedImage st n)" .
qed

lemma generation_assignImages [simp]:
  "stInstanceImagesGeneration (fst (assignImages d st)) = stInstanceImagesGeneration st"
proof -
  have "stInstanceImagesGeneration (fst (assignImage x s)) = stInstanceImagesGeneration (fst s)" for x s
    by (simp add: assignImage_pair[of "fst x" "snd x" "fst s" "snd s", unfolded prod.collapse])
  then show ?thesis
    unfolding assignImages_def
    by (subst fold_unchanged[where f = "\<lambda>s. stInstanceImagesGeneration (fst s)"]) simp_all
qed

lemma assignedImage_init [simp]: "assignedImage (initImageMaps st) n = assignedImage st n"
  by (simp add: initImageMaps_def)

lemma generation_edits [simp]:
  "stInstanceImagesGeneration (initImageMaps st) = stInstanceImagesGeneration st"
  "stInstanceImagesGeneration (stampDeploy now st) = stInstanceImagesGeneration st + 1"
  "stInstanceImagesGeneration (rcStatus (openBatch names now rc)) = stInstanceImagesGeneration (rcStatus rc)"
  "stInstanceImages (stampDeploy now st) = stInstanceImages st"
  "stInstanceImages (rcStatus (openBatch names now rc)) = stInstanceImages (rcStatus rc)"
  "stActiveBatch (rcStatus (openBatch names now rc)) =
     Some \<lparr>abInstanceNames = names, abTargetImage = rcImage rc, abStartTime = now\<rparr>"
  by (simp_all add: initImageMaps_def stampDeploy_def openBatch_def)

section \<open>The images that are handed out\<close>

definition allowedImage ::
  "('v, 'z) apimachinery_scheme \<Rightarrow> string \<Rightarrow> log \<Rightarrow> unleash \<Rightarrow> string \<Rightarrow> bool" where
  "allowedImage L target h u img \<longleftrightarrow>
     img = target \<or> list_ex (\<lambda>x. img = expectedImageFor L x u target) (answered h)"

definition goodDesired ::
  "('v, 'z) apimachinery_scheme \<Rightarrow> string \<Rightarrow> log \<Rightarrow> unleash list \<Rightarrow> string dict \<Rightarrow> bool" where
  "goodDesired L target h us d \<longleftrightarrow>
     distinct (map fst d) \<and> fst ` set d = uName ` set us \<and>
     (\<forall>x \<in> set d. \<exists>u \<in> set us. uName u = fst x \<and> allowedImage L target h u (snd x))"

lemma allowedImage_append: "allowedImage L target h u img \<Longrightarrow> allowedImage L target (h @ m) u img"
  by (auto simp: allowedImage_def)

lemma goodDesired_append: "goodDesired L target h us d \<Longrightarrow> goodDesired L target (h @ m) us d"
  unfolding goodDesired_def by (meson allowedImage_append)

lemma set_dictSet: "set (dictSet k v m) \<subseteq> insert (k, v) (set m)"
  unfolding dictSet_def by (induction m) auto

lemma keys_dictSet: "fst ` set (dictSet k v m) = insert k (fst ` set m)"
  unfolding dictSet_def by (simp add: dom_update)

lemma distinct_dictSet: "distinct (map fst m) \<Longrightarrow> distinct (map fst (dictSet k v m))"
  by (simp add: dictSet_def distinct_update)

lemma goodDesired_step:
  assumes "goodDesired L target h us d" and "allowedImage L target h u img"
  shows "goodDesired L target h (us @ [u]) (dictSet (uName u) img d)"
proof -
  have "\<exists>w \<in> set (us @ [u]). uName w = fst x \<and> allowedImage L target h w (snd x)"
    if "x \<in> set (dictSet (uName u) img d)" for x
  proof (cases "x \<in> set d")
    case True
    with assms(1) show ?thesis by (auto simp: goodDesired_def)
  next
    case False
    with that set_dictSet[of "uName u" img d] assms(2) show ?thesis by auto
  qed
  then show ?thesis
    using assms(1) by (simp add: goodDesired_def keys_dictSet distinct_dictSet)
qed

lemma expected_allowed:
  "runs (\<lambda>_. observation) l (getExpectedImageForInstance E u target)
     (\<lambda>img l'. allowedImage E target l' u img)"
proof (cases "usReleaseChannelName (uSpec u) = []")
  case True
  then show ?thesis by (simp add: getExpectedImageForInstance_def allowedImage_def runs_return)
next
  case False
  let ?k = "(uNamespace u, usReleaseChannelName (uSpec u))"
  let ?r = "eGetChannel E l ?k"
  have "allowedImage E target (l @ [GetChannel ?k ?r]) u
      (case ?r of Inl _ \<Rightarrow> target | Inr rc \<Rightarrow> expectedImageFor E rc u target)"
    by (cases ?r) (simp_all add: allowedImage_def)
  with False show ?thesis
    unfolding getExpectedImageForInstance_def requests
    by (auto intro!: runs_bind_perform runs_return)
qed

lemma desired_good:
  assumes "goodDesired E target l done d"
  shows "runs (\<lambda>_. observation) l (desiredImages E target us d)
     (\<lambda>d' l'. goodDesired E target l' (done @ us) d')"
  using assms
proof (induction us arbitrary: l "done" d)
  case Nil
  then show ?case by (simp add: runs_return)
next
  case (Cons u us)
  show ?case
    unfolding desiredImages.simps
  proof (rule runs_bind[OF expected_allowed])
    fix img new
    assume "allowedImage E target (l @ new) u img"
    with goodDesired_append[OF Cons.prems]
    have "goodDesired E target (l @ new) (done @ [u]) (dictSet (uName u) img d)"
      by (rule goodDesired_step)
    from Cons.IH[OF this]
    show "runs (\<lambda>_. observation) (l @ new) (desiredImages E target us (dictSet (uName u) img d))
        (\<lambda>d' l'. goodDesired E target l' (done @ u # us) d')" by simp
  qed
qed

section \<open>A deployment\<close>

text \<open>
  How a write of \<open>deployToInstances\<close> relates to the channel \<open>fresh\<close> read just before: spec,
  metadata, phase and baseline are untouched; instances that were not given keep their
  assignment; each given instance holds an image that was allowed for it; the generation
  moves exactly when some assignment does; and a Rolling channel without a batch gets one
  that names exactly the given instances.
\<close>

definition deployedFrom ::
  "('v, 'z) apimachinery_scheme \<Rightarrow> string \<Rightarrow> unleash list \<Rightarrow> log \<Rightarrow> release_channel \<Rightarrow> release_channel \<Rightarrow> bool" where
  "deployedFrom L target us h fresh p \<longleftrightarrow>
     rcSpec p = rcSpec fresh \<and> rcMeta p = rcMeta fresh \<and> rcPhase p = rcPhase fresh \<and>
     stPreviousImage (rcStatus p) = stPreviousImage (rcStatus fresh) \<and>
     (\<forall>n. n \<notin> uName ` set us \<longrightarrow> assignedImage (rcStatus p) n = assignedImage (rcStatus fresh) n) \<and>
     (\<forall>n \<in> uName ` set us. \<exists>u \<in> set us. uName u = n \<and> allowedImage L target h u (assignedImage (rcStatus p) n)) \<and>
     stInstanceImagesGeneration (rcStatus p) = stInstanceImagesGeneration (rcStatus fresh) +
       (if \<exists>n \<in> uName ` set us. assignedImage (rcStatus p) n \<noteq> assignedImage (rcStatus fresh) n then 1 else 0) \<and>
     map_option abInstanceNames (stActiveBatch (rcStatus p)) =
       (if opensBatch fresh then Some (map uName us)
        else map_option abInstanceNames (stActiveBatch (rcStatus fresh)))"

definition deployWrites ::
  "('v, 'z) apimachinery_scheme \<Rightarrow> release_channel \<Rightarrow> unleash list \<Rightarrow> log \<Rightarrow> call \<Rightarrow> bool" where
  "deployWrites L rc us h c =
     (case statusWrite c of
        None \<Rightarrow> observation c
      | Some p \<Rightarrow> (case latestRead (channelKey rc) h of
                    None \<Rightarrow> False
                  | Some fresh \<Rightarrow> deployedFrom L (rcImage rc) us h fresh p))"

text \<open>What one attempt writes, given the fresh channel and the two times it may read.\<close>

lemma deployedFrom_attempt:
  assumes good: "goodDesired L target h us d"
    and batched: "batched = (if opensBatch (rcStatus_update initImageMaps read)
      then openBatch (map uName us) t1 (rcStatus_update initImageMaps read) else rcStatus_update initImageMaps read)"
    and st: "st = (if snd (assignImages d (rcStatus batched)) then stampDeploy t2 (fst (assignImages d (rcStatus batched)))
      else fst (assignImages d (rcStatus batched)))"
  shows "deployedFrom L target us h read (batched\<lparr>rcStatus := st\<rparr>)"
proof -
  have dist: "distinct (map fst d)" and keys: "fst ` set d = uName ` set us"
    using good by (auto simp: goodDesired_def)
  have opens: "opensBatch (rcStatus_update initImageMaps read) = opensBatch read"
    by (simp add: opensBatch_def breakGlassEnabled_def)
  have before: "assignedImage (rcStatus batched) n = assignedImage (rcStatus read) n" for n
    by (simp add: batched)
  have "assignedImage st n = assignedImage (fst (assignImages d (rcStatus batched))) n" for n
    by (simp add: st)
  then have imgs: "assignedImage st n = (case map_of d n of Some img \<Rightarrow> img | None \<Rightarrow> assignedImage (rcStatus read) n)" for n
    unfolding assignImages_spec(1)[OF dist] before .
  have moved: "snd (assignImages d (rcStatus batched)) \<longleftrightarrow>
      (\<exists>n \<in> uName ` set us. assignedImage st n \<noteq> assignedImage (rcStatus read) n)"
    using assignImages_spec[OF dist, of "rcStatus batched"] unfolding keys imgs before by simp
  have outside: "map_of d n = None" if "n \<notin> uName ` set us" for n
    using that keys by (simp add: map_of_eq_None_iff)
  have inside: "\<exists>u \<in> set us. uName u = n \<and> allowedImage L target h u (assignedImage st n)" if "n \<in> uName ` set us" for n
  proof -
    from that keys obtain img where "map_of d n = Some img"
      by (metis map_of_eq_None_iff not_None_eq)
    moreover from this have "(n, img) \<in> set d" by (rule map_of_SomeD)
    ultimately show ?thesis using good unfolding imgs goodDesired_def by fastforce
  qed
  have frame: "rcSpec batched = rcSpec read" "rcMeta batched = rcMeta read" by (simp_all add: batched)
  have core: "stPhase st = rcPhase read" "stPreviousImage st = stPreviousImage (rcStatus read)"
    by (simp_all add: st batched)
  have gen: "stInstanceImagesGeneration st = stInstanceImagesGeneration (rcStatus read) +
      (if snd (assignImages d (rcStatus batched)) then 1 else 0)"
    by (simp add: st batched)
  have batch: "map_option abInstanceNames (stActiveBatch st) =
      (if opensBatch read then Some (map uName us) else map_option abInstanceNames (stActiveBatch (rcStatus read)))"
    by (simp add: st batched opens)
  have outer: "assignedImage st n = assignedImage (rcStatus read) n" if "n \<notin> uName ` set us" for n
    unfolding imgs outside[OF that] by simp
  show ?thesis
    unfolding deployedFrom_def
    using outer inside by (simp add: frame core gen[unfolded moved] batch)
qed

lemma deployAttempt_runs:
  assumes "goodDesired E (rcImage rc) l us d"
  shows "runs (deployWrites E rc us) l (deployAttempt E (map uName us) d rc)
     (\<lambda>r l'. fst r \<noteq> None \<longrightarrow> snd r = rc)"
  unfolding deployAttempt_def Let_def case_prod_beta requests
proof (rule runs_bind_perform)
  let ?k = "channelKey rc" and ?got = "eGetChannel E l (channelKey rc)"
  let ?l1 = "l @ [GetChannel ?k ?got]"
  let ?post = "\<lambda>r l'. fst r \<noteq> None \<longrightarrow> snd r = rc"
  show "deployWrites E rc us l (GetChannel ?k ?got)" by (simp add: deployWrites_def)
  have clock: "deployWrites E rc us h (ReadClock t)" for h t by (simp add: deployWrites_def)
  show "runs (deployWrites E rc us) ?l1
     (case ?got of
        Inl e \<Rightarrow> ret (Some e, rc)
      | Inr read \<Rightarrow> do {
          batched \<leftarrow> (if opensBatch (rcStatus_update initImageMaps read)
                      then do { now \<leftarrow> perform (eNow E) ReadClock;
                                ret (openBatch (map uName us) now (rcStatus_update initImageMaps read)) }
                      else ret (rcStatus_update initImageMaps read));
          st \<leftarrow> (if snd (assignImages d (rcStatus batched))
                 then do { now \<leftarrow> perform (eNow E) ReadClock;
                           ret (stampDeploy now (fst (assignImages d (rcStatus batched)))) }
                 else ret (fst (assignImages d (rcStatus batched))));
          wrote \<leftarrow> perform (\<lambda>l. eUpdateChannelStatus E l (batched\<lparr>rcStatus := st\<rparr>))
                     (UpdateChannelStatus (batched\<lparr>rcStatus := st\<rparr>));
          (case wrote of
             Inl e \<Rightarrow> do {
               _ \<leftarrow> (if isConflict e then emit (CountConflict (channelKey rc)) else ret ());
               ret (Some e, rc) }
           | Inr stored \<Rightarrow> ret (None, stored))
        }) ?post"
  proof (cases ?got)
    case (Inr read)
    let ?fresh = "rcStatus_update initImageMaps read"
    let ?history = "\<lambda>l'. latestRead ?k l' = Some read \<and> goodDesired E (rcImage rc) l' us d"
    let ?batched = "\<lambda>b. \<exists>t1. b = (if opensBatch ?fresh then openBatch (map uName us) t1 ?fresh else ?fresh)"
    let ?st = "\<lambda>b st. \<exists>t2. st = (if snd (assignImages d (rcStatus b))
        then stampDeploy t2 (fst (assignImages d (rcStatus b))) else fst (assignImages d (rcStatus b)))"
    have start: "?history (?l1 @ [])" using goodDesired_append[OF assms] by (simp add: Inr)
    have ticks: "?history (h @ [ReadClock t])" if "?history h" for h t
      using that goodDesired_append by auto
    show ?thesis
      unfolding Inr sum.case
    proof (rule runs_bind[where Q' = "\<lambda>b l'. ?batched b \<and> ?history l'"], goal_cases)
      case 1
      show ?case
        using start ticks[OF start] by (auto intro!: runs_intros runs_bind_perform clock simp: Inr)
    next
      case (2 batched new)
      then have hist: "?history ((l @ [GetChannel ?k (Inr read)]) @ new)" and b: "?batched batched" by auto
      show ?case
      proof (rule runs_bind[where Q' = "\<lambda>st l'. ?st batched st \<and> ?history l'"], goal_cases)
        case 1
        show ?case
          using hist ticks[OF hist] by (auto intro!: runs_intros runs_bind_perform clock)
      next
        case (2 st new')
        then have hist': "?history (((l @ [GetChannel ?k (Inr read)]) @ new) @ new')" and st: "?st batched st" by auto
        from b obtain t1 where b': "batched = (if opensBatch ?fresh then openBatch (map uName us) t1 ?fresh else ?fresh)"
          by blast
        from st obtain t2 where st': "st = (if snd (assignImages d (rcStatus batched))
            then stampDeploy t2 (fst (assignImages d (rcStatus batched))) else fst (assignImages d (rcStatus batched)))"
          by blast
        have "deployedFrom E (rcImage rc) us (((l @ [GetChannel ?k (Inr read)]) @ new) @ new') read (batched\<lparr>rcStatus := st\<rparr>)"
          using hist' b' st' by (intro deployedFrom_attempt) auto
        then have writes: "deployWrites E rc us (((l @ [GetChannel ?k (Inr read)]) @ new) @ new')
            (UpdateChannelStatus (batched\<lparr>rcStatus := st\<rparr>) r)" for r
          using hist' by (simp add: deployWrites_def)
        show ?case
          by (rule runs_bind_perform, rule writes)
             (auto intro!: runs_intros runs_bind[where Q' = "\<lambda>_ _. True"] runs_emit simp: deployWrites_def)
      qed
    qed
  qed (simp add: runs_return)
qed

lemma deployToInstances_runs:
  "runs (deployWrites E rc us) l (deployToInstances E rc us) (\<lambda>_ _. True)"
  unfolding deployToInstances_def
proof (rule runs_bind)
  show "runs (deployWrites E rc us) l (desiredImages E (rcImage rc) us [])
     (\<lambda>d l'. goodDesired E (rcImage rc) l' us d)"
  proof (rule runs_weaken)
    show "runs (\<lambda>_. observation) l (desiredImages E (rcImage rc) us [])
        (\<lambda>d' l'. goodDesired E (rcImage rc) l' ([] @ us) d')"
      by (rule desired_good) (simp add: goodDesired_def)
  next
    fix h c
    assume "observation c"
    then show "deployWrites E rc us (l @ h) c" by (cases c) (auto simp: deployWrites_def)
  qed simp
next
  fix d new
  assume good: "goodDesired E (rcImage rc) (l @ new) us d"
  have "runs (deployWrites E rc us) (l @ new)
      (retryOnConflict (eRetries E) (deployAttempt E (map uName us) d) rc) (\<lambda>_ _. True)"
  proof (rule runs_retry[where I = "\<lambda>s h. s = rc"])
    fix s :: release_channel and new'
    assume "s = rc"
    with goodDesired_append[OF good]
    show "runs (deployWrites E rc us) ((l @ new) @ new') (deployAttempt E (map uName us) d s)
        (\<lambda>r l'. retryInv (\<lambda>s h. s = rc) r l' \<and> True)"
      by (auto intro!: runs_weaken[OF deployAttempt_runs] simp: retryInv_def split: option.splits prod.splits)
  qed simp
  then show "runs (deployWrites E rc us) (l @ new) (do {
       (err, rc') \<leftarrow> retryOnConflict (eRetries E) (deployAttempt E (map uName us) d) rc;
       ret (case err of
              Some e \<Rightarrow> ((resultZero, Some (wrapf ''failed to update ReleaseChannel status'' e)), rc')
            | None \<Rightarrow> ((resultZero, None), rc')) }) (\<lambda>_ _. True)"
    by (rule runs_bind) (auto intro!: runs_intros split: option.splits)
qed

end
