(* ===== verification/ChannelOutcomes.thy ===== *)
theory ChannelOutcomes
  imports Assignments
begin

text \<open>
  What single operations of the ReleaseChannel controller write and return: the baseline
  capture, a refused downgrade, the assignments of a rollback, adoption of instances that
  already run the target, deletion with orphan protection, and the error path of a
  reconcile.
\<close>

section \<open>Capturing the baseline\<close>

text \<open>Every write of the capture is the channel read last with the baseline and its time set,
  and the baseline is neither empty nor the image that channel is rolling out.\<close>

definition capturesBaseline :: "nsname \<Rightarrow> string \<Rightarrow> log \<Rightarrow> call \<Rightarrow> bool" where
  "capturesBaseline k img h c =
     (case statusWrite c of
        None \<Rightarrow> observation c
      | Some p \<Rightarrow> (case latestRead k h of
                    None \<Rightarrow> False
                  | Some fresh \<Rightarrow>
                      img \<noteq> [] \<and> img \<noteq> rcImage p \<and> stPreviousImage (rcStatus p) = img \<and>
                      stPreviousImage (rcStatus fresh) \<noteq> img \<and>
                      (\<exists>t. p = rcStatus_update (\<lambda>st. st\<lparr>stPreviousImage := img,
                                                       stLastImageChangeTime := Some t\<rparr>) fresh)))"

definition keepsKey :: "'v env \<Rightarrow> nsname \<Rightarrow> bool" where
  "keepsKey E k \<longleftrightarrow> (\<forall>l rc. eGetChannel E l k = Inr rc \<longrightarrow> channelKey rc = k)"

lemma captureAttempt_runs:
  assumes "img \<noteq> []" and "keepsKey E (channelKey rc)"
  shows "runs (capturesBaseline (channelKey rc) img) l (captureAttempt E img rc)
     (\<lambda>r l'. channelKey (snd r) = channelKey rc \<or> fst r = None)"
proof -
  let ?k = "channelKey rc"
  have key: "channelKey fresh = ?k" if "eGetChannel E l ?k = Inr fresh" for fresh l
    using assms(2) that by (simp add: keepsKey_def)
  have same: "channelKey (rcStatus_update f x) = channelKey x" for f and x :: release_channel
    by (simp add: channelKey_def)
  show ?thesis
    unfolding captureAttempt_def requests Let_def
  proof (rule runs_bind_perform)
    show "capturesBaseline ?k img l (GetChannel ?k (eGetChannel E l ?k))"
      by (simp add: capturesBaseline_def)
    show "runs (capturesBaseline ?k img) (l @ [GetChannel ?k (eGetChannel E l ?k)])
       (case eGetChannel E l ?k of
          Inl e \<Rightarrow> ret (Some e, rc)
        | Inr fresh \<Rightarrow>
            if stPreviousImage (rcStatus fresh) = img then ret (None, fresh)
            else if img = rcImage fresh then ret (None, fresh)
            else do {
              now \<leftarrow> perform (eNow E) ReadClock;
              wrote \<leftarrow> perform (\<lambda>l. eUpdateChannelStatus E l (rcStatus_update (\<lambda>st. st\<lparr>stPreviousImage := img,
                                     stLastImageChangeTime := Some now\<rparr>) fresh))
                        (UpdateChannelStatus (rcStatus_update (\<lambda>st. st\<lparr>stPreviousImage := img,
                                     stLastImageChangeTime := Some now\<rparr>) fresh));
              ret (case wrote of
                     Inl e \<Rightarrow> (Some e, rcStatus_update (\<lambda>st. st\<lparr>stPreviousImage := img,
                                     stLastImageChangeTime := Some now\<rparr>) fresh)
                   | Inr stored \<Rightarrow> (None, stored))
            }) (\<lambda>r l'. channelKey (snd r) = ?k \<or> fst r = None)"
      using key[of l]
      by (auto intro!: runs_intros runs_bind_perform simp: capturesBaseline_def assms(1) same split: sum.splits)
  qed
qed

lemma ensure_captures:
  assumes "keepsKey E (channelKey rc)"
  shows "runs (capturesBaseline (channelKey rc) (rollbackBaseline us)) l (ensurePreviousImageTracked E rc us)
     (\<lambda>_ _. True)"
proof -
  let ?img = "rollbackBaseline us"
  have retry: "runs (capturesBaseline (channelKey rc) ?img) l
      (retryOnConflict (eRetries E) (captureAttempt E ?img) rc) (\<lambda>_ _. True)" if "?img \<noteq> []"
  proof (rule runs_retry[where I = "\<lambda>s h. channelKey s = channelKey rc"])
    fix s :: release_channel and new
    assume s: "channelKey s = channelKey rc"
    show "runs (capturesBaseline (channelKey rc) ?img) (l @ new) (captureAttempt E ?img s)
        (\<lambda>r l'. retryInv (\<lambda>s h. channelKey s = channelKey rc) r l' \<and> True)"
      using captureAttempt_runs[OF that, of E s "l @ new"] assms s
      by (auto elim!: runs_weaken simp: retryInv_def split: option.splits prod.splits)
  qed simp
  show ?thesis
    unfolding ensurePreviousImageTracked_def Let_def
    by (auto intro!: runs_intros runs_bind[OF retry] split: option.splits)
qed

section \<open>Refusing a downgrade\<close>

definition refusesOnly :: "release_channel \<Rightarrow> log \<Rightarrow> call \<Rightarrow> bool" where
  "refusesOnly rc h c =
     (case statusWrite c of
        None \<Rightarrow> observation c
      | Some p \<Rightarrow>
          rcPhase p = PhaseIdle \<and> stActiveBatch (rcStatus p) = None \<and>
          stPreviousImage (rcStatus p) = stPreviousImage (rcStatus rc) \<and>
          (\<forall>n. assignedImage (rcStatus p) n \<in> {[], assignedImage (rcStatus rc) n}))"

lemma runs_status_write:
  assumes "\<And>h c. observation c \<Longrightarrow> P h c" and "\<And>h p r. rcStatus p = rcStatus rc \<Longrightarrow> P h (UpdateChannelStatus p r)"
  shows "runs P l (updateReleaseChannelStatus E rc) (statusOutcome rc)"
proof (rule runs_weaken[OF updateReleaseChannelStatus_runs])
  fix h c
  assume "writesOver (channelKey rc) (rcStatus rc) (l @ h) c"
  then show "P (l @ h) c"
    by (cases c) (auto simp: writesOver_def assms split: option.splits)
qed

lemma refuseDowngrade_runs:
  "runs (refusesOnly rc) l (refuseDowngrade E rc us)
     (\<lambda>r l'. (fst r = None) = (downgradeFrom E rc us = None))"
proof (cases "downgradeFrom E rc us")
  case None
  then show ?thesis by (simp add: refuseDowngrade_def runs_return)
next
  case (Some d)
  obtain img n where d: "d = (img, n)" by (cases d)
  have obs: "refusesOnly rc h c" if "observation c" for h c
    using that by (cases c) (auto simp: refusesOnly_def)
  let ?idle = "rcStatus_update (\<lambda>st. st\<lparr>stPhase := PhaseIdle, stActiveBatch := None\<rparr>) rc"
  have upd: "runs (refusesOnly rc) h
      (updateReleaseChannelStatus E (setReconciled E s r m (updateInstanceCounts E ?idle us))) (\<lambda>_ _. True)" for h s r m
  proof (rule runs_weaken[OF runs_status_write])
    fix h r' and p :: release_channel
    assume p: "rcStatus p = rcStatus (setReconciled E s r m (updateInstanceCounts E ?idle us))"
    have "assignedImage (rcStatus p) n \<in> {[], assignedImage (rcStatus rc) n}" for n
      using assignedImage_updateInstanceCounts[of E ?idle us n] by (simp add: p)
    then show "refusesOnly rc h (UpdateChannelStatus p r')"
      by (simp add: refusesOnly_def p)
  qed (auto simp: obs)
  have onw: "onWrites (refusesOnly rc)" by (simp add: onWrites_def obs)
  show ?thesis
    unfolding refuseDowngrade_def Some option.case d prod.case Let_def
    by (rule runs_bind_observes[OF observes_records(1) onw],
        rule runs_bind_observes[OF observes_records(3) onw], rule runs_bind[OF upd])
       (auto intro!: runs_intros split: option.splits)
qed

section \<open>Rollback and adoption\<close>

lemma fold_assign:
  "dictGet (fold (\<lambda>u m. if dictGet m (uName u) \<noteq> img then dictSet (uName u) img m else m) us m) n =
     (if n \<in> uName ` set us then img else dictGet m n)"
proof (induction us arbitrary: m)
  case (Cons u us)
  show ?case
    unfolding fold_simps Cons.IH by (auto simp: dictGet_def)
qed simp

lemma assignRollback_lookup:
  "assignedImage (rcStatus (assignRollback img us rc)) n =
     (if n \<in> uName ` set us then img else assignedImage (rcStatus rc) n)"
  by (simp add: assignRollback_def fold_assign)

definition adopts :: "release_channel \<Rightarrow> unleash list \<Rightarrow> string \<Rightarrow> bool" where
  "adopts rc us n \<longleftrightarrow> list_ex (\<lambda>u. uName u = n \<and> resolvedImage u = rcImage rc) us"

lemma adopt_lookup:
  "map_of (orEmpty (stInstanceImages (rcStatus (adoptUpToDateInstances rc us)))) n =
     (case map_of (orEmpty (stInstanceImages (rcStatus rc))) n of
        Some img \<Rightarrow> Some img
      | None \<Rightarrow> if adopts rc us n then Some (rcImage rc) else None)"
proof (induction us arbitrary: rc)
  case Nil
  then show ?case by (simp add: adoptUpToDateInstances_def adopts_def split: option.split)
next
  case (Cons u us)
  let ?rc1 = "if resolvedImage u \<noteq> rcImage rc then rc
        else if map_of (orEmpty (stInstanceImages (rcStatus rc))) (uName u) \<noteq> None then rc
        else rcStatus_update (\<lambda>st. st\<lparr>
               stInstanceImages := Some (dictSet (uName u) (rcImage rc) (orEmpty (stInstanceImages st))),
               stInstanceImagesGeneration := stInstanceImagesGeneration st + 1\<rparr>) rc"
  have fold: "adoptUpToDateInstances rc (u # us) = adoptUpToDateInstances ?rc1 us"
    by (simp add: adoptUpToDateInstances_def)
  have spec: "rcImage ?rc1 = rcImage rc" by simp
  have adopts1: "adopts ?rc1 us n = adopts rc us n" unfolding adopts_def spec ..
  have adoptsC: "adopts rc (u # us) n \<longleftrightarrow> uName u = n \<and> resolvedImage u = rcImage rc \<or> adopts rc us n"
    by (simp add: adopts_def)
  have lookup: "map_of (orEmpty (stInstanceImages (rcStatus ?rc1))) n =
      (case map_of (orEmpty (stInstanceImages (rcStatus rc))) n of
         Some img \<Rightarrow> Some img
       | None \<Rightarrow> if uName u = n \<and> resolvedImage u = rcImage rc then Some (rcImage rc) else None)"
    by (auto split: option.split)
  show ?case
    unfolding fold Cons.IH[of ?rc1] adopts1 adoptsC spec lookup by (simp split: option.split)
qed

section \<open>Deletion\<close>

text \<open>The finalizer is only given up after a listing of this run without references, and the
  update is the channel read last without the finalizer.\<close>

definition deletionGuard ::
  "('v, 'z) apimachinery_scheme \<Rightarrow> release_channel \<Rightarrow> log \<Rightarrow> log \<Rightarrow> call \<Rightarrow> bool" where
  "deletionGuard L rc l0 h c =
     (case c of
        UpdateChannel p _ \<Rightarrow>
          list_ex (\<lambda>all. filter (isReferencing rc) all = []) (listed l0 h (rcNamespace rc)) \<and>
          (case latestRead (channelKey rc) h of
             None \<Rightarrow> False
           | Some fresh \<Rightarrow> p = rcMeta_update (\<lambda>m. m\<lparr>mFinalizers :=
               removeFinalizer L (mFinalizers m) ReleaseChannelFinalizer\<rparr>) fresh)
      | _ \<Rightarrow> True)"

definition blocked :: "release_channel \<Rightarrow> log \<Rightarrow> log \<Rightarrow> bool" where
  "blocked rc l0 h \<longleftrightarrow> list_ex (\<lambda>all. filter (isReferencing rc) all \<noteq> []) (listed l0 h (rcNamespace rc))"

definition unreferenced :: "release_channel \<Rightarrow> log \<Rightarrow> log \<Rightarrow> bool" where
  "unreferenced rc l0 h \<longleftrightarrow> list_all (\<lambda>all. filter (isReferencing rc) all = []) (listed l0 h (rcNamespace rc))"

lemma blocked_unreferenced: "blocked rc l0 h \<longleftrightarrow> \<not> unreferenced rc l0 h"
  by (simp add: blocked_def unreferenced_def list_ex_iff list_all_iff)

lemma blockDeletion_runs: "runs (deletionGuard E rc l0) l (blockDeletion E k names) (\<lambda>_ _. True)"
  unfolding blockDeletion_def requests
  by (auto intro!: runs_intros runs_bind_perform simp: deletionGuard_def split: sum.split)

definition unlisted :: "(log \<Rightarrow> call \<Rightarrow> bool) \<Rightarrow> string \<Rightarrow> log \<Rightarrow> call \<Rightarrow> bool" where
  "unlisted P ns h c \<longleftrightarrow> P h c \<and> listAnswers ns c = []"

lemma unlisted_answers: "follows (unlisted P ns) l cs \<Longrightarrow> concat (map (listAnswers ns) cs) = []"
  by (induction cs arbitrary: l) (auto simp: unlisted_def)

lemma dropFinalizer_runs:
  assumes "isListing l0 l (rcNamespace rc) all" and "filter (isReferencing rc) all = []"
  shows "runs (unlisted (deletionGuard E rc l0) (rcNamespace rc)) l (dropFinalizer E (channelKey rc)) (\<lambda>_ _. True)"
proof -
  let ?k = "channelKey rc"
  have "all \<in> set (listed l0 (l @ [GetChannel ?k r]) (rcNamespace rc))" for r
    using isListing_append[OF assms(1)] by (simp add: isListing_def)
  then have unreferenced: "list_ex (\<lambda>all. filter (isReferencing rc) all = [])
      (listed l0 (l @ [GetChannel ?k r]) (rcNamespace rc))" for r
    using assms(2) by (fastforce simp: list_ex_iff)
  show ?thesis
    unfolding dropFinalizer_def requests
    using unreferenced
    by (auto intro!: runs_intros runs_bind_perform simp: unlisted_def deletionGuard_def split: sum.split)
qed

lemma handleDeletion_runs:
  "runs (deletionGuard E rc l) l (handleDeletion E rc)
     (\<lambda>r l'. blocked rc l l' \<longrightarrow> r = (resultAfter releaseChannelDeletionCheckInterval, None))"
proof -
  let ?ns = "rcNamespace rc" and ?r = "eListUnleashes E l (rcNamespace rc)"
  let ?l1 = "l @ [ListUnleashes ?ns ?r]"
  define Q where "Q = (\<lambda>r l'. blocked rc l l' \<longrightarrow> r = (resultAfter releaseChannelDeletionCheckInterval, None :: go_error option))"
  have block: "runs (deletionGuard E rc l) h (retryOnConflict n (\<lambda>_. blockDeletion E k names) ()) (\<lambda>_ _. True)" for h n k names
    by (rule runs_retry[where I = "\<lambda>_ _. True"]) (simp_all add: blockDeletion_runs)
  have refuse: "runs (deletionGuard E rc l) ?l1 (do {
        _ \<leftarrow> retryOnConflict (eRetries E) (\<lambda>_. blockDeletion E (channelKey rc) names) ();
        ret (resultAfter releaseChannelDeletionCheckInterval, None) }) Q" for names
    by (rule runs_bind[OF block]) (simp add: Q_def runs_return)
  have release: "runs (deletionGuard E rc l) ?l1 (do {
        (err, _) \<leftarrow> retryOnConflict (eRetries E) (\<lambda>_. dropFinalizer E (channelKey rc)) ();
        ret (case err of Some e \<Rightarrow> (resultZero, Some (wrapf ''failed to remove finalizer'' e)) | None \<Rightarrow> (resultZero, None)) }) Q"
    if all: "?r = Inr all" and "filter (isReferencing rc) all = []" for all
  proof -
    have "runs (unlisted (deletionGuard E rc l) ?ns) ?l1
        (retryOnConflict (eRetries E) (\<lambda>_. dropFinalizer E (channelKey rc)) ()) (\<lambda>_ _. True)"
      by (rule runs_retry[where I = "\<lambda>_ _. True"])
         (simp_all only: retryInv_True simp_thms all dropFinalizer_runs[OF isListing_append[OF isListing_entry] that(2)])
    from runs_trace[OF this] have "runs (deletionGuard E rc l) ?l1
        (retryOnConflict (eRetries E) (\<lambda>_. dropFinalizer E (channelKey rc)) ()) (\<lambda>_ l'. \<not> blocked rc l l')"
      by (rule runs_weaken)
         (use that(2) in \<open>auto simp: unlisted_def blocked_def listed_def all list_ex_iff dest!: unlisted_answers\<close>)
    then show ?thesis
      by (rule runs_bind) (auto simp: Q_def intro!: runs_intros)
  qed
  have "runs (deletionGuard E rc l) ?l1 (case listing (isReferencing rc) ?r of
        Inl e \<Rightarrow> ret (resultZero, Some (wrapf ''failed to check for referencing instances'' e))
      | Inr us \<Rightarrow>
          if us \<noteq> [] then do {
            _ \<leftarrow> retryOnConflict (eRetries E) (\<lambda>_. blockDeletion E (channelKey rc) (map uName us)) ();
            ret (resultAfter releaseChannelDeletionCheckInterval, None)
          }
          else do {
            (err, _) \<leftarrow> retryOnConflict (eRetries E) (\<lambda>_. dropFinalizer E (channelKey rc)) ();
            ret (case err of
                   Some e \<Rightarrow> (resultZero, Some (wrapf ''failed to remove finalizer'' e))
                 | None \<Rightarrow> (resultZero, None))
          }) Q"
    using refuse release
    by (cases ?r) (auto simp: listing_def Q_def blocked_def listed_def runs_return)
  then show ?thesis
    unfolding handleDeletion_def getReferencingInstances_def requests bind_assoc Q_def[symmetric]
    by (intro runs_bind_perform) (simp_all add: deletionGuard_def runs_ret_bind)
qed

section \<open>The error path of a reconcile\<close>

text \<open>A reconcile of a live channel never returns a conflict, and when it returns another
  error, its last call was a status write in phase Failed with that error as the reason.\<close>

definition failureWritten :: "go_error \<Rightarrow> log \<Rightarrow> bool" where
  "failureWritten e h \<longleftrightarrow>
     h \<noteq> [] \<and>
     (case statusWrite (last h) of
        None \<Rightarrow> False
      | Some p \<Rightarrow> rcPhase p = PhaseFailed \<and> stFailureReason (rcStatus p) = errorMsg e)"

definition errorsRecorded :: "outcome \<Rightarrow> log \<Rightarrow> bool" where
  "errorsRecorded out h \<longleftrightarrow>
     (case snd out of None \<Rightarrow> True | Some e \<Rightarrow> \<not> isConflict e \<and> failureWritten e h)"

lemma errorsRecorded_append: "errorsRecorded out m \<Longrightarrow> errorsRecorded out (h @ m)"
  by (auto simp: errorsRecorded_def failureWritten_def split: option.splits)

lemma errorsRecorded_none [simp]: "errorsRecorded (res, None) m"
  by (simp add: errorsRecorded_def)

lemma recordError_yields:
  "yields (recordError E rc e) (\<lambda>rc'. rcPhase rc' = PhaseFailed \<and> stFailureReason (rcStatus rc') = errorMsg e)"
  unfolding recordError_def Let_def
  by (auto intro!: yields_bind yields_return observes_intros)

lemma failReconcile_runs:
  assumes "\<not> isConflict e"
  shows "runs (\<lambda>_ _. True) l (failReconcile E k rc res e)
     (\<lambda>out l'. \<exists>m. l' = l @ m \<and> errorsRecorded out m)"
  unfolding failReconcile_def
proof (rule runs_bind_yields[OF recordError_yields])
  fix rc' :: release_channel and new
  assume rc': "rcPhase rc' = PhaseFailed \<and> stFailureReason (rcStatus rc') = errorMsg e"
  show "runs (\<lambda>_ _. True) (l @ new) (do {
       _ \<leftarrow> emit (CountRollout k ''failed''); _ \<leftarrow> updateChannelStatus E rc'; ret (res, Some e) })
     (\<lambda>out l'. \<exists>m. l' = l @ m \<and> errorsRecorded out m)"
    unfolding runs_def requests wp_simps
    by (auto simp: errorsRecorded_def failureWritten_def assms rc')
qed (simp add: onWrites_def)

lemma reconcilePhase_errors:
  "runs (\<lambda>_ _. True) l (reconcilePhase E k rc) (\<lambda>out l'. \<exists>m. l' = l @ m \<and> errorsRecorded out m)"
proof -
  let ?Q = "\<lambda>out l'. \<exists>m. l' = l @ m \<and> errorsRecorded out m"
  have phase: "runs (\<lambda>_ _. True) l (executePhase E (initializeStatus E rc)) (\<lambda>_ _. True)"
    by (rule runs_weaken[OF executePhase_refines[unfolded persists_def]]) auto
  have fail: "runs (\<lambda>_ _. True) (l @ new) (failReconcile E k rc' res e) ?Q" if "\<not> isConflict e" for e new rc' res
    by (rule runs_weaken[OF failReconcile_runs[OF that]]) (auto intro: errorsRecorded_append)
  have observing: "observes (finishReconcile E k rc')" for rc'
    unfolding finishReconcile_def by (auto intro!: observes_intros)
  have finish: "runs (\<lambda>_ _. True) (l @ new) (do { _ \<leftarrow> finishReconcile E k rc'; ret (res, None) }) ?Q" for new rc' res
    by (rule runs_bind_observes[OF observing]) (auto simp: onWrites_def errorsRecorded_def intro!: runs_return)
  show ?thesis
    unfolding reconcilePhase_def
    by (rule runs_bind[OF phase]) (auto intro!: runs_intros fail finish)
qed

end
