(* ===== verification/RolloutBatches.thy ===== *)
theory RolloutBatches
  imports Assignments ChannelOutcomes
begin

text \<open>
  The batches of the rolling phase: how much one batch may move, what has to be seen before a
  batch is given up, and how many batches a fleet takes.
\<close>

section \<open>The size of a batch\<close>

text \<open>At most \<open>n\<close> assignments differ, and only of the given names.\<close>

definition movesWithin :: "int \<Rightarrow> string list \<Rightarrow> channel_status \<Rightarrow> channel_status \<Rightarrow> bool" where
  "movesWithin n names old new \<longleftrightarrow>
     (\<exists>moved. int (length moved) \<le> n \<and> set moved \<subseteq> set names \<and>
        (\<forall>m. m \<notin> set moved \<longrightarrow> assignedImage new m = assignedImage old m))"

definition batchWrites :: "release_channel \<Rightarrow> unleash list \<Rightarrow> log \<Rightarrow> call \<Rightarrow> bool" where
  "batchWrites rc pending h c =
     (case statusWrite c of
        None \<Rightarrow> True
      | Some p \<Rightarrow> (case latestRead (channelKey rc) h of
                    None \<Rightarrow> False
                  | Some fresh \<Rightarrow>
                      movesWithin (effectiveMaxParallel rc) (map uName pending) (rcStatus fresh) (rcStatus p) \<and>
                      (opensBatch fresh \<longrightarrow> map_option abInstanceNames (stActiveBatch (rcStatus p)) =
                         Some (map uName (nextBatch rc pending)))))"

lemma effectiveMaxParallel_pos: "0 < effectiveMaxParallel rc"
  by (simp add: effectiveMaxParallel_def Let_def)

lemma nextBatch_length: "int (length (nextBatch rc pending)) = min (int (length pending)) (effectiveMaxParallel rc)"
  using effectiveMaxParallel_pos[of rc] by (simp add: nextBatch_def)

lemma nextBatch_take: "nextBatch rc pending = take (nat (effectiveMaxParallel rc)) pending"
  using effectiveMaxParallel_pos[of rc] by (auto simp: nextBatch_def min_def)

lemma deploy_batch:
  assumes "deployWrites L rc (nextBatch rc pending) h c"
  shows "batchWrites rc pending h c"
proof (cases "statusWrite c")
  case (Some p)
  with assms obtain fresh where fresh: "latestRead (channelKey rc) h = Some fresh"
    and "deployedFrom L (rcImage rc) (nextBatch rc pending) h fresh p"
    by (auto simp: deployWrites_def split: option.splits)
  then have keep: "\<forall>n. n \<notin> uName ` set (nextBatch rc pending) \<longrightarrow>
        assignedImage (rcStatus p) n = assignedImage (rcStatus fresh) n"
    and batch: "opensBatch fresh \<longrightarrow> map_option abInstanceNames (stActiveBatch (rcStatus p)) =
        Some (map uName (nextBatch rc pending))"
    by (simp_all add: deployedFrom_def)
  have "set (nextBatch rc pending) \<subseteq> set pending"
    by (simp add: nextBatch_def set_take_subset)
  with keep nextBatch_length[of rc pending]
  have "movesWithin (effectiveMaxParallel rc) (map uName pending) (rcStatus fresh) (rcStatus p)"
    unfolding movesWithin_def by (intro exI[of _ "map uName (nextBatch rc pending)"]) auto
  with Some fresh batch show ?thesis by (simp add: batchWrites_def)
qed (simp add: batchWrites_def)

section \<open>Giving up a batch\<close>

text \<open>While a batch is active no assignment moves, and as long as the rollout stays in Rolling
  the batch is cleared only when each of its instances was seen healthy.\<close>

definition settlesBatch ::
  "release_channel \<Rightarrow> unleash list \<Rightarrow> active_batch \<Rightarrow> log \<Rightarrow> log \<Rightarrow> call \<Rightarrow> bool" where
  "settlesBatch rc us active l0 h c =
     (case statusWrite c of
        None \<Rightarrow> observation c
      | Some p \<Rightarrow>
          (\<forall>n. assignedImage (rcStatus p) n = assignedImage (rcStatus rc) n) \<and>
          (rcPhase p = PhaseRolling \<longrightarrow> stActiveBatch (rcStatus p) \<noteq> None \<or>
             list_all (seenHealthy l0 h) (activeBatchInstances us active)))"

lemma settles_observation: "observation c \<Longrightarrow> settlesBatch rc us active l0 h c"
  by (cases c) (simp_all add: settlesBatch_def)

lemma settles_write:
  assumes "\<And>n. assignedImage (rcStatus x) n = assignedImage (rcStatus rc) n"
    and "rcPhase x = PhaseRolling \<Longrightarrow> persistentGate (\<lambda>h. list_all (seenHealthy l0 h) (activeBatchInstances us active)) l"
  shows "runs (settlesBatch rc us active l0) l (updateReleaseChannelStatus E x) (\<lambda>_ _. True)"
proof (rule runs_weaken[OF updateReleaseChannelStatus_runs])
  fix h c
  assume "writesOver (channelKey x) (rcStatus x) (l @ h) c"
  then show "settlesBatch rc us active l0 (l @ h) c"
    using assms by (cases c) (auto simp: writesOver_def settlesBatch_def persistentGate_def split: option.splits)
qed simp

lemma failure_phase: "releasePhaseOnFailure rc \<in> {PhaseFailed, PhaseRollingBack}"
  by (simp add: releasePhaseOnFailure_def)

lemma settles_failure:
  "runs (settlesBatch rc us active l0) l (failRollout E (clearBatch rc) reason) (\<lambda>_ _. True)"
  unfolding failRollout_def Let_def
  using failure_phase[of "clearBatch rc"]
  by (auto intro!: runs_bind_observes observes_records settles_write
      simp: onWrites_def settles_observation setFailure_def clearBatch_def)

lemma settles_completed:
  assumes "persistentGate (\<lambda>h. list_all (seenHealthy l0 h) (activeBatchInstances us active)) l"
  shows "runs (settlesBatch rc us active l0) l (batchCompleted E rc) (\<lambda>_ _. True)"
  unfolding batchCompleted_def
  by (rule runs_bind[OF settles_write])
     (use assms in \<open>auto intro!: runs_intros simp: clearBatch_def split: option.splits\<close>)

lemma settles_ready:
  assumes "\<And>ok new. (ok \<Longrightarrow> persistentGate (\<lambda>h. list_all (seenHealthy l h) (activeBatchInstances us active)) ((l @ m) @ new)) \<Longrightarrow>
      runs (settlesBatch rc us active l) ((l @ m) @ new) (f ok) (\<lambda>_ _. True)"
  shows "runs (settlesBatch rc us active l) (l @ m)
     (State_Monad.bind (areInstancesReady E (activeBatchInstances us active) img True) f) (\<lambda>_ _. True)"
proof (rule runs_bind)
  show "runs (settlesBatch rc us active l) (l @ m) (areInstancesReady E (activeBatchInstances us active) img True)
      (\<lambda>ok l'. ok \<longrightarrow> persistentGate (\<lambda>h. list_all (seenHealthy l h) (activeBatchInstances us active)) l')"
    by (rule runs_weaken[OF areInstancesReady_observed])
       (auto simp: settles_observation persistentGate_def list_all_iff seenHealthy_def)
qed (use assms in blast)

lemma rollingActiveBatch_settles:
  "runs (settlesBatch rc us active l) l (rollingActiveBatch E rc us active) (\<lambda>_ _. True)"
proof -
  let ?P = "settlesBatch rc us active l" and ?batch = "activeBatchInstances us active"
  let ?gate = "\<lambda>h. list_all (seenHealthy l h) ?batch"
  have onw: "onWrites ?P" by (simp add: onWrites_def settles_observation)
  have empty: "runs ?P l (updateReleaseChannelStatus E (clearBatch rc)) (\<lambda>_ _. True)" if "?batch = []"
    by (rule settles_write) (simp_all add: that persistentGate_def clearBatch_def)
  have completed: "persistentGate ?gate (l @ a @ b @ c)" if "persistentGate ?gate (l @ a @ b)" for a b c
    using persistentGate_append[OF that, of c] by simp
  show ?thesis
    unfolding rollingActiveBatch_def Let_def
    by (auto intro!: empty runs_intros runs_bind_observes[OF observes_terminal onw] settles_failure settles_ready
        settles_completed runs_bind_observes[OF _ onw] observes_clocked observes_health intro: completed)
qed

section \<open>How many batches a fleet takes\<close>

text \<open>The instances of the next batch settle on the target; the others stay as they are.\<close>

definition settleBatch :: "release_channel \<Rightarrow> unleash list \<Rightarrow> unleash list" where
  "settleBatch rc us = (let batch = map uName (nextBatch rc (getInstancesToUpdate us rc)) in
     map (\<lambda>u. if uName u \<in> set batch
              then uStatus_update (\<lambda>st. st\<lparr>utResolvedReleaseChannelImage := rcImage rc\<rparr>) u else u) us)"

abbreviation settled :: "string \<Rightarrow> string set \<Rightarrow> unleash \<Rightarrow> unleash" where
  "settled img names u \<equiv>
     (if uName u \<in> names then uStatus_update (\<lambda>st. st\<lparr>utResolvedReleaseChannelImage := img\<rparr>) u else u)"

lemma filter_settled:
  fixes us :: "unleash list" and img :: string
  assumes "distinct (map uName us)"
  defines "behind \<equiv> filter (\<lambda>u. resolvedImage u \<noteq> img)"
  shows "behind (map (settled img (uName ` set (take k (behind us)))) us) = drop k (behind us)"
  using assms(1) unfolding behind_def
proof (induction us arbitrary: k)
  case (Cons u us)
  let ?behind = "filter (\<lambda>u. resolvedImage u \<noteq> img)"
  have fresh: "uName u \<notin> uName ` set us" and dist: "distinct (map uName us)" using Cons.prems by auto
  have sub: "uName ` set (take n (?behind us)) \<subseteq> uName ` set us" for n
    using set_take_subset[of n "?behind us"] by auto
  have skip: "map (settled img (insert (uName u) names)) us = map (settled img names) us" for names
    using fresh by (intro map_cong refl) (metis imageI insert_iff)
  note IH = Cons.IH[OF dist]
  show ?case
  proof (cases "resolvedImage u = img")
    case True
    then show ?thesis using IH[of k] sub fresh by auto
  next
    case False
    show ?thesis
    proof (cases k)
      case 0
      then show ?thesis by simp
    next
      case (Suc j)
      have "?behind (map (settled img (insert (uName u) (uName ` set (take j (?behind us))))) (u # us)) = drop j (?behind us)"
        unfolding list.map(2) skip using IH[of j] by simp
      with False Suc show ?thesis by simp
    qed
  qed
qed simp

lemma settleBatch_pending:
  assumes "distinct (map uName us)"
  shows "getInstancesToUpdate (settleBatch rc us) rc = drop (nat (effectiveMaxParallel rc)) (getInstancesToUpdate us rc)"
  using filter_settled[OF assms, of "rcImage rc" "nat (effectiveMaxParallel rc)"]
  by (simp add: settleBatch_def getInstancesToUpdate_def nextBatch_take Let_def)

lemma settleBatch_names: "map uName (settleBatch rc us) = map uName us"
  by (simp add: settleBatch_def Let_def)

lemma settleBatches_pending:
  assumes "distinct (map uName us)"
  shows "getInstancesToUpdate ((settleBatch rc ^^ k) us) rc =
     drop (k * nat (effectiveMaxParallel rc)) (getInstancesToUpdate us rc)"
proof (induction k)
  case (Suc k)
  have names: "map uName ((settleBatch rc ^^ k) us) = map uName us"
    by (induction k) (simp_all add: settleBatch_names)
  show ?case
    using settleBatch_pending[of "(settleBatch rc ^^ k) us" rc] assms Suc by (simp add: names add.commute)
qed simp

text \<open>As many batches as the derived time budget reckons with are enough.\<close>

lemma budgetBatches_enough:
  assumes "0 \<le> stInstances (rcStatus rc)" and "stInstances (rcStatus rc) \<le> 2 ^ 31" and "effectiveMaxParallel rc \<le> 2 ^ 31"
  shows "stInstances (rcStatus rc) \<le> budgetBatches rc * effectiveMaxParallel rc" and "0 \<le> budgetBatches rc"
proof -
  let ?n = "stInstances (rcStatus rc)" and ?m = "effectiveMaxParallel rc"
  have m: "0 < ?m" by (rule effectiveMaxParallel_pos)
  have b: "budgetBatches rc = (?n + ?m - 1) div ?m"
    using assms m by (simp add: budgetBatches_def Let_def wrap64_id goQuot_nonneg)
  show "0 \<le> budgetBatches rc" unfolding b using assms m by (simp add: pos_imp_zdiv_nonneg_iff)
  have "(?n + ?m - 1) mod ?m < ?m" using m by simp
  then show "?n \<le> budgetBatches rc * ?m"
    unfolding b using div_mult_mod_eq[of "?n + ?m - 1" ?m] by linarith
qed

end
