(* ===== verification/SampleCluster.thy ===== *)
theory SampleCluster
  imports ChannelOutcomes
begin

text \<open>
  A concrete environment that satisfies the documented behaviour the theorems assume: an API
  server that stores what was written last, the apimachinery helpers, a clock that ticks with
  every call and instances that are healthy on a fixed image. The witnesses run the
  controller against it.
\<close>

definition storeCondition :: "condition list \<Rightarrow> condition \<Rightarrow> condition list" where
  "storeCondition cs c =
     (if list_ex (\<lambda>d. cType d = cType c) cs then map (\<lambda>d. if cType d = cType c then c else d) cs
      else cs @ [c])"

definition sampleMachinery :: "nat apimachinery" where
  "sampleMachinery =
     \<lparr>newVersion = newVersion sampleSemver, vcompare = vcompare sampleSemver,
      selectorMatches = (\<lambda>sel labels. Some (case selMatchLabels sel of
          None \<Rightarrow> True
        | Some want \<Rightarrow> list_all (\<lambda>(k, v). map_of labels k = Some v) want)),
      setStatusCondition = storeCondition,
      findStatusCondition = (\<lambda>cs t. find (\<lambda>c. cType c = t) cs),
      containsFinalizer = (\<lambda>fs f. f \<in> set fs),
      addFinalizer = (\<lambda>fs f. if f \<in> set fs then fs else fs @ [f]),
      removeFinalizer = (\<lambda>fs f. filter (\<lambda>g. g \<noteq> f) fs)\<rparr>"

text \<open>The channel as stored after the logged writes.\<close>

fun stored :: "release_channel \<Rightarrow> log \<Rightarrow> release_channel" where
  "stored rc [] = rc"
| "stored rc (c # cs) = (case c of
       UpdateChannelStatus p (Inr s) \<Rightarrow> stored (if channelKey s = channelKey rc then s else rc) cs
     | UpdateChannel p (Inr s) \<Rightarrow> stored (if channelKey s = channelKey rc then s else rc) cs
     | _ \<Rightarrow> stored rc cs)"

text \<open>Instances run the image the stored channel assigns to them.\<close>

definition follow :: "release_channel \<Rightarrow> unleash \<Rightarrow> unleash" where
  "follow rc u = (let img = assignedImage (rcStatus rc) (uName u) in
     if img = [] then u else uStatus_update (\<lambda>st. st\<lparr>utResolvedReleaseChannelImage := img\<rparr>) u)"

definition sampleEnv :: "release_channel \<Rightarrow> unleash list \<Rightarrow> nat env" where
  "sampleEnv rc us = apimachinery.extend sampleMachinery
     \<lparr>eNow = (\<lambda>l. int (length l) * second),
      eGetChannel = (\<lambda>l k. if k = channelKey rc then Inr (stored rc l)
                           else Inl \<lparr>errorKind = NotFound, errorMsg = ''not found''\<rparr>),
      eUpdateChannel = (\<lambda>l p. Inr p),
      eUpdateChannelStatus = (\<lambda>l p. Inr p),
      eListUnleashes = (\<lambda>l ns. Inr (map (follow (stored rc l)) (filter (\<lambda>u. uNamespace u = ns) us))),
      eGetUnleash = (\<lambda>l k. case find (\<lambda>u. unleashKey u = k) us of
          Some u \<Rightarrow> Inr (follow (stored rc l) u)
        | None \<Rightarrow> Inl \<lparr>errorKind = NotFound, errorMsg = ''not found''\<rparr>),
      eHttpGet = (\<lambda>l url. HttpStatus 200),
      eRetries = 4\<rparr>"

lemma find_store_other:
  "t \<noteq> cType c \<Longrightarrow> find (\<lambda>d. cType d = t) (storeCondition cs c) = find (\<lambda>d. cType d = t) cs"
proof -
  assume t: "t \<noteq> cType c"
  have "find (\<lambda>d. cType d = t) (map (\<lambda>d. if cType d = cType c then c else d) cs) = find (\<lambda>d. cType d = t) cs"
    using t by (induction cs) auto
  moreover have "find (\<lambda>d. cType d = t) (cs @ [c]) = find (\<lambda>d. cType d = t) cs"
    using t by (induction cs) auto
  ultimately show ?thesis by (simp add: storeCondition_def)
qed

lemma find_store_same: "find (\<lambda>d. cType d = cType c) (storeCondition cs c) = Some c"
proof (cases "list_ex (\<lambda>d. cType d = cType c) cs")
  case True
  then have "find (\<lambda>d. cType d = cType c) (map (\<lambda>d. if cType d = cType c then c else d) cs) = Some c"
    by (induction cs) auto
  with True show ?thesis by (simp add: storeCondition_def)
next
  case False
  then have "find (\<lambda>d. cType d = cType c) (cs @ [c]) = Some c" by (induction cs) auto
  with False show ?thesis by (simp add: storeCondition_def)
qed

lemma sample_laws:
  "semver_laws (sampleEnv rc us)" "condition_laws (sampleEnv rc us)" "finalizer_laws (sampleEnv rc us)"
  by (simp_all add: semver_laws_def condition_laws_def finalizer_laws_def sampleEnv_def sampleMachinery_def
      apimachinery.defs sampleSemver_def find_store_same find_store_other)

text \<open>A channel the controller already owns, a healthy instance on the target and one behind it.\<close>

definition sampleChannel :: release_channel where
  "sampleChannel = rcMeta_update (\<lambda>m. m\<lparr>mFinalizers := [ReleaseChannelFinalizer]\<rparr>) (newChannel ''n'' ''c'' ''r:2'')"

definition healthy :: "unleash \<Rightarrow> unleash" where
  "healthy u = uStatus_update (\<lambda>st. st\<lparr>utConditions :=
     [newCondition ConditionReconciled ConditionTrue ''R'' ''m'', newCondition ConditionConnected ConditionTrue ''R'' ''m'']\<rparr>) u"

definition sampleFleet :: "unleash list" where
  "sampleFleet = [healthy (newUnleash ''n'' ''a'' ''c'' ''r:2''), healthy (newUnleash ''n'' ''b'' ''c'' ''r:1'')]"

definition sampleRolling :: release_channel where
  "sampleRolling = updateInstanceCounts sampleMachinery sampleChannel sampleFleet"

lemma sampleChannel_key: "channelKey sampleChannel = (''n'', ''c'')"
  by (simp add: sampleChannel_def channelKey_def fresh_objects)

lemma stored_key: "channelKey (stored rc l) = channelKey rc"
  by (induction l arbitrary: rc) (auto split: call.split sum.split)

lemma sample_keepsKey: "keepsKey (sampleEnv rc us) k"
  by (auto simp: keepsKey_def sampleEnv_def apimachinery.defs stored_key split: if_splits)

section \<open>An outage\<close>

text \<open>The API server cannot list the instances: the run fails and records that.\<close>

definition sampleOutage :: "nat env" where
  "sampleOutage = (sampleEnv sampleChannel sampleFleet)
     \<lparr>eListUnleashes := (\<lambda>_ _. Inl \<lparr>errorKind = Plain, errorMsg = ''down''\<rparr>)\<rparr>"

definition sampleOutageLog :: log where
  "sampleOutageLog = snd (run_state (Reconcile sampleOutage (''n'', ''c'')) [])"

lemma sampleOutage_reconciled: "reconciled sampleOutage sampleOutageLog"
  unfolding sampleOutageLog_def by (intro reconciled.intros)

lemma sampleOutage_written: "writtenPhases sampleOutageLog = [PhaseFailed]"
  by code_simp

lemma sampleOutage_soleWriter: "soleWriter sampleOutageLog"
  by code_simp

end
