(* ===== verification/ObjectApi.thy ===== *)
theory ObjectApi
  imports ApiTypes Effects
begin

text \<open>
  The client of controller-runtime, one kind of object at a time, and the helpers of
  \<open>internal/utils/k8s.go\<close> on top of it. A \<open>kind\<close> says how the API server answers each request
  for objects of one Go type, given the log of all earlier interactions; a successful write
  answers with the object as stored, which is what the Go client copies into its argument.
  Every controller has its own log type and embeds the requests it issues in it.
\<close>

datatype 'o request =
    ObjGet nsname "go_error + 'o"
  | ObjList string "go_error + 'o list"
  | ObjCreate 'o "go_error + 'o"
  | ObjUpdate 'o "go_error + 'o"
  | ObjUpdateStatus 'o "go_error + 'o"
  | ObjPatch 'o 'o "go_error + 'o" \<comment> \<open>from, to\<close>
  | ObjDelete 'o "go_error option"
  | ObjSelect string "string dict" "go_error + 'o list" \<comment> \<open>by namespace and labels\<close>
  | ObjPatchLocked 'o 'o "go_error + 'o" \<comment> \<open>fails when the version is not that of \<open>from\<close>\<close>
  | ObjDeleteExact 'o "go_error option" \<comment> \<open>fails unless identity and version are those given\<close>

text \<open>\<open>kDerivative\<close> is \<open>equality.Semantic.DeepDerivative\<close> on the specifications: the first is
  covered by the second where it says anything.\<close>

record ('c, 'o) kind =
  kGet :: "'c list \<Rightarrow> nsname \<Rightarrow> go_error + 'o"
  kList :: "'c list \<Rightarrow> string \<Rightarrow> go_error + 'o list"
  kCreate :: "'c list \<Rightarrow> 'o \<Rightarrow> go_error + 'o"
  kUpdate :: "'c list \<Rightarrow> 'o \<Rightarrow> go_error + 'o"
  kUpdateStatus :: "'c list \<Rightarrow> 'o \<Rightarrow> go_error + 'o"
  kPatch :: "'c list \<Rightarrow> 'o \<Rightarrow> 'o \<Rightarrow> go_error + 'o"
  kDelete :: "'c list \<Rightarrow> 'o \<Rightarrow> go_error option"
  kDerivative :: "'o \<Rightarrow> 'o \<Rightarrow> bool"
  kSelect :: "'c list \<Rightarrow> string \<Rightarrow> string dict \<Rightarrow> go_error + 'o list"
  kPatchLocked :: "'c list \<Rightarrow> 'o \<Rightarrow> 'o \<Rightarrow> go_error + 'o"
  kDeleteExact :: "'c list \<Rightarrow> 'o \<Rightarrow> go_error option"

definition getObject :: "('c, 'o) kind \<Rightarrow> ('o request \<Rightarrow> 'c) \<Rightarrow> nsname \<Rightarrow> ('c, go_error + 'o) program" where
  "getObject K w k = perform (\<lambda>l. kGet K l k) (\<lambda>r. w (ObjGet k r))"

definition listObjects :: "('c, 'o) kind \<Rightarrow> ('o request \<Rightarrow> 'c) \<Rightarrow> string \<Rightarrow> ('c, go_error + 'o list) program" where
  "listObjects K w ns = perform (\<lambda>l. kList K l ns) (\<lambda>r. w (ObjList ns r))"

definition createObject :: "('c, 'o) kind \<Rightarrow> ('o request \<Rightarrow> 'c) \<Rightarrow> 'o \<Rightarrow> ('c, go_error + 'o) program" where
  "createObject K w x = perform (\<lambda>l. kCreate K l x) (\<lambda>r. w (ObjCreate x r))"

definition updateObject :: "('c, 'o) kind \<Rightarrow> ('o request \<Rightarrow> 'c) \<Rightarrow> 'o \<Rightarrow> ('c, go_error + 'o) program" where
  "updateObject K w x = perform (\<lambda>l. kUpdate K l x) (\<lambda>r. w (ObjUpdate x r))"

definition updateStatusOf :: "('c, 'o) kind \<Rightarrow> ('o request \<Rightarrow> 'c) \<Rightarrow> 'o \<Rightarrow> ('c, go_error + 'o) program" where
  "updateStatusOf K w x = perform (\<lambda>l. kUpdateStatus K l x) (\<lambda>r. w (ObjUpdateStatus x r))"

definition patchObject :: "('c, 'o) kind \<Rightarrow> ('o request \<Rightarrow> 'c) \<Rightarrow> 'o \<Rightarrow> 'o \<Rightarrow> ('c, go_error + 'o) program" where
  "patchObject K w from to = perform (\<lambda>l. kPatch K l from to) (\<lambda>r. w (ObjPatch from to r))"

definition deleteObject :: "('c, 'o) kind \<Rightarrow> ('o request \<Rightarrow> 'c) \<Rightarrow> 'o \<Rightarrow> ('c, go_error option) program" where
  "deleteObject K w x = perform (\<lambda>l. kDelete K l x) (\<lambda>r. w (ObjDelete x r))"

definition selectObjects ::
  "('c, 'o) kind \<Rightarrow> ('o request \<Rightarrow> 'c) \<Rightarrow> string \<Rightarrow> string dict \<Rightarrow> ('c, go_error + 'o list) program" where
  "selectObjects K w ns ls = perform (\<lambda>l. kSelect K l ns ls) (\<lambda>r. w (ObjSelect ns ls r))"

definition patchLocked :: "('c, 'o) kind \<Rightarrow> ('o request \<Rightarrow> 'c) \<Rightarrow> 'o \<Rightarrow> 'o \<Rightarrow> ('c, go_error + 'o) program" where
  "patchLocked K w from to = perform (\<lambda>l. kPatchLocked K l from to) (\<lambda>r. w (ObjPatchLocked from to r))"

definition deleteExact :: "('c, 'o) kind \<Rightarrow> ('o request \<Rightarrow> 'c) \<Rightarrow> 'o \<Rightarrow> ('c, go_error option) program" where
  "deleteExact K w x = perform (\<lambda>l. kDeleteExact K l x) (\<lambda>r. w (ObjDeleteExact x r))"

lemmas object_requests = getObject_def listObjects_def createObject_def updateObject_def
  updateStatusOf_def patchObject_def deleteObject_def selectObjects_def patchLocked_def deleteExact_def

definition errorOf :: "go_error + 'a \<Rightarrow> go_error option" where
  "errorOf r = (case r of Inl e \<Rightarrow> Some e | Inr _ \<Rightarrow> None)"

lemma errorOf_simps [simp]: "errorOf (Inl e) = Some e" "errorOf (Inr x) = None"
  by (simp_all add: errorOf_def)

lemma errorOf_None: "errorOf r = None \<longleftrightarrow> (\<exists>x. r = Inr x)"
  by (cases r) auto

section \<open>Secrets\<close>

text \<open>\<open>StringData\<close> is write-only: the API server merges it into \<open>Data\<close>.\<close>

record secret =
  scMeta :: object_meta
  scData :: "string dict"
  scStringData :: "string dict"

definition secretKey :: "secret \<Rightarrow> nsname" where
  "secretKey s = (mNamespace (scMeta s), mName (scMeta s))"

section \<open>Single objects\<close>

text \<open>Deletion that tolerates an object that is gone already.\<close>

definition DeleteObject :: "('c, 'o) kind \<Rightarrow> ('o request \<Rightarrow> 'c) \<Rightarrow> 'o \<Rightarrow> ('c, go_error option) program" where
  "DeleteObject K w x = do {
     r \<leftarrow> deleteObject K w x;
     ret (case r of Some e \<Rightarrow> if isNotFound e then None else Some e | None \<Rightarrow> None)
   }"

text \<open>Create or replace; \<open>get\<close> and \<open>put\<close> access the metadata of the kind.\<close>

definition adoptIdentity :: "object_meta \<Rightarrow> object_meta \<Rightarrow> object_meta" where
  "adoptIdentity old m = m\<lparr>mCreationTimestamp := mCreationTimestamp old, mResourceVersion := mResourceVersion old,
                           mUID := mUID old\<rparr>"

definition UpsertObject ::
  "('c, 'o) kind \<Rightarrow> ('o request \<Rightarrow> 'c) \<Rightarrow> ('o \<Rightarrow> object_meta) \<Rightarrow> ((object_meta \<Rightarrow> object_meta) \<Rightarrow> 'o \<Rightarrow> 'o) \<Rightarrow>
   'o \<Rightarrow> ('c, go_error option) program" where
  "UpsertObject K w get put x = do {
     got \<leftarrow> getObject K w (mNamespace (get x), mName (get x));
     (case got of
        Inl e \<Rightarrow> if isNotFound e then do { r \<leftarrow> createObject K w x; ret (errorOf r) } else ret (Some e)
      | Inr existing \<Rightarrow> do {
          r \<leftarrow> updateObject K w (put (adoptIdentity (get existing)) x);
          ret (errorOf r) })
   }"

section \<open>Changing the latest version\<close>

text \<open>One conflict-retried change: read the object into the variable, then \<open>f\<close>. \<open>putBack\<close> writes the
  variable, which keeps its changes when the write fails.\<close>

definition onFresh ::
  "nat \<Rightarrow> ('c, go_error + 'o) program \<Rightarrow> ('o \<Rightarrow> ('c, go_error option \<times> 'o) program) \<Rightarrow> 'o \<Rightarrow>
   ('c, go_error option \<times> 'o) program" where
  "onFresh n fetch f x = retryOnConflict n (\<lambda>x. onError fetch (\<lambda>e. ret (Some e, x)) f) x"

definition putBack :: "'o \<Rightarrow> ('c, go_error + 'o) program \<Rightarrow> ('c, go_error option \<times> 'o) program" where
  "putBack x write = do { r \<leftarrow> write; ret (case r of Inl e \<Rightarrow> (Some e, x) | Inr stored \<Rightarrow> (None, stored)) }"

text \<open>Make sure that \<open>ready\<close> holds of the stored object: if the copy at hand is not ready, read the
  latest version, change and write it unless it became ready meanwhile, and read it again.\<close>

definition ensured ::
  "nat \<Rightarrow> ('c, go_error + 'o) program \<Rightarrow> ('o \<Rightarrow> bool) \<Rightarrow> ('o \<Rightarrow> 'o) \<Rightarrow> ('o \<Rightarrow> ('c, go_error + 'o) program) \<Rightarrow>
   'o \<Rightarrow> ('c, go_error + 'o) program" where
  "ensured n fetch ready change write x =
     (if ready x then ret (Inr x)
      else onFailure (onFresh n fetch (\<lambda>fresh.
             if ready fresh then ret (None, fresh) else putBack (change fresh) (write (change fresh))) x)
           (\<lambda>e x. ret (Inl e)) (\<lambda>_. fetch))"

section \<open>Many objects at once\<close>

text \<open>
  The \<open>All\<close> variants start one goroutine per object and wait for all of them. A goroutine is a
  thread state, one request is one step, and a scheduler that may look at everything logged so
  far picks the thread that moves next: every interleaving is a choice of the scheduler. The
  fuel is the number of requests the threads can issue altogether.
\<close>

fun runThreads :: "('c list \<Rightarrow> nat) \<Rightarrow> ('t \<Rightarrow> bool) \<Rightarrow> ('t \<Rightarrow> ('c, 't) program) \<Rightarrow> nat \<Rightarrow> 't list \<Rightarrow> ('c, 't list) program" where
  "runThreads pick finished step 0 ts = ret ts"
| "runThreads pick finished step (Suc n) ts =
     (let live = filter (\<lambda>i. \<not> finished (ts ! i)) [0..<length ts] in
      if live = [] then ret ts
      else do {
        l \<leftarrow> State_Monad.get;
        (let i = live ! (pick l mod length live) in do {
           t \<leftarrow> step (ts ! i);
           runThreads pick finished step n (ts[i := t])
         })
      })"

datatype 'o upsert_thread =
    UpsertStart 'o
  | UpsertCreate 'o
  | UpsertReplace 'o
  | UpsertDone "go_error option"

fun upsertFinished :: "'o upsert_thread \<Rightarrow> bool" where
  "upsertFinished (UpsertDone err) = True"
| "upsertFinished _ = False"

fun upsertResult :: "'o upsert_thread \<Rightarrow> go_error option" where
  "upsertResult (UpsertDone err) = err"
| "upsertResult _ = None"

fun upsertRank :: "'o upsert_thread \<Rightarrow> nat" where
  "upsertRank (UpsertStart x) = 2"
| "upsertRank (UpsertCreate x) = 1"
| "upsertRank (UpsertReplace x) = 1"
| "upsertRank (UpsertDone err) = 0"

text \<open>\<^const>\<open>UpsertObject\<close> cut at its second request.\<close>

fun upsertStep ::
  "('c, 'o) kind \<Rightarrow> ('o request \<Rightarrow> 'c) \<Rightarrow> ('o \<Rightarrow> object_meta) \<Rightarrow> ((object_meta \<Rightarrow> object_meta) \<Rightarrow> 'o \<Rightarrow> 'o) \<Rightarrow>
   'o upsert_thread \<Rightarrow> ('c, 'o upsert_thread) program" where
  "upsertStep K w get put (UpsertStart x) = do {
     got \<leftarrow> getObject K w (mNamespace (get x), mName (get x));
     ret (case got of
            Inl e \<Rightarrow> if isNotFound e then UpsertCreate x else UpsertDone (Some e)
          | Inr existing \<Rightarrow> UpsertReplace (put (adoptIdentity (get existing)) x))
   }"
| "upsertStep K w get put (UpsertCreate x) = do { r \<leftarrow> createObject K w x; ret (UpsertDone (errorOf r)) }"
| "upsertStep K w get put (UpsertReplace x) = do { r \<leftarrow> updateObject K w x; ret (UpsertDone (errorOf r)) }"
| "upsertStep K w get put (UpsertDone err) = ret (UpsertDone err)"

definition removeEmptyErrs :: "go_error option list \<Rightarrow> go_error list" where
  "removeEmptyErrs errs = List.map_filter id errs"

definition UpsertAllObjects ::
  "('c list \<Rightarrow> nat) \<Rightarrow> ('c, 'o) kind \<Rightarrow> ('o request \<Rightarrow> 'c) \<Rightarrow> ('o \<Rightarrow> object_meta) \<Rightarrow>
   ((object_meta \<Rightarrow> object_meta) \<Rightarrow> 'o \<Rightarrow> 'o) \<Rightarrow> 'o list \<Rightarrow> ('c, go_error list) program" where
  "UpsertAllObjects pick K w get put xs = do {
     ts \<leftarrow> runThreads pick upsertFinished (upsertStep K w get put) (2 * length xs) (map UpsertStart xs);
     ret (removeEmptyErrs (map upsertResult ts))
   }"

datatype 'o delete_thread = DeleteStart 'o | DeleteDone "go_error option"

fun deleteFinished :: "'o delete_thread \<Rightarrow> bool" where
  "deleteFinished (DeleteDone err) = True"
| "deleteFinished _ = False"

fun deleteResult :: "'o delete_thread \<Rightarrow> go_error option" where
  "deleteResult (DeleteDone err) = err"
| "deleteResult _ = None"

fun deleteRank :: "'o delete_thread \<Rightarrow> nat" where
  "deleteRank (DeleteStart x) = 1"
| "deleteRank (DeleteDone err) = 0"

fun deleteStep :: "('c, 'o) kind \<Rightarrow> ('o request \<Rightarrow> 'c) \<Rightarrow> 'o delete_thread \<Rightarrow> ('c, 'o delete_thread) program" where
  "deleteStep K w (DeleteStart x) = do { err \<leftarrow> DeleteObject K w x; ret (DeleteDone err) }"
| "deleteStep K w (DeleteDone err) = ret (DeleteDone err)"

definition DeleteAllObjects ::
  "('c list \<Rightarrow> nat) \<Rightarrow> ('c, 'o) kind \<Rightarrow> ('o request \<Rightarrow> 'c) \<Rightarrow> 'o list \<Rightarrow> ('c, go_error list) program" where
  "DeleteAllObjects pick K w xs = do {
     ts \<leftarrow> runThreads pick deleteFinished (deleteStep K w) (length xs) (map DeleteStart xs);
     ret (removeEmptyErrs (map deleteResult ts))
   }"

section \<open>Reasoning about threads\<close>

lemma runs_get: "runs P l (f l) Q \<Longrightarrow> runs P l (State_Monad.bind State_Monad.get f) Q"
  by (simp add: runs_def wp_def State_Monad.get_def)

text \<open>What a pool of threads promises: a thread that is not finished makes progress with every
  step, so a pool ends once its fuel covers the ranks of its threads, whatever the schedule.\<close>

locale thread_pool =
  fixes finished :: "'t \<Rightarrow> bool"
    and step :: "'t \<Rightarrow> ('c, 't) program"
    and rank :: "'t \<Rightarrow> nat"
  assumes finished_rank: "finished t \<longleftrightarrow> rank t = 0"
    and step_rank: "\<not> finished t \<Longrightarrow> runs (\<lambda>_ _. True) l (step t) (\<lambda>t' _. rank t' < rank t)"
begin

abbreviation run :: "('c list \<Rightarrow> nat) \<Rightarrow> nat \<Rightarrow> 't list \<Rightarrow> ('c, 't list) program" where
  "run pick n ts \<equiv> runThreads pick finished step n ts"

lemma sum_rank_update:
  assumes "i < length ts" and "rank t < rank (ts ! i)"
  shows "sum_list (map rank (ts[i := t])) < sum_list (map rank ts)"
  using assms by (induction ts arbitrary: i) (auto split: nat.splits simp: less_Suc_eq_0_disj)

text \<open>An invariant for each thread by its place in the pool, kept by its own steps and by whatever
  the others log meanwhile.\<close>

lemma pool_each:
  assumes step: "\<And>i t l. Inv i t l \<Longrightarrow> \<not> finished t \<Longrightarrow> runs P l (step t) (\<lambda>t' l'. Inv i t' l')"
    and stable: "\<And>i t l new. Inv i t l \<Longrightarrow> Inv i t (l @ new)"
    and "\<And>i. i < length ts \<Longrightarrow> Inv i (ts ! i) l" and "sum_list (map rank ts) \<le> n"
  shows "runs P l (run pick n ts) (\<lambda>ts' l'. length ts' = length ts \<and> (\<forall>i < length ts. Inv i (ts' ! i) l' \<and> finished (ts' ! i)))"
  using assms(3, 4)
proof (induction n arbitrary: ts l)
  case 0
  then show ?case by (auto intro!: runs_intros simp: finished_rank)
next
  case (Suc n)
  let ?live = "filter (\<lambda>i. \<not> finished (ts ! i)) [0..<length ts]"
  show ?case
  proof (cases "?live = []")
    case True
    then show ?thesis using Suc.prems by (auto intro!: runs_intros simp: Let_def filter_empty_conv)
  next
    case False
    define i where "i = ?live ! (pick l mod length ?live)"
    have "i \<in> set ?live" unfolding i_def using False by (intro nth_mem) simp
    then have i: "i < length ts" and live: "\<not> finished (ts ! i)" by auto
    have "runs P l (State_Monad.bind (step (ts ! i)) (\<lambda>t. run pick n (ts[i := t])))
        (\<lambda>ts' l'. length ts' = length ts \<and> (\<forall>i < length ts. Inv i (ts' ! i) l' \<and> finished (ts' ! i)))"
    proof (rule runs_bind)
      show "runs P l (step (ts ! i)) (\<lambda>t' l'. Inv i t' l' \<and> rank t' < rank (ts ! i))"
        by (rule runs_weaken[OF runs_conj[OF step[OF Suc.prems(1)[OF i] live] step_rank[OF live]]]) auto
    next
      fix t new
      assume t: "Inv i t (l @ new) \<and> rank t < rank (ts ! i)"
      have "Inv j (ts[i := t] ! j) (l @ new)" if "j < length (ts[i := t])" for j
        using Suc.prems(1) t i that stable by (auto simp: nth_list_update)
      moreover have "sum_list (map rank (ts[i := t])) \<le> n"
        using sum_rank_update[OF i] t Suc.prems(2) by fastforce
      ultimately show "runs P (l @ new) (run pick n (ts[i := t]))
          (\<lambda>ts' l'. length ts' = length ts \<and> (\<forall>i < length ts. Inv i (ts' ! i) l' \<and> finished (ts' ! i)))"
        using Suc.IH[of "ts[i := t]"] by simp
    qed
    with False show ?thesis by (simp add: Let_def i_def[symmetric] runs_get)
  qed
qed

lemma pool_induct:
  assumes "\<And>t l. Inv t \<Longrightarrow> \<not> finished t \<Longrightarrow> runs P l (step t) (\<lambda>t' _. Inv t')"
    and "list_all Inv ts" and "sum_list (map rank ts) \<le> n"
  shows "runs P l (run pick n ts) (\<lambda>ts' _. list_all Inv ts' \<and> list_all finished ts')"
  by (rule runs_weaken[OF pool_each[where Inv = "\<lambda>_ t _. Inv t"]]) (use assms in \<open>auto simp: list_all_length\<close>)

lemma run_length: "runs (\<lambda>_ _. True) l (run pick n ts) (\<lambda>ts' _. length ts' = length ts)"
proof (induction n arbitrary: ts l)
  case (Suc n)
  have "runs (\<lambda>_ _. True) l (step t) (\<lambda>_ _. True)" if "\<not> finished t" for t l
    by (rule runs_weaken[OF step_rank[OF that]]) auto
  moreover have "\<not> finished (ts ! ([i\<leftarrow>[0..<length ts]. \<not> finished (ts ! i)] ! (k mod length [i\<leftarrow>[0..<length ts]. \<not> finished (ts ! i)])))"
    if "[i\<leftarrow>[0..<length ts]. \<not> finished (ts ! i)] \<noteq> []" for k
    using nth_mem[of "k mod length [i\<leftarrow>[0..<length ts]. \<not> finished (ts ! i)]" "[i\<leftarrow>[0..<length ts]. \<not> finished (ts ! i)]"] that
    by simp
  ultimately show ?case
    using Suc.IH[of _ "ts[_ := _]"] by (auto intro!: runs_intros runs_get runs_bind[where Q' = "\<lambda>_ _. True"] simp: Let_def)
qed (simp add: runs_intros)

end

interpretation upserts: thread_pool upsertFinished "upsertStep K w get put" upsertRank for K w get put
proof
  fix t :: "'a upsert_thread" and l
  show "upsertFinished t = (upsertRank t = 0)" by (cases t) auto
  assume "\<not> upsertFinished t"
  then show "runs (\<lambda>_ _. True) l (upsertStep K w get put t) (\<lambda>t' _. upsertRank t' < upsertRank t)"
    by (cases t) (auto intro!: runs_bind_perform runs_intros simp: object_requests split: sum.split)
qed

interpretation deletes: thread_pool deleteFinished "deleteStep K w" deleteRank for K w
proof
  fix t :: "'a delete_thread" and l
  show "deleteFinished t = (deleteRank t = 0)" by (cases t) auto
  assume "\<not> deleteFinished t"
  then show "runs (\<lambda>_ _. True) l (deleteStep K w t) (\<lambda>t' _. deleteRank t' < deleteRank t)"
    by (cases t) (auto intro!: runs_bind_perform runs_intros simp: DeleteObject_def object_requests wp_simps runs_def)
qed

section \<open>What a batch achieves\<close>

definition objectKey :: "('o \<Rightarrow> object_meta) \<Rightarrow> 'o \<Rightarrow> nsname" where
  "objectKey get x = (mNamespace (get x), mName (get x))"

text \<open>The last requests for an object: created, or written over the object that was read.\<close>

definition upsertedAs ::
  "('o request \<Rightarrow> 'c) \<Rightarrow> ('o \<Rightarrow> object_meta) \<Rightarrow> ((object_meta \<Rightarrow> object_meta) \<Rightarrow> 'o \<Rightarrow> 'o) \<Rightarrow> 'c list \<Rightarrow> 'o \<Rightarrow>
   go_error option \<Rightarrow> bool" where
  "upsertedAs w get put calls x err \<longleftrightarrow>
     (\<exists>e r. w (ObjGet (objectKey get x) (Inl e)) \<in> set calls \<and> isNotFound e \<and> w (ObjCreate x r) \<in> set calls \<and> err = errorOf r) \<or>
     (\<exists>old r. w (ObjGet (objectKey get x) (Inr old)) \<in> set calls \<and>
        w (ObjUpdate (put (adoptIdentity (get old)) x) r) \<in> set calls \<and> err = errorOf r) \<or>
     (\<exists>e. w (ObjGet (objectKey get x) (Inl e)) \<in> set calls \<and> \<not> isNotFound e \<and> err = Some e)"

definition deletedAs :: "('o request \<Rightarrow> 'c) \<Rightarrow> 'c list \<Rightarrow> 'o \<Rightarrow> go_error option \<Rightarrow> bool" where
  "deletedAs w calls x err \<longleftrightarrow> (\<exists>r. w (ObjDelete x r) \<in> set calls \<and>
     err = (case r of Some e \<Rightarrow> if isNotFound e then None else Some e | None \<Rightarrow> None))"

lemma outcome_mono:
  "upsertedAs w get put calls x err \<Longrightarrow> upsertedAs w get put (calls @ new) x err"
  "deletedAs w calls x err \<Longrightarrow> deletedAs w (calls @ new) x err"
  unfolding upsertedAs_def deletedAs_def set_append by blast+

text \<open>The errors that are returned are those of the objects, one by one.\<close>

definition reportsEach :: "('o \<Rightarrow> go_error option \<Rightarrow> bool) \<Rightarrow> 'o list \<Rightarrow> go_error list \<Rightarrow> bool" where
  "reportsEach outcome xs errs \<longleftrightarrow> (\<exists>each. list_all2 outcome xs each \<and> errs = removeEmptyErrs each)"

lemma UpsertAllObjects_reports:
  "runs (\<lambda>_ _. True) l (UpsertAllObjects pick K w get put xs)
     (\<lambda>errs l'. reportsEach (upsertedAs w get put (drop (length l) l')) xs errs)"
proof -
  define Inv where "Inv = (\<lambda>i t l'. \<exists>new. l' = l @ new \<and> (let x = xs ! i in (case t of
      UpsertStart y \<Rightarrow> y = x
    | UpsertCreate y \<Rightarrow> y = x \<and> (\<exists>e. w (ObjGet (objectKey get x) (Inl e)) \<in> set new \<and> isNotFound e)
    | UpsertReplace y \<Rightarrow> (\<exists>old. w (ObjGet (objectKey get x) (Inr old)) \<in> set new \<and> y = put (adoptIdentity (get old)) x)
    | UpsertDone err \<Rightarrow> upsertedAs w get put new x err)))"
  have "runs (\<lambda>_ _. True) l (runThreads pick upsertFinished (upsertStep K w get put) (2 * length xs) (map UpsertStart xs))
      (\<lambda>ts l'. length ts = length (map UpsertStart xs) \<and>
         (\<forall>i < length (map UpsertStart xs). Inv i (ts ! i) l' \<and> upsertFinished (ts ! i)))"
  proof (rule upserts.pool_each)
    fix i t l'
    assume "Inv i t l'" "\<not> upsertFinished t"
    then show "runs (\<lambda>_ _. True) l' (upsertStep K w get put t) (\<lambda>t' l''. Inv i t' l'')"
      by (cases t) (fastforce simp: Inv_def Let_def object_requests runs_def wp_simps upsertedAs_def objectKey_def split: sum.split)+
  next
    fix i t l' new
    assume "Inv i t l'"
    then show "Inv i t (l' @ new)"
      by (cases t) (auto simp: Inv_def Let_def intro: outcome_mono)
  qed (auto simp: Inv_def comp_def sum_list_triv)
  then have "runs (\<lambda>_ _. True) l (runThreads pick upsertFinished (upsertStep K w get put) (2 * length xs) (map UpsertStart xs))
      (\<lambda>ts l'. list_all2 (upsertedAs w get put (drop (length l) l')) xs (map upsertResult ts))"
    by (rule runs_weaken) (auto simp: list_all2_conv_all_nth Inv_def Let_def elim!: upsertFinished.elims)
  then show ?thesis
    unfolding UpsertAllObjects_def reportsEach_def by (rule runs_bind) (auto intro!: runs_return)
qed

lemma DeleteAllObjects_reports:
  "runs (\<lambda>_ _. True) l (DeleteAllObjects pick K w xs)
     (\<lambda>errs l'. reportsEach (deletedAs w (drop (length l) l')) xs errs)"
proof -
  define Inv where "Inv = (\<lambda>i t l'. \<exists>new. l' = l @ new \<and> (case t of
      DeleteStart y \<Rightarrow> y = xs ! i | DeleteDone err \<Rightarrow> deletedAs w new (xs ! i) err))"
  have "runs (\<lambda>_ _. True) l (runThreads pick deleteFinished (deleteStep K w) (length xs) (map DeleteStart xs))
      (\<lambda>ts l'. length ts = length (map DeleteStart xs) \<and>
         (\<forall>i < length (map DeleteStart xs). Inv i (ts ! i) l' \<and> deleteFinished (ts ! i)))"
  proof (rule deletes.pool_each)
    fix i t l'
    assume "Inv i t l'" "\<not> deleteFinished t"
    then show "runs (\<lambda>_ _. True) l' (deleteStep K w t) (\<lambda>t' l''. Inv i t' l'')"
      by (cases t) (fastforce simp: Inv_def DeleteObject_def object_requests runs_def wp_simps deletedAs_def)+
  next
    fix i t l' new
    assume "Inv i t l'"
    then show "Inv i t (l' @ new)"
      by (cases t) (auto simp: Inv_def intro: outcome_mono)
  qed (auto simp: Inv_def comp_def sum_list_triv)
  then have "runs (\<lambda>_ _. True) l (runThreads pick deleteFinished (deleteStep K w) (length xs) (map DeleteStart xs))
      (\<lambda>ts l'. list_all2 (deletedAs w (drop (length l) l')) xs (map deleteResult ts))"
    by (rule runs_weaken) (auto simp: list_all2_conv_all_nth Inv_def elim!: deleteFinished.elims)
  then show ?thesis
    unfolding DeleteAllObjects_def reportsEach_def by (rule runs_bind) (auto intro!: runs_return)
qed

text \<open>C39: whatever the interleaving of its threads and whatever the cluster answers, a batch asks
  for each of its objects (a read, then a create or a write over the object that was read; a
  delete), and the errors it returns are exactly those of the objects, in their order, a missing
  object being no error to a delete.\<close>

theorem batch_reports_each_object:
  "reportsEach (upsertedAs w get put (newCalls (UpsertAllObjects pick K w get put xs) l)) xs
     (result (UpsertAllObjects pick K w get put xs) l) \<and>
   reportsEach (deletedAs w (newCalls (DeleteAllObjects pick K w xs) l)) xs
     (result (DeleteAllObjects pick K w xs) l)"
  using runs_result[OF UpsertAllObjects_reports[where l = l and pick = pick and K = K and w = w and get = get and put = put and xs = xs]]
    runs_result[OF DeleteAllObjects_reports[where l = l and pick = pick and K = K and w = w and xs = xs]] by simp

end
