(* ===== verification/UnleashResources.thy ===== *)
theory UnleashResources
  imports ObjectApi ChannelStatus
begin

text \<open>
  The Kubernetes objects built for an Unleash instance (\<open>internal/resources/unleash.go\<close>,
  \<open>internal/utils/k8s.go\<close>) and the image an instance runs. \<open>SetControllerReference\<close> is a
  parameter: it extends the metadata of the controlled object or fails.
\<close>

type_synonym controller_ref = "object_meta \<Rightarrow> object_meta \<Rightarrow> go_error + object_meta"

definition withOwner :: "controller_ref \<Rightarrow> unleash \<Rightarrow> object_meta \<Rightarrow> (object_meta \<Rightarrow> 'o) \<Rightarrow> go_error + 'o" where
  "withOwner R u m build = (case R (uMeta u) m of Inl e \<Rightarrow> Inl e | Inr owned \<Rightarrow> Inr (build owned))"

section \<open>Defaults and names\<close>

definition DefaultUnleashImageRegistry :: string where
  "DefaultUnleashImageRegistry = ''europe-north1-docker.pkg.dev/nais-io/nais/images''"
definition DefaultUnleashImageName :: string where "DefaultUnleashImageName = ''unleash-v4''"
definition DefaultUnleashVersion :: string where "DefaultUnleashVersion = ''v4.23.1''"
definition DefaultUnleashPort :: int where "DefaultUnleashPort = 4242"
definition DefaultUnleashPortName :: string where "DefaultUnleashPortName = ''http''"

definition EnvInitAdminAPIToken :: string where "EnvInitAdminAPIToken = ''INIT_ADMIN_API_TOKENS''"
definition EnvDatabaseURL :: string where "EnvDatabaseURL = ''DATABASE_URL''"
definition EnvDatabaseUser :: string where "EnvDatabaseUser = ''DATABASE_USER''"
definition EnvDatabasePass :: string where "EnvDatabasePass = ''DATABASE_PASS''"
definition EnvDatabaseName :: string where "EnvDatabaseName = ''DATABASE_NAME''"
definition EnvDatabaseHost :: string where "EnvDatabaseHost = ''DATABASE_HOST''"
definition EnvDatabasePort :: string where "EnvDatabasePort = ''DATABASE_PORT''"
definition EnvDatabaseSSL :: string where "EnvDatabaseSSL = ''DATABASE_SSL''"

lemmas env_names = EnvInitAdminAPIToken_def EnvDatabaseURL_def EnvDatabaseUser_def EnvDatabasePass_def
  EnvDatabaseName_def EnvDatabaseHost_def EnvDatabasePort_def EnvDatabaseSSL_def

definition labelsForUnleash :: "string \<Rightarrow> string dict" where
  "labelsForUnleash name =
     [(''app.kubernetes.io/name'', ''Unleash''),
      (''app.kubernetes.io/instance'', name),
      (''app.kubernetes.io/part-of'', ''unleasherator''),
      (''app.kubernetes.io/created-by'', ''controller-manager'')]"

definition overlay :: "string dict \<Rightarrow> string dict \<Rightarrow> string dict" where
  "overlay extra base = fold (\<lambda>(k, v) m. dictSet k v m) extra base"

definition podLabelsForUnleash :: "string \<Rightarrow> string dict \<Rightarrow> string dict" where
  "podLabelsForUnleash name extra = overlay extra (labelsForUnleash name)"

definition annotationsForUnleash :: "string \<Rightarrow> string dict" where
  "annotationsForUnleash name = []"

definition podAnnotationsForUnleash :: "string \<Rightarrow> string dict \<Rightarrow> string dict" where
  "podAnnotationsForUnleash name extra = overlay extra (annotationsForUnleash name)"

definition metaFor :: "string \<Rightarrow> string \<Rightarrow> string dict \<Rightarrow> object_meta" where
  "metaFor ns n labels = (zeroMeta ns n)\<lparr>mLabels := labels\<rparr>"

section \<open>Secrets, service, monitoring\<close>

record service =
  svMeta :: object_meta
  svPorts :: "(string \<times> int \<times> int) list" \<comment> \<open>name, port, target port\<close>
  svSelector :: "string dict"

record service_monitor =
  smMeta :: object_meta
  smEndpoints :: "(string \<times> string) list" \<comment> \<open>port name, path\<close>
  smSelector :: "string dict"

text \<open>\<open>utils.RandomString(32)\<close> with its error; the key is built whatever the error.\<close>

definition GenerateAdminKey :: "string \<times> go_error option \<Rightarrow> string \<times> go_error option" where
  "GenerateAdminKey random = (''*:*.'' @ fst random, snd random)"

definition ServiceMonitorForUnleash :: "controller_ref \<Rightarrow> unleash \<Rightarrow> go_error + service_monitor" where
  "ServiceMonitorForUnleash R u = (let ls = labelsForUnleash (uName u) in
     withOwner R u (metaFor (uNamespace u) (uName u) ls)
       (\<lambda>m. \<lparr>smMeta = m, smEndpoints = [(DefaultUnleashPortName, ''/internal-backstage/prometheus'')],
             smSelector = ls\<rparr>))"

definition InstanceSecretForUnleash :: "controller_ref \<Rightarrow> unleash \<Rightarrow> string \<Rightarrow> go_error + secret" where
  "InstanceSecretForUnleash R u adminKey =
     withOwner R u (metaFor (uNamespace u) (instanceSecretName u) (labelsForUnleash (uName u)))
       (\<lambda>m. \<lparr>scMeta = m, scData = [], scStringData = [(UnleashSecretTokenKey, adminKey)]\<rparr>)"

definition OperatorSecretForUnleash :: "string \<Rightarrow> string \<Rightarrow> string \<Rightarrow> string \<Rightarrow> string \<Rightarrow> secret" where
  "OperatorSecretForUnleash name secretName ns adminKey url =
     \<lparr>scMeta = metaFor ns secretName (labelsForUnleash name), scData = [],
      scStringData = [(UnleashSecretTokenKey, adminKey), (UnleashSecretServerURLKey, url)]\<rparr>"

definition ServiceAccountForUnleash :: "controller_ref \<Rightarrow> unleash \<Rightarrow> go_error + object_meta" where
  "ServiceAccountForUnleash R u =
     withOwner R u (metaFor (uNamespace u) (uName u) (labelsForUnleash (uName u))) id"

definition ServiceForUnleash :: "controller_ref \<Rightarrow> unleash \<Rightarrow> go_error + service" where
  "ServiceForUnleash R u = (let ls = labelsForUnleash (uName u) in
     withOwner R u (metaFor (uNamespace u) (uName u) ls)
       (\<lambda>m. \<lparr>svMeta = m, svPorts = [(DefaultUnleashPortName, 80, DefaultUnleashPort)], svSelector = ls\<rparr>))"

section \<open>Environment of the container\<close>

definition EnvVar :: "string \<Rightarrow> string \<Rightarrow> env_var" where
  "EnvVar name v = \<lparr>evName = name, evSource = EnvValue v\<rparr>"

definition SecretEnvVar :: "string \<Rightarrow> string \<Rightarrow> string \<Rightarrow> env_var" where
  "SecretEnvVar name secretName key = \<lparr>evName = name, evSource = EnvSecretKey secretName key\<rparr>"

definition validationError :: "string \<Rightarrow> string \<Rightarrow> go_error" where
  "validationError resource m =
     \<lparr>errorKind = Sentinel ''ValidationError'',
      errorMsg = ''validation failed for '' @ resource @ '' ('' @ m @ '')''\<rparr>"

text \<open>A setting comes from a key of the secret, or else from the specification itself.\<close>

definition secretOrPlain :: "string \<Rightarrow> string \<Rightarrow> string \<Rightarrow> string \<Rightarrow> env_var option" where
  "secretOrPlain name secretName key plain =
     (if key \<noteq> [] then Some (SecretEnvVar name secretName key)
      else if plain \<noteq> [] then Some (EnvVar name plain)
      else None)"

definition orInvalid :: "env_var option \<Rightarrow> string \<Rightarrow> go_error + env_var" where
  "orInvalid v m = (case v of None \<Rightarrow> Inl (validationError ''Deployment'' m) | Some x \<Rightarrow> Inr x)"

definition databaseURLTemplate :: string where
  "databaseURLTemplate =
     ''postgres://$('' @ EnvDatabaseUser @ ''):$('' @ EnvDatabasePass @ '')@$('' @ EnvDatabaseHost @
     ''):$('' @ EnvDatabasePort @ '')/$('' @ EnvDatabaseName @ '')''"

definition databaseEnv :: "database_config \<Rightarrow> env_var list \<Rightarrow> go_error + env_var list" where
  "databaseEnv db extra = (let s = dbSecretName db in
     (case orInvalid (secretOrPlain EnvDatabaseUser s (dbSecretUserKey db) (dbUser db))
             ''either database.username or database.SecretUserKey must be set'' of
        Inl e \<Rightarrow> Inl e
      | Inr user \<Rightarrow>
     (case orInvalid (secretOrPlain EnvDatabaseName s (dbSecretDatabaseNameKey db) (dbDatabaseName db))
             ''either database.databaseName or database.secretDatabaseNameKey must be set'' of
        Inl e \<Rightarrow> Inl e
      | Inr name \<Rightarrow>
     (case orInvalid (secretOrPlain EnvDatabaseHost s (dbSecretHostKey db) (dbHost db))
             ''either database.host or database.secretHostKey must be set'' of
        Inl e \<Rightarrow> Inl e
      | Inr host \<Rightarrow>
     (case orInvalid (secretOrPlain EnvDatabasePort s (dbSecretPortKey db) (dbPort db))
             ''either database.port or database.secretPortKey must be set'' of
        Inl e \<Rightarrow> Inl e
      | Inr port \<Rightarrow> Inr (
          (if dbSecretPassKey db \<noteq> [] then [SecretEnvVar EnvDatabasePass s (dbSecretPassKey db)] else []) @
          [user, name, host, port] @
          (case secretOrPlain EnvDatabaseSSL s (dbSecretSSLKey db) (dbSSL db) of None \<Rightarrow> [] | Some ssl \<Rightarrow> [ssl]) @
          (if dbSecretPassKey db \<noteq> [] then [EnvVar EnvDatabaseURL databaseURLTemplate] else []) @
          extra))))))"

text \<open>The partial list Go returns next to an error is dropped by the only caller.\<close>

definition envVarsForUnleash :: "unleash \<Rightarrow> go_error + env_var list" where
  "envVarsForUnleash u = (let
       db = usDatabase (uSpec u);
       admin = SecretEnvVar EnvInitAdminAPIToken (instanceSecretName u) UnleashSecretTokenKey in
     if dbURL db \<noteq> [] then Inr [admin, EnvVar EnvDatabaseURL (dbURL db)]
     else if dbSecretName db = []
       then Inl (validationError ''Deployment'' ''either database.url or database.secretName must be set'')
     else if dbSecretURLKey db \<noteq> []
       then Inr [admin, SecretEnvVar EnvDatabaseURL (dbSecretName db) (dbSecretURLKey db)]
     else (case databaseEnv db (usExtraEnvVars (uSpec u)) of Inl e \<Rightarrow> Inl e | Inr vars \<Rightarrow> Inr (admin # vars)))"

section \<open>The deployment\<close>

record deployment_condition =
  dcType :: string
  dcStatus :: condition_status
  dcReason :: string
  dcMessage :: string

record deployment_status =
  dtObservedGeneration :: int
  dtReplicas :: int
  dtUpdatedReplicas :: int
  dtReadyReplicas :: int
  dtAvailableReplicas :: int
  dtUnavailableReplicas :: int
  dtConditions :: "deployment_condition list"

record deployment =
  dpMeta :: object_meta
  dpReplicas :: "int option"
  dpStrategy :: string
  dpMaxSurge :: string
  dpMaxUnavailable :: string
  dpSelector :: "string dict"
  dpPodLabels :: "string dict"
  dpPodAnnotations :: "string dict"
  dpRunAsNonRoot :: bool
  dpSeccompProfile :: string
  dpServiceAccount :: string
  dpContainers :: "container list"
  dpVolumes :: "opaque list"
  dpStatus :: deployment_status

definition zeroDeploymentStatus :: deployment_status where
  "zeroDeploymentStatus = \<lparr>dtObservedGeneration = 0, dtReplicas = 0, dtUpdatedReplicas = 0, dtReadyReplicas = 0,
     dtAvailableReplicas = 0, dtUnavailableReplicas = 0, dtConditions = []\<rparr>"

definition unleashContainer :: "unleash \<Rightarrow> string \<Rightarrow> env_var list \<Rightarrow> container" where
  "unleashContainer u img env =
     \<lparr>ctName = ''unleash'', ctImage = img, ctPullPolicy = ''Always'',
      ctLivenessPath = ''/health'', ctLivenessPort = DefaultUnleashPort, ctLivenessTimes = [5, 10, 10, 1, 3],
      ctPorts = [(DefaultUnleashPortName, DefaultUnleashPort, ''TCP'')],
      ctRunAsNonRoot = True, ctRunAsUser = 1001, ctAllowPrivilegeEscalation = False,
      ctDropCapabilities = [''ALL''], ctEnv = env, ctResources = usResources (uSpec u),
      ctVolumeMounts = usExtraVolumeMounts (uSpec u)\<rparr>"

definition DeploymentForUnleashWithImage :: "controller_ref \<Rightarrow> unleash \<Rightarrow> string \<Rightarrow> go_error + deployment" where
  "DeploymentForUnleashWithImage R u img =
     (case envVarsForUnleash u of
        Inl e \<Rightarrow> Inl e
      | Inr env \<Rightarrow> (let ls = labelsForUnleash (uName u) in
          withOwner R u (metaFor (uNamespace u) (uName u) ls)
            (\<lambda>m. \<lparr>dpMeta = m, dpReplicas = Some (usSize (uSpec u)), dpStrategy = ''RollingUpdate'',
               dpMaxSurge = ''25%'', dpMaxUnavailable = ''25%'', dpSelector = ls,
               dpPodLabels = podLabelsForUnleash (uName u) (usPodLabels (uSpec u)),
               dpPodAnnotations = podAnnotationsForUnleash (uName u) (usPodAnnotations (uSpec u)),
               dpRunAsNonRoot = True, dpSeccompProfile = ''RuntimeDefault'',
               dpServiceAccount = usExistingServiceAccountName (uSpec u),
               dpContainers = unleashContainer u img env # usExtraContainers (uSpec u),
               dpVolumes = usExtraVolumes (uSpec u), dpStatus = zeroDeploymentStatus\<rparr>)))"

definition defaultImage :: "string option \<Rightarrow> string" where
  "defaultImage fromEnv =
     (case fromEnv of
        None \<Rightarrow> DefaultUnleashImageRegistry @ ''/'' @ DefaultUnleashImageName @ '':'' @ DefaultUnleashVersion
      | Some img \<Rightarrow>
          if img = [] then DefaultUnleashImageRegistry @ ''/'' @ DefaultUnleashImageName @ '':'' @ DefaultUnleashVersion
          else img)"

definition DeploymentForUnleash :: "controller_ref \<Rightarrow> string option \<Rightarrow> unleash \<Rightarrow> go_error + deployment" where
  "DeploymentForUnleash R fromEnv u =
     DeploymentForUnleashWithImage R u
       (if usCustomImage (uSpec u) \<noteq> [] then usCustomImage (uSpec u) else defaultImage fromEnv)"

definition DeploymentIsReady :: "deployment \<Rightarrow> bool" where
  "DeploymentIsReady d = (let st = dpStatus d in
     if dtObservedGeneration st < mGeneration (dpMeta d) then False
     else let replicas = (case dpReplicas d of None \<Rightarrow> 1 | Some n \<Rightarrow> n) in
       dtUpdatedReplicas st = replicas \<and> dtReplicas st = replicas \<and> dtReadyReplicas st = replicas \<and>
       dtAvailableReplicas st = replicas \<and> dtUnavailableReplicas st = 0)"

definition deploymentFailureMessage :: "deployment_condition \<Rightarrow> string" where
  "deploymentFailureMessage c =
     (if dcMessage c \<noteq> [] then dcMessage c
      else if dcReason c \<noteq> [] then dcReason c
      else ''Deployment reported a terminal failure'')"

fun deploymentFailureIn :: "deployment_condition list \<Rightarrow> string option" where
  "deploymentFailureIn [] = None"
| "deploymentFailureIn (c # cs) =
     (if dcType c = ''Progressing'' \<and> dcStatus c = ConditionFalse \<and> dcReason c = ''ProgressDeadlineExceeded''
        then Some (deploymentFailureMessage c)
      else if dcType c = ''ReplicaFailure'' \<and> dcStatus c = ConditionTrue
        then Some (deploymentFailureMessage c)
      else deploymentFailureIn cs)"

definition DeploymentFailure :: "deployment \<Rightarrow> string option" where
  "DeploymentFailure d =
     (if dtObservedGeneration (dpStatus d) < mGeneration (dpMeta d) then None
      else deploymentFailureIn (dtConditions (dpStatus d)))"

section \<open>Network\<close>

record ingress =
  inMeta :: object_meta
  inClass :: string
  inRules :: "(string \<times> string \<times> string \<times> string) list" \<comment> \<open>host, path, service, port name\<close>

record network_policy =
  nyMeta :: object_meta
  nyPodSelector :: "string dict"
  nyTypes :: "string list"
  nyIngress :: "network_rule list"
  nyEgress :: "network_rule list"

definition IngressForUnleash ::
  "controller_ref \<Rightarrow> unleash \<Rightarrow> ingress_config \<Rightarrow> string \<Rightarrow> go_error + ingress" where
  "IngressForUnleash R u config suffix =
     withOwner R u (metaFor (uNamespace u) (snd (keyWithSuffix u suffix)) (labelsForUnleash (uName u)))
       (\<lambda>m. \<lparr>inMeta = m, inClass = igClass config,
             inRules = [(igHost config, igPath config, uName u, DefaultUnleashPortName)]\<rparr>)"

definition anySelector :: label_selector where
  "anySelector = \<lparr>selMatchLabels = None, selMatchExpressions = []\<rparr>"

definition labelSelector :: "string dict \<Rightarrow> label_selector" where
  "labelSelector ls = \<lparr>selMatchLabels = Some ls, selMatchExpressions = []\<rparr>"

definition fromNamespace :: "string \<Rightarrow> network_rule" where
  "fromNamespace ns =
     \<lparr>nrPeers = [\<lparr>peNamespaces = Some (labelSelector [(''kubernetes.io/metadata.name'', ns)]),
                  pePods = None, peIPBlock = None\<rparr>], nrPorts = []\<rparr>"

definition dnsRule :: network_rule where
  "dnsRule =
     \<lparr>nrPeers = [\<lparr>peNamespaces = Some anySelector, pePods = Some (labelSelector [(''k8s-app'', ''kube-dns'')]),
                  peIPBlock = None\<rparr>,
                 \<lparr>peNamespaces = Some anySelector, pePods = Some (labelSelector [(''k8s-app'', ''node-local-dns'')]),
                  peIPBlock = None\<rparr>],
      nrPorts = [\<lparr>poProtocol = ''UDP'', poPort = IntPort 53\<rparr>, \<lparr>poProtocol = ''TCP'', poPort = IntPort 53\<rparr>]\<rparr>"

definition sameNamespaceRule :: network_rule where
  "sameNamespaceRule =
     \<lparr>nrPeers = [\<lparr>peNamespaces = None, pePods = Some anySelector, peIPBlock = None\<rparr>], nrPorts = []\<rparr>"

definition wholeClusterRule :: network_rule where
  "wholeClusterRule =
     \<lparr>nrPeers = [\<lparr>peNamespaces = Some anySelector, pePods = None, peIPBlock = None\<rparr>], nrPorts = []\<rparr>"

definition NetworkPolicyForUnleash :: "controller_ref \<Rightarrow> unleash \<Rightarrow> string \<Rightarrow> go_error + network_policy" where
  "NetworkPolicyForUnleash R u operatorNs = (let
       np = usNetworkPolicy (uSpec u);
       ls = labelsForUnleash (uName u) in
     withOwner R u (metaFor (uNamespace u) (uName u) ls)
       (\<lambda>m. \<lparr>nyMeta = m, nyPodSelector = ls, nyTypes = [''Ingress'', ''Egress''],
         nyIngress =
           [fromNamespace operatorNs] @
           (if npAllowAllFromSameNamespace np then [sameNamespaceRule] else []) @
           (if npAllowAllFromCluster np then [wholeClusterRule] else []) @
           map fromNamespace (npAllowAllFromNamespaces np) @
           npExtraIngressRules np,
         nyEgress = (if npAllowDNS np then [dnsRule] else []) @ npExtraEgressRules np\<rparr>))"

section \<open>The image an instance runs\<close>

definition unassignedError :: "release_channel \<Rightarrow> unleash \<Rightarrow> go_error" where
  "unassignedError rc u =
     errorf (''ReleaseChannel '' @ rcName rc @ '' has not assigned an image to '' @ uName u @
             '' during '' @ phaseString (rcPhase rc))"

text \<open>What an instance pulls from its channel, in the order of the source.\<close>

definition imageFromChannel :: "release_channel \<Rightarrow> unleash \<Rightarrow> go_error + string" where
  "imageFromChannel rc u = (let
       st = rcStatus rc;
       assigned = (case stInstanceImages st of
                     None \<Rightarrow> None
                   | Some m \<Rightarrow> (case map_of m (uName u) of
                                  None \<Rightarrow> None
                                | Some img \<Rightarrow> if img \<noteq> [] then Some img else None));
       rollback = (if rcPhase rc = PhaseRollingBack \<and> rbPreviousImage (spRollback (rcSpec rc)) \<noteq> []
                   then rbPreviousImage (spRollback (rcSpec rc)) else stPreviousImage st) in
     (case assigned of
        Some img \<Rightarrow> Inr img
      | None \<Rightarrow>
          if rcPhase rc = PhaseCanary \<and> stPreviousImage st \<noteq> [] then Inr (stPreviousImage st)
          else if (rcPhase rc = PhaseRolling \<or> rcPhase rc = PhaseRollingBack) \<and> rollback \<noteq> [] then Inr rollback
          else if resolvedImage u \<noteq> [] then Inr (resolvedImage u)
          else Inl (unassignedError rc u)))"

definition ResolveReleaseChannelImage ::
  "string option \<Rightarrow> (nsname \<Rightarrow> ('c, go_error + release_channel) program) \<Rightarrow> unleash \<Rightarrow>
   ('c, go_error + string \<times> bool) program" where
  "ResolveReleaseChannelImage fromEnv get u =
     (if usCustomImage (uSpec u) \<noteq> [] then ret (Inr (usCustomImage (uSpec u), False))
      else if usReleaseChannelName (uSpec u) \<noteq> [] then do {
        got \<leftarrow> get (uNamespace u, usReleaseChannelName (uSpec u));
        ret (case got of
               Inl e \<Rightarrow> Inl (wrapf (''failed to get ReleaseChannel '' @ usReleaseChannelName (uSpec u)) e)
             | Inr rc \<Rightarrow> (case imageFromChannel rc u of Inl e \<Rightarrow> Inl e | Inr img \<Rightarrow> Inr (img, False)))
      }
      else ret (Inr (defaultImage fromEnv, False)))"

definition isCanaryInstance :: "('v, 'z) apimachinery_scheme \<Rightarrow> unleash \<Rightarrow> release_channel \<Rightarrow> bool" where
  "isCanaryInstance L u rc = (let canary = sgCanary (spStrategy (rcSpec rc)) in
     if \<not> canaryEnabled canary then False
     else (case selectorMatches L (canarySelector canary) (mLabels (uMeta u)) of None \<Rightarrow> False | Some b \<Rightarrow> b))"

definition getImageForInstance :: "('v, 'z) apimachinery_scheme \<Rightarrow> unleash \<Rightarrow> release_channel \<Rightarrow> string" where
  "getImageForInstance L u rc = (let target = rcImage rc; previous = stPreviousImage (rcStatus rc) in
     if previous = [] then target
     else let isCanary = canaryEnabled (sgCanary (spStrategy (rcSpec rc))) \<and> isCanaryInstance L u rc in
       (case rcPhase rc of
          PhaseCanary \<Rightarrow> if isCanary then target else previous
        | PhaseRolling \<Rightarrow> target
        | PhaseCompleted \<Rightarrow> target
        | PhaseRollingBack \<Rightarrow> previous
        | _ \<Rightarrow> target))"

section \<open>What the definitions amount to\<close>

text \<open>The order of the source without its options: the assignment, the baseline, the image it runs.\<close>

lemma imageFromChannel_order:
  "imageFromChannel rc u = (let
       img = assignedImage (rcStatus rc) (uName u);
       previous = stPreviousImage (rcStatus rc);
       own = rbPreviousImage (spRollback (rcSpec rc));
       rollback = (if rcPhase rc = PhaseRollingBack \<and> own \<noteq> [] then own else previous) in
     if img \<noteq> [] then Inr img
     else if rcPhase rc = PhaseCanary \<and> previous \<noteq> [] then Inr previous
     else if (rcPhase rc = PhaseRolling \<or> rcPhase rc = PhaseRollingBack) \<and> rollback \<noteq> [] then Inr rollback
     else if resolvedImage u \<noteq> [] then Inr (resolvedImage u)
     else Inl (unassignedError rc u))"
  by (auto simp: imageFromChannel_def dictGet_def orEmpty_def Let_def split: option.split)

text \<open>The image depends on the channel through its specification, name, phase, baseline and the
  entry of this one instance.\<close>

lemma imageFromChannel_cong:
  assumes "rcSpec a = rcSpec b" and "rcMeta a = rcMeta b" and "rcPhase a = rcPhase b"
    and "stPreviousImage (rcStatus a) = stPreviousImage (rcStatus b)"
    and "assignedImage (rcStatus a) (uName u) = assignedImage (rcStatus b) (uName u)"
  shows "imageFromChannel a u = imageFromChannel b u"
  using assms by (simp add: imageFromChannel_order unassignedError_def Let_def)

lemma imageFromChannel_assigned:
  "assignedImage (rcStatus rc) (uName u) \<noteq> [] \<Longrightarrow>
   imageFromChannel rc u = Inr (assignedImage (rcStatus rc) (uName u))"
  by (simp add: imageFromChannel_order Let_def)

text \<open>All operator secrets live in one namespace, and two instances may share a name there.\<close>

lemma operatorSecretName_collides:
  "operatorSecretKey ns (newUnleash ''a-b'' ''c'' ch img) = operatorSecretKey ns (newUnleash ''a'' ''b-c'' ch img)"
  by (simp add: secret_names fresh_objects)

text \<open>A database given by URL makes the operator drop the extra variables of the instance.\<close>

lemma extra_variables_dropped:
  "dbURL (usDatabase (uSpec u)) \<noteq> [] \<Longrightarrow>
   envVarsForUnleash (u\<lparr>uSpec := (uSpec u)\<lparr>usExtraEnvVars := extra\<rparr>\<rparr>) = envVarsForUnleash u"
  by (simp add: envVarsForUnleash_def Let_def secret_names)

text \<open>\<open>getImageForInstance\<close>, whose comment says that it determines the image of an instance, ignores
  the assignments that instances really pull.\<close>

lemma getImageForInstance_differs:
  "let rc = rcStatus_update (\<lambda>st. st\<lparr>stPhase := PhaseRolling, stPreviousImage := ''r:1'',
              stInstanceImages := Some [(''a'', ''r:1'')]\<rparr>) (newChannel ''n'' ''c'' ''r:2'');
       u = newUnleash ''n'' ''a'' ''c'' []
   in getImageForInstance L u rc = ''r:2'' \<and> imageFromChannel rc u = Inr ''r:1''"
  by (simp add: getImageForInstance_def imageFromChannel_def isCanaryInstance_def fresh_objects Let_def)

text \<open>The environment of a container can be built unless the database is named neither by a
  URL nor by a secret, or the secret has no URL key and user, database name, host or port
  come from neither a key nor the specification.\<close>

theorem envVars_rejected:
  "(\<exists>e. envVarsForUnleash u = Inl e) \<longleftrightarrow> (let db = usDatabase (uSpec u) in
     dbURL db = [] \<and>
     (dbSecretName db = [] \<or>
      dbSecretURLKey db = [] \<and>
        (dbSecretUserKey db = [] \<and> dbUser db = [] \<or>
         dbSecretDatabaseNameKey db = [] \<and> dbDatabaseName db = [] \<or>
         dbSecretHostKey db = [] \<and> dbHost db = [] \<or>
         dbSecretPortKey db = [] \<and> dbPort db = [])))"
  by (auto simp: envVarsForUnleash_def databaseEnv_def secretOrPlain_def orInvalid_def Let_def)

end
