(* ===== verification/UnleashClient.thy ===== *)
theory UnleashClient
  imports Effects
begin

text \<open>
  The HTTP client of the Unleash admin API (\<open>internal/unleashclient/client.go\<close> and
  \<open>admin_api.go\<close>), with the parts of \<open>net/url\<close> and \<open>path\<close> it builds request URLs from.
  Parsing a URL, JSON and the network are the fields of the record \<open>web\<close>.
\<close>

section \<open>Paths and percent-encoding\<close>

text \<open>A URL is what stands before its path (scheme and host), the path, the encoding of the path
  it insists on, and what stands behind it (query and fragment). The two modes are \<open>encodePath\<close> and \<open>encodePathSegment\<close> of \<open>net/url\<close>.\<close>

record url =
  urPrefix :: string
  urPath :: string
  urRawPath :: string
  urSuffix :: string

definition isAlnum :: "char \<Rightarrow> bool" where
  "isAlnum c = (let n = of_char c :: nat in 48 \<le> n \<and> n \<le> 57 \<or> 65 \<le> n \<and> n \<le> 90 \<or> 97 \<le> n \<and> n \<le> 122)"

datatype encoding = EncodePath | EncodePathSegment

definition shouldEscape :: "encoding \<Rightarrow> char \<Rightarrow> bool" where
  "shouldEscape mode c =
     (if isAlnum c then False
      else if c \<in> set ''-_.~'' then False
      else if c \<in> set ''$&+,/:;=?@'' then
        (case mode of EncodePathSegment \<Rightarrow> c \<in> set ''/;,?'' | EncodePath \<Rightarrow> c = CHR ''?'')
      else True)"

definition hexDigit :: "nat \<Rightarrow> char" where
  "hexDigit n = (if n < 10 then char_of (48 + n) else char_of (55 + n))"

fun unhex :: "char \<Rightarrow> nat option" where
  "unhex c = (let n = of_char c in
     if 48 \<le> n \<and> n \<le> 57 then Some (n - 48)
     else if 97 \<le> n \<and> n \<le> 102 then Some (n - 87)
     else if 65 \<le> n \<and> n \<le> 70 then Some (n - 55)
     else None)"

definition escapeChar :: "encoding \<Rightarrow> char \<Rightarrow> string" where
  "escapeChar mode c =
     (if shouldEscape mode c then [CHR ''%'', hexDigit (of_char c div 16), hexDigit (of_char c mod 16)] else [c])"

definition escape :: "encoding \<Rightarrow> string \<Rightarrow> string" where
  "escape mode s = concat (map (escapeChar mode) s)"

definition PathEscape :: "string \<Rightarrow> string" where
  "PathEscape s = escape EncodePathSegment s"

fun unescape :: "string \<Rightarrow> string option" where
  "unescape [] = Some []"
| "unescape (c # s) =
     (if c = CHR ''%'' then
        (case s of
           a # b # s' \<Rightarrow>
             (case (unhex a, unhex b, unescape s') of
                (Some x, Some y, Some t) \<Rightarrow> Some (char_of (16 * x + y) # t)
              | _ \<Rightarrow> None)
         | _ \<Rightarrow> None)
      else map_option (Cons c) (unescape s))"

definition validEncoded :: "string \<Rightarrow> bool" where
  "validEncoded s = list_all (\<lambda>c. c \<in> set ''!$&()*+,;=:@[]%'' \<or> of_char c = (39::nat) \<or> \<not> shouldEscape EncodePath c) s"

definition escapedPath :: "url \<Rightarrow> string" where
  "escapedPath u =
     (if urRawPath u \<noteq> [] \<and> validEncoded (urRawPath u) \<and> unescape (urRawPath u) = Some (urPath u) then urRawPath u
      else if urPath u = ''*'' then ''*''
      else escape EncodePath (urPath u))"

definition urlString :: "url \<Rightarrow> string" where
  "urlString u = urPrefix u @ escapedPath u @ urSuffix u"

text \<open>\<open>path.Join\<close> of a base path and a non-empty request path: the cleaned concatenation.\<close>

fun splitPath :: "string \<Rightarrow> string list" where
  "splitPath [] = [[]]"
| "splitPath (c # s) = (case splitPath s of
       w # ws \<Rightarrow> if c = CHR ''/'' then [] # w # ws else (c # w) # ws
     | [] \<Rightarrow> [[c]])"

definition cleanSegment :: "bool \<Rightarrow> string \<Rightarrow> string list \<Rightarrow> string list" where
  "cleanSegment rooted seg acc =
     (if seg = [] \<or> seg = ''.'' then acc
      else if seg = ''..'' then
        (case acc of
           [] \<Rightarrow> if rooted then [] else [seg]
         | a # as \<Rightarrow> if a = ''..'' then seg # acc else as)
      else seg # acc)"

definition pathClean :: "string \<Rightarrow> string" where
  "pathClean s =
     (let rooted = hasPrefix s ''/'';
          body = join ''/'' (rev (fold (cleanSegment rooted) (splitPath s) [])) in
      if rooted then CHR ''/'' # body else if body = [] then ''.'' else body)"

definition pathJoin :: "string \<Rightarrow> string \<Rightarrow> string" where
  "pathJoin base p =
     (if base = [] \<and> p = [] then []
      else if base = [] then pathClean p
      else if p = [] then pathClean base
      else pathClean (base @ ''/'' @ p))"

section \<open>Requests\<close>

datatype http_error =
    UrlError string "http_error option" \<comment> \<open>\<open>*url.Error\<close>: its text names the URL\<close>
  | WrapError string http_error
  | OtherError go_error

record http_request =
  rqMethod :: string
  rqURL :: url
  rqToken :: string
  rqBody :: "string option"
  rqRedactedURL :: "string option" \<comment> \<open>what instrumentation may see\<close>
  rqUnredactedURL :: "url option"

datatype http_response = HttpDropped http_error | HttpReply int "go_error + string"

record admin_stats =
  asVersionOSS :: string
  asVersionEnterprise :: string

record api_token =
  atSecret :: string
  atTokenName :: string
  atUsername :: string
  atType :: string
  atEnvironment :: string
  atProjects :: "string list"
  atCreatedAt :: string

record api_token_request =
  trUsername :: string
  trTokenName :: string
  trType :: string
  trEnvironment :: string
  trProjects :: "string list"

record api_error =
  aeStatusCode :: int
  aeMessage :: string
  aeRawBody :: string

text \<open>A decoder answers with an error and with what it wrote into its target before it failed.
  \<open>wDecodeError\<close> decodes into the given error value.\<close>

record 'c web =
  wDo :: "'c list \<Rightarrow> http_request \<Rightarrow> http_response"
  wParseURL :: "string \<Rightarrow> go_error + url"
  wDecodeStats :: "string \<Rightarrow> go_error option \<times> admin_stats"
  wDecodeTokens :: "string \<Rightarrow> go_error option \<times> api_token list"
  wDecodeToken :: "string \<Rightarrow> go_error option \<times> api_token"
  wDecodeError :: "string \<Rightarrow> api_error \<Rightarrow> api_error"
  wEncodeRequest :: "api_token_request \<Rightarrow> go_error + string"

record http_client =
  clURL :: url
  clToken :: string

definition HealthEndpoint :: string where "HealthEndpoint = ''/health''"
definition InstanceAdminStatsEndpoint :: string where
  "InstanceAdminStatsEndpoint = ''/api/admin/instance-admin/statistics''"
definition ApiTokensEndpoint :: string where "ApiTokensEndpoint = ''/api/admin/api-tokens''"

definition maxResponseBytes :: nat where "maxResponseBytes = 10 * 2 ^ 20"
definition redactedPathSegment :: string where "redactedPathSegment = ''REDACTED''"

definition NewClient :: "'c web \<Rightarrow> string \<Rightarrow> string \<Rightarrow> go_error + http_client" where
  "NewClient W instanceURL token =
     (case wParseURL W instanceURL of
        Inl e \<Rightarrow> Inl e
      | Inr u \<Rightarrow>
          if token = [] then Inl (errorf ''apiToken can not be empty'')
          else Inr \<lparr>clURL = u, clToken = token\<rparr>)"

definition apiErrorMessage :: "api_error \<Rightarrow> string" where
  "apiErrorMessage e = ''unleash API error (HTTP '' @ showInt (aeStatusCode e) @ ''): '' @
     (if aeMessage e \<noteq> [] then aeMessage e else aeRawBody e)"

definition apiError :: "api_error \<Rightarrow> go_error" where
  "apiError e = \<lparr>errorKind = ApiStatus (aeStatusCode e) (aeMessage e) (aeRawBody e), errorMsg = apiErrorMessage e\<rparr>"

definition isV7CompatibilityIssue :: "api_error \<Rightarrow> bool" where
  "isV7CompatibilityIssue e \<longleftrightarrow> aeStatusCode e = 400 \<and>
     (contains (toLower (aeMessage e)) ''tokenname'' \<or> contains (toLower (aeRawBody e)) ''tokenname'' \<or>
      contains (toLower (aeMessage e)) ''projects'' \<or> contains (toLower (aeMessage e)) ''project field'')"

definition parseAPIError :: "'c web \<Rightarrow> int \<Rightarrow> string \<Rightarrow> go_error" where
  "parseAPIError W status body = apiError (wDecodeError W body \<lparr>aeStatusCode = status, aeMessage = [], aeRawBody = body\<rparr>)"

definition readResponseBody :: "go_error + string \<Rightarrow> go_error + string" where
  "readResponseBody r =
     (case r of
        Inl e \<Rightarrow> Inl e
      | Inr body \<Rightarrow>
          if length body > maxResponseBytes
          then Inl (errorf (''response body exceeds '' @ showNat maxResponseBytes @ '' bytes''))
          else Inr body)"

definition requestURL :: "http_client \<Rightarrow> string \<Rightarrow> url" where
  "requestURL c p = (clURL c)\<lparr>urPath := pathJoin (urPath (clURL c)) p\<rparr>"

text \<open>\<open>strings.Trim(item, ".") == ""\<close> holds for a run of dots.\<close>

definition itemURL :: "http_client \<Rightarrow> string \<Rightarrow> string \<Rightarrow> go_error + url" where
  "itemURL c p item =
     (if item = [] \<or> list_all (\<lambda>ch. ch = CHR ''.'') item then Inl (errorf (''invalid path segment '' @ showQuoted item))
      else (let req = requestURL c p in
        Inr (req\<lparr>urRawPath := escapedPath req @ ''/'' @ PathEscape item,
                 urPath := urPath req @ ''/'' @ item\<rparr>)))"

section \<open>Sending\<close>

datatype http_call = HttpCall http_request http_response | HttpSpan url

type_synonym 'c round_tripper = "http_request \<Rightarrow> ('c, http_response) program"

definition baseTransport :: "'c web \<Rightarrow> (http_call \<Rightarrow> 'c) \<Rightarrow> 'c round_tripper" where
  "baseTransport W w rq = perform (\<lambda>l. wDo W l rq) (\<lambda>r. w (HttpCall rq r))"

definition restoringTransport :: "'c round_tripper \<Rightarrow> 'c round_tripper" where
  "restoringTransport nextRT rq =
     (case rqUnredactedURL rq of None \<Rightarrow> nextRT rq | Some u \<Rightarrow> nextRT (rq\<lparr>rqURL := u\<rparr>))"

text \<open>\<open>otelhttp\<close> records the URL of the request it is handed and passes it on.\<close>

definition otelTransport :: "(http_call \<Rightarrow> 'c) \<Rightarrow> 'c round_tripper \<Rightarrow> 'c round_tripper" where
  "otelTransport w nextRT rq = do { _ \<leftarrow> emit (w (HttpSpan (rqURL rq))); nextRT rq }"

text \<open>\<open>http.Client\<close> wraps the error of a transport in one that names the URL.\<close>

definition redactingTransport :: "'c web \<Rightarrow> 'c round_tripper \<Rightarrow> 'c round_tripper" where
  "redactingTransport W nextRT rq =
     (case rqRedactedURL rq of
        None \<Rightarrow> nextRT rq
      | Some s \<Rightarrow>
          (case wParseURL W s of
             Inl e \<Rightarrow> ret (HttpDropped (UrlError (urlString (rqURL rq)) (Some (OtherError e))))
           | Inr redacted \<Rightarrow> nextRT (rq\<lparr>rqUnredactedURL := Some (rqURL rq), rqURL := redacted\<rparr>)))"

definition newTransport :: "'c web \<Rightarrow> (http_call \<Rightarrow> 'c) \<Rightarrow> 'c round_tripper" where
  "newTransport W w = redactingTransport W (otelTransport w (restoringTransport (baseTransport W w)))"

fun dropHttpError :: "http_error \<Rightarrow> go_error" where
  "dropHttpError (OtherError e) = e"
| "dropHttpError (WrapError p e) = wrapf p (dropHttpError e)"
| "dropHttpError (UrlError u None) = errorf u"
| "dropHttpError (UrlError u (Some e)) = wrapf u (dropHttpError e)"

text \<open>What \<open>errors.As\<close> finds: the error inside the outermost \<open>*url.Error\<close> of the chain.\<close>

fun insideURLError :: "http_error \<Rightarrow> http_error option option" where
  "insideURLError (UrlError u inner) = Some inner"
| "insideURLError (WrapError p e) = insideURLError e"
| "insideURLError (OtherError e) = None"

lemma insideURLError_size [termination_simp]: "insideURLError e = Some (Some i) \<Longrightarrow> size i < size e"
  by (induction e rule: insideURLError.induct) auto

fun withoutURLError :: "http_error \<Rightarrow> http_error" where
  "withoutURLError e =
     (case insideURLError e of
        None \<Rightarrow> e
      | Some None \<Rightarrow> OtherError (errorf ''HTTP request failed'')
      | Some (Some i) \<Rightarrow> withoutURLError i)"

declare withoutURLError.simps [simp del]

definition newRequest :: "http_client \<Rightarrow> string \<Rightarrow> url \<Rightarrow> string option \<Rightarrow> http_request" where
  "newRequest c method u body = \<lparr>rqMethod = method, rqURL = u, rqToken = clToken c, rqBody = body,
     rqRedactedURL = None, rqUnredactedURL = None\<rparr>"

text \<open>Status code (0 when there was none) and error; the body that was read when it is expected.\<close>

definition expectBody :: "'c web \<Rightarrow> int \<Rightarrow> http_response \<Rightarrow> go_error + string" where
  "expectBody W want r =
     (case r of
        HttpDropped e \<Rightarrow> Inl (dropHttpError e)
      | HttpReply status stream \<Rightarrow>
          (case readResponseBody stream of
             Inl e \<Rightarrow> Inl e
           | Inr body \<Rightarrow> if status \<noteq> want then Inl (parseAPIError W status body) else Inr body))"

definition httpGetURL :: "'c web \<Rightarrow> (http_call \<Rightarrow> 'c) \<Rightarrow> http_client \<Rightarrow> url \<Rightarrow> ('c, http_response \<times> (go_error + string)) program" where
  "httpGetURL W w c u = do {
     r \<leftarrow> newTransport W w (newRequest c ''GET'' u None);
     ret (r, expectBody W 200 r)
   }"

definition httpDelete :: "'c web \<Rightarrow> (http_call \<Rightarrow> 'c) \<Rightarrow> http_client \<Rightarrow> string \<Rightarrow> string \<Rightarrow> ('c, go_error option) program" where
  "httpDelete W w c p item =
     (case itemURL c p item of
        Inl e \<Rightarrow> ret (Some e)
      | Inr u \<Rightarrow>
     (case itemURL c p redactedPathSegment of
        Inl e \<Rightarrow> ret (Some e)
      | Inr redacted \<Rightarrow> do {
          r \<leftarrow> newTransport W w ((newRequest c ''DELETE'' u None)\<lparr>rqRedactedURL := Some (urlString redacted)\<rparr>);
          ret (case r of
                 HttpDropped e \<Rightarrow> Some (wrapf ''HTTP DELETE request failed'' (dropHttpError (withoutURLError e)))
               | HttpReply status _ \<Rightarrow>
                   if status \<noteq> 200 then Some (apiError \<lparr>aeStatusCode = status, aeMessage = [], aeRawBody = []\<rparr>)
                   else None)
        }))"

definition httpPost :: "'c web \<Rightarrow> (http_call \<Rightarrow> 'c) \<Rightarrow> http_client \<Rightarrow> string \<Rightarrow> go_error + string \<Rightarrow> ('c, go_error + string) program" where
  "httpPost W w c p payload =
     (case payload of
        Inl e \<Rightarrow> ret (Inl e)
      | Inr body \<Rightarrow> do {
          r \<leftarrow> newTransport W w (newRequest c ''POST'' (requestURL c p) (Some body));
          ret (expectBody W 201 r)
        })"

section \<open>The admin API\<close>

definition zeroStats :: admin_stats where "zeroStats = \<lparr>asVersionOSS = [], asVersionEnterprise = []\<rparr>"

text \<open>Statistics, the response and the error; a failed call still returns what was decoded.\<close>

definition GetInstanceAdminStats ::
  "'c web \<Rightarrow> (http_call \<Rightarrow> 'c) \<Rightarrow> http_client \<Rightarrow> ('c, admin_stats \<times> http_response \<times> go_error option) program" where
  "GetInstanceAdminStats W w c = do {
     (r, body) \<leftarrow> httpGetURL W w c (requestURL c InstanceAdminStatsEndpoint);
     ret (case body of
            Inl e \<Rightarrow> (zeroStats, r, Some e)
          | Inr b \<Rightarrow> (case wDecodeStats W b of (err, stats) \<Rightarrow> (stats, r, err)))
   }"

definition GetAPITokensByName ::
  "'c web \<Rightarrow> (http_call \<Rightarrow> 'c) \<Rightarrow> http_client \<Rightarrow> string \<Rightarrow> ('c, go_error + api_token list) program" where
  "GetAPITokensByName W w c name =
     (case itemURL c ApiTokensEndpoint name of
        Inl e \<Rightarrow> ret (Inl e)
      | Inr u \<Rightarrow> do {
          (r, body) \<leftarrow> httpGetURL W w c u;
          ret (case body of
                 Inl e \<Rightarrow> Inl e
               | Inr b \<Rightarrow> (case wDecodeTokens W b of (Some e, _) \<Rightarrow> Inl e | (None, ts) \<Rightarrow> Inr ts))
        })"

definition GetAllAPITokens ::
  "'c web \<Rightarrow> (http_call \<Rightarrow> 'c) \<Rightarrow> http_client \<Rightarrow> ('c, go_error + api_token list) program" where
  "GetAllAPITokens W w c = do {
     (r, body) \<leftarrow> httpGetURL W w c (requestURL c ApiTokensEndpoint);
     ret (case body of
            Inl e \<Rightarrow> Inl e
          | Inr b \<Rightarrow> (case wDecodeTokens W b of (Some e, _) \<Rightarrow> Inl e | (None, ts) \<Rightarrow> Inr ts))
   }"

definition CreateAPIToken ::
  "'c web \<Rightarrow> (http_call \<Rightarrow> 'c) \<Rightarrow> http_client \<Rightarrow> api_token_request \<Rightarrow> ('c, go_error + api_token) program" where
  "CreateAPIToken W w c rq = do {
     body \<leftarrow> httpPost W w c ApiTokensEndpoint (wEncodeRequest W rq);
     ret (case body of
            Inl e \<Rightarrow> Inl e
          | Inr b \<Rightarrow> (case wDecodeToken W b of (Some e, _) \<Rightarrow> Inl e | (None, t) \<Rightarrow> Inr t))
   }"

definition DeleteApiToken ::
  "'c web \<Rightarrow> (http_call \<Rightarrow> 'c) \<Rightarrow> http_client \<Rightarrow> string \<Rightarrow> ('c, go_error option) program" where
  "DeleteApiToken W w c tokenString = httpDelete W w c ApiTokensEndpoint tokenString"

section \<open>Request paths\<close>

lemma unhex_hexDigit: "n < 16 \<Longrightarrow> unhex (hexDigit n) = Some n"
  by (simp add: hexDigit_def)

lemma hexDigit_alnum: "n < 16 \<Longrightarrow> isAlnum (hexDigit n)"
  by (simp add: hexDigit_def isAlnum_def)

lemma highNibble: "(of_char c :: nat) div 16 < 16"
  by (rule less_mult_imp_div_less) simp

lemma unescape_escapeChar: "unescape (escapeChar mode c @ s) = map_option (Cons c) (unescape s)"
proof (cases "shouldEscape mode c")
  case True
  note nibble = highNibble[of c]
  then show ?thesis
    using True nibble by (simp add: escapeChar_def unhex_hexDigit split: option.split del: unhex.simps)
next
  case False
  then have "c \<noteq> CHR ''%''" by (auto simp: shouldEscape_def isAlnum_def)
  with False show ?thesis by (simp add: escapeChar_def)
qed

lemma unescape_escape: "unescape (escape mode s) = Some s"
  by (induction s) (simp_all add: escape_def unescape_escapeChar del: unescape.simps(2))

lemma unescape_append: "unescape a = Some x \<Longrightarrow> unescape (a @ b) = map_option ((@) x) (unescape b)"
proof (induction a arbitrary: x rule: unescape.induct)
  case 1
  then show ?case by (cases "unescape b") auto
next
  case (2 c s)
  show ?case
  proof (cases "c = CHR ''%''")
    case True
    with 2(3) obtain a d s' where s: "s = a # d # s'" by (auto split: list.splits)
    with True 2(3) obtain y where "unescape s' = Some y" by (auto split: option.splits simp del: unhex.simps)
    with 2(1)[OF True s _] True s 2(3) show ?thesis
      by (cases "unescape b") (auto split: option.splits simp del: unhex.simps)
  next
    case False
    with 2(3) obtain y where "unescape s = Some y" "x = c # y" by auto
    with 2(2)[OF False] False show ?thesis by (cases "unescape b") auto
  qed
qed

lemma validEncoded_append [simp]: "validEncoded (a @ b) = (validEncoded a \<and> validEncoded b)"
  by (simp add: validEncoded_def)

lemma validEncoded_escapeChar: "validEncoded (escapeChar mode c)"
proof (cases "shouldEscape mode c")
  case True
  note nibble = highNibble[of c]
  have "isAlnum (hexDigit (of_char c div 16))" "isAlnum (hexDigit (of_char c mod 16))"
    using nibble by (simp_all add: hexDigit_alnum)
  with True show ?thesis by (simp add: escapeChar_def validEncoded_def shouldEscape_def)
next
  case False
  then show ?thesis by (auto simp: escapeChar_def validEncoded_def shouldEscape_def split: if_splits encoding.splits)
qed

lemma validEncoded_escape: "validEncoded (escape mode s)"
  by (induction s) (simp_all add: escape_def validEncoded_escapeChar, simp add: validEncoded_def)

lemma escapedPath_valid: "validEncoded (escapedPath u) \<and> unescape (escapedPath u) = Some (urPath u)"
proof -
  have "validEncoded ''*'' \<and> unescape ''*'' = Some ''*''" by code_simp
  then show ?thesis by (simp add: escapedPath_def validEncoded_escape unescape_escape)
qed

text \<open>What would end a path segment or the path.\<close>

definition pathDelimiter :: "char \<Rightarrow> bool" where
  "pathDelimiter c \<longleftrightarrow> c \<in> set ''/?#;''"

lemma pathDelimiter_escaped: "pathDelimiter c \<Longrightarrow> \<not> isAlnum c \<and> shouldEscape EncodePathSegment c"
proof -
  assume "pathDelimiter c"
  then consider "c = CHR ''/''" | "c = CHR ''?''" | "c = CHR ''#''" | "c = CHR '';''"
    by (auto simp: pathDelimiter_def)
  then show ?thesis by cases (simp_all add: isAlnum_def shouldEscape_def)
qed

lemma pathDelimiter_percent: "\<not> pathDelimiter CHR ''%''"
  by code_simp

lemma pathDelimiter_hexDigit: "n < 16 \<Longrightarrow> \<not> pathDelimiter (hexDigit n)"
  using hexDigit_alnum pathDelimiter_escaped by blast

lemma PathEscape_segment: "list_all (\<lambda>ch. \<not> pathDelimiter ch) (PathEscape s)"
proof (induction s)
  case (Cons c s)
  have "list_all (\<lambda>ch. \<not> pathDelimiter ch) (escapeChar EncodePathSegment c)"
    using pathDelimiter_escaped highNibble[of c]
    by (auto simp: escapeChar_def pathDelimiter_percent pathDelimiter_hexDigit)
  with Cons show ?case by (simp add: PathEscape_def escape_def)
qed (simp add: PathEscape_def escape_def)

lemma PathEscape_dots: "list_all (\<lambda>ch. ch = CHR ''.'') (PathEscape s) \<Longrightarrow> list_all (\<lambda>ch. ch = CHR ''.'') s"
  by (induction s) (auto simp: PathEscape_def escape_def escapeChar_def split: if_splits)

text \<open>C24: an item that is addressed under an endpoint becomes exactly one more path segment on
  the wire: the path is that of the endpoint, a slash, and an encoding of the item that
  holds no slash, question mark, hash or semicolon, is not made of dots only and decodes to
  the item.\<close>

theorem itemURL_adds_one_segment:
  assumes "itemURL c p item = Inr u"
  shows "escapedPath u = escapedPath (requestURL c p) @ ''/'' @ PathEscape item \<and>
     list_all (\<lambda>ch. \<not> pathDelimiter ch) (PathEscape item) \<and>
     unescape (PathEscape item) = Some item \<and>
     \<not> list_all (\<lambda>ch. ch = CHR ''.'') (PathEscape item)"
proof -
  let ?base = "requestURL c p" and ?raw = "escapedPath (requestURL c p) @ ''/'' @ PathEscape item"
  have dots: "\<not> list_all (\<lambda>ch. ch = CHR ''.'') item"
    and u: "u = ?base\<lparr>urRawPath := ?raw, urPath := urPath ?base @ ''/'' @ item\<rparr>"
    using assms by (auto simp: itemURL_def Let_def split: if_splits)
  have item: "unescape (PathEscape item) = Some item" by (simp add: PathEscape_def unescape_escape)
  have "unescape ?raw = Some (urPath ?base @ ''/'' @ item)"
    using unescape_append[of "escapedPath ?base"] escapedPath_valid[of ?base] item by simp
  moreover have "validEncoded ''/''" by code_simp
  then have "validEncoded ?raw"
    using escapedPath_valid[of ?base] by (simp only: validEncoded_append) (simp add: PathEscape_def validEncoded_escape)
  ultimately have "escapedPath u = ?raw" by (subst escapedPath_def) (simp add: u)
  then show ?thesis using PathEscape_segment PathEscape_dots dots item by blast
qed

section \<open>Secrets in transit\<close>

lemma insideURLError_without: "insideURLError (withoutURLError e) = None"
  by (induction e rule: withoutURLError.induct)
     (subst withoutURLError.simps, auto split: option.split)

fun spanURL :: "http_call \<Rightarrow> url list" where
  "spanURL (HttpSpan u) = [u]"
| "spanURL (HttpCall rq r) = []"

fun wireURL :: "http_call \<Rightarrow> url list" where
  "wireURL (HttpSpan u) = []"
| "wireURL (HttpCall rq r) = [rqURL rq]"

definition redactedSpan :: "'c web \<Rightarrow> http_client \<Rightarrow> string \<Rightarrow> url list" where
  "redactedSpan W c p =
     (case itemURL c p redactedPathSegment of
        Inl e \<Rightarrow> []
      | Inr r \<Rightarrow> (case wParseURL W (urlString r) of Inl e \<Rightarrow> [] | Inr s \<Rightarrow> [s]))"

lemma redacted_accepted: "\<exists>r. itemURL c p redactedPathSegment = Inr r"
proof -
  have "redactedPathSegment \<noteq> [] \<and> \<not> list_all (\<lambda>ch. ch = CHR ''.'') redactedPathSegment" by code_simp
  then show ?thesis by (simp add: itemURL_def Let_def)
qed

text \<open>C23: deleting an API token shows instrumentation a URL that does not depend on the token's
  secret, and only the network sees the real one; when the redacted URL does not parse,
  nothing is sent at all.\<close>

theorem deletion_hides_secret:
  assumes "itemURL c p secret = Inr u"
  shows "(let new = newCalls (httpDelete W (\<lambda>h. h) c p secret) l in
     concat (map spanURL new) = redactedSpan W c p \<and>
     concat (map wireURL new) = map (\<lambda>_. u) (redactedSpan W c p))"
proof -
  obtain r where "itemURL c p redactedPathSegment = Inr r" using redacted_accepted by blast
  with assms show ?thesis
    by (cases "wParseURL W (urlString r)")
       (simp_all add: redactedSpan_def httpDelete_def newTransport_def redactingTransport_def otelTransport_def
          restoringTransport_def baseTransport_def newCalls_def perform_def emit_def newRequest_def Let_def)
qed

section \<open>Concrete runs\<close>

definition sampleClient :: http_client where
  "sampleClient = \<lparr>clURL = \<lparr>urPrefix = ''https://u'', urPath = [], urRawPath = [], urSuffix = []\<rparr>, clToken = ''t''\<rparr>"

definition sampleWeb :: "'c web" where
  "sampleWeb = \<lparr>wDo = (\<lambda>l rq. HttpReply 200 (Inr ''ok'')),
     wParseURL = (\<lambda>s. Inr \<lparr>urPrefix = s, urPath = [], urRawPath = [], urSuffix = []\<rparr>),
     wDecodeStats = (\<lambda>b. (None, \<lparr>asVersionOSS = ''6.1.0'', asVersionEnterprise = []\<rparr>)),
     wDecodeTokens = (\<lambda>b. (None, [])),
     wDecodeToken = (\<lambda>b. (None, \<lparr>atSecret = ''s'', atTokenName = ''n'', atUsername = ''n'', atType = ''CLIENT'',
                                  atEnvironment = ''dev'', atProjects = [], atCreatedAt = []\<rparr>)),
     wDecodeError = (\<lambda>b e. e), wEncodeRequest = (\<lambda>rq. Inr ''{}'')\<rparr>"

theorem itemURL_adds_one_segment_witness:
  "\<exists>u. itemURL sampleClient ApiTokensEndpoint ''a/b'' = Inr u \<and> escapedPath u = ''/api/admin/api-tokens/a%2Fb''"
proof -
  obtain u where u: "itemURL sampleClient ApiTokensEndpoint ''a/b'' = Inr u"
    by (simp add: itemURL_def Let_def)
  have "escapedPath (requestURL sampleClient ApiTokensEndpoint) @ ''/'' @ PathEscape ''a/b'' =
      ''/api/admin/api-tokens/a%2Fb''"
    by code_simp
  with itemURL_adds_one_segment[OF u] u show ?thesis by simp
qed

theorem deletion_hides_secret_witness:
  "concat (map spanURL (newCalls (httpDelete sampleWeb (\<lambda>h. h) sampleClient ApiTokensEndpoint ''s3cret'') [])) =
     redactedSpan (sampleWeb :: http_call web) sampleClient ApiTokensEndpoint \<and>
   length (redactedSpan (sampleWeb :: http_call web) sampleClient ApiTokensEndpoint) = 1"
proof -
  obtain u where u: "itemURL sampleClient ApiTokensEndpoint ''s3cret'' = Inr u"
    by (simp add: itemURL_def Let_def)
  have "length (redactedSpan (sampleWeb :: http_call web) sampleClient ApiTokensEndpoint) = 1" by code_simp
  with deletion_hides_secret[OF u, of sampleWeb "[]"] show ?thesis by (simp add: Let_def)
qed

end
