(* ===== verification/InstanceAccess.thy ===== *)
theory InstanceAccess
  imports ObjectApi UnleashClient ChannelStatus
begin

text \<open>
  Access to an Unleash server: the \<open>RemoteUnleash\<close> resource (\<open>api/v1/remoteunleash_types.go\<close>), the
  admin token and the API client of a local and of a remote instance, and the checks a remote
  instance has to pass before the operator uses its secret
  (\<open>internal/controller/remoteunleash_validation.go\<close>).
\<close>

definition failWith :: "go_error \<Rightarrow> ('c, outcome) program" where
  "failWith e = ret (resultZero, Some e)"

section \<open>Local instances\<close>

definition AdminToken ::
  "('c, secret) kind \<Rightarrow> (secret request \<Rightarrow> 'c) \<Rightarrow> string \<Rightarrow> unleash \<Rightarrow> ('c, go_error + string) program" where
  "AdminToken K w ns u = onError (getObject K w (operatorSecretKey ns u))
     (\<lambda>e. ret (Inl e)) (\<lambda>secret. ret (Inr (dictGet (scData secret) UnleashSecretTokenKey)))"

definition ApiClient ::
  "('c, secret) kind \<Rightarrow> (secret request \<Rightarrow> 'c) \<Rightarrow> 'c web \<Rightarrow> string \<Rightarrow> unleash \<Rightarrow> ('c, go_error + http_client) program" where
  "ApiClient K w W ns u = onError (AdminToken K w ns u) (\<lambda>e. ret (Inl e))
     (\<lambda>token. ret (NewClient W (unleashURL u) token))"

section \<open>Remote instances\<close>

record remote_status =
  rtConditions :: "condition list"
  rtReconciled :: bool
  rtConnected :: bool
  rtVersion :: string

record remote_unleash =
  ruMeta :: object_meta
  ruURL :: string
  ruSecretName :: string
  ruSecretKey :: string
  ruSecretNamespace :: string
  ruStatus :: remote_status

abbreviation ruName :: "remote_unleash \<Rightarrow> string" where "ruName r \<equiv> mName (ruMeta r)"
abbreviation ruNamespace :: "remote_unleash \<Rightarrow> string" where "ruNamespace r \<equiv> mNamespace (ruMeta r)"

definition remoteKey :: "remote_unleash \<Rightarrow> nsname" where
  "remoteKey r = (ruNamespace r, ruName r)"

definition adminSecretKey :: "remote_unleash \<Rightarrow> nsname" where
  "adminSecretKey r = (if ruSecretNamespace r = [] then ruNamespace r else ruSecretNamespace r, ruSecretName r)"

text \<open>Access without any check; the controllers use the checked access below.\<close>

definition remoteAdminToken ::
  "('c, secret) kind \<Rightarrow> (secret request \<Rightarrow> 'c) \<Rightarrow> remote_unleash \<Rightarrow> ('c, go_error + string) program" where
  "remoteAdminToken K w r = onError (getObject K w (adminSecretKey r))
     (\<lambda>e. ret (Inl e)) (\<lambda>secret. ret (Inr (dictGet (scData secret) (ruSecretKey r))))"

definition remoteApiClient ::
  "('c, secret) kind \<Rightarrow> (secret request \<Rightarrow> 'c) \<Rightarrow> 'c web \<Rightarrow> remote_unleash \<Rightarrow> ('c, go_error + http_client) program" where
  "remoteApiClient K w W r = onError (remoteAdminToken K w r) (\<lambda>e. ret (Inl e))
     (\<lambda>token. ret (NewClient W (ruURL r) token))"

definition remoteIsReady :: "remote_unleash \<Rightarrow> bool" where
  "remoteIsReady r = conditionStatusIsReadyForGeneration (rtConditions (ruStatus r)) (mGeneration (ruMeta r))"

definition zeroRemoteStatus :: remote_status where
  "zeroRemoteStatus = \<lparr>rtConditions = [], rtReconciled = False, rtConnected = False, rtVersion = []\<rparr>"

definition RemoteunleashInstance :: "string \<Rightarrow> string \<Rightarrow> string \<Rightarrow> string \<Rightarrow> string \<Rightarrow> remote_unleash" where
  "RemoteunleashInstance name url ns secretName secretNamespace =
     \<lparr>ruMeta = zeroMeta ns name, ruURL = url, ruSecretName = secretName, ruSecretKey = UnleashSecretTokenKey,
      ruSecretNamespace = secretNamespace, ruStatus = zeroRemoteStatus\<rparr>"

definition RemoteunleashInstances ::
  "string \<Rightarrow> string \<Rightarrow> string list \<Rightarrow> string \<Rightarrow> string \<Rightarrow> remote_unleash list" where
  "RemoteunleashInstances name url namespaces secretName secretNamespace =
     map (\<lambda>ns. RemoteunleashInstance name url ns secretName secretNamespace) namespaces"

section \<open>May this instance use this secret?\<close>

definition authorizationFailed :: "string \<Rightarrow> go_error" where
  "authorizationFailed m = \<lparr>errorKind = Sentinel ''authorization'',
     errorMsg = ''remote Unleash admin secret authorization failed: '' @ m\<rparr>"

definition serverURLInvalid :: "string \<Rightarrow> go_error" where
  "serverURLInvalid m = \<lparr>errorKind = Sentinel ''server URL'',
     errorMsg = ''remote Unleash server URL validation failed: '' @ m\<rparr>"

definition emptyToken :: "string \<Rightarrow> go_error" where
  "emptyToken m = \<lparr>errorKind = Sentinel ''empty token'', errorMsg = ''remote Unleash admin token is empty: '' @ m\<rparr>"

definition AuthorizedNamespace :: string where
  "AuthorizedNamespace = ''unleash.nais.io/authorized-namespace''"

definition secretNameBoundToInstance :: "string \<Rightarrow> string \<Rightarrow> bool" where
  "secretNameBoundToInstance secretName instanceName =
     (let base = UnleashSecretNamePrefix @ ''-'' @ instanceName in
      secretName = base \<or> hasPrefix secretName (base @ ''-''))"

definition crossesNamespaces :: "remote_unleash \<Rightarrow> bool" where
  "crossesNamespaces r \<longleftrightarrow> ruSecretNamespace r \<noteq> [] \<and> ruSecretNamespace r \<noteq> ruNamespace r"

text \<open>The checks once the secret has been read.\<close>

definition crossNamespaceGrant :: "bool \<Rightarrow> remote_unleash \<Rightarrow> secret \<Rightarrow> go_error option" where
  "crossNamespaceGrant legacy r s =
     (case map_of (mAnnotations (scMeta s)) AuthorizedNamespace of
        Some ns \<Rightarrow>
          if ns \<noteq> ruNamespace r
          then Some (authorizationFailed (''admin secret is authorized for namespace '' @ showQuoted ns @ '', not '' @
                 showQuoted (ruNamespace r)))
          else None
      | None \<Rightarrow>
          if legacy then
            (if secretNameBoundToInstance (ruSecretName r) (ruName r) then None
             else Some (authorizationFailed (''cross-namespace secret name must be bound to RemoteUnleash '' @
                    showQuoted (ruName r))))
          else Some (authorizationFailed (''cross-namespace admin secret must carry '' @ AuthorizedNamespace @
                 '' for namespace '' @ showQuoted (ruNamespace r))))"

definition tokenFromSecret :: "bool \<Rightarrow> remote_unleash \<Rightarrow> secret \<Rightarrow> go_error + string" where
  "tokenFromSecret legacy r s = (let
       annotated = (map_of (mAnnotations (scMeta s)) AuthorizedNamespace \<noteq> None);
       expected = dictGet (scData s) UnleashSecretServerURLKey;
       token = dictGet (scData s) (ruSecretKey r) in
     (case (if crossesNamespaces r then crossNamespaceGrant legacy r s else None) of
        Some e \<Rightarrow> Inl e
      | None \<Rightarrow>
          if (annotated \<or> \<not> legacy) \<and> expected = []
          then Inl (serverURLInvalid (''admin secret is missing required key '' @ showQuoted UnleashSecretServerURLKey))
          else if expected \<noteq> [] \<and> ruURL r \<noteq> expected
          then Inl (serverURLInvalid ''RemoteUnleash URL does not match the URL authorized by the admin secret'')
          else if token = []
          then Inl (emptyToken (''secret '' @ showQuoted (ruSecretName r) @ '' does not contain key '' @
                 showQuoted (ruSecretKey r)))
          else Inr token))"

definition validatedRemoteUnleashAdminToken ::
  "('c, secret) kind \<Rightarrow> (secret request \<Rightarrow> 'c) \<Rightarrow> string \<Rightarrow> bool \<Rightarrow> remote_unleash \<Rightarrow>
   ('c, go_error + string) program" where
  "validatedRemoteUnleashAdminToken K w operatorNs legacy r =
     (if crossesNamespaces r \<and> ruSecretNamespace r \<noteq> operatorNs
      then ret (Inl (authorizationFailed
             ''cross-namespace secret references are only permitted to the operator namespace''))
      else onError (getObject K w (adminSecretKey r)) (\<lambda>e. ret (Inl e)) (\<lambda>s. ret (tokenFromSecret legacy r s)))"

definition validatedRemoteUnleashAPIClient ::
  "('c, secret) kind \<Rightarrow> (secret request \<Rightarrow> 'c) \<Rightarrow> 'c web \<Rightarrow> string \<Rightarrow> bool \<Rightarrow> remote_unleash \<Rightarrow>
   ('c, go_error + http_client) program" where
  "validatedRemoteUnleashAPIClient K w W operatorNs legacy r =
     onError (validatedRemoteUnleashAdminToken K w operatorNs legacy r) (\<lambda>e. ret (Inl e))
       (\<lambda>token. ret (NewClient W (ruURL r) token))"

lemma tokenFromSecret_iff:
  "tokenFromSecret legacy r s = Inr token \<longleftrightarrow>
     token = dictGet (scData s) (ruSecretKey r) \<and> token \<noteq> [] \<and>
     (let grant = map_of (mAnnotations (scMeta s)) AuthorizedNamespace;
          url = dictGet (scData s) UnleashSecretServerURLKey in
      (if crossesNamespaces r
       then grant = Some (ruNamespace r) \<or> grant = None \<and> legacy \<and> secretNameBoundToInstance (ruSecretName r) (ruName r)
       else True) \<and>
      (if url = [] then grant = None \<and> legacy else url = ruURL r))"
  by (auto simp: tokenFromSecret_def crossNamespaceGrant_def Let_def split: option.splits)

text \<open>C29: an admin token is handed out for a remote instance exactly when its secret lies in its own
  or in the operator's namespace, a secret of the operator's namespace names the instance's
  namespace as the authorized one (or, for legacy secrets, carries its name), and the server
  URL is the one the secret was written for (or, for legacy secrets, none is recorded).\<close>

theorem remote_token_granted:
  "result (validatedRemoteUnleashAdminToken K w operatorNs legacy r) l = Inr token \<longleftrightarrow>
     (if crossesNamespaces r then ruSecretNamespace r = operatorNs else True) \<and>
     (\<exists>s. kGet K l (adminSecretKey r) = Inr s \<and>
        token = dictGet (scData s) (ruSecretKey r) \<and> token \<noteq> [] \<and>
        (let grant = map_of (mAnnotations (scMeta s)) AuthorizedNamespace;
             url = dictGet (scData s) UnleashSecretServerURLKey in
         (if crossesNamespaces r
          then grant = Some (ruNamespace r) \<or>
               grant = None \<and> legacy \<and> secretNameBoundToInstance (ruSecretName r) (ruName r)
          else True) \<and>
         (if url = [] then grant = None \<and> legacy else url = ruURL r)))"
proof -
  have "result (validatedRemoteUnleashAdminToken K w operatorNs legacy r) l =
      (if crossesNamespaces r \<and> ruSecretNamespace r \<noteq> operatorNs
       then Inl (authorizationFailed ''cross-namespace secret references are only permitted to the operator namespace'')
       else (case kGet K l (adminSecretKey r) of Inl e \<Rightarrow> Inl e | Inr s \<Rightarrow> tokenFromSecret legacy r s))"
    by (simp add: validatedRemoteUnleashAdminToken_def result_def onError_def getObject_def perform_def Let_def
        split: sum.split)
  then show ?thesis by (auto simp: tokenFromSecret_iff split: sum.splits)
qed

text \<open>The checks only narrow the access: a token that passes them is the one in the secret.\<close>

lemma checked_access_narrows:
  "result (validatedRemoteUnleashAdminToken K w operatorNs legacy r) l = Inr token \<Longrightarrow>
     result (remoteAdminToken K w r) l = Inr token"
  by (auto simp: validatedRemoteUnleashAdminToken_def remoteAdminToken_def result_def onError_def getObject_def perform_def
      Let_def tokenFromSecret_iff split: sum.splits if_splits)

text \<open>The name check of legacy secrets is a prefix check: an instance may use the secret of another
  one whose name continues its own after a dash.\<close>

lemma bound_by_prefix: "secretNameBoundToInstance (UnleashSecretNamePrefix @ ''-'' @ a @ ''-'' @ b @ ''-admin-key'') a"
  by (simp add: secretNameBoundToInstance_def hasPrefix_iff)

end
