(* ===== verification/FederationMessages.thy ===== *)
theory FederationMessages
  imports ApiTypes Effects "HOL-Library.Word" "HOL-Library.Char_ord" "HOL-Library.List_Lexorder"
    "HOL-Library.Multiset"
begin

unbundle bit_operations_syntax

text \<open>
  What one cluster tells the others about an instance (\<open>internal/federation/resources.go\<close> and
  \<open>publisher.go\<close>): the message, the fingerprint by which an unchanged message is not sent
  again, and sending it. The protobuf encoding and the topic are the fields of \<open>pubsub\<close>.
\<close>

section \<open>Messages\<close>

text \<open>The enum of the protocol is open: any other number stays what it is.\<close>

datatype pb_status = Status_Unknown | Status_Provisioned | Status_Removed | Status_Other int

record pb_instance =
  pbVersion :: int
  pbStatus :: pb_status
  pbName :: string
  pbUrl :: string
  pbSecretToken :: string
  pbSecretNonce :: string
  pbNamespaces :: "string list"
  pbClusters :: "string list"

definition pbProtocolVersion :: int where "pbProtocolVersion = 1"

definition unleashFederationInstanceWithStatus :: "unleash \<Rightarrow> string \<Rightarrow> pb_status \<Rightarrow> pb_instance" where
  "unleashFederationInstanceWithStatus u token st = (let fed = usFederation (uSpec u) in
     \<lparr>pbVersion = pbProtocolVersion, pbStatus = st, pbName = uName u, pbUrl = publicApiURL u,
      pbSecretToken = token, pbSecretNonce = fedSecretNonce fed,
      pbNamespaces = fedNamespaces fed, pbClusters = fedClusters fed\<rparr>)"

definition UnleashFederationInstance :: "unleash \<Rightarrow> string \<Rightarrow> pb_instance" where
  "UnleashFederationInstance u token = unleashFederationInstanceWithStatus u token Status_Provisioned"

definition UnleashFederationInstanceRemoved :: "unleash \<Rightarrow> string \<Rightarrow> pb_instance" where
  "UnleashFederationInstanceRemoved u token = unleashFederationInstanceWithStatus u token Status_Removed"

section \<open>Fingerprint\<close>

text \<open>FNV-1a with 64 bits, on the bytes that are written to it.\<close>

definition fnvStep :: "char \<Rightarrow> 64 word \<Rightarrow> 64 word" where
  "fnvStep c h = (h XOR of_nat (of_char c)) * 1099511628211"

definition fnv1a :: "string \<Rightarrow> 64 word" where
  "fnv1a s = fold fnvStep s 14695981039346656037"

abbreviation nul :: char where "nul \<equiv> char_of (0 :: nat)"

definition hashInput :: "pb_instance \<Rightarrow> string" where
  "hashInput i = pbName i @ nul # pbUrl i @ nul # pbSecretToken i @ nul # pbSecretNonce i @ nul #
     join '','' (sort (pbNamespaces i)) @ nul # join '','' (sort (pbClusters i))"

definition ComputeInstanceHash :: "pb_instance \<Rightarrow> int" where
  "ComputeInstanceHash i = sint (fnv1a (hashInput i))"

section \<open>Publishing\<close>

record 'c pubsub =
  psMarshal :: "pb_instance \<Rightarrow> go_error + string"
  psPublish :: "'c list \<Rightarrow> string \<Rightarrow> string \<Rightarrow> go_error option" \<comment> \<open>ordering key, payload\<close>

datatype pubsub_call = PubSubMessage string string "go_error option"

definition publishMessage :: "'c pubsub \<Rightarrow> (pubsub_call \<Rightarrow> 'c) \<Rightarrow> pb_instance \<Rightarrow> ('c, go_error option) program" where
  "publishMessage B w i =
     (case psMarshal B i of
        Inl e \<Rightarrow> ret (Some (wrapf ''marshal protobuf message'' e))
      | Inr payload \<Rightarrow> do {
          r \<leftarrow> perform (\<lambda>l. psPublish B l (pbName i) payload) (\<lambda>r. w (PubSubMessage (pbName i) payload r));
          ret (map_option (wrapf ''publish protobuf message'') r)
        })"

definition Publish :: "'c pubsub \<Rightarrow> (pubsub_call \<Rightarrow> 'c) \<Rightarrow> unleash \<Rightarrow> string \<Rightarrow> ('c, go_error option) program" where
  "Publish B w u token = publishMessage B w (UnleashFederationInstance u token)"

definition PublishRemoved :: "'c pubsub \<Rightarrow> (pubsub_call \<Rightarrow> 'c) \<Rightarrow> unleash \<Rightarrow> string \<Rightarrow> ('c, go_error option) program" where
  "PublishRemoved B w u token = publishMessage B w (UnleashFederationInstanceRemoved u token)"

section \<open>The fingerprint stands for the message\<close>













end
