(* ===== verification/Utilities.thy ===== *)
theory Utilities
  imports Durations
begin

text \<open>
  Helpers of \<open>internal/utils\<close>: the jitter that spreads periodic work (\<open>jitter.go\<close>) and the
  comparison of string slices (\<open>strings.go\<close>).
\<close>

section \<open>Jitter\<close>

text \<open>\<open>draw\<close> is what \<open>rand.Int63n(2 * jitter)\<close> returned.\<close>

definition RequeueAfterWithJitter :: "int \<Rightarrow> int \<Rightarrow> int \<Rightarrow> int" where
  "RequeueAfterWithJitter base jitter draw =
     (if jitter \<le> 0 then base
      else let result = wrap64 (base + wrap64 (draw - jitter)) in
        if result \<le> 0 then base else result)"

lemma jitter_range:
  assumes "0 < jitter" and "jitter < base" and "base < 2 ^ 62" and "0 \<le> draw" and "draw < 2 * jitter"
  shows "base - jitter \<le> RequeueAfterWithJitter base jitter draw \<and>
     RequeueAfterWithJitter base jitter draw < base + jitter"
  using assms by (simp add: RequeueAfterWithJitter_def Let_def wrap64_id)

lemma jitter_positive: "0 < base \<Longrightarrow> 0 < RequeueAfterWithJitter base jitter draw"
  by (simp add: RequeueAfterWithJitter_def Let_def)

section \<open>Slices of strings\<close>

fun StringInSlice :: "string \<Rightarrow> string list \<Rightarrow> bool" where
  "StringInSlice item [] = False"
| "StringInSlice item (s # ss) = (if item = s then True else StringInSlice item ss)"

fun allInSlice :: "string list \<Rightarrow> string list \<Rightarrow> bool" where
  "allInSlice [] b = True"
| "allInSlice (item # as) b = (if \<not> StringInSlice item b then False else allInSlice as b)"

definition StringSliceEquals :: "string list \<Rightarrow> string list \<Rightarrow> bool" where
  "StringSliceEquals a b = (if length a \<noteq> length b then False else allInSlice a b)"

lemma StringInSlice_iff [simp]: "StringInSlice item ss \<longleftrightarrow> item \<in> set ss"
  by (induction ss) auto

lemma allInSlice_iff [simp]: "allInSlice a b \<longleftrightarrow> set a \<subseteq> set b"
  by (induction a) auto

lemma StringSliceEquals_set:
  assumes "distinct a" and "distinct b"
  shows "StringSliceEquals a b \<longleftrightarrow> set a = set b"
proof
  assume "StringSliceEquals a b"
  then have "set a \<subseteq> set b" "card (set a) = card (set b)"
    using assms by (auto simp: StringSliceEquals_def distinct_card split: if_splits)
  then show "set a = set b" by (simp add: card_subset_eq)
next
  assume "set a = set b"
  then show "StringSliceEquals a b"
    using assms by (auto simp: StringSliceEquals_def simp flip: distinct_card)
qed

text \<open>With repeated entries the comparison depends on the side they are on.\<close>

lemma StringSliceEquals_asymmetric:
  "StringSliceEquals [''x'', ''x''] [''x'', ''y''] \<and> \<not> StringSliceEquals [''x'', ''y''] [''x'', ''x'']"
  by (simp add: StringSliceEquals_def)

end
