(* ===== verification/UnleashObjects.thy ===== *)
theory UnleashObjects
  imports UnleashResources InstanceAccess FederationMessages Utilities
begin

text \<open>
  The surroundings of the Unleash controller and the steps that bring the objects it owns in
  line with an instance (\<open>internal/controller/unleash_controller.go\<close>): secrets, network
  policy, deployment, service, ingresses and service monitor.
\<close>

section \<open>Surroundings\<close>

datatype unleash_call =
    OnUnleash "unleash request"
  | OnChannel "release_channel request"
  | OnSecret "secret request"
  | OnDeployment "deployment request"
  | OnService "service request"
  | OnIngress "ingress request"
  | OnPolicy "network_policy request"
  | OnMonitor "service_monitor request"
  | OnHttp http_call
  | OnPubSub pubsub_call
  | ReadRandom "string \<times> go_error option"
  | ReadJitter int
  | UnleashEvent string string string \<comment> \<open>type, reason, message\<close>
  | CountPublished string string \<comment> \<open>state, status\<close>
  | SetUnleashGauge string string string string bool \<comment> \<open>name, condition, version, channel\<close>
  | DropUnleashGauges string

type_synonym 'a unleash_action = "(unleash_call, 'a) program"

record 'v unleash_env = "'v apimachinery" +
  uUnleashes :: "(unleash_call, unleash) kind"
  uChannels :: "(unleash_call, release_channel) kind"
  uSecrets :: "(unleash_call, secret) kind"
  uDeployments :: "(unleash_call, deployment) kind"
  uServices :: "(unleash_call, service) kind"
  uIngresses :: "(unleash_call, ingress) kind"
  uPolicies :: "(unleash_call, network_policy) kind"
  uMonitors :: "(unleash_call, service_monitor) kind"
  uControllerRef :: controller_ref
  uWeb :: "unleash_call web"
  uPubSub :: "unleash_call pubsub"
  uRandom :: "unleash_call list \<Rightarrow> string \<times> go_error option"
  uInt63n :: "unleash_call list \<Rightarrow> int \<Rightarrow> int"
  uImageEnv :: "string option" \<comment> \<open>\<open>UNLEASH_IMAGE\<close>\<close>
  uOperatorNamespace :: string
  uFederation :: bool
  uRetries :: nat \<comment> \<open>further attempts of \<open>retry.DefaultBackoff\<close>\<close>

abbreviation fetchUnleash :: "'v unleash_env \<Rightarrow> nsname \<Rightarrow> (go_error + unleash) unleash_action" where
  "fetchUnleash E k \<equiv> getObject (uUnleashes E) OnUnleash k"

abbreviation writeUnleash :: "'v unleash_env \<Rightarrow> unleash \<Rightarrow> (go_error + unleash) unleash_action" where
  "writeUnleash E u \<equiv> updateObject (uUnleashes E) OnUnleash u"

abbreviation writeUnleashStatus :: "'v unleash_env \<Rightarrow> unleash \<Rightarrow> (go_error + unleash) unleash_action" where
  "writeUnleashStatus E u \<equiv> updateStatusOf (uUnleashes E) OnUnleash u"

definition unleashDeploymentRequeueAfter :: int where "unleashDeploymentRequeueAfter = 10 * second"
definition unleashControllerRequeueAfter :: int where "unleashControllerRequeueAfter = 60 * second"
definition unleashControllerRequeueJitter :: int where "unleashControllerRequeueJitter = 15 * second"
definition unleashConnectionRetryDelay :: int where "unleashConnectionRetryDelay = 5 * second"

definition generationChanged :: go_error where
  "generationChanged = \<lparr>errorKind = Sentinel ''unleash generation changed'',
     errorMsg = ''unleash generation changed during reconciliation''\<rparr>"

definition generationChangedError :: "int \<Rightarrow> int \<Rightarrow> go_error" where
  "generationChangedError reconciled current =
     generationChanged\<lparr>errorMsg := errorMsg generationChanged @ '': reconciled generation '' @ showInt reconciled @
       '', current generation '' @ showInt current\<rparr>"

definition isGenerationChanged :: "go_error \<Rightarrow> bool" where
  "isGenerationChanged e \<longleftrightarrow> errorKind e = errorKind generationChanged"

section \<open>Objects that an option of the instance switches on\<close>

text \<open>
  Service monitor, network policy and ingress follow one scheme: an object that is switched
  off is deleted if it exists, a missing one is created, an existing one is overwritten
  when it does not cover the built one or carries other labels.
\<close>

definition reconcileOptional ::
  "('c, 'o) kind \<Rightarrow> ('o request \<Rightarrow> 'c) \<Rightarrow> ('o \<Rightarrow> object_meta) \<Rightarrow> ('o \<Rightarrow> 'o \<Rightarrow> 'o) \<Rightarrow> bool \<Rightarrow> nsname \<Rightarrow>
   go_error + 'o \<Rightarrow> ('c, outcome) program" where
  "reconcileOptional K w metaOf overwrite enabled k built =
     (case built of
        Inl e \<Rightarrow> failWith e
      | Inr new \<Rightarrow> do {
          got \<leftarrow> getObject K w k;
          (case got of
             Inl e \<Rightarrow>
               if \<not> isNotFound e then failWith e
               else if \<not> enabled then ret (resultZero, None)
               else do { r \<leftarrow> createObject K w new; ret (resultZero, errorOf r) }
           | Inr existing \<Rightarrow>
               if \<not> enabled then do { err \<leftarrow> deleteObject K w existing; ret (resultZero, err) }
               else if \<not> kDerivative K new existing \<or> \<not> dictEq (mLabels (metaOf new)) (mLabels (metaOf existing))
               then do { r \<leftarrow> updateObject K w (overwrite new existing); ret (resultZero, errorOf r) }
               else ret (resultZero, None))
        })"

definition relabel :: "object_meta \<Rightarrow> object_meta \<Rightarrow> object_meta" where
  "relabel new m = m\<lparr>mLabels := mLabels new\<rparr>"

definition overwriteMonitor :: "service_monitor \<Rightarrow> service_monitor \<Rightarrow> service_monitor" where
  "overwriteMonitor new old = old\<lparr>smMeta := relabel (smMeta new) (smMeta old),
     smEndpoints := smEndpoints new, smSelector := smSelector new\<rparr>"

definition overwritePolicy :: "network_policy \<Rightarrow> network_policy \<Rightarrow> network_policy" where
  "overwritePolicy new old = old\<lparr>nyMeta := relabel (nyMeta new) (nyMeta old), nyPodSelector := nyPodSelector new,
     nyTypes := nyTypes new, nyIngress := nyIngress new, nyEgress := nyEgress new\<rparr>"

definition overwriteIngress :: "ingress \<Rightarrow> ingress \<Rightarrow> ingress" where
  "overwriteIngress new old = old\<lparr>inMeta := relabel (inMeta new) (inMeta old), inClass := inClass new,
     inRules := inRules new\<rparr>"

definition reconcileServiceMonitor :: "'v unleash_env \<Rightarrow> unleash \<Rightarrow> outcome unleash_action" where
  "reconcileServiceMonitor E u =
     reconcileOptional (uMonitors E) OnMonitor smMeta overwriteMonitor (usPrometheusEnabled (uSpec u)) (unleashKey u)
       (ServiceMonitorForUnleash (uControllerRef E) u)"

definition reconcileNetworkPolicy :: "'v unleash_env \<Rightarrow> unleash \<Rightarrow> outcome unleash_action" where
  "reconcileNetworkPolicy E u =
     reconcileOptional (uPolicies E) OnPolicy nyMeta overwritePolicy (npEnabled (usNetworkPolicy (uSpec u)))
       (unleashKey u) (NetworkPolicyForUnleash (uControllerRef E) u (uOperatorNamespace E))"

definition reconcileIngress :: "'v unleash_env \<Rightarrow> unleash \<Rightarrow> ingress_config \<Rightarrow> string \<Rightarrow> outcome unleash_action" where
  "reconcileIngress E u config suffix =
     reconcileOptional (uIngresses E) OnIngress inMeta overwriteIngress (igEnabled config) (keyWithSuffix u suffix)
       (IngressForUnleash (uControllerRef E) u config suffix)"

definition reconcileIngresses :: "'v unleash_env \<Rightarrow> unleash \<Rightarrow> outcome unleash_action" where
  "reconcileIngresses E u = do {
     (res, err) \<leftarrow> reconcileIngress E u (usWebIngress (uSpec u)) ''web'';
     (if err \<noteq> None \<or> requeueAfter res > 0 then ret (res, err)
      else do {
        (res, err) \<leftarrow> reconcileIngress E u (usApiIngress (uSpec u)) ''api'';
        ret (if err \<noteq> None \<or> requeueAfter res > 0 then (res, err) else (resultZero, None))
      })
   }"

section \<open>Service\<close>

definition overwriteService :: "service \<Rightarrow> service \<Rightarrow> service" where
  "overwriteService new old = old\<lparr>svMeta := relabel (svMeta new) (svMeta old), svPorts := svPorts new,
     svSelector := svSelector new\<rparr>"

definition reconcileService :: "'v unleash_env \<Rightarrow> unleash \<Rightarrow> outcome unleash_action" where
  "reconcileService E u =
     (case ServiceForUnleash (uControllerRef E) u of
        Inl e \<Rightarrow> failWith e
      | Inr new \<Rightarrow> do {
          got \<leftarrow> getObject (uServices E) OnService (unleashKey u);
          (case got of
             Inl e \<Rightarrow>
               if isNotFound e then do { r \<leftarrow> createObject (uServices E) OnService new; ret (resultZero, errorOf r) }
               else failWith e
           | Inr existing \<Rightarrow>
               if \<not> kDerivative (uServices E) new existing \<or>
                  \<not> dictEq (mLabels (svMeta new)) (mLabels (svMeta existing))
               then do { r \<leftarrow> updateObject (uServices E) OnService (overwriteService new existing);
                         ret (resultZero, errorOf r) }
               else ret (resultZero, None))
        })"

section \<open>Secrets\<close>

definition currentOperatorSecret :: "'v unleash_env \<Rightarrow> unleash \<Rightarrow> (go_error + secret) unleash_action" where
  "currentOperatorSecret E u = do {
     got \<leftarrow> getObject (uSecrets E) OnSecret (operatorSecretKey (uOperatorNamespace E) u);
     (case got of
        Inl e \<Rightarrow>
          if isNotFound e then do {
            random \<leftarrow> perform (uRandom E) ReadRandom;
            (case GenerateAdminKey random of
               (_, Some e) \<Rightarrow> ret (Inl e)
             | (adminKey, None) \<Rightarrow>
                 createObject (uSecrets E) OnSecret (OperatorSecretForUnleash (uName u) (operatorSecretName u)
                   (uOperatorNamespace E) adminKey (publicApiURL u)))
          }
          else ret (Inl e)
      | Inr secret \<Rightarrow> (let url = publicApiURL u in
          if url \<noteq> [] \<and> dictGet (scData secret) UnleashSecretServerURLKey \<noteq> url
          then patchObject (uSecrets E) OnSecret secret
                 (secret\<lparr>scData := dictSet UnleashSecretServerURLKey url (scData secret)\<rparr>)
          else ret (Inr secret)))
   }"

definition emptyAdminKeyError :: go_error where
  "emptyAdminKeyError = errorf (''operator secret is empty for key '' @ UnleashSecretTokenKey)"

definition adminKeyOf :: "secret \<Rightarrow> string" where
  "adminKeyOf secret =
     (let k = dictGet (scData secret) UnleashSecretTokenKey in
      if k = [] then dictGet (scStringData secret) UnleashSecretTokenKey else k)"

definition reconcileSecrets :: "'v unleash_env \<Rightarrow> unleash \<Rightarrow> outcome unleash_action" where
  "reconcileSecrets E u = onError (currentOperatorSecret E u) failWith (\<lambda>secret.
     if adminKeyOf secret = [] then failWith emptyAdminKeyError
     else (case InstanceSecretForUnleash (uControllerRef E) u (adminKeyOf secret) of
        Inl e \<Rightarrow> failWith e
      | Inr new \<Rightarrow> do {
          r \<leftarrow> createObject (uSecrets E) OnSecret new;
          ret (resultZero, case r of Inl e \<Rightarrow> if errorKind e = AlreadyExists then None else Some e | Inr _ \<Rightarrow> None)
        }))"

section \<open>Deployment\<close>

definition unleashCondition :: "'v unleash_env \<Rightarrow> condition \<Rightarrow> unleash \<Rightarrow> unleash" where
  "unleashCondition E c u =
     uStatus_update (\<lambda>st. st\<lparr>utConditions := setStatusCondition E (utConditions st) c\<rparr>) u"

definition progressing :: "string \<Rightarrow> int \<Rightarrow> condition" where
  "progressing t gen = (newCondition t ConditionUnknown ''DeploymentProgressing''
     ''Waiting for the current Deployment generation to become available'')\<lparr>cObservedGeneration := gen\<rparr>"

definition assignmentPending :: "'v unleash_env \<Rightarrow> int \<Rightarrow> string \<Rightarrow> unleash \<Rightarrow> unleash" where
  "assignmentPending E gen img fresh =
     unleashCondition E (progressing ConditionConnected gen)
       (unleashCondition E (progressing ConditionReconciled gen)
          (uStatus_update (\<lambda>st. st\<lparr>utResolvedReleaseChannelImage := img,
             utReleaseChannelName := usReleaseChannelName (uSpec fresh), utReconciled := False,
             utConnected := False\<rparr>) fresh))"

definition pendingAttempt ::
  "'v unleash_env \<Rightarrow> nsname \<Rightarrow> int \<Rightarrow> string \<Rightarrow> unleash \<Rightarrow> (go_error option \<times> unleash) unleash_action" where
  "pendingAttempt E k gen img u = onError (fetchUnleash E k) (\<lambda>e. ret (Some e, u)) (\<lambda>fresh.
     if mGeneration (uMeta fresh) \<noteq> gen
     then ret (Some (generationChangedError gen (mGeneration (uMeta fresh))), u)
     else onError (writeUnleashStatus E (assignmentPending E gen img fresh)) (\<lambda>e. ret (Some e, u))
            (\<lambda>stored. ret (None, stored)))"

definition markReleaseChannelAssignmentPending ::
  "'v unleash_env \<Rightarrow> unleash \<Rightarrow> int \<Rightarrow> string \<Rightarrow> (go_error option \<times> unleash) unleash_action" where
  "markReleaseChannelAssignmentPending E u gen img =
     retryOnConflict (uRetries E) (pendingAttempt E (unleashKey u) gen img) u"

text \<open>An instance without a channel forgets the channel it followed.\<close>

definition releaseTracking :: "unleash \<Rightarrow> unleash" where
  "releaseTracking u = uStatus_update (\<lambda>st. st\<lparr>utResolvedReleaseChannelImage := [], utReleaseChannelName := []\<rparr>) u"

definition clearTracking ::
  "'v unleash_env \<Rightarrow> unleash \<Rightarrow> (outcome \<Rightarrow> 'a unleash_action) \<Rightarrow> (unleash \<Rightarrow> 'a unleash_action) \<Rightarrow> 'a unleash_action" where
  "clearTracking E u stop k =
     (if resolvedImage u \<noteq> [] \<or> utReleaseChannelName (uStatus u) \<noteq> []
      then onError (writeUnleashStatus E (releaseTracking u))
             (\<lambda>e. if isConflict e then stop (resultAfter (50 * millisecond), None) else stop (resultZero, Some e)) k
      else k u)"

definition overwriteDeployment :: "deployment \<Rightarrow> deployment \<Rightarrow> deployment" where
  "overwriteDeployment new old = new\<lparr>dpMeta := relabel (dpMeta new) (dpMeta old), dpStatus := dpStatus old\<rparr>"

definition applyDeployment ::
  "'v unleash_env \<Rightarrow> unleash \<Rightarrow> go_error + deployment \<Rightarrow> string \<Rightarrow> outcome unleash_action" where
  "applyDeployment E u got img =
     (case DeploymentForUnleashWithImage (uControllerRef E) u img of
        Inl e \<Rightarrow> failWith e
      | Inr dep \<Rightarrow>
          (case got of
             Inl e \<Rightarrow>
               if isNotFound e
               then onError (createObject (uDeployments E) OnDeployment dep) failWith
                      (\<lambda>_. ret (resultAfter unleashDeploymentRequeueAfter, None))
               else failWith e
           | Inr found \<Rightarrow>
               if \<not> kDerivative (uDeployments E) dep found \<or> \<not> dictEq (mLabels (dpMeta dep)) (mLabels (dpMeta found))
               then onError (updateObject (uDeployments E) OnDeployment (overwriteDeployment dep found)) failWith
                      (\<lambda>_. ret (resultAfter unleashDeploymentRequeueAfter, None))
               else ret (resultZero, None)))"

text \<open>\<open>getDefaultImage\<close> of the controller repeats the defaults of the resources package.\<close>

definition getDefaultImage :: "'v unleash_env \<Rightarrow> string" where
  "getDefaultImage E =
     (case uImageEnv E of
        None \<Rightarrow> ''europe-north1-docker.pkg.dev/nais-io/nais/images/unleash-v4:v4.23.1''
      | Some img \<Rightarrow> if img = [] then ''europe-north1-docker.pkg.dev/nais-io/nais/images/unleash-v4:v4.23.1'' else img)"

definition reconcileDeployment :: "'v unleash_env \<Rightarrow> unleash \<Rightarrow> int \<Rightarrow> (outcome \<times> unleash) unleash_action" where
  "reconcileDeployment E u gen = do {
     got \<leftarrow> getObject (uDeployments E) OnDeployment (unleashKey u);
     (let apply = (\<lambda>u img. do { out \<leftarrow> applyDeployment E u got img; ret (out, u) });
          stop = (\<lambda>u out. ret (out, u));
          custom = usCustomImage (uSpec u) in
      if custom \<noteq> [] then clearTracking E u (stop (releaseTracking u)) (\<lambda>u. apply u custom)
      else if usReleaseChannelName (uSpec u) \<noteq> [] then do {
        resolved \<leftarrow> ResolveReleaseChannelImage (uImageEnv E) (getObject (uChannels E) OnChannel) u;
        (case resolved of
           Inl e \<Rightarrow> stop u (resultAfter unleashControllerRequeueAfter, None)
         | Inr (img, _) \<Rightarrow>
             if resolvedImage u \<noteq> img \<or> usReleaseChannelName (uSpec u) \<noteq> utReleaseChannelName (uStatus u)
             then onFailure (markReleaseChannelAssignmentPending E u gen img)
                    (\<lambda>e u. stop u (resultZero, Some e)) (\<lambda>u. apply u img)
             else apply u img)
      }
      else clearTracking E u (stop (releaseTracking u)) (\<lambda>u. apply u (getDefaultImage E)))
   }"

end
