(* ===== verification/UnleashController.thy ===== *)
theory UnleashController
  imports UnleashObjects
begin

text \<open>
  The Unleash controller (\<open>internal/controller/unleash_controller.go\<close>): status writes,
  connection test, publishing, deletion, the reconcile loop and the watches on channels.
\<close>

section \<open>Status\<close>

definition reportVersion :: "admin_stats option \<Rightarrow> unleash_status \<Rightarrow> unleash_status" where
  "reportVersion stats st =
     (case stats of
        None \<Rightarrow> st
      | Some s \<Rightarrow>
          if asVersionEnterprise s \<noteq> [] then st\<lparr>utVersion := asVersionEnterprise s\<rparr>
          else if asVersionOSS s \<noteq> [] then st\<lparr>utVersion := asVersionOSS s\<rparr>
          else st)"

definition markCondition :: "'v unleash_env \<Rightarrow> admin_stats option \<Rightarrow> condition \<Rightarrow> unleash \<Rightarrow> unleash" where
  "markCondition E stats c fresh =
     unleashCondition E c (uStatus_update (\<lambda>st. reportVersion stats
       (if cType c = ConditionReconciled then st\<lparr>utReconciled := (cStatus c = ConditionTrue)\<rparr>
        else if cType c = ConditionConnected then st\<lparr>utConnected := (cStatus c = ConditionTrue)\<rparr>
        else st)) fresh)"

definition statusAttemptFor ::
  "'v unleash_env \<Rightarrow> nsname \<Rightarrow> int \<Rightarrow> admin_stats option \<Rightarrow> condition \<Rightarrow> unleash \<Rightarrow>
   (go_error option \<times> unleash) unleash_action" where
  "statusAttemptFor E k gen stats c u = onError (fetchUnleash E k) (\<lambda>e. ret (Some e, u)) (\<lambda>fresh.
     if cStatus c = ConditionTrue \<and> mGeneration (uMeta fresh) \<noteq> gen
     then ret (Some (generationChangedError gen (mGeneration (uMeta fresh))), u)
     else onError (writeUnleashStatus E (markCondition E stats c fresh)) (\<lambda>e. ret (Some e, u))
            (\<lambda>stored. ret (None, stored)))"

definition orDefault :: "string \<Rightarrow> string \<Rightarrow> string" where
  "orDefault d s = (if s = [] then d else s)"

definition updateStatus ::
  "'v unleash_env \<Rightarrow> unleash \<Rightarrow> int \<Rightarrow> admin_stats option \<Rightarrow> condition \<Rightarrow>
   (go_error option \<times> unleash) unleash_action" where
  "updateStatus E u gen stats c = (let c = c\<lparr>cObservedGeneration := gen\<rparr> in
     onFailure (retryOnConflict (uRetries E) (statusAttemptFor E (unleashKey u) gen stats c) u)
       (\<lambda>e u. ret (Some e, u))
       (\<lambda>u. do {
          _ \<leftarrow> emit (SetUnleashGauge (uName u) (cType c) (orDefault ''unknown'' (utVersion (uStatus u)))
                 (orDefault ''none'' (usReleaseChannelName (uSpec u))) (cStatus c = ConditionTrue));
          ret (None, u)
        }))"

definition updateStatusReconcileSuccess :: "'v unleash_env \<Rightarrow> unleash \<Rightarrow> int \<Rightarrow> (go_error option \<times> unleash) unleash_action" where
  "updateStatusReconcileSuccess E u gen = updateStatus E u gen None
     (newCondition ConditionReconciled ConditionTrue ''Reconciling'' ''Reconciled successfully'')"

definition updateStatusReconcileProgressing :: "'v unleash_env \<Rightarrow> unleash \<Rightarrow> int \<Rightarrow> (go_error option \<times> unleash) unleash_action" where
  "updateStatusReconcileProgressing E u gen = updateStatus E u gen None
     (newCondition ConditionReconciled ConditionUnknown ''DeploymentProgressing''
        ''Waiting for the current Deployment generation to become available'')"

definition updateStatusDeploymentFailed :: "'v unleash_env \<Rightarrow> unleash \<Rightarrow> int \<Rightarrow> string \<Rightarrow> (go_error option \<times> unleash) unleash_action" where
  "updateStatusDeploymentFailed E u gen m = updateStatus E u gen None
     (newCondition ConditionReconciled ConditionFalse ''Failed'' m)"

text \<open>No error on the way here is wrapped, so its kind decides the type assertion.\<close>

definition updateStatusReconcileFailed ::
  "'v unleash_env \<Rightarrow> unleash \<Rightarrow> int \<Rightarrow> go_error \<Rightarrow> string \<Rightarrow> (go_error option \<times> unleash) unleash_action" where
  "updateStatusReconcileFailed E u gen e m = updateStatus E u gen None
     (newCondition ConditionReconciled ConditionFalse ''Reconciling''
        (if errorKind e = Sentinel ''ValidationError'' then m @ '': '' @ errorMsg e else m))"

definition updateStatusConnectionSuccess ::
  "'v unleash_env \<Rightarrow> unleash \<Rightarrow> int \<Rightarrow> admin_stats \<Rightarrow> (go_error option \<times> unleash) unleash_action" where
  "updateStatusConnectionSuccess E u gen stats = updateStatus E u gen (Some stats)
     (newCondition ConditionConnected ConditionTrue ''Reconciling'' ''Successfully connected to Unleash instance'')"

definition updateStatusConnectionFailed :: "'v unleash_env \<Rightarrow> unleash \<Rightarrow> int \<Rightarrow> string \<Rightarrow> (go_error option \<times> unleash) unleash_action" where
  "updateStatusConnectionFailed E u gen m = updateStatus E u gen None
     (newCondition ConditionConnected ConditionFalse ''Reconciling'' m)"

section \<open>Connection and publishing\<close>

abbreviation adminToken :: "'v unleash_env \<Rightarrow> unleash \<Rightarrow> (go_error + string) unleash_action" where
  "adminToken E u \<equiv> AdminToken (uSecrets E) OnSecret (uOperatorNamespace E) u"

definition testConnection :: "'v unleash_env \<Rightarrow> unleash \<Rightarrow> (go_error + admin_stats) unleash_action" where
  "testConnection E u = onError (ApiClient (uSecrets E) OnSecret (uWeb E) (uOperatorNamespace E) u) (\<lambda>e. ret (Inl e)) (\<lambda>c. do {
     (stats, r, err) \<leftarrow> GetInstanceAdminStats (uWeb E) OnHttp c;
     ret (case err of
            Some e \<Rightarrow> Inl e
          | None \<Rightarrow>
              (case r of
                 HttpDropped e \<Rightarrow> Inl (dropHttpError e)
               | HttpReply status _ \<Rightarrow>
                   if status = 401
                   then Inl (errorf ''authentication failed (HTTP 401) - admin token may not be initialized yet'')
                   else if status \<noteq> 200 then Inl (errorf (''unexpected http status code '' @ showInt status))
                   else Inr stats))
   })"

text \<open>Only the pointer's new value matters to the caller: the result of the last status write is
  dropped.\<close>

definition publishUnleash :: "'v unleash_env \<Rightarrow> unleash \<Rightarrow> (go_error option \<times> unleash) unleash_action" where
  "publishUnleash E u =
     (if \<not> uFederation E \<or> \<not> fedEnabled (usFederation (uSpec u)) then ret (None, u)
      else onError (adminToken E u)
        (\<lambda>e. do { _ \<leftarrow> emit (CountPublished ''provisioned'' ''failed'');
                  ret (Some (wrapf ''publish could not fetch API token'' e), u) })
        (\<lambda>token. let currentHash = ComputeInstanceHash (UnleashFederationInstance u token) in
           if utLastPublishedHash (uStatus u) = currentHash
           then do { _ \<leftarrow> emit (CountPublished ''provisioned'' ''skipped''); ret (None, u) }
           else do {
             _ \<leftarrow> emit (CountPublished ''provisioned'' ''sending'');
             err \<leftarrow> Publish (uPubSub E) OnPubSub u token;
             (case err of
                Some e \<Rightarrow> do {
                  _ \<leftarrow> emit (CountPublished ''provisioned'' ''failed'');
                  ret (Some (wrapf ''publish could not publish Unleash instance'' e), u) }
              | None \<Rightarrow>
                  (let marked = uStatus_update (\<lambda>st. st\<lparr>utLastPublishedHash := currentHash\<rparr>) u in do {
                     r \<leftarrow> writeUnleashStatus E marked;
                     _ \<leftarrow> emit (CountPublished ''provisioned'' ''success'');
                     ret (None, case r of Inl _ \<Rightarrow> marked | Inr stored \<Rightarrow> stored) }))
           }))"

section \<open>Deletion\<close>

definition unleashFinalizer :: string where "unleashFinalizer = ''unleash.nais.io/finalizer''"

definition deleteSecret :: "'v unleash_env \<Rightarrow> nsname \<Rightarrow> go_error option unleash_action" where
  "deleteSecret E k = do {
     err \<leftarrow> deleteObject (uSecrets E) OnSecret
              \<lparr>scMeta = zeroMeta (fst k) (snd k), scData = [], scStringData = []\<rparr>;
     (case err of
        None \<Rightarrow> ret None
      | Some e \<Rightarrow>
          if isNotFound e then ret None
          else do {
            _ \<leftarrow> emit (UnleashEvent ''Warning'' ''SecretDeleteFailed''
                   (''Failed to delete secret '' @ snd k @ '' from namespace '' @ fst k));
            ret (Some e)
          })
   }"

definition publishRemoval :: "'v unleash_env \<Rightarrow> unleash \<Rightarrow> unit unleash_action" where
  "publishRemoval E u =
     (if \<not> uFederation E \<or> \<not> fedEnabled (usFederation (uSpec u)) then emit (CountPublished ''removed'' ''skipped'')
      else do {
        _ \<leftarrow> emit (CountPublished ''removed'' ''sending'');
        onError (adminToken E u)
          (\<lambda>e. do { _ \<leftarrow> emit (CountPublished ''removed'' ''failed'');
                    emit (UnleashEvent ''Warning'' ''FederationPublishFailed''
                      (''Failed to fetch admin token for federation removal: '' @ errorMsg e)) })
          (\<lambda>token. do {
             err \<leftarrow> PublishRemoved (uPubSub E) OnPubSub u token;
             (case err of
                Some e \<Rightarrow> do {
                  _ \<leftarrow> emit (CountPublished ''removed'' ''failed'');
                  emit (UnleashEvent ''Warning'' ''FederationPublishFailed''
                    (''Failed to publish removal to federation: '' @ errorMsg e)) }
              | None \<Rightarrow> emit (CountPublished ''removed'' ''success''))
           })
      })"

definition doFinalizerOperationsForUnleash :: "'v unleash_env \<Rightarrow> unleash \<Rightarrow> go_error option unleash_action" where
  "doFinalizerOperationsForUnleash E u = do {
     _ \<leftarrow> publishRemoval E u;
     err \<leftarrow> deleteSecret E (operatorSecretKey (uOperatorNamespace E) u);
     (case err of
        Some e \<Rightarrow> ret (Some e)
      | None \<Rightarrow> do {
          err \<leftarrow> deleteSecret E (instanceSecretKey u);
          (case err of
             Some e \<Rightarrow> ret (Some e)
           | None \<Rightarrow> do {
               _ \<leftarrow> emit (UnleashEvent ''Warning'' ''Deleting''
                      (''Unleash '' @ uName u @ '' is being deleted from the namespace '' @ uNamespace u));
               ret None
             })
        })
   }"

abbreviation onFreshUnleash ::
  "'v unleash_env \<Rightarrow> nsname \<Rightarrow> (unleash \<Rightarrow> (go_error option \<times> unleash) unleash_action) \<Rightarrow> unleash \<Rightarrow>
   (go_error option \<times> unleash) unleash_action" where
  "onFreshUnleash E k \<equiv> onFresh (uRetries E) (fetchUnleash E k)"

definition writeDegraded ::
  "'v unleash_env \<Rightarrow> nsname \<Rightarrow> condition_status \<Rightarrow> (unleash \<Rightarrow> string) \<Rightarrow> unleash \<Rightarrow>
   (go_error option \<times> unleash) unleash_action" where
  "writeDegraded E k status message u = onFreshUnleash E k (\<lambda>fresh.
     (let marked = unleashCondition E (newCondition ConditionDegraded status ''Finalizing'' (message fresh)) fresh
      in putBack marked (writeUnleashStatus E marked))) u"

definition hasFinalizer :: "'v unleash_env \<Rightarrow> unleash \<Rightarrow> bool" where
  "hasFinalizer E u = containsFinalizer E (mFinalizers (uMeta u)) unleashFinalizer"

definition removeUnleashFinalizer :: "'v unleash_env \<Rightarrow> nsname \<Rightarrow> unleash \<Rightarrow> (go_error option \<times> unleash) unleash_action" where
  "removeUnleashFinalizer E k u = onFreshUnleash E k (\<lambda>fresh.
     if \<not> hasFinalizer E fresh then ret (None, fresh)
     else (let freed = uMeta_update (\<lambda>m. m\<lparr>mFinalizers := removeFinalizer E (mFinalizers m) unleashFinalizer\<rparr>) fresh
           in putBack freed (writeUnleash E freed))) u"

definition finalizeUnleash :: "'v unleash_env \<Rightarrow> nsname \<Rightarrow> unleash \<Rightarrow> outcome unleash_action" where
  "finalizeUnleash E k u =
     (if \<not> hasFinalizer E u then ret (resultZero, None)
      else onFailure (writeDegraded E k ConditionUnknown (\<lambda>_. ''Performing finalizer options'') u) (\<lambda>e u. failWith e) (\<lambda>u. do {
        err \<leftarrow> doFinalizerOperationsForUnleash E u;
        (case err of
           Some e \<Rightarrow> failWith e
         | None \<Rightarrow>
             onFailure (writeDegraded E k ConditionTrue
               (\<lambda>u. ''Finalizer operations for Unleash '' @ uName u @ '' name were successfully accomplished'') u)
               (\<lambda>e u. failWith e) (\<lambda>u.
             onFailure (removeUnleashFinalizer E k u) (\<lambda>e u. failWith e) (\<lambda>u. ret (resultZero, None))))
      }))"

section \<open>Reconcile\<close>

definition initializeUnleash :: "'v unleash_env \<Rightarrow> nsname \<Rightarrow> int \<Rightarrow> unleash \<Rightarrow> (go_error + unleash) unleash_action" where
  "initializeUnleash E k gen u =
     (if utConditions (uStatus u) \<noteq> [] then ret (Inr u)
      else onFailure (onFreshUnleash E k (\<lambda>fresh.
             if utConditions (uStatus fresh) \<noteq> [] then ret (None, fresh)
             else (let marked = unleashCondition E ((newCondition ConditionReconciled ConditionUnknown ''Reconciling''
                         ''Starting reconciliation'')\<lparr>cObservedGeneration := gen\<rparr>) fresh
                   in putBack marked (writeUnleashStatus E marked))) u)
           (\<lambda>e u. ret (Inl e)) (\<lambda>_. fetchUnleash E k))"

definition claimUnleash :: "'v unleash_env \<Rightarrow> nsname \<Rightarrow> unleash \<Rightarrow> (go_error + unleash) unleash_action" where
  "claimUnleash E k u =
     (if hasFinalizer E u then ret (Inr u)
      else onFailure (onFreshUnleash E k (\<lambda>fresh.
             if hasFinalizer E fresh then ret (None, fresh)
             else (let owned = uMeta_update (\<lambda>m. m\<lparr>mFinalizers := addFinalizer E (mFinalizers m) unleashFinalizer\<rparr>) fresh
                   in putBack owned (writeUnleash E owned))) u)
           (\<lambda>e u. ret (Inl e)) (\<lambda>_. fetchUnleash E k))"

text \<open>One step of the loop: an error is written to the status and returned, a result that asks to
  be called again ends the loop.\<close>

definition proceed ::
  "'v unleash_env \<Rightarrow> unleash \<Rightarrow> int \<Rightarrow> string \<Rightarrow> outcome unleash_action \<Rightarrow> outcome unleash_action \<Rightarrow> outcome unleash_action" where
  "proceed E u gen failure step rest = do {
     (res, err) \<leftarrow> step;
     (case err of
        Some e \<Rightarrow> do { _ \<leftarrow> updateStatusReconcileFailed E u gen e failure; failWith e }
      | None \<Rightarrow> if requeueAfter res > 0 then ret (res, None) else rest)
   }"

definition requeueOrFail :: "go_error \<Rightarrow> outcome unleash_action" where
  "requeueOrFail e =
     (if isGenerationChanged e then ret (\<lparr>requeue = True, requeueAfter = 0\<rparr>, None) else failWith e)"

definition finishUnleash :: "'v unleash_env \<Rightarrow> unleash \<Rightarrow> outcome unleash_action" where
  "finishUnleash E u =
     (if usReleaseChannelName (uSpec u) \<noteq> [] then do {
        draw \<leftarrow> perform (\<lambda>l. uInt63n E l (2 * unleashControllerRequeueJitter)) ReadJitter;
        ret (resultAfter (RequeueAfterWithJitter unleashControllerRequeueAfter unleashControllerRequeueJitter draw), None)
      }
      else ret (resultZero, None))"

definition connectUnleash :: "'v unleash_env \<Rightarrow> unleash \<Rightarrow> int \<Rightarrow> outcome unleash_action" where
  "connectUnleash E u gen = onError (testConnection E u)
     (\<lambda>_. onFailure (updateStatusConnectionFailed E u gen ''Failed to connect to Unleash instance'')
            (\<lambda>e u. failWith e) (\<lambda>u. ret (resultAfter unleashConnectionRetryDelay, None)))
     (\<lambda>stats. onFailure (updateStatusConnectionSuccess E u gen stats) (\<lambda>e u. requeueOrFail e) (\<lambda>u.
        onFailure (publishUnleash E u) (\<lambda>e u. failWith e) (finishUnleash E)))"

definition observeDeployment :: "'v unleash_env \<Rightarrow> nsname \<Rightarrow> unleash \<Rightarrow> int \<Rightarrow> outcome unleash_action" where
  "observeDeployment E k u gen =
     onError (getObject (uDeployments E) OnDeployment k)
       (\<lambda>e. onFailure (updateStatusReconcileFailed E u gen e ''Failed to get Deployment status'')
              (\<lambda>e' u. failWith e') (\<lambda>u. failWith e))
       (\<lambda>dep. case DeploymentFailure dep of
          Some reason \<Rightarrow>
            onFailure (updateStatusDeploymentFailed E u gen (''Deployment rollout failed: '' @ reason))
              (\<lambda>e u. failWith e) (\<lambda>u. ret (resultAfter unleashControllerRequeueAfter, None))
        | None \<Rightarrow>
            if \<not> DeploymentIsReady dep
            then onFailure (updateStatusReconcileProgressing E u gen) (\<lambda>e u. failWith e)
                   (\<lambda>u. ret (resultAfter unleashDeploymentRequeueAfter, None))
            else onFailure (updateStatusReconcileSuccess E u gen) (\<lambda>e u. requeueOrFail e)
                   (\<lambda>u. connectUnleash E u gen))"

definition reconcileAfterDeployment :: "'v unleash_env \<Rightarrow> nsname \<Rightarrow> unleash \<Rightarrow> int \<Rightarrow> outcome unleash_action" where
  "reconcileAfterDeployment E k u gen =
     proceed E u gen ''Failed to reconcile Service'' (reconcileService E u)
     (proceed E u gen ''Failed to reconcile Ingresses'' (reconcileIngresses E u)
     (proceed E u gen ''Failed to reconcile ServiceMonitor'' (reconcileServiceMonitor E u)
     (onError (fetchUnleash E k) failWith (\<lambda>u. observeDeployment E k u gen))))"

definition reconcileDeploymentStep :: "'v unleash_env \<Rightarrow> nsname \<Rightarrow> unleash \<Rightarrow> int \<Rightarrow> outcome unleash_action" where
  "reconcileDeploymentStep E k u gen = do {
     ((res, err), u) \<leftarrow> reconcileDeployment E u gen;
     (case err of
        Some e \<Rightarrow>
          if isGenerationChanged e then ret (\<lparr>requeue = True, requeueAfter = 0\<rparr>, None)
          else do { _ \<leftarrow> updateStatusReconcileFailed E u gen e ''Failed to reconcile Deployment''; failWith e }
      | None \<Rightarrow> if requeueAfter res > 0 then ret (res, None) else reconcileAfterDeployment E k u gen)
   }"

definition reconcileObjects :: "'v unleash_env \<Rightarrow> nsname \<Rightarrow> unleash \<Rightarrow> int \<Rightarrow> outcome unleash_action" where
  "reconcileObjects E k u gen =
     proceed E u gen ''Failed to reconcile Secrets'' (reconcileSecrets E u)
     (proceed E u gen ''Failed to reconcile NetworkPolicy'' (reconcileNetworkPolicy E u)
     (reconcileDeploymentStep E k u gen))"

definition ReconcileUnleash :: "'v unleash_env \<Rightarrow> nsname \<Rightarrow> outcome unleash_action" where
  "ReconcileUnleash E k = onError (fetchUnleash E k)
     (\<lambda>e. if isNotFound e then do { _ \<leftarrow> emit (DropUnleashGauges (snd k)); ret (resultZero, None) } else failWith e)
     (\<lambda>u. let gen = mGeneration (uMeta u) in
        if mDeletionTimestamp (uMeta u) \<noteq> None then finalizeUnleash E k u
        else onError (initializeUnleash E k gen u) failWith (\<lambda>u.
             onError (claimUnleash E k u) failWith (\<lambda>u. reconcileObjects E k u gen)))"

section \<open>Watches\<close>

definition channelUpdateTriggers :: "release_channel \<Rightarrow> release_channel \<Rightarrow> bool" where
  "channelUpdateTriggers old new =
     (if \<not> dictEq (orEmpty (stInstanceImages (rcStatus old))) (orEmpty (stInstanceImages (rcStatus new))) then True
      else rcImage old \<noteq> rcImage new)"

definition findUnleashesForReleaseChannel :: "'v unleash_env \<Rightarrow> release_channel \<Rightarrow> nsname list unleash_action" where
  "findUnleashesForReleaseChannel E rc = do {
     listed \<leftarrow> listObjects (uUnleashes E) OnUnleash (rcNamespace rc);
     ret (case listed of
            Inl e \<Rightarrow> []
          | Inr us \<Rightarrow> map unleashKey (filter (\<lambda>u. usReleaseChannelName (uSpec u) = rcName rc) us))
   }"

end
