(* ===== verification/UnleashReadiness.thy ===== *)
theory UnleashReadiness
  imports UnleashController RolloutPolicy
begin

text \<open>
  What the Unleash controller promises the ReleaseChannel controller. An abstract relation
  says how the status of an instance may change in one write; every status write of a
  reconcile is such a step from what the API server answered last. The readiness that a
  channel waits for is derived from the relation alone.
\<close>

section \<open>Reading the log\<close>

fun unleashAnswer :: "unleash_call \<Rightarrow> unleash option" where
  "unleashAnswer (OnUnleash (ObjGet k (Inr u))) = Some u"
| "unleashAnswer (OnUnleash (ObjUpdate p (Inr u))) = Some u"
| "unleashAnswer (OnUnleash (ObjUpdateStatus p (Inr u))) = Some u"
| "unleashAnswer _ = None"

fun statusRequest :: "unleash_call \<Rightarrow> unleash option" where
  "statusRequest (OnUnleash (ObjUpdateStatus p r)) = Some p"
| "statusRequest _ = None"

fun deploymentAnswer :: "nsname \<Rightarrow> unleash_call \<Rightarrow> deployment option" where
  "deploymentAnswer k (OnDeployment (ObjGet k' (Inr d))) = (if k' = k then Some d else None)"
| "deploymentAnswer k _ = None"

fun okReply :: "unleash_call \<Rightarrow> bool" where
  "okReply (OnHttp (HttpCall rq (HttpReply status body))) = (status = 200)"
| "okReply _ = False"

text \<open>What this run, which began at log \<open>l0\<close>, has seen.\<close>

definition readySeen :: "nsname \<Rightarrow> unleash_call list \<Rightarrow> unleash_call list \<Rightarrow> bool" where
  "readySeen k l0 h \<longleftrightarrow>
     (case latestOf (deploymentAnswer k) (drop (length l0) h) of
        None \<Rightarrow> False | Some d \<Rightarrow> DeploymentFailure d = None \<and> DeploymentIsReady d)"

definition connectedSeen :: "unleash_call list \<Rightarrow> unleash_call list \<Rightarrow> bool" where
  "connectedSeen l0 h \<longleftrightarrow> list_ex okReply (drop (length l0) h)"

fun touchesUnleash :: "unleash_call \<Rightarrow> bool" where
  "touchesUnleash (OnUnleash r) = True"
| "touchesUnleash _ = False"

lemma untouched:
  assumes "\<not> touchesUnleash c"
  shows "unleashAnswer c = None" and "statusRequest c = None"
  using assms by (cases c; simp)+

lemma untouched_latest: "\<forall>c \<in> set new. \<not> touchesUnleash c \<Longrightarrow> latestOf unleashAnswer new = None"
  by (induction new) (simp_all add: untouched)

lemma seen_OnUnleash:
  "length l0 \<le> length h \<Longrightarrow> readySeen k l0 (h @ [OnUnleash r]) = readySeen k l0 h"
  "length l0 \<le> length h \<Longrightarrow> connectedSeen l0 (h @ [OnUnleash r]) = connectedSeen l0 h"
  by (simp_all add: readySeen_def connectedSeen_def)

section \<open>The status as a state machine\<close>

inductive unleash_step :: "'v unleash_env \<Rightarrow> int \<Rightarrow> bool \<Rightarrow> bool \<Rightarrow> unleash \<Rightarrow> unleash \<Rightarrow> bool"
  for E :: "'v unleash_env" and gen :: int and ready connected :: bool where
  start: "utConditions (uStatus b) = [] \<Longrightarrow> cType c = ConditionReconciled \<Longrightarrow> cStatus c = ConditionUnknown \<Longrightarrow>
    unleash_step E gen ready connected b (unleashCondition E c b)"
| release: "unleash_step E gen ready connected b (releaseTracking b)"
| assign: "mGeneration (uMeta b) = gen \<Longrightarrow>
    unleash_step E gen ready connected b (assignmentPending E gen img b)"
| mark: "cObservedGeneration c = gen \<Longrightarrow> cType c \<in> {ConditionReconciled, ConditionConnected} \<Longrightarrow>
    (cStatus c = ConditionTrue \<Longrightarrow>
       mGeneration (uMeta b) = gen \<and> ready \<and> (cType c = ConditionConnected \<longrightarrow> connected)) \<Longrightarrow>
    unleash_step E gen ready connected b (markCondition E stats c b)"
| published: "unleash_step E gen ready connected b (uStatus_update (\<lambda>st. st\<lparr>utLastPublishedHash := hash\<rparr>) b)"
| degrade: "cType c = ConditionDegraded \<Longrightarrow> unleash_step E gen ready connected b (unleashCondition E c b)"

definition stepsFrom ::
  "'v unleash_env \<Rightarrow> nsname \<Rightarrow> int \<Rightarrow> unleash_call list \<Rightarrow> unleash_call list \<Rightarrow> unleash_call \<Rightarrow> bool" where
  "stepsFrom E k gen l0 h c \<longleftrightarrow>
     (case statusRequest c of
        None \<Rightarrow> True
      | Some p \<Rightarrow> (\<exists>b. latestOf unleashAnswer h = Some b \<and>
                      unleash_step E gen (readySeen k l0 h) (connectedSeen l0 h) b p))"

text \<open>Programs that leave the instance alone.\<close>

abbreviation quiet :: "unleash_call list \<Rightarrow> 'a unleash_action \<Rightarrow> bool" where
  "quiet l m \<equiv> runs (\<lambda>_ c. \<not> touchesUnleash c) l m (\<lambda>_ _. True)"

lemma quiet_steps:
  assumes "quiet l m"
  shows "runs (stepsFrom E k gen l0) l m (\<lambda>_ l'. latestOf unleashAnswer l' = latestOf unleashAnswer l)"
proof (rule runs_weaken[OF runs_trace[OF assms]])
  fix x new
  assume "True \<and> (\<exists>new'. l @ new = l @ new' \<and> follows (\<lambda>_ c. \<not> touchesUnleash c) l new')"
  then show "latestOf unleashAnswer (l @ new) = latestOf unleashAnswer l"
    by (auto simp: follows_all untouched_latest)
qed (simp add: stepsFrom_def untouched)

lemma quiet_perform: "(\<And>r. \<not> touchesUnleash (entry r)) \<Longrightarrow> quiet l (perform ask entry)"
  by (rule runs_perform) simp_all

lemma quiet_bind: "(\<And>l. quiet l m) \<Longrightarrow> (\<And>x l. quiet l (f x)) \<Longrightarrow> quiet l (State_Monad.bind m f)"
  by (rule runs_bind[where Q' = "\<lambda>_ _. True"])

lemma quiet_emit: "\<not> touchesUnleash c \<Longrightarrow> quiet l (emit c)"
  by (rule runs_emit) simp_all

lemma quiet_onError: "(\<And>l. quiet l m) \<Longrightarrow> (\<And>e l. quiet l (fail e)) \<Longrightarrow> (\<And>x l. quiet l (f x)) \<Longrightarrow> quiet l (onError m fail f)"
  by (rule runs_onError[where Q' = "\<lambda>_ _. True"])

lemmas quiet_rules = quiet_perform quiet_bind quiet_emit quiet_onError runs_intros

lemma quiet_optional:
  "(\<And>r. \<not> touchesUnleash (w r)) \<Longrightarrow> quiet l (reconcileOptional K w metaOf overwrite enabled k built)"
  unfolding reconcileOptional_def object_requests failWith_def by (auto intro!: quiet_rules)

lemma quiet_secrets: "quiet l (reconcileSecrets E u)"
  unfolding reconcileSecrets_def currentOperatorSecret_def object_requests failWith_def Let_def
  by (auto intro!: quiet_rules split: option.split prod.split)

lemma quiet_objects:
  "quiet l (reconcileNetworkPolicy E u)" "quiet l (reconcileServiceMonitor E u)" "quiet l (reconcileService E u)"
  "quiet l (reconcileIngresses E u)"
  unfolding reconcileNetworkPolicy_def reconcileServiceMonitor_def reconcileService_def reconcileIngresses_def
    reconcileIngress_def object_requests failWith_def
  by (auto intro!: quiet_rules quiet_optional)

lemma quiet_apply: "quiet l (applyDeployment E u got img)"
  unfolding applyDeployment_def object_requests failWith_def by (auto intro!: quiet_rules)

lemma quiet_resolve: "quiet l (ResolveReleaseChannelImage fromEnv (getObject (uChannels E) OnChannel) u)"
  unfolding ResolveReleaseChannelImage_def object_requests by (auto intro!: quiet_rules)

lemma quiet_token: "quiet l (adminToken E u)"
  unfolding AdminToken_def object_requests by (auto intro!: quiet_rules)

lemma quiet_transport: "quiet l (newTransport W OnHttp rq)"
  unfolding newTransport_def redactingTransport_def otelTransport_def restoringTransport_def baseTransport_def
  by (auto intro!: quiet_rules)

lemma quiet_publish: "quiet l (Publish B OnPubSub u token)" "quiet l (PublishRemoved B OnPubSub u token)"
  unfolding Publish_def PublishRemoved_def publishMessage_def by (auto intro!: quiet_rules)

section \<open>Every status write is a step\<close>

abbreviation current :: "unleash \<Rightarrow> unleash_call list \<Rightarrow> bool" where
  "current u l \<equiv> latestOf unleashAnswer l = Some u"

lemma steps_fetch:
  "runs (stepsFrom E k gen l0) l (fetchUnleash E k') (\<lambda>r l'. l' = l @ [OnUnleash (ObjGet k' r)] \<and> (\<forall>u. r = Inr u \<longrightarrow> current u l'))"
  unfolding getObject_def by (rule runs_perform) (auto simp: stepsFrom_def)

lemma steps_update:
  "runs (stepsFrom E k gen l0) l (writeUnleash E p)
     (\<lambda>r l'. l' = l @ [OnUnleash (ObjUpdate p r)] \<and> (\<forall>u. r = Inr u \<longrightarrow> current u l'))"
  unfolding updateObject_def by (rule runs_perform) (auto simp: stepsFrom_def)

lemma steps_write:
  assumes "current b l" and "unleash_step E gen (readySeen k l0 l) (connectedSeen l0 l) b p"
  shows "runs (stepsFrom E k gen l0) l (writeUnleashStatus E p)
     (\<lambda>r l'. l' = l @ [OnUnleash (ObjUpdateStatus p r)] \<and> (\<forall>u. r = Inr u \<longrightarrow> current u l'))"
  unfolding updateStatusOf_def by (rule runs_perform) (use assms in \<open>auto simp: stepsFrom_def\<close>)

text \<open>What a retried change of the instance guarantees: on success the pointer holds what was
  answered last, and only calls for instances were made.\<close>

definition changed :: "unleash_call list \<Rightarrow> go_error option \<times> unleash \<Rightarrow> unleash_call list \<Rightarrow> bool" where
  "changed l r l' \<longleftrightarrow> (fst r = None \<longrightarrow> current (snd r) l') \<and> (\<exists>new. l' = l @ new \<and> list_all touchesUnleash new)"

lemma changedI:
  "list_all touchesUnleash new \<Longrightarrow> (err = None \<Longrightarrow> current u (l @ new)) \<Longrightarrow> changed l (err, u) (l @ new)"
  by (auto simp: changed_def)

lemma steps_retry:
  assumes attempt: "\<And>u new. list_all touchesUnleash new \<Longrightarrow> runs (stepsFrom E k gen l0) (l @ new) (f u) (changed l)"
  shows "runs (stepsFrom E k gen l0) l (retryOnConflict n f u) (changed l)"
proof (rule runs_retry[where I = "\<lambda>_ l'. \<exists>new. l' = l @ new \<and> list_all touchesUnleash new"])
  fix s new
  assume "\<exists>new'. l @ new = l @ new' \<and> list_all touchesUnleash new'"
  then have "list_all touchesUnleash new" by simp
  then show "runs (stepsFrom E k gen l0) (l @ new) (f s) (\<lambda>r l'.
      retryInv (\<lambda>_ l'. \<exists>new. l' = l @ new \<and> list_all touchesUnleash new) r l' \<and> changed l r l')"
    by (rule runs_weaken[OF attempt]) (auto simp: retryInv_def changed_def split: option.split)
qed (rule exI[of _ "[]"], simp)

text \<open>The shape of such an attempt: read, then perhaps one write.\<close>

lemma steps_fetch_then:
  assumes new: "list_all touchesUnleash new"
    and k: "\<And>fresh r. list_all touchesUnleash (new @ [OnUnleash r]) \<Longrightarrow> current fresh (l @ new @ [OnUnleash r]) \<Longrightarrow>
      runs (stepsFrom E k gen l0) (l @ new @ [OnUnleash r]) (f fresh) (changed l)"
  shows "runs (stepsFrom E k gen l0) (l @ new) (onError (fetchUnleash E k') (\<lambda>e. ret (Some e, u)) f) (changed l)"
proof (rule runs_onError[OF steps_fetch])
  fix e more
  assume "(l @ new) @ more = (l @ new) @ [OnUnleash (ObjGet k' (Inl e))] \<and>
      (\<forall>u. Inl e = Inr u \<longrightarrow> current u ((l @ new) @ more))"
  then have "more = [OnUnleash (ObjGet k' (Inl e))]" by simp
  then show "runs (stepsFrom E k gen l0) ((l @ new) @ more) (ret (Some e, u)) (changed l)"
    using new by (auto intro!: runs_return changedI)
next
  fix x more
  assume "(l @ new) @ more = (l @ new) @ [OnUnleash (ObjGet k' (Inr x))] \<and>
      (\<forall>u. Inr x = Inr u \<longrightarrow> current u ((l @ new) @ more))"
  then have "more = [OnUnleash (ObjGet k' (Inr x))]" "current x (l @ new @ more)" by auto
  then show "runs (stepsFrom E k gen l0) ((l @ new) @ more) (f x) (changed l)"
    using k[of "ObjGet k' (Inr x)" x] new by simp
qed

lemma steps_write_then:
  assumes new: "list_all touchesUnleash new" and "current b (l @ new)"
    and "unleash_step E gen (readySeen k l0 (l @ new)) (connectedSeen l0 (l @ new)) b p"
  shows "runs (stepsFrom E k gen l0) (l @ new) (writeUnleashStatus E p)
     (\<lambda>r l'. \<exists>more. l' = l @ more \<and> list_all touchesUnleash more \<and> (\<forall>u. r = Inr u \<longrightarrow> current u l'))"
  by (rule runs_weaken[OF steps_write[OF assms(2, 3)]]) (use new in \<open>auto intro: exI[of _ "new @ [_]"]\<close>)

lemma steps_putBack:
  assumes "runs P (l @ new) m
     (\<lambda>r l'. \<exists>more. l' = l @ more \<and> list_all touchesUnleash more \<and> (\<forall>u. r = Inr u \<longrightarrow> current u l'))"
  shows "runs P (l @ new) (putBack p m) (changed l)"
    and "runs P (l @ new) (onError m (\<lambda>e. ret (Some e, u)) (\<lambda>stored. ret (None, stored))) (changed l)"
  unfolding putBack_def
  by (rule runs_bind[OF assms], auto intro!: runs_return changedI split: sum.split)
     (rule runs_onError[OF assms], auto intro!: runs_return changedI)

lemma seen_extend:
  assumes "list_all touchesUnleash new" and "length l0 \<le> length l"
  shows "readySeen k l0 (l @ new) = readySeen k l0 l \<and> connectedSeen l0 (l @ new) = connectedSeen l0 l"
  using assms(1)
proof (induction new rule: rev_induct)
  case (snoc c cs)
  then obtain r where "c = OnUnleash r" by (cases c) auto
  with snoc assms(2) seen_OnUnleash[of l0 "l @ cs"] show ?case by simp
qed simp

lemma steps_updateStatus:
  assumes "cType c \<in> {ConditionReconciled, ConditionConnected}" and "length l0 \<le> length l"
    and "cStatus c = ConditionTrue \<Longrightarrow> readySeen k l0 l \<and> (cType c = ConditionConnected \<longrightarrow> connectedSeen l0 l)"
  shows "runs (stepsFrom E k gen l0) l (updateStatus E u gen stats c)
     (\<lambda>r l'. fst r = None \<longrightarrow> current (snd r) l' \<and> length l0 \<le> length l' \<and> readySeen k l0 l' = readySeen k l0 l)"
proof -
  let ?c = "c\<lparr>cObservedGeneration := gen\<rparr>"
  have attempt: "runs (stepsFrom E k gen l0) (l @ new) (statusAttemptFor E k' gen stats ?c u) (changed l)"
    if new: "list_all touchesUnleash new" for new k' u
    unfolding statusAttemptFor_def
  proof (rule steps_fetch_then[OF new])
    fix fresh r
    let ?l = "l @ new @ [OnUnleash r]"
    assume tail: "list_all touchesUnleash (new @ [OnUnleash r])" and cur: "current fresh ?l"
    have "unleash_step E gen (readySeen k l0 ?l) (connectedSeen l0 ?l) fresh (markCondition E stats ?c fresh)"
      if "\<not> (cStatus ?c = ConditionTrue \<and> mGeneration (uMeta fresh) \<noteq> gen)"
      using assms seen_extend[OF tail assms(2)] that by (intro mark) auto
    then show "runs (stepsFrom E k gen l0) ?l
        (if cStatus ?c = ConditionTrue \<and> mGeneration (uMeta fresh) \<noteq> gen
         then ret (Some (generationChangedError gen (mGeneration (uMeta fresh))), u)
         else onError (writeUnleashStatus E (markCondition E stats ?c fresh)) (\<lambda>e. ret (Some e, u))
                (\<lambda>stored. ret (None, stored))) (changed l)"
      using tail cur by (intro runs_if runs_return steps_putBack steps_write_then changedI) auto
  qed
  have gauge: "runs (stepsFrom E k gen l0) l' (emit (SetUnleashGauge n t v ch b)) (\<lambda>_ l''. current u l'' \<and>
      length l0 \<le> length l'' \<and> readySeen k l0 l'' = readySeen k l0 l)"
    if "current u l'" "length l0 \<le> length l'" "readySeen k l0 l' = readySeen k l0 l" for l' n t v ch b u
    by (rule runs_emit) (use that in \<open>simp_all add: stepsFrom_def readySeen_def\<close>)
  show ?thesis
    unfolding updateStatus_def Let_def
    by (rule runs_onFailure[OF steps_retry[OF attempt]])
       (use assms(2) seen_extend[of _ l0 l k] in \<open>auto intro!: runs_intros runs_bind[OF gauge] simp: changed_def\<close>)
qed

lemma steps_onFresh:
  assumes "\<And>fresh new r. list_all touchesUnleash (new @ [OnUnleash r]) \<Longrightarrow> current fresh (l @ new @ [OnUnleash r]) \<Longrightarrow>
      runs (stepsFrom E k gen l0) (l @ new @ [OnUnleash r]) (f fresh) (changed l)"
  shows "runs (stepsFrom E k gen l0) l (onFreshUnleash E k' f u) (changed l)"
  unfolding onFresh_def by (rule steps_retry) (use assms in \<open>auto intro: steps_fetch_then\<close>)

lemma steps_fresh_status:
  assumes "\<And>ready connected fresh. P fresh \<Longrightarrow> unleash_step E gen ready connected fresh (g fresh)"
  shows "runs (stepsFrom E k gen l0) l
     (onFreshUnleash E k' (\<lambda>fresh. if \<not> P fresh then ret (None, fresh)
                            else (let p = g fresh in putBack p (writeUnleashStatus E p))) u) (changed l)"
  by (rule steps_onFresh) (auto intro!: runs_intros changedI steps_putBack(1) steps_write_then assms)

lemma steps_fresh_object:
  "runs (stepsFrom E k gen l0) l
     (onFreshUnleash E k' (\<lambda>fresh. if P fresh then ret (None, fresh)
                            else (let p = g fresh in putBack p (writeUnleash E p))) u) (changed l)"
proof (rule steps_onFresh)
  fix fresh new r
  let ?l = "l @ new @ [OnUnleash r]"
  assume tail: "list_all touchesUnleash (new @ [OnUnleash r])" and cur: "current fresh ?l"
  have "runs (stepsFrom E k gen l0) (l @ (new @ [OnUnleash r])) (writeUnleash E p)
     (\<lambda>r l'. \<exists>more. l' = l @ more \<and> list_all touchesUnleash more \<and> (\<forall>u. r = Inr u \<longrightarrow> current u l'))" for p
    by (rule runs_weaken[OF steps_update]) (use tail in \<open>auto intro: exI[of _ "(new @ [OnUnleash r]) @ [_]"]\<close>)
  from steps_putBack(1)[OF this] tail cur
  show "runs (stepsFrom E k gen l0) ?l (if P fresh then ret (None, fresh)
      else (let p = g fresh in putBack p (writeUnleash E p))) (changed l)"
    by (auto intro!: runs_intros changedI)
qed

lemma steps_degraded:
  "runs (stepsFrom E k gen l0) l (writeDegraded E k' status message u) (changed l)"
proof -
  let ?g = "\<lambda>fresh. unleashCondition E (newCondition ConditionDegraded status ''Finalizing'' (message fresh)) fresh"
  have "unleash_step E gen ready connected fresh (?g fresh)" for ready connected fresh
    by (rule unleash_step.degrade) (simp add: newCondition_def)
  then show ?thesis
    unfolding writeDegraded_def using steps_fresh_status[where E = E and P = "\<lambda>_. True" and g = ?g] by simp
qed

lemma quiet_deleteSecret: "quiet l (deleteSecret E k)"
  unfolding deleteSecret_def object_requests by (auto intro!: quiet_rules)

lemma quiet_finalizer: "quiet l (doFinalizerOperationsForUnleash E u)"
  unfolding doFinalizerOperationsForUnleash_def publishRemoval_def
  by (auto intro!: quiet_rules quiet_deleteSecret quiet_token quiet_publish)

lemma steps_finalize: "runs (stepsFrom E k gen l0) l (finalizeUnleash E k' u) (\<lambda>_ _. True)"
  unfolding finalizeUnleash_def failWith_def removeUnleashFinalizer_def
  by (intro runs_intros runs_onFailure[OF steps_degraded] runs_bind[OF quiet_steps[OF quiet_finalizer]]
      runs_onFailure[OF steps_fresh_object]) simp_all

text \<open>Steps that end with the instance that was answered last.\<close>

lemma steps_initialize:
  assumes "current u l"
  shows "runs (stepsFrom E k gen l0) l (initializeUnleash E k' gen' u) (\<lambda>r l'. \<forall>u. r = Inr u \<longrightarrow> current u l')"
proof -
  let ?g = "\<lambda>fresh. unleashCondition E ((newCondition ConditionReconciled ConditionUnknown ''Reconciling''
                         ''Starting reconciliation'')\<lparr>cObservedGeneration := gen'\<rparr>) fresh"
  have "unleash_step E gen ready connected fresh (?g fresh)" if "utConditions (uStatus fresh) = []" for ready connected fresh
    by (rule unleash_step.start) (simp_all add: newCondition_def that)
  note started = steps_fresh_status[where E = E and P = "\<lambda>fresh. utConditions (uStatus fresh) = []" and g = ?g, OF this]
  show ?thesis
    unfolding initializeUnleash_def
    by (auto intro!: runs_intros runs_onFailure[OF started] runs_weaken[OF steps_fetch] simp: assms)
qed

lemma steps_claim:
  assumes "current u l"
  shows "runs (stepsFrom E k gen l0) l (claimUnleash E k' u) (\<lambda>r l'. \<forall>u. r = Inr u \<longrightarrow> current u l')"
  unfolding claimUnleash_def
  by (auto intro!: runs_intros runs_onFailure[OF steps_fresh_object] runs_weaken[OF steps_fetch] simp: assms)

section \<open>Deployment and connection\<close>

lemma steps_clearTracking:
  assumes "current u l"
    and "\<And>out new. runs (stepsFrom E k gen l0) (l @ new) (stop out) (\<lambda>_ _. True)"
    and "\<And>u new. runs (stepsFrom E k gen l0) (l @ new) (f u) (\<lambda>_ _. True)"
  shows "runs (stepsFrom E k gen l0) l (clearTracking E u stop f) (\<lambda>_ _. True)"
  unfolding clearTracking_def
  using assms(2, 3)[of "[]"] assms(2, 3)
  by (auto intro!: runs_intros runs_onError[OF steps_write[OF assms(1) unleash_step.release]])

lemma steps_pending:
  "runs (stepsFrom E k gen l0) l (markReleaseChannelAssignmentPending E u gen img) (changed l)"
proof -
  have "runs (stepsFrom E k gen l0) (l @ new) (pendingAttempt E k' gen img u) (changed l)"
    if new: "list_all touchesUnleash new" for new k' u
    unfolding pendingAttempt_def
    by (rule steps_fetch_then[OF new])
       (auto intro!: runs_intros steps_putBack(2) steps_write_then unleash_step.assign changedI)
  then show ?thesis unfolding markReleaseChannelAssignmentPending_def by (rule steps_retry)
qed

lemma steps_quiet: "quiet l m \<Longrightarrow> runs (stepsFrom E k gen l0) l m (\<lambda>_ _. True)"
  by (rule runs_weaken[OF quiet_steps]) auto

lemma steps_getDeployment:
  "runs (stepsFrom E k gen l0) l (getObject (uDeployments E) OnDeployment k') (\<lambda>r l'. l' = l @ [OnDeployment (ObjGet k' r)])"
  unfolding getObject_def by (rule runs_perform) (simp_all add: stepsFrom_def)

lemma steps_reconcileDeployment:
  assumes "current u l"
  shows "runs (stepsFrom E k gen l0) l (reconcileDeployment E u gen) (\<lambda>_ _. True)"
proof -
  have deploy: "runs (stepsFrom E k gen l0) l (do { out \<leftarrow> applyDeployment E u got img; ret (out, u) }) (\<lambda>_ _. True)" for l u got img
    by (auto intro!: runs_bind[OF steps_quiet[OF quiet_apply]] runs_intros)
  show ?thesis
    unfolding reconcileDeployment_def Let_def
    by (rule runs_bind[OF steps_getDeployment])
       (auto intro!: runs_intros deploy steps_clearTracking runs_onFailure[OF steps_pending]
          runs_bind[OF steps_quiet[OF quiet_resolve]] simp: assms)
qed

section \<open>The whole run\<close>

text \<open>Testing the connection touches neither instances nor deployments.\<close>

definition aside :: "nsname \<Rightarrow> unleash_call list \<Rightarrow> unleash_call \<Rightarrow> bool" where
  "aside k h c \<longleftrightarrow> \<not> touchesUnleash c \<and> deploymentAnswer k c = None"

lemma expectBody_status: "expectBody W want r = Inr b \<Longrightarrow> \<exists>stream. r = HttpReply want stream"
  by (auto simp: expectBody_def split: http_response.splits sum.splits if_splits)

lemma httpGet_runs:
  "runs (aside k) l (httpGetURL W OnHttp c u)
     (\<lambda>(r, body) l'. body = expectBody W 200 r \<and> (\<exists>a rq. l' = l @ a @ [OnHttp (HttpCall rq r)]))"
  unfolding httpGetURL_def newTransport_def redactingTransport_def otelTransport_def restoringTransport_def
    baseTransport_def newRequest_def
  by (simp add: runs_def wp_simps aside_def exI[of _ "[_, _]"])

lemma testConnection_runs:
  "runs (aside k) l (testConnection E u) (\<lambda>r l'. \<forall>stats. r = Inr stats \<longrightarrow> list_ex okReply (drop (length l) l'))"
proof -
  have token: "runs (aside k) l (ApiClient (uSecrets E) OnSecret (uWeb E) (uOperatorNamespace E) u) (\<lambda>_ l'. length l \<le> length l')" for l
    unfolding ApiClient_def AdminToken_def object_requests
    by (auto intro!: runs_onError[where Q' = "\<lambda>_ l'. length l \<le> length l'"] runs_onError_perform runs_return simp: aside_def)
  have stats: "runs (aside k) (l @ new) (GetInstanceAdminStats (uWeb E) OnHttp c)
      (\<lambda>(stats, r, err) l'. err = None \<longrightarrow> list_ex okReply (drop (length l) l'))" for c new
    unfolding GetInstanceAdminStats_def
    by (rule runs_bind[OF httpGet_runs])
       (auto intro!: runs_intros dest!: expectBody_status split: sum.splits prod.splits)
  show ?thesis
    unfolding testConnection_def
    by (rule runs_onError[OF token]) (auto intro!: runs_intros runs_bind[OF stats] split: option.split http_response.split)
qed

lemma readySeen_aside:
  assumes "length l0 \<le> length l" and "follows (aside k) l new"
  shows "readySeen k l0 (l @ new) = readySeen k l0 l"
proof -
  have "latestOf (deploymentAnswer k) new = None" using assms(2)
    by (induction new arbitrary: l) (auto simp: aside_def)
  with assms(1) show ?thesis by (simp add: readySeen_def)
qed

lemma steps_testConnection:
  assumes "length l0 \<le> length l" and "readySeen k l0 l"
  shows "runs (stepsFrom E k gen l0) l (testConnection E u) (\<lambda>r l'. length l0 \<le> length l' \<and> readySeen k l0 l' \<and>
     (\<forall>stats. r = Inr stats \<longrightarrow> connectedSeen l0 l'))"
proof (rule runs_weaken[OF runs_trace[OF testConnection_runs[of k]]])
  fix r new
  assume r: "(\<forall>stats. r = Inr stats \<longrightarrow> list_ex okReply (drop (length l) (l @ new))) \<and>
     (\<exists>new'. l @ new = l @ new' \<and> follows (aside k) l new')"
  then have "readySeen k l0 (l @ new)" using readySeen_aside assms by auto
  with r assms show "length l0 \<le> length (l @ new) \<and> readySeen k l0 (l @ new) \<and>
      (\<forall>stats. r = Inr stats \<longrightarrow> connectedSeen l0 (l @ new))"
    by (auto simp: connectedSeen_def)
qed (simp add: aside_def stepsFrom_def untouched)

lemma steps_publish:
  assumes "current u l"
  shows "runs (stepsFrom E k gen l0) l (publishUnleash E u) (\<lambda>_ _. True)"
proof -
  have emit: "runs (stepsFrom E k gen l0) l (emit (CountPublished a b)) (\<lambda>_ l'. current u l \<longrightarrow> current u l')" for a b l
    by (rule runs_emit) (simp_all add: stepsFrom_def)
  show ?thesis
    unfolding publishUnleash_def Let_def
    by (auto intro!: runs_intros runs_onError[OF quiet_steps[OF quiet_token]] runs_bind[OF emit]
        runs_bind[OF quiet_steps[OF quiet_publish(1)]] runs_bind[OF steps_write] unleash_step.published simp: assms)
qed

lemma quiet_finish: "quiet l (finishUnleash E u)"
  unfolding finishUnleash_def by (auto intro!: quiet_rules)

lemma steps_connect:
  assumes "length l0 \<le> length l" and "readySeen k l0 l"
  shows "runs (stepsFrom E k gen l0) l (connectUnleash E u gen) (\<lambda>_ _. True)"
  unfolding connectUnleash_def updateStatusConnectionFailed_def updateStatusConnectionSuccess_def
    requeueOrFail_def failWith_def
  by (rule runs_onError[OF steps_testConnection[OF assms]])
     (auto intro!: runs_onFailure[OF steps_updateStatus] runs_onFailure[OF steps_publish]
        steps_quiet[OF quiet_finish] runs_intros simp: newCondition_def condition_types)

lemma readySeen_get:
  "length l0 \<le> length l \<Longrightarrow>
   readySeen k l0 (l @ [OnDeployment (ObjGet k (Inr d))]) = (DeploymentFailure d = None \<and> DeploymentIsReady d)"
  by (simp add: readySeen_def)

lemma steps_observe:
  assumes "length l0 \<le> length l"
  shows "runs (stepsFrom E k gen l0) l (observeDeployment E k u gen) (\<lambda>_ _. True)"
proof -
  have connect: "runs (stepsFrom E k gen l0) l' (connectUnleash E u gen) (\<lambda>_ _. True)"
    if "length l0 \<le> length l'" "readySeen k l0 l' = readySeen k l0 (l @ [OnDeployment (ObjGet k (Inr d))])"
      "DeploymentFailure d = None" "DeploymentIsReady d" for l' d u
    by (rule steps_connect) (use that assms in \<open>simp_all add: readySeen_get\<close>)
  note updates = runs_onFailure[OF steps_updateStatus]
  show ?thesis
    unfolding observeDeployment_def updateStatusReconcileFailed_def updateStatusDeploymentFailed_def
      updateStatusReconcileProgressing_def updateStatusReconcileSuccess_def requeueOrFail_def failWith_def
    by (rule runs_onError[OF steps_getDeployment])
       (use assms in \<open>auto intro!: updates runs_intros intro: connect
          simp: newCondition_def condition_types readySeen_get split: option.split\<close>)
qed

lemma steps_failed:
  assumes "length l0 \<le> length l"
  shows "runs (stepsFrom E k gen l0) l (do { _ \<leftarrow> updateStatusReconcileFailed E u gen e m; failWith e }) (\<lambda>_ _. True)"
  unfolding updateStatusReconcileFailed_def failWith_def
  by (rule runs_bind[OF steps_updateStatus]) (use assms in \<open>auto intro!: runs_return simp: newCondition_def\<close>)

lemma steps_proceed:
  assumes "quiet l step" and "length l0 \<le> length l"
    and "\<And>new. latestOf unleashAnswer (l @ new) = latestOf unleashAnswer l \<Longrightarrow>
      runs (stepsFrom E k gen l0) (l @ new) rest (\<lambda>_ _. True)"
  shows "runs (stepsFrom E k gen l0) l (proceed E u gen failure step rest) (\<lambda>_ _. True)"
  unfolding proceed_def
  by (rule runs_bind[OF quiet_steps[OF assms(1)]]) (use assms in \<open>auto intro!: runs_intros steps_failed\<close>)

lemma steps_afterDeployment:
  assumes "length l0 \<le> length l"
  shows "runs (stepsFrom E k gen l0) l (reconcileAfterDeployment E k u gen) (\<lambda>_ _. True)"
  unfolding reconcileAfterDeployment_def
  by (intro steps_proceed quiet_objects runs_onError[OF steps_fetch] steps_observe)
     (use assms in \<open>auto simp: failWith_def intro!: runs_return\<close>)

lemma steps_objects:
  assumes "current u l" and "length l0 \<le> length l"
  shows "runs (stepsFrom E k gen l0) l (reconcileObjects E k u gen) (\<lambda>_ _. True)"
proof -
  have deployment: "runs (stepsFrom E k gen l0) l' (reconcileDeploymentStep E k u gen) (\<lambda>_ _. True)"
    if "current u l'" "length l0 \<le> length l'" for l'
    unfolding reconcileDeploymentStep_def
    by (rule runs_bind[OF steps_reconcileDeployment[OF that(1)]])
       (use that in \<open>auto intro!: runs_intros steps_failed steps_afterDeployment\<close>)
  show ?thesis
    unfolding reconcileObjects_def
    by (intro steps_proceed quiet_secrets quiet_objects deployment) (use assms in auto)
qed

text \<open>The generation a run works on is the one of the instance it reads first.\<close>

definition runGeneration :: "'v unleash_env \<Rightarrow> nsname \<Rightarrow> unleash_call list \<Rightarrow> int" where
  "runGeneration E k l = (case kGet (uUnleashes E) l k of Inl e \<Rightarrow> 0 | Inr u \<Rightarrow> mGeneration (uMeta u))"

lemma ReconcileUnleash_steps:
  "runs (stepsFrom E k (runGeneration E k l) l) l (ReconcileUnleash E k) (\<lambda>_ _. True)"
proof -
  have main: "runs (stepsFrom E k gen l) l' (onError (initializeUnleash E k gen u) failWith (\<lambda>u.
             onError (claimUnleash E k u) failWith (\<lambda>u. reconcileObjects E k u gen))) (\<lambda>_ _. True)"
    if cur: "current u l'" and len: "length l \<le> length l'" for u l' gen
    using len unfolding failWith_def
    by (auto intro!: runs_onError[OF steps_initialize[OF cur]] runs_onError[OF steps_claim]
        steps_objects runs_return)
  show ?thesis
    unfolding ReconcileUnleash_def getObject_def Let_def
    by (rule runs_onError_perform)
       (auto simp: runGeneration_def stepsFrom_def failWith_def
         intro!: main steps_finalize runs_intros runs_bind[OF runs_emit])
qed

section \<open>Readiness is earned\<close>

text \<open>\<open>meta.SetStatusCondition\<close> replaces the condition of that type and leaves the others.\<close>

definition storing_laws :: "('v, 'z) apimachinery_scheme \<Rightarrow> bool" where
  "storing_laws L \<longleftrightarrow> (\<forall>cs c. distinctTypes cs \<longrightarrow>
     distinctTypes (setStatusCondition L cs c) \<and>
     set (setStatusCondition L cs c) = insert c {x \<in> set cs. cType x \<noteq> cType c})"

lemma conditionTrueAt_iff:
  assumes "distinctTypes cs"
  shows "conditionTrueAt gen t cs \<longleftrightarrow>
     (\<exists>c \<in> set cs. cType c = t \<and> cStatus c = ConditionTrue \<and> cObservedGeneration c = gen)"
  using assms by (induction gen t cs rule: conditionTrueAt.induct) (auto simp: distinctTypes_def image_iff)

abbreviation trueNow :: "unleash \<Rightarrow> string \<Rightarrow> bool" where
  "trueNow \<equiv> instanceConditionIsTrueForCurrentGeneration"

lemma trueNow_condition:
  assumes "storing_laws E" and "distinctTypes (utConditions (uStatus u))"
  shows "trueNow (unleashCondition E c u) t =
     (if t = cType c then cStatus c = ConditionTrue \<and> cObservedGeneration c = mGeneration (uMeta u) else trueNow u t)"
    and "distinctTypes (utConditions (uStatus (unleashCondition E c u)))"
  using assms
  by (auto simp: storing_laws_def instanceConditionIsTrueForCurrentGeneration_def conditionTrueAt_iff unleashCondition_def)

lemma trueNow_other [simp]:
  "trueNow (uStatus_update (\<lambda>st. st\<lparr>utLastPublishedHash := hash\<rparr>) u) t = trueNow u t"
  "trueNow (releaseTracking u) t = trueNow u t"
  by (simp_all add: instanceConditionIsTrueForCurrentGeneration_def releaseTracking_def)

lemma reportVersion_conditions [simp]:
  "utConditions (reportVersion stats st) = utConditions st"
  "utResolvedReleaseChannelImage (reportVersion stats st) = utResolvedReleaseChannelImage st"
  by (simp_all add: reportVersion_def split: option.split)

lemma markCondition_conditions:
  assumes "storing_laws E" and "distinctTypes (utConditions (uStatus u))"
  shows "trueNow (markCondition E stats c u) t =
     (if t = cType c then cStatus c = ConditionTrue \<and> cObservedGeneration c = mGeneration (uMeta u) else trueNow u t)"
proof -
  let ?u = "uStatus_update (\<lambda>st. reportVersion stats
       (if cType c = ConditionReconciled then st\<lparr>utReconciled := (cStatus c = ConditionTrue)\<rparr>
        else if cType c = ConditionConnected then st\<lparr>utConnected := (cStatus c = ConditionTrue)\<rparr>
        else st)) u"
  have "utConditions (uStatus ?u) = utConditions (uStatus u)" "uMeta ?u = uMeta u" by simp_all
  then show ?thesis
    using trueNow_condition(1)[OF assms(1), of ?u c t] assms(2)
    by (simp add: markCondition_def instanceConditionIsTrueForCurrentGeneration_def)
qed

lemma step_ready:
  assumes "unleash_step E gen ready connected b p" and "storing_laws E" and "distinctTypes (utConditions (uStatus b))"
    and "\<not> trueNow b t" and "trueNow p t" and "t \<in> {ConditionReconciled, ConditionConnected}"
  shows "mGeneration (uMeta b) = gen \<and> ready \<and> (t = ConditionConnected \<longrightarrow> connected)"
  using assms
proof cases
  case (assign img)
  let ?b = "uStatus_update (\<lambda>st. st\<lparr>utResolvedReleaseChannelImage := img,
             utReleaseChannelName := usReleaseChannelName (uSpec b), utReconciled := False, utConnected := False\<rparr>) b"
  have "distinctTypes (utConditions (uStatus ?b))" using assms(3) by simp
  note set1 = trueNow_condition[OF assms(2) this]
  have "trueNow ?b t = trueNow b t" by (simp add: instanceConditionIsTrueForCurrentGeneration_def)
  then show ?thesis
    using assms(4, 5) set1 trueNow_condition[OF assms(2) set1(2)] assign
    by (auto simp: assignmentPending_def progressing_def newCondition_def split: if_splits)
qed (use assms(4-6) in \<open>auto simp: condition_types trueNow_condition[OF assms(2, 3)] markCondition_conditions[OF assms(2, 3)] split: if_splits\<close>)

lemma markCondition_image [simp]: "resolvedImage (markCondition E stats c u) = resolvedImage u"
  by (simp add: markCondition_def unleashCondition_def)

lemma step_assigned:
  assumes "unleash_step E gen ready connected b p" and "storing_laws E" and "distinctTypes (utConditions (uStatus b))"
    and "resolvedImage p \<noteq> resolvedImage b" and "resolvedImage p \<noteq> []"
  shows "\<not> trueNow p ConditionReconciled \<and> \<not> trueNow p ConditionConnected"
  using assms
proof cases
  case (assign img)
  let ?b = "uStatus_update (\<lambda>st. st\<lparr>utResolvedReleaseChannelImage := img,
             utReleaseChannelName := usReleaseChannelName (uSpec b), utReconciled := False, utConnected := False\<rparr>) b"
  have "distinctTypes (utConditions (uStatus ?b))" using assms(3) by simp
  note set1 = trueNow_condition[OF assms(2) this]
  show ?thesis
    using set1 trueNow_condition[OF assms(2) set1(2)] assign
    by (simp add: assignmentPending_def progressing_def newCondition_def condition_types)
qed (use assms(4, 5) in \<open>auto simp: unleashCondition_def releaseTracking_def\<close>)

text \<open>What a status write must respect so that a channel can trust it.\<close>

definition trustworthy ::
  "nsname \<Rightarrow> int \<Rightarrow> unleash_call list \<Rightarrow> unleash_call list \<Rightarrow> unleash_call \<Rightarrow> bool" where
  "trustworthy k gen l0 h c \<longleftrightarrow>
     (case (statusRequest c, latestOf unleashAnswer h) of
        (Some p, Some b) \<Rightarrow> distinctTypes (utConditions (uStatus b)) \<longrightarrow>
          (instanceReady p \<longrightarrow> instanceReady b \<or> mGeneration (uMeta b) = gen \<and> readySeen k l0 h) \<and>
          (instanceConnected p \<longrightarrow> instanceConnected b \<or>
             mGeneration (uMeta b) = gen \<and> readySeen k l0 h \<and> connectedSeen l0 h)
      | (Some p, None) \<Rightarrow> False
      | (None, _) \<Rightarrow> True)"

definition invalidates :: "unleash_call list \<Rightarrow> unleash_call \<Rightarrow> bool" where
  "invalidates h c \<longleftrightarrow>
     (case (statusRequest c, latestOf unleashAnswer h) of
        (Some p, Some b) \<Rightarrow> distinctTypes (utConditions (uStatus b)) \<longrightarrow>
          resolvedImage p \<in> {[], resolvedImage b} \<or> \<not> instanceReady p \<and> \<not> instanceConnected p
      | (Some p, None) \<Rightarrow> False
      | (None, _) \<Rightarrow> True)"

lemma step_promises:
  assumes "unleash_step E gen ready connected b p" and "storing_laws E" and "distinctTypes (utConditions (uStatus b))"
  shows "(instanceReady p \<longrightarrow> instanceReady b \<or> mGeneration (uMeta b) = gen \<and> ready) \<and>
     (instanceConnected p \<longrightarrow> instanceConnected b \<or> mGeneration (uMeta b) = gen \<and> ready \<and> connected) \<and>
     (resolvedImage p \<in> {[], resolvedImage b} \<or> \<not> instanceReady p \<and> \<not> instanceConnected p)"
  using step_ready[OF assms, of ConditionReconciled] step_ready[OF assms, of ConditionConnected] step_assigned[OF assms]
  by (auto simp: instanceReady_def instanceConnected_def)

lemma ReconcileUnleash_promises:
  assumes "storing_laws E"
  shows "runs (\<lambda>h c. trustworthy k (runGeneration E k l) l h c \<and> invalidates h c) l (ReconcileUnleash E k) (\<lambda>_ _. True)"
proof (rule runs_weaken[OF ReconcileUnleash_steps])
  fix h c
  assume step: "stepsFrom E k (runGeneration E k l) l (l @ h) c"
  show "trustworthy k (runGeneration E k l) l (l @ h) c \<and> invalidates (l @ h) c"
  proof (cases "statusRequest c")
    case (Some p)
    with step obtain b where b: "current b (l @ h)"
      and "unleash_step E (runGeneration E k l) (readySeen k l (l @ h)) (connectedSeen l (l @ h)) b p"
      by (auto simp: stepsFrom_def simp del: latestOf_append)
    from step_promises[OF this(2) assms] Some b show ?thesis
      unfolding trustworthy_def invalidates_def by (simp del: latestOf_append)
  qed (simp add: trustworthy_def invalidates_def)
qed simp

end
