(* ===== verification/UnleashPromises.thy ===== *)
theory UnleashPromises
  imports UnleashReadiness
begin

text \<open>
  Further promises of the Unleash controller: how it treats the admin token, which image it
  deploys, and what it publishes to other clusters.
\<close>

section \<open>The admin token\<close>

fun secretAnswer :: "unleash_call \<Rightarrow> secret option" where
  "secretAnswer (OnSecret (ObjGet k (Inr s))) = Some s"
| "secretAnswer (OnSecret (ObjCreate p (Inr s))) = Some s"
| "secretAnswer (OnSecret (ObjPatch a b (Inr s))) = Some s"
| "secretAnswer _ = None"

text \<open>The API server said in this run that there is no such secret.\<close>

fun secretMissing :: "nsname \<Rightarrow> unleash_call \<Rightarrow> bool" where
  "secretMissing k (OnSecret (ObjGet k' (Inl e))) = (k' = k \<and> isNotFound e)"
| "secretMissing k _ = False"

definition keepsToken ::
  "'v unleash_env \<Rightarrow> unleash \<Rightarrow> unleash_call list \<Rightarrow> unleash_call list \<Rightarrow> unleash_call \<Rightarrow> bool" where
  "keepsToken E u l0 h c \<longleftrightarrow> (let k = operatorSecretKey (uOperatorNamespace E) u in
     (case c of
        OnSecret (ObjCreate s r) \<Rightarrow>
          (case latestOf secretAnswer (drop (length l0) h) of
             None \<Rightarrow> secretKey s = k \<and> list_ex (secretMissing k) (drop (length l0) h)
           | Some held \<Rightarrow> dictGet (scStringData s) UnleashSecretTokenKey = adminKeyOf held \<and> adminKeyOf held \<noteq> [])
      | OnSecret (ObjPatch old new r) \<Rightarrow>
          latestOf secretAnswer (drop (length l0) h) = Some old \<and> publicApiURL u \<noteq> [] \<and>
          scMeta new = scMeta old \<and> scStringData new = scStringData old \<and>
          map_of (scData new) = (map_of (scData old))(UnleashSecretServerURLKey \<mapsto> publicApiURL u)
      | OnSecret (ObjGet k' r) \<Rightarrow> k' = k
      | OnSecret r \<Rightarrow> False
      | _ \<Rightarrow> True))"

lemma keepsToken_other [simp]: "keepsToken E u l0 h (ReadRandom r)"
  by (simp add: keepsToken_def)

lemma currentOperatorSecret_runs:
  "runs (keepsToken E u l) l (currentOperatorSecret E u)
     (\<lambda>r l'. \<forall>s. r = Inr s \<longrightarrow> latestOf secretAnswer (drop (length l) l') = Some s)"
  unfolding currentOperatorSecret_def object_requests Let_def
  by (auto intro!: runs_bind_perform runs_intros runs_perform split: prod.split option.split
      simp: keepsToken_def secretKey_def operatorSecretKey_def OperatorSecretForUnleash_def metaFor_def zeroMeta_def)

lemma reconcileSecrets_runs: "runs (keepsToken E u l) l (reconcileSecrets E u) (\<lambda>_ _. True)"
  unfolding reconcileSecrets_def failWith_def object_requests
  by (rule runs_onError[OF currentOperatorSecret_runs])
     (auto intro!: runs_bind_perform runs_intros
        simp: keepsToken_def InstanceSecretForUnleash_def withOwner_def dictGet_def split: sum.splits)

text \<open>C22: the admin token is minted once and then only copied: the operator's secret is created
  only after the API server said it does not exist, an existing one is patched in nothing
  but its server URL, no secret is replaced or deleted, and the instance's secret holds the
  very token the operator's secret holds.\<close>

theorem admin_token_minted_once:
  "follows (keepsToken E u l) l (newCalls (reconcileSecrets E u) l)"
  using reconcileSecrets_runs[of E u l] by (elim runs_elim)

section \<open>The image that is deployed\<close>

fun channelAnswer :: "unleash_call \<Rightarrow> release_channel option" where
  "channelAnswer (OnChannel (ObjGet k (Inr rc))) = Some rc"
| "channelAnswer _ = None"

text \<open>A status that was written successfully.\<close>

fun announcement :: "unleash_call \<Rightarrow> unleash option" where
  "announcement (OnUnleash (ObjUpdateStatus p (Inr stored))) = Some p"
| "announcement _ = None"

fun deploymentWrite :: "unleash_call \<Rightarrow> deployment option" where
  "deploymentWrite (OnDeployment (ObjCreate d r)) = Some d"
| "deploymentWrite (OnDeployment (ObjUpdate d r)) = Some d"
| "deploymentWrite _ = None"

definition deployedImage :: "deployment \<Rightarrow> string" where
  "deployedImage d = ctImage (hd (dpContainers d))"

definition announced :: "unleash \<Rightarrow> unleash_call list \<Rightarrow> unleash" where
  "announced u new = (case latestOf announcement new of None \<Rightarrow> u | Some p \<Rightarrow> p)"


definition mayDeploy :: "'v unleash_env \<Rightarrow> unleash \<Rightarrow> unleash_call list \<Rightarrow> string \<Rightarrow> bool" where
  "mayDeploy E u new img \<longleftrightarrow>
     (if usCustomImage (uSpec u) \<noteq> [] then img = usCustomImage (uSpec u)
      else if usReleaseChannelName (uSpec u) \<noteq> [] then
        (\<exists>rc. latestOf channelAnswer new = Some rc \<and> imageFromChannel rc u = Inr img) \<and>
        resolvedImage (announced u new) = img
      else img = getDefaultImage E)"

definition deploysOnly ::
  "'v unleash_env \<Rightarrow> unleash \<Rightarrow> unleash_call list \<Rightarrow> unleash_call list \<Rightarrow> unleash_call \<Rightarrow> bool" where
  "deploysOnly E u l0 h c \<longleftrightarrow>
     (case deploymentWrite c of None \<Rightarrow> True | Some d \<Rightarrow> mayDeploy E u (drop (length l0) h) (deployedImage d))"


lemma deployedImage_overwrite [simp]: "deployedImage (overwriteDeployment new old) = deployedImage new"
  by (simp add: deployedImage_def overwriteDeployment_def)


lemma deploysOnly_unleash [simp]: "deploysOnly E u l0 h (OnUnleash r)"
  by (simp add: deploysOnly_def)

lemma assignmentPending_image [simp]: "resolvedImage (assignmentPending E gen img fresh) = img"
  by (simp add: assignmentPending_def unleashCondition_def)






section \<open>Publishing\<close>

fun messageOf :: "unleash_call \<Rightarrow> (string \<times> string) option" where
  "messageOf (OnPubSub (PubSubMessage k payload r)) = Some (k, payload)"
| "messageOf _ = None"

definition publishedHash :: "'v unleash_env \<Rightarrow> unleash_call list \<Rightarrow> unleash \<Rightarrow> int option" where
  "publishedHash E l u =
     (case kGet (uSecrets E) l (operatorSecretKey (uOperatorNamespace E) u) of
        Inl e \<Rightarrow> None
      | Inr s \<Rightarrow> Some (ComputeInstanceHash (UnleashFederationInstance u (dictGet (scData s) UnleashSecretTokenKey))))"

text \<open>Documented behaviour of the API server: a successful status write answers with the object
  it was given, as far as specification, status and identity go.\<close>

definition storesStatus :: "'v unleash_env \<Rightarrow> bool" where
  "storesStatus E \<longleftrightarrow> (\<forall>l p u. kUpdateStatus (uUnleashes E) l p = Inr u \<longrightarrow>
     uSpec u = uSpec p \<and> uStatus u = uStatus p \<and> unleashKey u = unleashKey p)"

text \<open>The fingerprint does not depend on the status.\<close>

lemma federationInstance_cong:
  "uSpec u = uSpec v \<Longrightarrow> unleashKey u = unleashKey v \<Longrightarrow>
   UnleashFederationInstance u token = UnleashFederationInstance v token \<and> operatorSecretKey ns u = operatorSecretKey ns v"
  by (simp add: UnleashFederationInstance_def unleashFederationInstanceWithStatus_def publicApiURL_def unleashKey_def
      secret_names Let_def)

lemma publishUnleash_unchanged:
  assumes "publishedHash E l u = Some (utLastPublishedHash (uStatus u))"
  shows "list_all (\<lambda>c. messageOf c = None) (newCalls (publishUnleash E u) l)"
proof -
  have "runs (\<lambda>_ c. messageOf c = None) l (publishUnleash E u) (\<lambda>_ _. True)"
    unfolding publishUnleash_def AdminToken_def object_requests onError_def Let_def
    using assms by (auto intro!: runs_intros runs_bind_perform runs_bind[OF runs_emit]
        simp: publishedHash_def runs_def wp_simps split: sum.splits)
  then show ?thesis by (elim runs_elim) (simp add: follows_all list_all_iff)
qed

lemma publishUnleash_handsBack:
  assumes "storesStatus E"
  shows "runs (\<lambda>_ _. True) l (publishUnleash E u) (\<lambda>(err, u') _. err = None \<longrightarrow>
     uSpec u' = uSpec u \<and> unleashKey u' = unleashKey u \<and>
     (uFederation E \<and> fedEnabled (usFederation (uSpec u)) \<longrightarrow> publishedHash E l u = Some (utLastPublishedHash (uStatus u'))))"
proof -
  have message: "runs (\<lambda>_ _. True) l (Publish B OnPubSub u token) (\<lambda>_ _. True)" for B l token
    by (rule runs_weaken[OF quiet_publish(1)]) simp_all
  show ?thesis
    unfolding publishUnleash_def AdminToken_def object_requests onError_def Let_def
    using assms by (auto intro!: runs_intros runs_bind_perform runs_bind[OF runs_emit[where Q = "\<lambda>_ _. True"]]
        runs_bind[OF message] simp: publishedHash_def storesStatus_def unleashKey_def split: sum.splits)
qed

text \<open>What was published once is not published again: after a successful publication the
  instance that is handed back carries the fingerprint of the message, and as long as the
  admin token stays the same publishing it anew sends nothing.\<close>

theorem publishes_once:
  assumes "storesStatus E" and "result (publishUnleash E u) l = (None, u')"
    and "kGet (uSecrets E) l' (operatorSecretKey (uOperatorNamespace E) u) = kGet (uSecrets E) l (operatorSecretKey (uOperatorNamespace E) u)"
  shows "list_all (\<lambda>c. messageOf c = None) (newCalls (publishUnleash E u') l')"
proof (cases "uFederation E \<and> fedEnabled (usFederation (uSpec u))")
  case True
  have same: "uSpec u' = uSpec u" "unleashKey u' = unleashKey u" "publishedHash E l u = Some (utLastPublishedHash (uStatus u'))"
    using runs_result[OF publishUnleash_handsBack[OF assms(1), of l u]] assms(2) True by auto
  then have "publishedHash E l' u' = Some (utLastPublishedHash (uStatus u'))"
    using assms(3) federationInstance_cong[of u' u] by (simp add: publishedHash_def split: sum.splits)
  then show ?thesis by (rule publishUnleash_unchanged)
next
  case False
  have "uSpec u' = uSpec u"
    using runs_result[OF publishUnleash_handsBack[OF assms(1), of l u]] assms(2) by auto
  with False show ?thesis by (auto simp: publishUnleash_def newCalls_def)
qed

end
