(* ===== verification/SampleInstance.thy ===== *)
theory SampleInstance
  imports SampleCluster UnleashPromises
begin

text \<open>
  Concrete surroundings of the Unleash controller: an API server that stores what is written,
  a deployment that is available, an instance that answers, a topic that accepts. The
  witnesses of the Unleash properties run the controller against it.
\<close>

lemma set_storeCondition: "set (storeCondition cs c) = insert c {x \<in> set cs. cType x \<noteq> cType c}"
  by (auto simp: storeCondition_def list_ex_iff)

lemma distinct_storeCondition:
  assumes "distinctTypes cs"
  shows "distinctTypes (storeCondition cs c)"
proof (cases "list_ex (\<lambda>d. cType d = cType c) cs")
  case True
  then have "map cType (storeCondition cs c) = map cType cs" by (simp add: storeCondition_def)
  with assms show ?thesis by (simp only: distinctTypes_def)
next
  case False
  with assms show ?thesis by (auto simp: storeCondition_def distinctTypes_def list_ex_iff)
qed

section \<open>Surroundings\<close>

definition absent :: go_error where "absent = \<lparr>errorKind = NotFound, errorMsg = ''not found''\<rparr>"

text \<open>A kind without objects, whose writes succeed.\<close>

definition emptyKind :: "('c, 'o) kind" where
  "emptyKind = \<lparr>kGet = (\<lambda>l k. Inl absent), kList = (\<lambda>l ns. Inr []), kCreate = (\<lambda>l x. Inr x),
     kUpdate = (\<lambda>l x. Inr x), kUpdateStatus = (\<lambda>l x. Inr x), kPatch = (\<lambda>l old new. Inr new),
     kDelete = (\<lambda>l x. None), kDerivative = (\<lambda>new old. True),
     kSelect = (\<lambda>l ns ls. Inr []), kPatchLocked = (\<lambda>l old new. Inr new), kDeleteExact = (\<lambda>l x. None)\<rparr>"

definition sampleOperatorSecret :: secret where
  "sampleOperatorSecret = \<lparr>scMeta = zeroMeta ''op'' ''unleasherator-n-a-admin-key'',
     scData = [(UnleashSecretTokenKey, ''*:*.key'')], scStringData = []\<rparr>"

definition sampleDeployment :: deployment where
  "sampleDeployment = \<lparr>dpMeta = (zeroMeta ''n'' ''a'')\<lparr>mLabels := labelsForUnleash ''a''\<rparr>,
     dpReplicas = Some 1, dpStrategy = [], dpMaxSurge = [], dpMaxUnavailable = [], dpSelector = [], dpPodLabels = [],
     dpPodAnnotations = [], dpRunAsNonRoot = True, dpSeccompProfile = [], dpServiceAccount = [],
     dpContainers = [], dpVolumes = [],
     dpStatus = \<lparr>dtObservedGeneration = 0, dtReplicas = 1, dtUpdatedReplicas = 1, dtReadyReplicas = 1,
       dtAvailableReplicas = 1, dtUnavailableReplicas = 0, dtConditions = []\<rparr>\<rparr>"

definition sampleInstance :: unleash where
  "sampleInstance = uSpec_update (\<lambda>sp. sp\<lparr>
       usFederation := \<lparr>fedEnabled = True, fedClusters = [''c''], fedNamespaces = [''t''], fedSecretNonce = ''n''\<rparr>,
       usDatabase := zeroDatabase\<lparr>dbURL := ''postgres://db''\<rparr>\<rparr>)
     (uMeta_update (\<lambda>m. m\<lparr>mFinalizers := [unleashFinalizer]\<rparr>) (newUnleash ''n'' ''a'' ''c'' []))"

definition sampleInstanceEnv :: "nat unleash_env" where
  "sampleInstanceEnv = apimachinery.extend sampleMachinery
     \<lparr>uUnleashes = emptyKind\<lparr>kGet := (\<lambda>l k. case latestOf unleashAnswer l of None \<Rightarrow> Inr sampleInstance | Some u \<Rightarrow> Inr u)\<rparr>,
      uChannels = emptyKind\<lparr>kGet := (\<lambda>l k. Inr (rcStatus_update (\<lambda>st. st\<lparr>stInstanceImages := Some [(''a'', ''r:2'')]\<rparr>)
                                              (newChannel ''n'' ''c'' ''r:2'')))\<rparr>,
      uSecrets = emptyKind\<lparr>kGet := (\<lambda>l k. Inr sampleOperatorSecret)\<rparr>,
      uDeployments = emptyKind\<lparr>kGet := (\<lambda>l k. Inr sampleDeployment)\<rparr>,
      uServices = emptyKind, uIngresses = emptyKind, uPolicies = emptyKind, uMonitors = emptyKind,
      uControllerRef = (\<lambda>owner m. Inr (m\<lparr>mOwners := [mName owner]\<rparr>)),
      uWeb = sampleWeb,
      uPubSub = \<lparr>psMarshal = (\<lambda>i. Inr (hashInput i)), psPublish = (\<lambda>l k p. None)\<rparr>,
      uRandom = (\<lambda>l. (''r'', None)), uInt63n = (\<lambda>l n. 0), uImageEnv = None,
      uOperatorNamespace = ''op'', uFederation = True, uRetries = 4\<rparr>"

lemma sampleInstance_storing: "storing_laws sampleInstanceEnv"
  by (simp add: storing_laws_def sampleInstanceEnv_def sampleMachinery_def apimachinery.defs set_storeCondition distinct_storeCondition)

lemma sampleInstance_stores: "storesStatus sampleInstanceEnv"
  by (simp add: sampleInstanceEnv_def storesStatus_def emptyKind_def apimachinery.defs)

lemma sampleInstance_generation: "runGeneration sampleInstanceEnv k [] = 0"
  by (simp add: runGeneration_def sampleInstanceEnv_def sampleInstance_def apimachinery.defs fresh_objects)

lemma sampleInstance_secret: "kGet (uSecrets sampleInstanceEnv) l k = Inr sampleOperatorSecret"
  by (simp add: sampleInstanceEnv_def apimachinery.defs)

lemma sampleInstance_publishes: "fst (result (publishUnleash sampleInstanceEnv sampleInstance) l) = None"
proof -
  have "uPubSub sampleInstanceEnv = \<lparr>psMarshal = (\<lambda>i. Inr (hashInput i)), psPublish = (\<lambda>l k p. None)\<rparr>"
    by (simp add: sampleInstanceEnv_def apimachinery.defs)
  then show ?thesis
    by (simp add: publishUnleash_def AdminToken_def object_requests onError_def result_def perform_def emit_def
        Publish_def publishMessage_def sampleInstance_secret Let_def)
qed

theorem publishes_once_witness:
  "let (err, u') = result (publishUnleash sampleInstanceEnv sampleInstance) [] in
   err = None \<and> list_all (\<lambda>c. messageOf c = None) (newCalls (publishUnleash sampleInstanceEnv u') [])"
proof -
  obtain u' where u': "result (publishUnleash sampleInstanceEnv sampleInstance) [] = (None, u')"
    using sampleInstance_publishes[of "[]"] by (metis prod.collapse)
  from publishes_once[OF sampleInstance_stores u', of "[]"] show ?thesis by (simp add: u')
qed

end
