(* ===== verification/Timestamps.thy ===== *)
theory Timestamps
  imports Durations "HOL-Library.Monad_Syntax"
begin

text \<open>
  Points in time and their RFC 3339 texts, as Go's \<open>time\<close> package reads and writes them. A time
  is the number of nanoseconds since the zero time, the start of year 1 in UTC. The operator
  orders the tokens of a server by such texts and stamps federated resources with them.
\<close>

section \<open>The calendar\<close>

definition isLeap :: "nat \<Rightarrow> bool" where
  "isLeap y \<longleftrightarrow> y mod 4 = 0 \<and> (y mod 100 \<noteq> 0 \<or> y mod 400 = 0)"

definition yearDays :: "nat \<Rightarrow> nat" where
  "yearDays y = (if isLeap y then 366 else 365)"

definition daysIn :: "nat \<Rightarrow> nat \<Rightarrow> nat" where
  "daysIn y m = (if m = 2 then if isLeap y then 29 else 28 else if m \<in> {4, 6, 9, 11} then 30 else 31)"

definition daysBeforeYear :: "nat \<Rightarrow> int" where
  "daysBeforeYear y = (if y = 0 then - 366 else int (sum_list (map yearDays [1..<y])))"

definition daysBeforeMonth :: "nat \<Rightarrow> nat \<Rightarrow> nat" where
  "daysBeforeMonth y m = sum_list (map (daysIn y) [1..<m])"

lemma daysBeforeYear_Suc: "0 < y \<Longrightarrow> daysBeforeYear (Suc y) = daysBeforeYear y + int (yearDays y)"
  by (simp add: daysBeforeYear_def)

lemma daysBeforeMonth_Suc: "0 < m \<Longrightarrow> daysBeforeMonth y (Suc m) = daysBeforeMonth y m + daysIn y m"
  by (simp add: daysBeforeMonth_def)

lemma positive_years [simp]: "0 < yearDays y" "0 < daysIn y m"
  by (simp_all add: yearDays_def daysIn_def)

text \<open>The year and the day in it, the month and the day in it.\<close>

function yearFrom :: "nat \<Rightarrow> nat \<Rightarrow> nat \<times> nat" where
  "yearFrom y n = (if n < yearDays y then (y, n) else yearFrom (Suc y) (n - yearDays y))"
  by auto
termination by (relation "measure snd") (auto simp: not_less intro!: diff_less less_le_trans[OF positive_years(1)])

function monthFrom :: "nat \<Rightarrow> nat \<Rightarrow> nat \<Rightarrow> nat \<times> nat" where
  "monthFrom y m n = (if n < daysIn y m \<or> 12 \<le> m then (m, n) else monthFrom y (Suc m) (n - daysIn y m))"
  by auto
termination by (relation "measure (\<lambda>(y, m, n). 12 - m)") auto

declare yearFrom.simps [simp del] monthFrom.simps [simp del]

lemma yearFrom_spec:
  "0 < y \<Longrightarrow> (case yearFrom y n of (y', d) \<Rightarrow>
     y \<le> y' \<and> d < yearDays y' \<and> daysBeforeYear y' + int d = daysBeforeYear y + int n)"
proof (induction y n rule: yearFrom.induct)
  case (1 y n)
  show ?case
  proof (cases "n < yearDays y")
    case True
    then show ?thesis by (subst yearFrom.simps) simp
  next
    case False
    with 1 have "case yearFrom (Suc y) (n - yearDays y) of (y', d) \<Rightarrow>
        Suc y \<le> y' \<and> d < yearDays y' \<and>
        daysBeforeYear y' + int d = daysBeforeYear (Suc y) + int (n - yearDays y)" by simp
    with False 1(2) show ?thesis
      by (subst yearFrom.simps) (auto simp: daysBeforeYear_Suc split: prod.splits)
  qed
qed

lemma monthFrom_spec:
  assumes "0 < m" and "m \<le> 12" and "daysBeforeMonth y m + n < yearDays y"
  shows "case monthFrom y m n of (m', d) \<Rightarrow>
    m' \<in> {1..12} \<and> d < daysIn y m' \<and> daysBeforeMonth y m' + d = daysBeforeMonth y m + n"
  using assms
proof (induction y m n rule: monthFrom.induct)
  case (1 y m n)
  have whole: "daysBeforeMonth y 12 + daysIn y 12 = yearDays y"
    by (simp add: daysBeforeMonth_def daysIn_def yearDays_def upt_rec)
  show ?case
  proof (cases "n < daysIn y m")
    case True
    with 1 show ?thesis by (subst monthFrom.simps) simp
  next
    case False
    with 1(2-) whole have m: "m < 12" by (cases "m = 12") auto
    with 1 False have "case monthFrom y (Suc m) (n - daysIn y m) of (m', d) \<Rightarrow>
        m' \<in> {1..12} \<and> d < daysIn y m' \<and>
        daysBeforeMonth y m' + d = daysBeforeMonth y (Suc m) + (n - daysIn y m)"
      by (simp add: daysBeforeMonth_Suc)
    with False m 1(2) show ?thesis
      by (subst monthFrom.simps) (auto simp: daysBeforeMonth_Suc split: prod.splits)
  qed
qed

section \<open>Writing\<close>

definition trimZeros :: "string \<Rightarrow> string" where
  "trimZeros s = rev (dropWhile (\<lambda>c. c = CHR ''0'') (rev s))"

definition fraction :: "nat \<Rightarrow> string" where
  "fraction ns = (if ns = 0 then [] else CHR ''.'' # trimZeros (digitsOf 9 ns))"

text \<open>\<open>t.UTC().Format(time.RFC3339Nano)\<close>, for a time that is not before the zero time.\<close>

definition formatRFC3339Nano :: "int \<Rightarrow> string" where
  "formatRFC3339Nano t = (let
       secs = t div second;
       (y, yd) = yearFrom 1 (nat (secs div 86400));
       (m, d) = monthFrom y 1 yd;
       s = nat (secs mod 86400) in
     digitsOf 4 y @ ''-'' @ digitsOf 2 m @ ''-'' @ digitsOf 2 (Suc d) @ ''T'' @
     digitsOf 2 (s div 3600) @ '':'' @ digitsOf 2 (s div 60 mod 60) @ '':'' @ digitsOf 2 (s mod 60) @
     fraction (nat (t mod second)) @ ''Z'')"

section \<open>Reading\<close>

definition digitOf :: "char \<Rightarrow> nat option" where
  "digitOf c = (let n = of_char c in if 48 \<le> n \<and> n \<le> 57 then Some (n - 48) else None)"

definition isDigit :: "char \<Rightarrow> bool" where "isDigit c \<longleftrightarrow> digitOf c \<noteq> None"

definition number :: "string \<Rightarrow> nat" where
  "number s = fold (\<lambda>c n. 10 * n + (case digitOf c of None \<Rightarrow> 0 | Some d \<Rightarrow> d)) s 0"

text \<open>\<open>w\<close> digits; a literal; the hour, which may have a single digit.\<close>

definition fixedNumber :: "nat \<Rightarrow> string \<Rightarrow> (nat \<times> string) option" where
  "fixedNumber w s = (if w \<le> length s \<and> list_all isDigit (take w s) then Some (number (take w s), drop w s) else None)"

definition looseNumber :: "string \<Rightarrow> (nat \<times> string) option" where
  "looseNumber s = (case fixedNumber 2 s of Some r \<Rightarrow> Some r | None \<Rightarrow> fixedNumber 1 s)"

fun literal :: "char \<Rightarrow> string \<Rightarrow> string option" where
  "literal c [] = None"
| "literal c (x # s) = (if x = c then Some s else None)"

text \<open>Go takes a comma as well as a point and ignores digits beyond the nanosecond.\<close>

fun readFraction :: "string \<Rightarrow> nat \<times> string" where
  "readFraction (p # c # s) =
     (if (p = CHR ''.'' \<or> p = CHR '','') \<and> isDigit c
      then (let ds = takeWhile isDigit (c # s); used = take 9 ds
            in (number used * 10 ^ (9 - length used), dropWhile isDigit (c # s)))
      else (0, p # c # s))"
| "readFraction s = (0, s)"

text \<open>The offset of the zone in seconds.\<close>

fun readZone :: "string \<Rightarrow> int option" where
  "readZone s =
     (if s = ''Z'' then Some 0
      else (case s of
         sign # rest \<Rightarrow> do {
           (h, r) \<leftarrow> fixedNumber 2 rest;
           r \<leftarrow> literal (CHR '':'') r;
           (m, r) \<leftarrow> fixedNumber 2 r;
           (if r \<noteq> [] \<or> h > 24 \<or> m > 60 then None
            else if sign = CHR ''+'' then Some (int (h * 60 + m) * 60)
            else if sign = CHR ''-'' then Some (- int (h * 60 + m) * 60)
            else None)
         }
       | [] \<Rightarrow> None))"

definition parseRFC3339 :: "string \<Rightarrow> int option" where
  "parseRFC3339 s = do {
     (y, s) \<leftarrow> fixedNumber 4 s;
     s \<leftarrow> literal (CHR ''-'') s;
     (m, s) \<leftarrow> fixedNumber 2 s;
     s \<leftarrow> literal (CHR ''-'') s;
     (d, s) \<leftarrow> fixedNumber 2 s;
     s \<leftarrow> literal (CHR ''T'') s;
     (hh, s) \<leftarrow> looseNumber s;
     s \<leftarrow> literal (CHR '':'') s;
     (mm, s) \<leftarrow> fixedNumber 2 s;
     s \<leftarrow> literal (CHR '':'') s;
     (ss, s) \<leftarrow> fixedNumber 2 s;
     (let (ns, s) = readFraction s in do {
       offset \<leftarrow> readZone s;
       (if m < 1 \<or> m > 12 \<or> d < 1 \<or> d > daysIn y m \<or> hh \<ge> 24 \<or> mm \<ge> 60 \<or> ss \<ge> 60 then None
        else Some (((daysBeforeYear y + int (daysBeforeMonth y m + d - 1)) * 86400 +
                    int (hh * 3600 + mm * 60 + ss) - offset) * second + int ns))
     })
   }"

section \<open>What was written is read back\<close>

lemma digitOf_char [simp]: "x < 10 \<Longrightarrow> digitOf (char_of (48 + x)) = Some x"
  by (simp add: digitOf_def)

lemma digitsOf_digits: "length (digitsOf w n) = w" "list_all isDigit (digitsOf w n)"
  by (induction w n rule: digitsOf.induct) (simp_all add: isDigit_def)

lemma number_start: "fold (\<lambda>c n. 10 * n + f c) s k = k * 10 ^ length s + fold (\<lambda>c n. 10 * n + f c) s (0 :: nat)"
proof (induction s arbitrary: k)
  case (Cons c s)
  show ?case
    using Cons[of "10 * k + f c"] Cons[of "f c"] by (simp add: algebra_simps)
qed simp

lemma number_append: "number (a @ b) = number a * 10 ^ length b + number b"
  unfolding number_def fold_append comp_apply by (rule number_start)

lemma number_digitsOf: "number (digitsOf w n) = n mod 10 ^ w"
proof (induction w n rule: digitsOf.induct)
  case (2 p v)
  have "v mod 10 ^ Suc p = v mod 10 + 10 * (v div 10 mod 10 ^ p)" by (simp add: mod_mult2_eq)
  with 2 show ?case by (simp add: number_append) (simp add: number_def)
qed (simp add: number_def)

lemma fixed_digitsOf: "n < 10 ^ w \<Longrightarrow> fixedNumber w (digitsOf w n @ s) = Some (n, s)"
  by (simp add: fixedNumber_def digitsOf_digits number_digitsOf)

lemma loose_digitsOf: "n < 100 \<Longrightarrow> looseNumber (digitsOf 2 n @ s) = Some (n, s)"
  by (simp add: looseNumber_def fixed_digitsOf)

lemma trimZeros_split: "\<exists>k. s = trimZeros s @ replicate k (CHR ''0'')"
proof -
  have "rev s = takeWhile (\<lambda>c. c = CHR ''0'') (rev s) @ rev (trimZeros s)"
    by (simp add: trimZeros_def)
  then have "s = trimZeros s @ rev (takeWhile (\<lambda>c. c = CHR ''0'') (rev s))"
    by (metis rev_append rev_rev_ident)
  moreover have "rev (takeWhile (\<lambda>c. c = CHR ''0'') (rev s)) =
      replicate (length (takeWhile (\<lambda>c. c = CHR ''0'') (rev s))) (CHR ''0'')"
    by (intro replicate_eqI) (auto dest: set_takeWhileD)
  ultimately show ?thesis by metis
qed

lemma number_zeros: "number (replicate k (CHR ''0'')) = 0"
  by (induction k) (simp_all add: number_def digitOf_def)

lemma readFraction_written:
  assumes "ns < 10 ^ 9"
  shows "readFraction (fraction ns @ ''Z'') = (ns, ''Z'')"
proof (cases "ns = 0")
  case False
  let ?d = "trimZeros (digitsOf 9 ns)"
  obtain k where k: "digitsOf 9 ns = ?d @ replicate k (CHR ''0'')" using trimZeros_split by blast
  have amount: "number ?d * 10 ^ k = ns" and long: "length ?d + k = 9" and digits: "list_all isDigit ?d"
    using number_digitsOf[of 9 ns] digitsOf_digits[of 9 ns] assms arg_cong[OF k, of number] arg_cong[OF k, of length]
      arg_cong[OF k, of "list_all isDigit"]
    by (simp_all add: number_append number_zeros)
  from amount False have "?d \<noteq> []" by (auto simp: number_def)
  then obtain c r where d: "?d = c # r" by (cases ?d) auto
  have "9 - length ?d = k" and "take 9 ?d = ?d" using long by auto
  then have "readFraction (CHR ''.'' # ?d @ ''Z'') = (number ?d * 10 ^ k, ''Z'')"
    using digits d by (simp add: isDigit_def digitOf_def list_all_iff takeWhile_append dropWhile_append Let_def)
  then show ?thesis using amount False by (simp add: fraction_def)
qed (simp add: fraction_def)

lemma daysBeforeYear_mono: "0 < a \<Longrightarrow> a \<le> b \<Longrightarrow> daysBeforeYear a \<le> daysBeforeYear b"
proof (induction b)
  case (Suc b)
  then show ?case by (cases "a = Suc b") (auto simp: daysBeforeYear_Suc intro: order_trans)
qed simp

definition farthestTime :: int where "farthestTime = daysBeforeYear 10000 * 86400 * second"

lemma clock_parts:
  fixes s :: nat
  assumes "s < 86400"
  shows "s div 3600 < 24" "s div 60 mod 60 < 60" "s mod 60 < 60"
    and "s div 3600 * 3600 + s div 60 mod 60 * 60 + s mod 60 = s"
proof -
  have hours: "s div 3600 = s div 60 div 60" by (simp add: div_mult2_eq[symmetric])
  have "s div 60 div 60 * 60 + s div 60 mod 60 = s div 60" by (rule div_mult_mod_eq)
  moreover have "s div 60 * 60 + s mod 60 = s" by (rule div_mult_mod_eq)
  ultimately show "s div 3600 * 3600 + s div 60 mod 60 * 60 + s mod 60 = s" unfolding hours by linarith
  show "s div 3600 < 24" using assms by (simp add: div_less_iff_less_mult)
qed simp_all

lemma time_parts: "t = ((t div second div 86400) * 86400 + t div second mod 86400) * second + t mod second"
  by simp

lemma parse_format:
  assumes "0 \<le> t" and "t < farthestTime"
  shows "parseRFC3339 (formatRFC3339Nano t) = Some t"
proof -
  define days where "days = nat (t div second div 86400)"
  define clock where "clock = nat (t div second mod 86400)"
  obtain y yd where y: "yearFrom 1 days = (y, yd)" by (cases "yearFrom 1 days")
  obtain m d where m: "monthFrom y 1 yd = (m, d)" by (cases "monthFrom y 1 yd")
  have pos: "0 \<le> t div second" using assms(1) by (simp add: second_def pos_imp_zdiv_nonneg_iff)
  have date: "1 \<le> y" "yd < yearDays y" "daysBeforeYear y + int yd = int days"
    using yearFrom_spec[of 1 days] y daysBeforeYear_def[of 1] by simp_all
  have month: "1 \<le> m" "m \<le> 12" "d < daysIn y m" "daysBeforeMonth y m + d = yd"
    using monthFrom_spec[of 1 y yd] m date(2) daysBeforeMonth_def[of y 1] by simp_all
  have whole: "int days = t div second div 86400" "int clock = t div second mod 86400"
    using pos by (simp_all add: days_def clock_def)
  have "t div second div 86400 < daysBeforeYear 10000"
    using assms(2) by (simp add: farthestTime_def second_def div_less_iff_less_mult mult.assoc)
  then have "y < 10000"
    using daysBeforeYear_mono[of 10000 y] date(3) whole(1) by (cases "10000 \<le> y") auto
  moreover have "clock < 86400" using whole(2) by (simp add: nat_less_iff clock_def)
  moreover have "d + 1 < 100" using month(3) by (auto simp: daysIn_def split: if_splits)
  moreover have "nat (t mod second) < 10 ^ 9" by (simp add: second_def)
  moreover have "0 \<le> t mod second" by (simp add: second_def)
  moreover have "(daysBeforeYear y * 86400 + int yd * 86400 + int clock) * second + t mod second = t"
    using time_parts[of t] unfolding whole(2) whole(1)[symmetric] date(3)[symmetric] by (simp add: algebra_simps)
  moreover have "clock div 60 mod 60 < 60" "clock mod 60 < 60" by simp_all
  ultimately show ?thesis
    using y m month clock_parts[of clock]
    by (simp add: formatRFC3339Nano_def days_def[symmetric] clock_def[symmetric] Let_def)
       (simp add: parseRFC3339_def fixed_digitsOf loose_digitsOf readFraction_written not_le)
qed

end
