(* ===== verification/ApiTokens.thy ===== *)
theory ApiTokens
  imports InstanceAccess UnleashResources Utilities Timestamps "HOL-Library.Multiset"
begin

text \<open>
  The \<open>ApiToken\<close> resource (\<open>api/v1/apitoken_types.go\<close>), how it compares with the tokens a server
  knows, and the secret a token is handed out in (\<open>internal/resources/apitoken.go\<close>).
\<close>

section \<open>The resource\<close>

record token_spec =
  tsApiVersion :: string
  tsKind :: string
  tsInstance :: string
  tsSecretName :: string
  tsType :: string
  tsEnvironment :: string
  tsProjects :: "string list"

record token_status =
  tkConditions :: "condition list"
  tkCreated :: bool
  tkFailed :: bool

record token_resource =
  tkMeta :: object_meta
  tkSpec :: token_spec
  tkStatus :: token_status

abbreviation tkName :: "token_resource \<Rightarrow> string" where "tkName t \<equiv> mName (tkMeta t)"
abbreviation tkNamespace :: "token_resource \<Rightarrow> string" where "tkNamespace t \<equiv> mNamespace (tkMeta t)"

definition tokenKey :: "token_resource \<Rightarrow> nsname" where
  "tokenKey t = (tkNamespace t, tkName t)"

definition ApiTokenName :: "token_resource \<Rightarrow> string \<Rightarrow> string" where
  "ApiTokenName t suffix = tkName t @ ''-'' @ suffix"

text \<open>The first character of the version decides, after an optional \<open>v\<close>.\<close>

definition isV7OrHigher :: "string \<Rightarrow> bool" where
  "isV7OrHigher version =
     (if version = [] \<or> version = ''unknown'' then False
      else (let version = (if hasPrefix version ''v'' then tl version else version);
                major = takeWhile (\<lambda>c. c \<noteq> CHR ''.'') version in
        major \<noteq> [] \<and> of_char (hd major) \<ge> (55 :: nat)))"

definition ApiTokenRequest :: "token_resource \<Rightarrow> string \<Rightarrow> string \<Rightarrow> api_token_request" where
  "ApiTokenRequest t suffix version = (let name = ApiTokenName t suffix; sp = tkSpec t in
     \<lparr>trUsername = name, trTokenName = (if isV7OrHigher version then name else []), trType = tsType sp,
      trEnvironment = tsEnvironment sp, trProjects = tsProjects sp\<rparr>)"

definition IsEqual :: "token_resource \<Rightarrow> api_token \<Rightarrow> bool" where
  "IsEqual t token \<longleftrightarrow> equalFold (tsType (tkSpec t)) (atType token) \<and>
     tsEnvironment (tkSpec t) = atEnvironment token \<and> StringSliceEquals (tsProjects (tkSpec t)) (atProjects token)"

definition tokenDiff :: "token_resource \<Rightarrow> api_token \<Rightarrow> string" where
  "tokenDiff t token = (let sp = tkSpec t in join '', ''
     ((if \<not> equalFold (tsType sp) (atType token) then [''Type: '' @ tsType sp @ '' -> '' @ atType token] else []) @
      (if tsEnvironment sp \<noteq> atEnvironment token
       then [''Environment: '' @ tsEnvironment sp @ '' -> '' @ atEnvironment token] else []) @
      (if \<not> StringSliceEquals (tsProjects sp) (atProjects token)
       then [''Projects: '' @ showStrings (tsProjects sp) @ '' -> '' @ showStrings (atProjects token)] else [])))"

fun ExistsInList :: "token_resource \<Rightarrow> api_token list \<Rightarrow> api_token option" where
  "ExistsInList t [] = None"
| "ExistsInList t (token # tokens) = (if IsEqual t token then Some token else ExistsInList t tokens)"

section \<open>The secret\<close>

definition ApiTokenSecretTokenEnv :: string where "ApiTokenSecretTokenEnv = ''UNLEASH_SERVER_API_TOKEN''"
definition ApiTokenSecretServerEnv :: string where "ApiTokenSecretServerEnv = ''UNLEASH_SERVER_API_URL''"
definition ApiTokenSecretEnvEnv :: string where "ApiTokenSecretEnvEnv = ''UNLEASH_SERVER_API_ENV''"
definition ApiTokenSecretTypeEnv :: string where "ApiTokenSecretTypeEnv = ''UNLEASH_SERVER_API_TYPE''"
definition ApiTokenSecretProjectsEnv :: string where "ApiTokenSecretProjectsEnv = ''UNLEASH_SERVER_API_PROJECTS''"

lemmas token_secret_keys = ApiTokenSecretTokenEnv_def ApiTokenSecretServerEnv_def ApiTokenSecretEnvEnv_def
  ApiTokenSecretTypeEnv_def ApiTokenSecretProjectsEnv_def

definition ApiTokenSecret :: "string \<Rightarrow> token_resource \<Rightarrow> api_token \<Rightarrow> secret" where
  "ApiTokenSecret serverURL t token =
     \<lparr>scMeta = (zeroMeta (tkNamespace t) (tsSecretName (tkSpec t)))\<lparr>
        mAnnotations := [(''reloader.stakater.com/match'', ''true'')]\<rparr>,
      scData =
        [(ApiTokenSecretTokenEnv, atSecret token),
         (ApiTokenSecretServerEnv, serverURL),
         (ApiTokenSecretEnvEnv, tsEnvironment (tkSpec t)),
         (ApiTokenSecretTypeEnv, tsType (tkSpec t)),
         (ApiTokenSecretProjectsEnv, join '','' (tsProjects (tkSpec t)))],
      scStringData = []\<rparr>"

section \<open>Which of the server's tokens to use\<close>

text \<open>A time that does not parse counts as the zero time.\<close>

definition createdAt :: "api_token \<Rightarrow> int" where
  "createdAt token = (case parseRFC3339 (atCreatedAt token) of None \<Rightarrow> 0 | Some t \<Rightarrow> t)"

text \<open>Newest first. \<open>sort.Slice\<close> leaves the order of equally old tokens open; here it is the order
  of the answer.\<close>

definition newestFirst :: "api_token list \<Rightarrow> api_token list" where
  "newestFirst tokens = sort_key (\<lambda>token. - createdAt token) tokens"

text \<open>The loop over the tokens: the one to use and those to delete.\<close>

fun chooseTokens :: "bool \<Rightarrow> token_resource \<Rightarrow> api_token list \<Rightarrow> api_token option \<Rightarrow> api_token list \<Rightarrow> api_token option \<times> api_token list" where
  "chooseTokens update t [] found outdated = (found, outdated)"
| "chooseTokens update t (token # tokens) found outdated =
     (if IsEqual t token \<and> found = None then chooseTokens update t tokens (Some token) outdated
      else if \<not> update
      then chooseTokens update t tokens (if found = None then Some token else found) outdated
      else chooseTokens update t tokens found (outdated @ [token]))"

text \<open>With updates the newest matching token is kept and every other one is outdated; without
  updates the newest token is kept whatever it is, and none is outdated.\<close>

lemma chooseTokens_disabled:
  "chooseTokens False t tokens found outdated =
     (case found of Some x \<Rightarrow> Some x | None \<Rightarrow> if tokens = [] then None else Some (hd tokens), outdated)"
  by (induction tokens arbitrary: found) (auto split: option.split)


lemma newestFirst_set [simp]: "set (newestFirst tokens) = set tokens" "length (newestFirst tokens) = length tokens"
  by (simp_all add: newestFirst_def)




text \<open>Without updates the newest token is used even when an older one matches.\<close>

lemma stale_token_kept:
  "let token = (\<lambda>ty at. \<lparr>atSecret = ty, atTokenName = ''t'', atUsername = ''t'', atType = ty, atEnvironment = ''e'',
                  atProjects = [], atCreatedAt = at\<rparr>);
       wrong = token ''frontend'' ''2024-02-01T00:00:00Z''; right = token ''client'' ''2024-01-01T00:00:00Z''
   in IsEqual t right \<longrightarrow> chooseTokens False t [wrong, right] None [] = (Some wrong, [])"
  by (simp add: chooseTokens_disabled)

end
