(* ===== verification/ApiTokenController.thy ===== *)
theory ApiTokenController
  imports ApiTokens
begin

text \<open>
  The ApiToken controller (\<open>internal/controller/apitoken_controller.go\<close>): it keeps one token of the
  right type, environment and projects on the Unleash server and its secret in the cluster.
\<close>

section \<open>Surroundings\<close>

datatype token_call =
    OnToken "token_resource request"
  | OnTokenUnleash "unleash request"
  | OnTokenRemote "remote_unleash request"
  | OnTokenSecret "secret request"
  | OnTokenHttp http_call
  | TokenClock int
  | TokenJitter int
  | TokenEvent string string string \<comment> \<open>type, reason, message\<close>
  | SetTokenGauge nsname string bool \<comment> \<open>condition\<close>
  | SetTokenWaiting nsname bool
  | SetExistingTokens nsname string int
  | CountTokenCreated nsname
  | CountTokenDeleted nsname
  | DropTokenGauges nsname

type_synonym 'a token_action = "(token_call, 'a) program"

record 'v token_env = "'v apimachinery" +
  kTokens :: "(token_call, token_resource) kind"
  kUnleashes :: "(token_call, unleash) kind"
  kRemotes :: "(token_call, remote_unleash) kind"
  kSecrets :: "(token_call, secret) kind"
  kWeb :: "token_call web"
  kControllerRef :: controller_ref
  kRemoveCondition :: "condition list \<Rightarrow> string \<Rightarrow> condition list" \<comment> \<open>\<open>meta.RemoveStatusCondition\<close>\<close>
  kNow :: "token_call list \<Rightarrow> int"
  kInt63n :: "token_call list \<Rightarrow> int \<Rightarrow> int"
  kOperatorNamespace :: string
  kNameSuffix :: string
  kUpdateEnabled :: bool
  kLegacySecrets :: bool
  kRetries :: nat

abbreviation fetchToken :: "'v token_env \<Rightarrow> nsname \<Rightarrow> (go_error + token_resource) token_action" where
  "fetchToken E k \<equiv> getObject (kTokens E) OnToken k"

abbreviation writeToken :: "'v token_env \<Rightarrow> token_resource \<Rightarrow> (go_error + token_resource) token_action" where
  "writeToken E t \<equiv> updateObject (kTokens E) OnToken t"

abbreviation writeTokenStatus :: "'v token_env \<Rightarrow> token_resource \<Rightarrow> (go_error + token_resource) token_action" where
  "writeTokenStatus E t \<equiv> updateStatusOf (kTokens E) OnToken t"

definition tokenFinalizer :: string where "tokenFinalizer = ''unleash.nais.io/finalizer''"
definition apiTokenFinalizerCleanupDeadline :: int where "apiTokenFinalizerCleanupDeadline = 24 * hour"
definition apiTokenRequeueAfter :: int where "apiTokenRequeueAfter = hour"
definition apiTokenMissingInstanceRequeueAfter :: int where "apiTokenMissingInstanceRequeueAfter = 10 * minute"
definition apiTokenMissingInstanceRequeueJitter :: int where "apiTokenMissingInstanceRequeueJitter = 2 * minute"

definition ConditionCreated :: string where "ConditionCreated = ''Created''"
definition ConditionFailed :: string where "ConditionFailed = ''Failed''"
definition ConditionDeleted :: string where "ConditionDeleted = ''Deleted''"

section \<open>Status\<close>

definition tokenCondition :: "'v token_env \<Rightarrow> condition \<Rightarrow> token_resource \<Rightarrow> token_resource" where
  "tokenCondition E c t = tkStatus_update (\<lambda>st. st\<lparr>tkConditions := setStatusCondition E (tkConditions st) c\<rparr>) t"

definition changeTokenStatus ::
  "'v token_env \<Rightarrow> nsname \<Rightarrow> (token_resource \<Rightarrow> token_resource) \<Rightarrow> token_resource \<Rightarrow>
   (go_error option \<times> token_resource) token_action" where
  "changeTokenStatus E k change t = onFresh (kRetries E) (fetchToken E k)
     (\<lambda>fresh. putBack (change fresh) (writeTokenStatus E (change fresh))) t"

definition succeeded :: "'v token_env \<Rightarrow> token_resource \<Rightarrow> token_resource" where
  "succeeded E t = tkStatus_update (\<lambda>st. st\<lparr>tkCreated := True, tkFailed := False\<rparr>)
     (tokenCondition E (newCondition ConditionCreated ConditionTrue ''Reconciling'' ''API token successfully created'')
       (tkStatus_update (\<lambda>st. st\<lparr>tkConditions := kRemoveCondition E (tkConditions st) ConditionFailed\<rparr>) t))"

definition tokenStatusSuccess :: "'v token_env \<Rightarrow> token_resource \<Rightarrow> (go_error option \<times> token_resource) token_action" where
  "tokenStatusSuccess E t = do {
     _ \<leftarrow> emit (SetTokenGauge (tokenKey t) ConditionCreated True);
     _ \<leftarrow> emit (SetTokenGauge (tokenKey t) ConditionFailed False);
     changeTokenStatus E (tokenKey t) (succeeded E) t
   }"

definition failed :: "'v token_env \<Rightarrow> string \<Rightarrow> string \<Rightarrow> token_resource \<Rightarrow> token_resource" where
  "failed E reason m t = tkStatus_update (\<lambda>st. st\<lparr>tkFailed := True\<rparr>)
     (tokenCondition E (newCondition ConditionFailed ConditionTrue reason m) t)"

definition setStatusFailed ::
  "'v token_env \<Rightarrow> token_resource \<Rightarrow> string \<Rightarrow> string \<Rightarrow> (go_error option \<times> token_resource) token_action" where
  "setStatusFailed E t reason m = do {
     _ \<leftarrow> emit (SetTokenGauge (tokenKey t) ConditionFailed True);
     changeTokenStatus E (tokenKey t) (failed E reason m) t
   }"

text \<open>\<open>updateStatusFailed\<close> followed by the return of the original error.\<close>

definition tokenFails :: "'v token_env \<Rightarrow> token_resource \<Rightarrow> string \<Rightarrow> string \<Rightarrow> go_error \<Rightarrow> outcome token_action" where
  "tokenFails E t reason m e =
     onFailure (setStatusFailed E t reason m) (\<lambda>e' t. failWith e') (\<lambda>t. failWith e)"

section \<open>The instance\<close>

datatype token_instance = LocalInstance unleash | RemoteInstance remote_unleash

definition groupVersion :: string where "groupVersion = ''unleash.nais.io/v1''"

definition getUnleashInstance :: "'v token_env \<Rightarrow> token_resource \<Rightarrow> (go_error + token_instance) token_action" where
  "getUnleashInstance E t = (let sp = tkSpec t; k = (tkNamespace t, tsInstance sp) in
     if tsApiVersion sp \<noteq> groupVersion then ret (Inl (errorf (''unsupported api version: '' @ tsApiVersion sp)))
     else if tsKind sp = ''Unleash'' then do {
       r \<leftarrow> getObject (kUnleashes E) OnTokenUnleash k;
       ret (map_sum id LocalInstance r)
     }
     else if tsKind sp = ''RemoteUnleash'' then do {
       r \<leftarrow> getObject (kRemotes E) OnTokenRemote k;
       ret (map_sum id RemoteInstance r)
     }
     else ret (Inl (errorf (''unsupported api kind: '' @ tsKind sp))))"

fun instanceIsReady :: "token_instance \<Rightarrow> bool" where
  "instanceIsReady (LocalInstance u) = unleashIsReady u"
| "instanceIsReady (RemoteInstance r) = remoteIsReady r"

fun instanceURL :: "token_instance \<Rightarrow> string" where
  "instanceURL (LocalInstance u) = unleashURL u"
| "instanceURL (RemoteInstance r) = ruURL r"

fun instanceVersion :: "token_instance \<Rightarrow> string" where
  "instanceVersion (LocalInstance u) = utVersion (uStatus u)"
| "instanceVersion (RemoteInstance r) = rtVersion (ruStatus r)"

fun tokenApiClient :: "'v token_env \<Rightarrow> token_instance \<Rightarrow> (go_error + http_client) token_action" where
  "tokenApiClient E (LocalInstance u) = ApiClient (kSecrets E) OnTokenSecret (kWeb E) (kOperatorNamespace E) u"
| "tokenApiClient E (RemoteInstance r) =
     validatedRemoteUnleashAPIClient (kSecrets E) OnTokenSecret (kWeb E) (kOperatorNamespace E) (kLegacySecrets E) r"

section \<open>Cleaning up\<close>

definition cleanupErrorStatusCode :: "go_error \<Rightarrow> int" where
  "cleanupErrorStatusCode e = (case errorKind e of ApiStatus n m raw \<Rightarrow> n | _ \<Rightarrow> 0)"

definition isTerminalTokenCleanupError :: "go_error \<Rightarrow> bool" where
  "isTerminalTokenCleanupError e \<longleftrightarrow> cleanupErrorStatusCode e \<in> {404, 405}"

fun deleteTokens :: "'v token_env \<Rightarrow> http_client \<Rightarrow> api_token list \<Rightarrow> go_error option token_action" where
  "deleteTokens E c [] = ret None"
| "deleteTokens E c (token # tokens) = do {
     err \<leftarrow> DeleteApiToken (kWeb E) OnTokenHttp c (atSecret token);
     (case err of
        Some e \<Rightarrow>
          if isTerminalTokenCleanupError e then ret None
          else ret (Some (wrapf (''deleting ApiToken '' @ atTokenName token @ '' from Unleash'') e))
      | None \<Rightarrow> deleteTokens E c tokens)
   }"

definition doFinalizerOperationsForToken ::
  "'v token_env \<Rightarrow> token_resource \<Rightarrow> http_client \<Rightarrow> go_error option token_action" where
  "doFinalizerOperationsForToken E t c = (let name = ApiTokenName t (kNameSuffix E) in
     onError (GetAPITokensByName (kWeb E) OnTokenHttp c name)
       (\<lambda>e. ret (if isTerminalTokenCleanupError e then None
                 else Some (wrapf (''getting ApiToken '' @ name @ '' from Unleash'') e)))
       (deleteTokens E c))"

definition cleanupTokenInUnleash :: "'v token_env \<Rightarrow> token_resource \<Rightarrow> go_error option token_action" where
  "cleanupTokenInUnleash E t = onError (getUnleashInstance E t)
     (\<lambda>e. ret (if isNotFound e then None else Some (wrapf ''getting Unleash instance for token cleanup'' e)))
     (\<lambda>i. if \<not> instanceIsReady i then ret (Some (errorf ''unleash instance not ready for token cleanup''))
          else onError (tokenApiClient E i)
            (\<lambda>e. ret (if isNotFound e then None else Some (wrapf ''creating Unleash client for token cleanup'' e)))
            (doFinalizerOperationsForToken E t))"

definition hasTokenFinalizer :: "'v token_env \<Rightarrow> token_resource \<Rightarrow> bool" where
  "hasTokenFinalizer E t = containsFinalizer E (mFinalizers (tkMeta t)) tokenFinalizer"

definition removeTokenFinalizer :: "'v token_env \<Rightarrow> nsname \<Rightarrow> token_resource \<Rightarrow> (go_error option \<times> token_resource) token_action" where
  "removeTokenFinalizer E k t = onFresh (kRetries E) (fetchToken E k) (\<lambda>fresh.
     if \<not> hasTokenFinalizer E fresh then ret (None, fresh)
     else (let freed = tkMeta_update (\<lambda>m. m\<lparr>mFinalizers := removeFinalizer E (mFinalizers m) tokenFinalizer\<rparr>) fresh
           in putBack freed (writeToken E freed))) t"

text \<open>The failure of the status write is dropped, the variable keeps what it holds.\<close>

definition releaseToken :: "'v token_env \<Rightarrow> nsname \<Rightarrow> token_resource \<Rightarrow> outcome token_action" where
  "releaseToken E k t = do {
     (_, t) \<leftarrow> changeTokenStatus E k (tokenCondition E (newCondition ConditionDeleted ConditionUnknown ''Finalizing''
                 ''Performing finalizer operations'')) t;
     onFailure (removeTokenFinalizer E k t) (\<lambda>e t. failWith e) (\<lambda>t. ret (resultZero, None))
   }"

definition finalizeToken :: "'v token_env \<Rightarrow> nsname \<Rightarrow> token_resource \<Rightarrow> int \<Rightarrow> outcome token_action" where
  "finalizeToken E k t deleted =
     (if \<not> hasTokenFinalizer E t then ret (resultZero, None)
      else do {
        err \<leftarrow> cleanupTokenInUnleash E t;
        (case err of
           None \<Rightarrow> releaseToken E k t
         | Some e \<Rightarrow> do {
             now \<leftarrow> perform (kNow E) TokenClock;
             (if since now deleted < apiTokenFinalizerCleanupDeadline then failWith e
              else do {
                _ \<leftarrow> emit (TokenEvent ''Warning'' ''TokenCleanupDeadlineExceeded''
                       ''Proceeding with deletion after the token cleanup deadline elapsed'');
                releaseToken E k t
              })
           })
      })"

section \<open>Creating a token\<close>

fun apiErrorOf :: "error_kind \<Rightarrow> api_error option" where
  "apiErrorOf (ApiStatus n m raw) = Some \<lparr>aeStatusCode = n, aeMessage = m, aeRawBody = raw\<rparr>"
| "apiErrorOf _ = None"

text \<open>Reason and message of a failed creation.\<close>

definition creationFailure :: "string \<Rightarrow> go_error \<Rightarrow> string \<times> string" where
  "creationFailure version e =
     (case apiErrorOf (errorKind e) of
        None \<Rightarrow> (''TokenCreationFailed'', ''Failed to create token in Unleash'')
      | Some a \<Rightarrow>
          if isV7CompatibilityIssue a then
            (''TokenCreationV7Incompatible'',
             if version \<noteq> []
             then ''Failed to create token: Unleash '' @ version @ '' API compatibility issue. '' @ aeMessage a
             else ''Failed to create token: Unleash v7+ API compatibility issue. '' @ aeMessage a)
          else (''TokenCreationFailed'',
                ''Failed to create token in Unleash (HTTP '' @ showInt (aeStatusCode a) @ ''): '' @ aeMessage a))"

definition createToken ::
  "'v token_env \<Rightarrow> token_resource \<Rightarrow> token_instance \<Rightarrow> http_client \<Rightarrow> (go_error + api_token) token_action" where
  "createToken E t i c = do {
     _ \<leftarrow> emit (CountTokenCreated (tokenKey t));
     CreateAPIToken (kWeb E) OnTokenHttp c (ApiTokenRequest t (kNameSuffix E) (instanceVersion i))
   }"

section \<open>Writing the secret\<close>

definition writeTokenSecret ::
  "'v token_env \<Rightarrow> token_resource \<Rightarrow> token_instance \<Rightarrow> api_token \<Rightarrow> outcome token_action \<Rightarrow> outcome token_action" where
  "writeTokenSecret E t i token next = (let s = ApiTokenSecret (instanceURL i) t token in
     (case kControllerRef E (tkMeta t) (scMeta s) of
        Inl e \<Rightarrow> failWith e
      | Inr owned \<Rightarrow> (let s = s\<lparr>scMeta := owned\<rparr> in
          onError (updateObject (kSecrets E) OnTokenSecret s)
            (\<lambda>e. if \<not> isNotFound e then tokenFails E t ''TokenSecretFailed'' ''Failed to update existing token secret'' e
                 else onError (createObject (kSecrets E) OnTokenSecret s)
                   (\<lambda>e. tokenFails E t ''TokenSecretFailed'' ''Failed to create new token secret'' e) (\<lambda>_. next))
            (\<lambda>_. next))))"

section \<open>Collecting outdated tokens\<close>

fun collectOutdated ::
  "'v token_env \<Rightarrow> token_resource \<Rightarrow> http_client \<Rightarrow> api_token list \<Rightarrow> outcome token_action \<Rightarrow> outcome token_action" where
  "collectOutdated E t c [] next = next"
| "collectOutdated E t c (token # tokens) next = do {
     _ \<leftarrow> emit (CountTokenDeleted (tokenKey t));
     err \<leftarrow> DeleteApiToken (kWeb E) OnTokenHttp c (atSecret token);
     (case err of
        Some e \<Rightarrow> tokenFails E t ''TokenUpdateFailed'' ''Failed to delete old token in Unleash'' e
      | None \<Rightarrow> collectOutdated E t c tokens next)
   }"

section \<open>Reconcile\<close>

definition initializeToken :: "'v token_env \<Rightarrow> nsname \<Rightarrow> token_resource \<Rightarrow> (go_error + token_resource) token_action" where
  "initializeToken E k t = ensured (kRetries E) (fetchToken E k) (\<lambda>t. tkConditions (tkStatus t) \<noteq> [])
     (tokenCondition E (newCondition ConditionCreated ConditionUnknown ''Reconciling'' ''Starting reconciliation''))
     (writeTokenStatus E) t"

definition claimToken :: "'v token_env \<Rightarrow> nsname \<Rightarrow> token_resource \<Rightarrow> (go_error + token_resource) token_action" where
  "claimToken E k t = ensured (kRetries E) (fetchToken E k) (hasTokenFinalizer E)
     (tkMeta_update (\<lambda>m. m\<lparr>mFinalizers := addFinalizer E (mFinalizers m) tokenFinalizer\<rparr>)) (writeToken E) t"

definition waitForInstance :: "'v token_env \<Rightarrow> token_resource \<Rightarrow> outcome token_action" where
  "waitForInstance E t = (let
       m = tsKind (tkSpec t) @ '' resource with name '' @ tsInstance (tkSpec t) @ '' not found in namespace '' @ tkNamespace t in
     onFailure (setStatusFailed E t ''UnleashNotFound'' m) (\<lambda>e t. failWith e) (\<lambda>t. do {
       _ \<leftarrow> emit (SetTokenWaiting (tokenKey t) True);
       _ \<leftarrow> emit (TokenEvent ''Warning'' ''UnleashNotFound'' m);
       draw \<leftarrow> perform (\<lambda>l. kInt63n E l (2 * apiTokenMissingInstanceRequeueJitter)) TokenJitter;
       ret (resultAfter (RequeueAfterWithJitter apiTokenMissingInstanceRequeueAfter
              apiTokenMissingInstanceRequeueJitter draw), None)
     }))"

definition finishToken :: "'v token_env \<Rightarrow> token_resource \<Rightarrow> outcome token_action" where
  "finishToken E t = do { (err, t) \<leftarrow> tokenStatusSuccess E t; ret (resultAfter apiTokenRequeueAfter, err) }"

definition applyToken ::
  "'v token_env \<Rightarrow> token_resource \<Rightarrow> token_instance \<Rightarrow> http_client \<Rightarrow> api_token list \<Rightarrow> outcome token_action" where
  "applyToken E t i c tokens = (let
       (found, outdated) = chooseTokens (kUpdateEnabled E) t (newestFirst tokens) None [];
       use = (\<lambda>token. writeTokenSecret E t i token (collectOutdated E t c outdated (finishToken E t))) in do {
     _ \<leftarrow> emit (SetExistingTokens (tokenKey t) (tsEnvironment (tkSpec t)) (int (length tokens)));
     (case found of
        Some token \<Rightarrow> use token
      | None \<Rightarrow> onError (createToken E t i c)
          (\<lambda>e. let (reason, m) = creationFailure (instanceVersion i) e in tokenFails E t reason m e) use)
   })"

definition syncToken :: "'v token_env \<Rightarrow> token_resource \<Rightarrow> token_instance \<Rightarrow> outcome token_action" where
  "syncToken E t i =
     (if \<not> instanceIsReady i
      then tokenFails E t ''UnleashNotReady'' ''Unleash instance not ready'' (errorf ''unleash instance not ready'')
      else onError (tokenApiClient E i)
        (\<lambda>e. if isNotFound e then tokenFails E t ''UnleashSecretNotFound'' ''Unleash secret not found'' e
             else tokenFails E t ''UnleashClientFailed'' ''Failed to create Unleash client'' e)
        (\<lambda>c. onError (GetAPITokensByName (kWeb E) OnTokenHttp c (ApiTokenName t (kNameSuffix E)))
          (\<lambda>e. tokenFails E t ''TokenCheckFailed'' ''Failed to check if token exists in Unleash'' e)
          (applyToken E t i c)))"

definition reconcileToken :: "'v token_env \<Rightarrow> token_resource \<Rightarrow> outcome token_action" where
  "reconcileToken E t = onError (getUnleashInstance E t)
     (\<lambda>e. if isNotFound e then waitForInstance E t else failWith e)
     (\<lambda>i. do { _ \<leftarrow> emit (SetTokenWaiting (tokenKey t) False); syncToken E t i })"

definition ReconcileApiToken :: "'v token_env \<Rightarrow> nsname \<Rightarrow> outcome token_action" where
  "ReconcileApiToken E k = onError (fetchToken E k)
     (\<lambda>e. if isNotFound e then do { _ \<leftarrow> emit (DropTokenGauges k); ret (resultZero, None) } else failWith e)
     (\<lambda>t. onError (initializeToken E k t) failWith (\<lambda>t. onError (claimToken E k t) failWith (\<lambda>t.
        case mDeletionTimestamp (tkMeta t) of
          Some deleted \<Rightarrow> finalizeToken E k t deleted
        | None \<Rightarrow> reconcileToken E t)))"

end
