(* ===== verification/ApiTokenPromises.thy ===== *)
theory ApiTokenPromises
  imports ApiTokenController
begin

text \<open>
  Promises of the ApiToken controller: a working token is never deleted before its replacement
  is in the cluster, and the finalizer waits for the cleanup or for its deadline.
\<close>

section \<open>Calls that delete tokens\<close>

fun deletesToken :: "token_call \<Rightarrow> bool" where
  "deletesToken (OnTokenHttp (HttpCall rq r)) = (rqMethod rq = ''DELETE'')"
| "deletesToken _ = False"








section \<open>Replacement before deletion\<close>

text \<open>A successful write of a secret with the token's environment, type and projects.\<close>

definition carriesToken :: "token_resource \<Rightarrow> secret \<Rightarrow> bool" where
  "carriesToken t s \<longleftrightarrow> (let sp = tkSpec t in
     map_of (scData s) ApiTokenSecretTokenEnv \<noteq> None \<and>
     dictGet (scData s) ApiTokenSecretEnvEnv = tsEnvironment sp \<and>
     dictGet (scData s) ApiTokenSecretTypeEnv = tsType sp \<and>
     dictGet (scData s) ApiTokenSecretProjectsEnv = join '','' (tsProjects sp))"

fun secretWritten :: "token_call \<Rightarrow> secret option" where
  "secretWritten (OnTokenSecret (ObjUpdate s (Inr x))) = Some s"
| "secretWritten (OnTokenSecret (ObjCreate s (Inr x))) = Some s"
| "secretWritten _ = None"

definition tokenStored :: "token_resource \<Rightarrow> token_call \<Rightarrow> bool" where
  "tokenStored t c \<longleftrightarrow> (case secretWritten c of None \<Rightarrow> False | Some s \<Rightarrow> carriesToken t s)"

definition replacedFirst :: "'v token_env \<Rightarrow> token_resource \<Rightarrow> token_call list \<Rightarrow> token_call list \<Rightarrow> token_call \<Rightarrow> bool" where
  "replacedFirst E t l0 h c \<longleftrightarrow>
     (if deletesToken c then kUpdateEnabled E \<and> list_ex (tokenStored t) (drop (length l0) h) else True)"

lemma replaced_spares [simp]: "\<not> deletesToken c \<Longrightarrow> replacedFirst E t l0 h c"
  by (simp add: replacedFirst_def)









text \<open>When the server answers one deletion with 404 or 405 the cleanup ends there, and the tokens
  behind it stay.\<close>

lemma cleanup_stops_early:
  assumes "result (DeleteApiToken (kWeb E) OnTokenHttp c (atSecret token)) l = Some e" and "isTerminalTokenCleanupError e"
  shows "run_state (deleteTokens E c (token # tokens)) l =
    (None, snd (run_state (DeleteApiToken (kWeb E) OnTokenHttp c (atSecret token)) l))"
  using assms by (auto simp: result_def split: prod.splits)

section \<open>The finalizer\<close>

fun tokenAnswer :: "token_call \<Rightarrow> token_resource option" where
  "tokenAnswer (OnToken (ObjGet k (Inr t))) = Some t"
| "tokenAnswer _ = None"

fun deadlinePassed :: "int \<Rightarrow> token_call \<Rightarrow> bool" where
  "deadlinePassed deleted (TokenClock now) = (apiTokenFinalizerCleanupDeadline \<le> since now deleted)"
| "deadlinePassed deleted _ = False"

definition withoutFinalizer :: "'v token_env \<Rightarrow> token_resource \<Rightarrow> token_resource" where
  "withoutFinalizer E t = tkMeta_update (\<lambda>m. m\<lparr>mFinalizers := removeFinalizer E (mFinalizers m) tokenFinalizer\<rparr>) t"

definition releasesTimely ::
  "'v token_env \<Rightarrow> token_resource \<Rightarrow> int \<Rightarrow> token_call list \<Rightarrow> token_call list \<Rightarrow> token_call \<Rightarrow> bool" where
  "releasesTimely E t deleted l0 h c \<longleftrightarrow>
     (case c of
        OnToken (ObjUpdate p r) \<Rightarrow>
          map_option (withoutFinalizer E) (latestOf tokenAnswer h) = Some p \<and>
          (result (cleanupTokenInUnleash E t) l0 = None \<or> list_ex (deadlinePassed deleted) (drop (length l0) h))
      | _ \<Rightarrow> True)"

fun updatesToken :: "token_call \<Rightarrow> bool" where
  "updatesToken (OnToken (ObjUpdate p r)) = True"
| "updatesToken _ = False"

lemma timely_other [simp]: "\<not> updatesToken c \<Longrightarrow> releasesTimely E t deleted l0 h c"
  by (cases c rule: updatesToken.cases) (simp_all add: releasesTimely_def)

lemma cleanup_issues: "issues (\<lambda>c. \<not> updatesToken c) (cleanupTokenInUnleash E t)"
proof -
  have transport: "issues (\<lambda>c. \<not> updatesToken c) (newTransport W OnTokenHttp rq)" for W rq
    unfolding newTransport_def redactingTransport_def otelTransport_def restoringTransport_def baseTransport_def
    by (intro issues_intros) simp_all
  have "issues (\<lambda>c. \<not> updatesToken c) (deleteTokens E c tokens)" for c tokens
    by (induction tokens) (auto intro!: issues_intros transport simp: DeleteApiToken_def httpDelete_def)
  moreover have "issues (\<lambda>c. \<not> updatesToken c) (tokenApiClient E i)" for i
    by (cases i) (auto intro!: issues_intros simp: ApiClient_def AdminToken_def validatedRemoteUnleashAPIClient_def
        validatedRemoteUnleashAdminToken_def object_requests)
  ultimately show ?thesis
    unfolding cleanupTokenInUnleash_def doFinalizerOperationsForToken_def getUnleashInstance_def
      GetAPITokensByName_def httpGetURL_def object_requests Let_def
    by (auto intro!: issues_intros transport)
qed

lemma release_timely:
  assumes "length l0 \<le> length l"
    and "result (cleanupTokenInUnleash E t) l0 = None \<or> list_ex (deadlinePassed deleted) (drop (length l0) l)"
  shows "runs (releasesTimely E t deleted l0) l (releaseToken E k t') (\<lambda>_ _. True)"
proof -
  have status: "issues (\<lambda>c. \<not> updatesToken c) (changeTokenStatus E k f t')" for f
    unfolding changeTokenStatus_def onFresh_def putBack_def object_requests by (intro issues_intros; simp)
  have removal: "runs (releasesTimely E t deleted l0) (l @ new) (removeTokenFinalizer E k t') (\<lambda>_ _. True)" for new t'
    unfolding removeTokenFinalizer_def onFresh_def putBack_def object_requests Let_def
    using assms
    by (intro runs_retry[where I = "\<lambda>_ _. True"])
       (auto intro!: runs_onError_perform runs_intros runs_bind_perform simp: releasesTimely_def withoutFinalizer_def)
  show ?thesis
    unfolding releaseToken_def failWith_def
    by (rule runs_bind[OF runs_weaken[OF issues_runs[OF status, of "releasesTimely E t deleted l0"], where Q' = "\<lambda>_ _. True"]])
       (auto intro!: runs_intros runs_onFailure[OF removal])
qed

text \<open>C27: the finalizer of a token is dropped, and nothing but the finalizer, only when the cleanup on
  the server came to an end or 24 hours have passed since the deletion was requested.\<close>

theorem token_released_timely:
  "follows (releasesTimely E t deleted l) l (newCalls (finalizeToken E k t deleted) l)"
proof -
  have cleanup: "runs (releasesTimely E t deleted l) l (cleanupTokenInUnleash E t)
      (\<lambda>r l'. (\<exists>new. l' = l @ new \<and> list_all (\<lambda>c. \<not> updatesToken c) new) \<and> r = result (cleanupTokenInUnleash E t) l)"
    by (rule runs_result_is[OF issues_runs[OF cleanup_issues]]) simp
  have "runs (releasesTimely E t deleted l) l (finalizeToken E k t deleted) (\<lambda>_ _. True)"
    unfolding finalizeToken_def failWith_def
  proof (intro runs_if runs_return runs_bind[OF cleanup] runs_case_option runs_bind_perform
      runs_bind[OF runs_emit[where Q = "\<lambda>_ l'. \<exists>c. l' = l @ c \<and> list_ex (deadlinePassed deleted) c"]])
  qed (auto intro!: release_timely)
  then show ?thesis by (elim runs_elim)
qed

end
