(* ===== verification/RemoteUnleashController.thy ===== *)
theory RemoteUnleashController
  imports InstanceAccess UnleashResources Utilities Timestamps FederationMessages
begin

text \<open>
  The RemoteUnleash controller (\<open>internal/controller/remoteunleash_controller.go\<close>, without its
  federation part) and the move of an admin secret to the namespace-bound layout
  (\<open>internal/controller/remoteunleash_migration.go\<close>).
\<close>

section \<open>Surroundings\<close>

text \<open>A message of the subscription, and what a running subscription comes up with next.\<close>

record pubsub_message =
  msgData :: string
  msgPublishTime :: int

datatype subscription_event = Delivered pubsub_message | SubscriptionEnded "go_error option"

text \<open>The cached client and the direct reader may answer differently.\<close>

datatype remote_call =
    OnRemote "remote_unleash request"
  | OnRemoteDirect "remote_unleash request"
  | OnRemoteSecret "secret request"
  | OnRemoteSecretDirect "secret request"
  | OnRemoteHttp http_call
  | RemoteJitter int
  | RemoteEvent string string string \<comment> \<open>type, reason, message\<close>
  | SetRemoteGauge nsname string bool \<comment> \<open>condition\<close>
  | DropRemoteGauges nsname
  | CountMigration string
  | CountReceived string string \<comment> \<open>state, status\<close>
  | CountRejectedNamespace string
  | CountPoison
  | StopReceiving go_error
  | AckMessage
  | NackMessage
  | OnSubscription subscription_event
  | CheckContext bool \<comment> \<open>is it done?\<close>
  | ReceiveClock int
  | SetConsecutiveErrors int
  | WaitBackoff int bool \<comment> \<open>was it interrupted?\<close>

type_synonym 'a remote_action = "(remote_call, 'a) program"

text \<open>The parameters of \<open>StableSecretNonce\<close> and of the federation subscriber are here as well.\<close>

record 'v remote_env = "'v apimachinery" +
  mRemotes :: "(remote_call, remote_unleash) kind"
  mRemotesDirect :: "(remote_call, remote_unleash) kind"
  mSecrets :: "(remote_call, secret) kind"
  mSecretsDirect :: "(remote_call, secret) kind"
  mWeb :: "remote_call web"
  mInt63n :: "remote_call list \<Rightarrow> int \<Rightarrow> int"
  mPick :: "remote_call list \<Rightarrow> nat" \<comment> \<open>the scheduler of goroutines\<close>
  mSha256 :: "string \<Rightarrow> string"
  mOperatorNamespace :: string
  mClusterName :: string
  mLegacySecrets :: bool \<comment> \<open>\<open>AllowLegacyNameBoundSecrets\<close>\<close>
  mNamespaceBound :: bool \<comment> \<open>\<open>NamespaceBoundSecrets\<close>\<close>
  mRetries :: nat
  mNextEvent :: "remote_call list \<Rightarrow> subscription_event"
  mContextDone :: "remote_call list \<Rightarrow> bool"
  mNow :: "remote_call list \<Rightarrow> int"
  mWaitInterrupted :: "remote_call list \<Rightarrow> int \<Rightarrow> bool"
  mUnmarshal :: "string \<Rightarrow> go_error + pb_instance" \<comment> \<open>\<open>proto.Unmarshal\<close>\<close>
  mIsDNS1123Label :: "string \<Rightarrow> bool" \<comment> \<open>\<open>validation.IsDNS1123Label\<close> finds no fault\<close>
  mFederationEnabled :: bool

abbreviation fetchRemote :: "'v remote_env \<Rightarrow> nsname \<Rightarrow> (go_error + remote_unleash) remote_action" where
  "fetchRemote E k \<equiv> getObject (mRemotes E) OnRemote k"

abbreviation writeRemote :: "'v remote_env \<Rightarrow> remote_unleash \<Rightarrow> (go_error + remote_unleash) remote_action" where
  "writeRemote E r \<equiv> updateObject (mRemotes E) OnRemote r"

abbreviation writeRemoteStatus :: "'v remote_env \<Rightarrow> remote_unleash \<Rightarrow> (go_error + remote_unleash) remote_action" where
  "writeRemoteStatus E r \<equiv> updateStatusOf (mRemotes E) OnRemote r"

abbreviation onFreshRemote ::
  "'v remote_env \<Rightarrow> nsname \<Rightarrow> (remote_unleash \<Rightarrow> (go_error option \<times> remote_unleash) remote_action) \<Rightarrow>
   remote_unleash \<Rightarrow> (go_error option \<times> remote_unleash) remote_action" where
  "onFreshRemote E k \<equiv> onFresh (mRetries E) (fetchRemote E k)"

definition remoteUnleashErrorRetryDelay :: int where "remoteUnleashErrorRetryDelay = minute"
definition remoteUnleashRequeueAfter :: int where "remoteUnleashRequeueAfter = hour"
definition remoteUnleashRequeueJitter :: int where "remoteUnleashRequeueJitter = 10 * minute"
definition remoteFinalizer :: string where "remoteFinalizer = ''unleash.nais.io/finalizer''"

section \<open>Status\<close>

definition remoteCondition :: "'v remote_env \<Rightarrow> condition \<Rightarrow> remote_unleash \<Rightarrow> remote_unleash" where
  "remoteCondition E c r = ruStatus_update (\<lambda>st. st\<lparr>rtConditions := setStatusCondition E (rtConditions st) c\<rparr>) r"

definition reportRemoteVersion :: "admin_stats option \<Rightarrow> remote_status \<Rightarrow> remote_status" where
  "reportRemoteVersion stats st =
     (case stats of
        None \<Rightarrow> st
      | Some s \<Rightarrow> st\<lparr>rtVersion := (if asVersionEnterprise s \<noteq> [] then asVersionEnterprise s else asVersionOSS s)\<rparr>)"

text \<open>Success and failure of the connection are written without a retry; both count as reconciled.\<close>

definition connectionStatus ::
  "'v remote_env \<Rightarrow> admin_stats option \<Rightarrow> bool \<Rightarrow> string \<Rightarrow> remote_unleash \<Rightarrow> remote_unleash" where
  "connectionStatus E stats connected m r = (let gen = mGeneration (ruMeta r) in
     remoteCondition E ((newCondition ConditionConnected (if connected then ConditionTrue else ConditionFalse)
         ''Reconciling'' m)\<lparr>cObservedGeneration := gen\<rparr>)
       (remoteCondition E ((newCondition ConditionReconciled ConditionTrue ''Reconciling''
           ''Reconciled successfully'')\<lparr>cObservedGeneration := gen\<rparr>)
         (ruStatus_update (\<lambda>st. (reportRemoteVersion stats st)\<lparr>rtReconciled := True, rtConnected := connected\<rparr>) r)))"

definition writeConnection ::
  "'v remote_env \<Rightarrow> admin_stats option \<Rightarrow> bool \<Rightarrow> string \<Rightarrow> remote_unleash \<Rightarrow>
   (go_error option \<times> remote_unleash) remote_action" where
  "writeConnection E stats connected m r = onError (fetchRemote E (remoteKey r)) (\<lambda>e. ret (Some e, r)) (\<lambda>fresh. do {
     _ \<leftarrow> emit (SetRemoteGauge (remoteKey fresh) ConditionReconciled True);
     _ \<leftarrow> emit (SetRemoteGauge (remoteKey fresh) ConditionConnected connected);
     (let marked = connectionStatus E stats connected m fresh in putBack marked (writeRemoteStatus E marked))
   })"

definition remoteStatusSuccess ::
  "'v remote_env \<Rightarrow> admin_stats option \<Rightarrow> remote_unleash \<Rightarrow> (go_error option \<times> remote_unleash) remote_action" where
  "remoteStatusSuccess E stats r = writeConnection E stats True ''Successfully connected to Unleash'' r"

definition remoteStatusConnectionFailed ::
  "'v remote_env \<Rightarrow> remote_unleash \<Rightarrow> admin_stats option \<Rightarrow> string \<Rightarrow> (go_error option \<times> remote_unleash) remote_action" where
  "remoteStatusConnectionFailed E r stats m = writeConnection E stats False m r"

definition markRemote :: "'v remote_env \<Rightarrow> admin_stats option \<Rightarrow> condition \<Rightarrow> remote_unleash \<Rightarrow> remote_unleash" where
  "markRemote E stats c fresh =
     remoteCondition E (c\<lparr>cObservedGeneration := mGeneration (ruMeta fresh)\<rparr>)
       (ruStatus_update (\<lambda>st. (let st = reportRemoteVersion stats st in
          if cType c = ConditionReconciled then st\<lparr>rtReconciled := (cStatus c = ConditionTrue)\<rparr>
          else if cType c = ConditionConnected then st\<lparr>rtConnected := (cStatus c = ConditionTrue)\<rparr>
          else st)) fresh)"

definition updateRemoteStatus ::
  "'v remote_env \<Rightarrow> remote_unleash \<Rightarrow> admin_stats option \<Rightarrow> condition \<Rightarrow>
   (go_error option \<times> remote_unleash) remote_action" where
  "updateRemoteStatus E r stats c = do {
     _ \<leftarrow> emit (SetRemoteGauge (remoteKey r) (cType c) (cStatus c = ConditionTrue));
     onFreshRemote E (remoteKey r) (\<lambda>fresh. (let marked = markRemote E stats c fresh in
       putBack marked (writeRemoteStatus E marked))) r
   }"

definition remoteStatusReconcileFailed ::
  "'v remote_env \<Rightarrow> remote_unleash \<Rightarrow> admin_stats option \<Rightarrow> string \<Rightarrow> (go_error option \<times> remote_unleash) remote_action" where
  "remoteStatusReconcileFailed E r stats m =
     updateRemoteStatus E r stats (newCondition ConditionReconciled ConditionFalse ''Reconciling'' m)"

section \<open>References to a secret\<close>

definition referencedByOther :: "'v remote_env \<Rightarrow> nsname \<Rightarrow> nsname \<Rightarrow> (go_error + bool) remote_action" where
  "referencedByOther E secret current = do {
     listed \<leftarrow> listObjects (mRemotesDirect E) OnRemoteDirect [];
     ret (map_sum id (list_ex (\<lambda>r. remoteKey r \<noteq> current \<and> adminSecretKey r = secret)) listed)
   }"

section \<open>Moving a legacy secret\<close>

definition hexDigit :: "nat \<Rightarrow> char" where
  "hexDigit d = (if d < 10 then char_of (48 + d) else char_of (87 + d))"

definition hexString :: "string \<Rightarrow> string" where
  "hexString s = concat (map (\<lambda>c. let n = of_char c in [hexDigit (n div 16), hexDigit (n mod 16)]) s)"

definition StableSecretNonce :: "(string \<Rightarrow> string) \<Rightarrow> string \<Rightarrow> string \<Rightarrow> string \<Rightarrow> go_error + string" where
  "StableSecretNonce sha256 name url token = (let nul = char_of (0 :: nat) in
     if token = [] then Inl (errorf ''cannot derive stable nonce without an admin token'')
     else Inr (hexString (take 6 (sha256 (name @ nul # url @ nul # token)))))"

definition boundSecretName :: "string \<Rightarrow> string \<Rightarrow> string \<Rightarrow> string" where
  "boundSecretName name ns nonce = ''unleasherator-'' @ name @ ''-'' @ ns @ ''-admin-key-'' @ nonce"

definition authorizedFor :: "string \<Rightarrow> secret \<Rightarrow> secret" where
  "authorizedFor ns s = scMeta_update (\<lambda>m. m\<lparr>mAnnotations := dictSet AuthorizedNamespace ns (mAnnotations m)\<rparr>) s"

definition operatorManaged :: "remote_unleash \<Rightarrow> secret \<Rightarrow> bool" where
  "operatorManaged r s \<longleftrightarrow> (let ls = mLabels (scMeta s) in
     dictGet ls ''app.kubernetes.io/part-of'' = ''unleasherator'' \<and>
     dictGet ls ''app.kubernetes.io/created-by'' = ''controller-manager'' \<and>
     dictGet ls ''app.kubernetes.io/instance'' = ruName r \<and>
     hasPrefix (mName (scMeta s)) (UnleashSecretNamePrefix @ ''-''))"

definition showKey :: "nsname \<Rightarrow> string" where
  "showKey k = fst k @ ''/'' @ snd k"

text \<open>The secret that takes over.\<close>

definition replacementSecret :: "string \<Rightarrow> remote_unleash \<Rightarrow> string \<Rightarrow> string \<Rightarrow> secret" where
  "replacementSecret operatorNs r secretName token =
     (authorizedFor (ruNamespace r) (OperatorSecretForUnleash (ruName r) secretName operatorNs token (ruURL r)))
       \<lparr>scData := [(UnleashSecretTokenKey, token), (UnleashSecretServerURLKey, ruURL r)], scStringData := []\<rparr>"

definition carriesGrant :: "remote_unleash \<Rightarrow> string \<Rightarrow> secret \<Rightarrow> bool" where
  "carriesGrant r token s \<longleftrightarrow> dictGet (mAnnotations (scMeta s)) AuthorizedNamespace = ruNamespace r \<and>
     dictGet (scData s) UnleashSecretServerURLKey = ruURL r \<and> dictGet (scData s) UnleashSecretTokenKey = token"

definition migrationFails :: "go_error \<Rightarrow> (go_error + 'a) remote_action" where
  "migrationFails e = do { _ \<leftarrow> emit (CountMigration ''failed''); ret (Inl e) }"

definition migrationSuperseded :: go_error where
  "migrationSuperseded = \<lparr>errorKind = Sentinel ''migration'', errorMsg = ''migration superseded by spec change''\<rparr>"

text \<open>The second component of the Go result is dropped by the caller when there is an error.\<close>

definition deleteLegacy :: "'v remote_env \<Rightarrow> secret \<Rightarrow> (go_error + bool) remote_action" where
  "deleteLegacy E legacy = do {
     err \<leftarrow> deleteExact (mSecrets E) OnRemoteSecret legacy;
     (case (case err of Some e \<Rightarrow> if isNotFound e \<or> isConflict e then None else Some e | None \<Rightarrow> None) of
        Some e \<Rightarrow> do { _ \<leftarrow> emit (CountMigration ''cleanup_failed''); ret (Inl (wrapf ''deleting legacy admin secret'' e)) }
      | None \<Rightarrow> do {
          _ \<leftarrow> emit (RemoteEvent ''Normal'' ''FederationSecretMigrated''
                 ''Admin secret migrated to the namespace-bound layout'');
          _ \<leftarrow> emit (CountMigration ''migrated'');
          ret (Inr True)
        })
   }"

definition repointed :: "'v remote_env \<Rightarrow> string \<Rightarrow> remote_unleash \<Rightarrow> remote_unleash" where
  "repointed E secretName r = r\<lparr>ruSecretName := secretName, ruSecretNamespace := mOperatorNamespace E,
     ruSecretKey := UnleashSecretTokenKey\<rparr>"

definition repoint :: "'v remote_env \<Rightarrow> remote_unleash \<Rightarrow> secret \<Rightarrow> string \<Rightarrow> (go_error + bool) remote_action" where
  "repoint E r legacy secretName = (let legacyKey = adminSecretKey r; url = ruURL r in
     onFailure (onFreshRemote E (remoteKey r) (\<lambda>fresh.
         if adminSecretKey fresh \<noteq> legacyKey \<or> ruURL fresh \<noteq> url then ret (Some migrationSuperseded, fresh)
         else putBack (repointed E secretName fresh) (writeRemote E (repointed E secretName fresh))) r)
       (\<lambda>e r. if errorKind e = Sentinel ''migration'' then ret (Inr False)
              else migrationFails (wrapf ''repointing RemoteUnleash to namespace-bound admin secret'' e))
       (\<lambda>r. deleteLegacy E legacy))"

definition replaceSecret :: "'v remote_env \<Rightarrow> remote_unleash \<Rightarrow> string \<Rightarrow> secret \<Rightarrow> (go_error + bool) remote_action" where
  "replaceSecret E r token legacy =
     (case StableSecretNonce (mSha256 E) (ruName r) (ruURL r) token of
        Inl e \<Rightarrow> ret (Inl e)
      | Inr nonce \<Rightarrow> (let
          secretName = boundSecretName (ruName r) (ruNamespace r) nonce;
          new = replacementSecret (mOperatorNamespace E) r secretName token in
        onError (getObject (mSecretsDirect E) OnRemoteSecretDirect (secretKey new))
          (\<lambda>e. if \<not> isNotFound e then ret (Inl (wrapf ''getting namespace-bound admin secret'' e))
               else onError (createObject (mSecrets E) OnRemoteSecret new)
                 (\<lambda>e. if errorKind e = AlreadyExists then repoint E r legacy secretName
                      else migrationFails (wrapf ''creating namespace-bound admin secret'' e))
                 (\<lambda>_. repoint E r legacy secretName))
          (\<lambda>existing.
             if carriesGrant r token existing then repoint E r legacy secretName
             else do {
               _ \<leftarrow> emit (RemoteEvent ''Warning'' ''FederationSecretMigrationConflict''
                      ''Namespace-bound admin secret already exists with conflicting content; manual resolution required'');
               migrationFails (errorf (''namespace-bound admin secret '' @ showKey (secretKey new) @
                 '' already exists with conflicting content''))
             })))"

text \<open>The URL the replacement will be bound to has to be asserted by the legacy secret, or, in the
  namespace of the instance, by the connection that was just made with it.\<close>

definition assertURL :: "'v remote_env \<Rightarrow> remote_unleash \<Rightarrow> string \<Rightarrow> secret \<Rightarrow> (go_error + bool) remote_action" where
  "assertURL E r token legacy = (let recorded = dictGet (scData legacy) UnleashSecretServerURLKey; k = adminSecretKey r in
     if recorded = [] \<and> fst k = ruNamespace r then
       onError (patchLocked (mSecrets E) OnRemoteSecret legacy
                  (legacy\<lparr>scData := dictSet UnleashSecretServerURLKey (ruURL r) (scData legacy)\<rparr>))
         (\<lambda>e. if isNotFound e \<or> isConflict e then ret (Inr False)
              else migrationFails (wrapf (''stamping url onto legacy admin secret '' @ showKey k) e))
         (\<lambda>stamped. do { _ \<leftarrow> emit (CountMigration ''stamped''); replaceSecret E r token stamped })
     else if recorded = [] then do {
       _ \<leftarrow> emit (RemoteEvent ''Warning'' ''FederationSecretMigrationRefused''
              ''Legacy admin secret does not assert its URL; republication is required before migration'');
       _ \<leftarrow> emit (CountMigration ''refused'');
       ret (Inr False)
     }
     else if recorded \<noteq> ruURL r then do {
       _ \<leftarrow> emit (RemoteEvent ''Warning'' ''FederationSecretURLDrift''
              ''Admin secret records a different server URL than spec.server.url; migration is blocked until they agree'');
       migrationFails (errorf (''legacy admin secret '' @ showKey k @ '' URL '' @ showQuoted recorded @
         '' does not match spec.server.url '' @ showQuoted (ruURL r)))
     }
     else replaceSecret E r token legacy)"

definition alreadyBound :: "'v remote_env \<Rightarrow> remote_unleash \<Rightarrow> secret \<Rightarrow> bool" where
  "alreadyBound E r s \<longleftrightarrow> fst (adminSecretKey r) = mOperatorNamespace E \<and>
     dictGet (mAnnotations (scMeta s)) AuthorizedNamespace = ruNamespace r"

definition migrateLegacyAdminSecret :: "'v remote_env \<Rightarrow> remote_unleash \<Rightarrow> (go_error + bool) remote_action" where
  "migrateLegacyAdminSecret E r = (let legacyKey = adminSecretKey r in
     onError (getObject (mSecretsDirect E) OnRemoteSecretDirect legacyKey)
       (\<lambda>e. ret (Inl (wrapf ''getting legacy admin secret'' e)))
       (\<lambda>legacy. let token = dictGet (scData legacy) (ruSecretKey r) in
          if alreadyBound E r legacy \<or> \<not> operatorManaged r legacy then ret (Inr False)
          else if token = []
          then migrationFails (errorf (''legacy admin secret '' @ showKey legacyKey @ '' is missing key '' @
                 showQuoted (ruSecretKey r)))
          else onError (referencedByOther E legacyKey (remoteKey r))
            (\<lambda>e. ret (Inl (wrapf ''checking legacy admin secret references'' e)))
            (\<lambda>shared.
               if shared then do {
                 _ \<leftarrow> emit (RemoteEvent ''Warning'' ''FederationSecretMigrationRefused''
                        ''Legacy admin secret is shared with another RemoteUnleash; manual migration required'');
                 _ \<leftarrow> emit (CountMigration ''refused'');
                 ret (Inr False)
               }
               else assertURL E r token legacy)))"

section \<open>Deletion\<close>

definition hasRemoteFinalizer :: "'v remote_env \<Rightarrow> remote_unleash \<Rightarrow> bool" where
  "hasRemoteFinalizer E r = containsFinalizer E (mFinalizers (ruMeta r)) remoteFinalizer"

definition removeRemoteFinalizer ::
  "'v remote_env \<Rightarrow> nsname \<Rightarrow> remote_unleash \<Rightarrow> (go_error option \<times> remote_unleash) remote_action" where
  "removeRemoteFinalizer E k r = onFreshRemote E k (\<lambda>fresh.
     if \<not> hasRemoteFinalizer E fresh then ret (None, fresh)
     else (let freed = ruMeta_update (\<lambda>m. m\<lparr>mFinalizers := removeFinalizer E (mFinalizers m) remoteFinalizer\<rparr>) fresh
           in putBack freed (writeRemote E freed))) r"

definition finalizeRemote :: "'v remote_env \<Rightarrow> nsname \<Rightarrow> remote_unleash \<Rightarrow> outcome remote_action" where
  "finalizeRemote E k r =
     (if \<not> hasRemoteFinalizer E r then ret (resultZero, None)
      else do {
        (_, r) \<leftarrow> onFreshRemote E k (\<lambda>fresh.
          (let marked = remoteCondition E (newCondition ConditionDegraded ConditionUnknown ''Finalizing''
                 ''Performing finalizer operations'') fresh
           in putBack marked (writeRemoteStatus E marked))) r;
        onFailure (removeRemoteFinalizer E k r) (\<lambda>e r. failWith e) (\<lambda>r. ret (resultZero, None))
      })"

section \<open>Reconcile\<close>

definition initializeRemote :: "'v remote_env \<Rightarrow> nsname \<Rightarrow> remote_unleash \<Rightarrow> (go_error + remote_unleash) remote_action" where
  "initializeRemote E k r = ensured (mRetries E) (fetchRemote E k) (\<lambda>r. rtConditions (ruStatus r) \<noteq> [])
     (remoteCondition E (newCondition ConditionReconciled ConditionUnknown ''Reconciling'' ''Starting reconciliation''))
     (writeRemoteStatus E) r"

definition claimRemote :: "'v remote_env \<Rightarrow> nsname \<Rightarrow> remote_unleash \<Rightarrow> (go_error + remote_unleash) remote_action" where
  "claimRemote E k r = ensured (mRetries E) (fetchRemote E k) (hasRemoteFinalizer E)
     (ruMeta_update (\<lambda>m. m\<lparr>mFinalizers := addFinalizer E (mFinalizers m) remoteFinalizer\<rparr>)) (writeRemote E) r"

definition clientFailure :: "go_error \<Rightarrow> string" where
  "clientFailure e =
     (if isNotFound e then ''Failed to get admin token secret''
      else if errorKind e = Sentinel ''authorization'' then ''Validation failed''
      else if errorKind e = Sentinel ''server URL'' then ''Server URL validation failed''
      else if errorKind e = Sentinel ''empty token'' then ''Admin token is empty''
      else ''Failed to create Unleash client'')"

definition remoteUnleashClientErrorResult :: "go_error \<Rightarrow> outcome" where
  "remoteUnleashClientErrorResult e =
     (if isNotFound e then (resultAfter remoteUnleashErrorRetryDelay, None)
      else if errorKind e \<in> {Sentinel ''authorization'', Sentinel ''server URL'', Sentinel ''empty token''}
      then (resultZero, None)
      else (resultZero, Some e))"

definition requeueRemote :: "'v remote_env \<Rightarrow> outcome remote_action" where
  "requeueRemote E = do {
     draw \<leftarrow> perform (\<lambda>l. mInt63n E l (2 * remoteUnleashRequeueJitter)) RemoteJitter;
     ret (resultAfter (RequeueAfterWithJitter remoteUnleashRequeueAfter remoteUnleashRequeueJitter draw), None)
   }"

definition connectedRemote :: "'v remote_env \<Rightarrow> admin_stats \<Rightarrow> remote_unleash \<Rightarrow> outcome remote_action" where
  "connectedRemote E stats r = onFailure (remoteStatusSuccess E (Some stats) r) (\<lambda>e r. failWith e)
     (\<lambda>r. if mNamespaceBound E \<and> mLegacySecrets E
          then onError (migrateLegacyAdminSecret E r) failWith (\<lambda>migrated. requeueRemote E)
          else requeueRemote E)"

text \<open>The statistics are never nil: an answer that fails still comes with an empty struct.\<close>

definition reconcileRemote :: "'v remote_env \<Rightarrow> remote_unleash \<Rightarrow> outcome remote_action" where
  "reconcileRemote E r =
     onError (validatedRemoteUnleashAPIClient (mSecrets E) OnRemoteSecret (mWeb E) (mOperatorNamespace E) (mLegacySecrets E) r)
       (\<lambda>e. onFailure (remoteStatusReconcileFailed E r None (clientFailure e)) (\<lambda>e' r. failWith e')
              (\<lambda>r. ret (remoteUnleashClientErrorResult e)))
       (\<lambda>c. do {
          (stats, _, err) \<leftarrow> GetInstanceAdminStats (mWeb E) OnRemoteHttp c;
          (case err of
             Some e \<Rightarrow>
               onFailure (remoteStatusConnectionFailed E r (Some stats)
                   (''Failed to connect to Unleash instance statistics endpoint on host '' @ ruURL r))
                 (\<lambda>e' r. failWith e') (\<lambda>r. failWith e)
           | None \<Rightarrow> connectedRemote E stats r)
        })"

definition ReconcileRemoteUnleash :: "'v remote_env \<Rightarrow> nsname \<Rightarrow> outcome remote_action" where
  "ReconcileRemoteUnleash E k = onError (fetchRemote E k)
     (\<lambda>e. if isNotFound e then do { _ \<leftarrow> emit (DropRemoteGauges k); ret (resultZero, None) } else failWith e)
     (\<lambda>r. if mDeletionTimestamp (ruMeta r) \<noteq> None then finalizeRemote E k r
          else onError (initializeRemote E k r) failWith (\<lambda>r.
               onError (claimRemote E k r) failWith (reconcileRemote E)))"

end
