(* ===== verification/FederationReceive.thy ===== *)
theory FederationReceive
  imports RemoteUnleashController
begin

text \<open>
  What a cluster does with a federation message: the handler that
  \<open>RemoteUnleashReconciler.FederationSubscribe\<close> passes to the subscriber, and its helpers
  (\<open>internal/controller/remoteunleash_controller.go\<close>).
\<close>

section \<open>Is this cluster meant?\<close>

datatype cluster_list_match = clusterListNoStatement | clusterListNamed | clusterListCaseMismatch | clusterListExcluded

fun matchClusters :: "string \<Rightarrow> cluster_list_match \<Rightarrow> string list \<Rightarrow> cluster_list_match" where
  "matchClusters name m [] = m"
| "matchClusters name m (cluster # clusters) = (let c = trimSpace cluster in
     if c = [] then matchClusters name m clusters
     else if c = name then clusterListNamed
     else if equalFold c name then matchClusters name clusterListCaseMismatch clusters
     else if m = clusterListNoStatement then matchClusters name clusterListExcluded clusters
     else matchClusters name m clusters)"

definition matchClusterList :: "string \<Rightarrow> string list \<Rightarrow> cluster_list_match" where
  "matchClusterList clusterName clusters = (let name = trimSpace clusterName in
     if name = [] then clusterListNoStatement else matchClusters name clusterListNoStatement clusters)"

section \<open>Answers\<close>

text \<open>A message that failed is delivered again, unless it can never succeed.\<close>

datatype message_error = Redeliver go_error | Poison go_error

definition retriableError :: "go_error \<Rightarrow> bool" where
  "retriableError e \<longleftrightarrow> errorKind e \<noteq> Forbidden \<and> errorKind e \<noteq> Unauthorized"

definition namespaceNotFoundError :: "go_error \<Rightarrow> bool" where
  "namespaceNotFoundError e \<longleftrightarrow> errorKind e = NamespaceMissing"

definition failPermanently :: "go_error \<Rightarrow> message_error option remote_action" where
  "failPermanently e = do { _ \<leftarrow> emit (StopReceiving e); ret (Some (Redeliver e)) }"

definition answerError :: "go_error \<Rightarrow> message_error option remote_action" where
  "answerError e = (if retriableError e then ret (Some (Redeliver e)) else failPermanently e)"

text \<open>After a batch: every error is counted, the last one that stops the operator wins.\<close>

fun countFailures :: "string \<Rightarrow> go_error list \<Rightarrow> unit remote_action" where
  "countFailures state [] = ret ()"
| "countFailures state (e # es) = do { _ \<leftarrow> emit (CountReceived state ''failed''); countFailures state es }"

definition afterBatch ::
  "string \<Rightarrow> go_error list \<Rightarrow> message_error option remote_action \<Rightarrow> message_error option remote_action" where
  "afterBatch state errs next =
     (if errs = [] then next
      else do {
        _ \<leftarrow> countFailures state errs;
        (case filter (\<lambda>e. \<not> retriableError e) errs of
           [] \<Rightarrow> ret (Some (Redeliver (hd errs)))
         | permanent \<Rightarrow> failPermanently (last permanent))
      })"

section \<open>What is stored\<close>

definition PublishTimeAnnotation :: string where
  "PublishTimeAnnotation = ''unleash.nais.io/federation-publish-time''"

text \<open>The zero time stands for an unknown one. Go prints the times of messages, which lie between the
  zero time and the year 10000, as \<^const>\<open>formatRFC3339Nano\<close> does.\<close>

definition federationLastAppliedPublishTime :: "remote_unleash \<Rightarrow> int" where
  "federationLastAppliedPublishTime r =
     (case map_of (mAnnotations (ruMeta r)) PublishTimeAnnotation of
        None \<Rightarrow> 0
      | Some text \<Rightarrow> (case parseRFC3339 text of None \<Rightarrow> 0 | Some t \<Rightarrow> t))"

definition setFederationPublishTime :: "int \<Rightarrow> remote_unleash \<Rightarrow> remote_unleash" where
  "setFederationPublishTime t r =
     (if t = 0 then r
      else ruMeta_update (\<lambda>m. m\<lparr>mAnnotations := dictSet PublishTimeAnnotation (formatRFC3339Nano t) (mAnnotations m)\<rparr>) r)"

text \<open>Scheme and host of a parsed URL are its prefix, \<open>scheme://user@host\<close>.\<close>

definition urlHost :: "url \<Rightarrow> string" where
  "urlHost u = afterLast (CHR ''@'') (drop 8 (urPrefix u))"

definition federationServerURLIsSecure :: "'c web \<Rightarrow> string \<Rightarrow> bool" where
  "federationServerURLIsSecure W serverURL =
     (case wParseURL W serverURL of
        Inl e \<Rightarrow> False
      | Inr u \<Rightarrow> hasPrefix (urPrefix u) ''https://'' \<and> urlHost u \<noteq> [])"

definition federationAdminSecret :: "'v remote_env \<Rightarrow> remote_unleash \<Rightarrow> (go_error + secret) remote_action" where
  "federationAdminSecret E r = getObject (mSecretsDirect E) OnRemoteSecretDirect (adminSecretKey r)"

definition secretValue :: "secret \<Rightarrow> string \<Rightarrow> string" where
  "secretValue s k = (let v = dictGet (scData s) k in if v \<noteq> [] then v else dictGet (scStringData s) k)"

definition federationTokensEqual :: "remote_unleash \<Rightarrow> secret \<Rightarrow> secret \<Rightarrow> bool" where
  "federationTokensEqual existing existingSecret incomingSecret = (let
       old = secretValue existingSecret (ruSecretKey existing);
       new = secretValue incomingSecret UnleashSecretTokenKey in
     old \<noteq> [] \<and> new \<noteq> [] \<and> old = new)"

section \<open>Superseded secrets\<close>

definition federationAdminSecretReferences :: "'v remote_env \<Rightarrow> (go_error + nsname list) remote_action" where
  "federationAdminSecretReferences E = do {
     listed \<leftarrow> listObjects (mRemotesDirect E) OnRemoteDirect [];
     ret (map_sum id (map adminSecretKey) listed)
   }"

text \<open>The references are listed when they are first needed and kept.\<close>

definition supersedable ::
  "'v remote_env \<Rightarrow> remote_unleash \<Rightarrow> string \<Rightarrow> nsname list option \<Rightarrow> secret \<Rightarrow>
   (go_error + nsname list option \<times> bool) remote_action" where
  "supersedable E r ns refs s =
     (if ns \<noteq> mOperatorNamespace E then ret (Inr (refs, True))
      else (case map_of (mAnnotations (scMeta s)) AuthorizedNamespace of
         Some authorized \<Rightarrow> ret (Inr (refs, authorized = ruNamespace r))
       | None \<Rightarrow>
           (case refs of
              Some ks \<Rightarrow> ret (Inr (refs, secretKey s \<notin> set ks))
            | None \<Rightarrow> onError (federationAdminSecretReferences E) (\<lambda>e. ret (Inl e))
                (\<lambda>ks. ret (Inr (Some ks, secretKey s \<notin> set ks))))))"

fun supersededAmong ::
  "'v remote_env \<Rightarrow> remote_unleash \<Rightarrow> secret \<Rightarrow> string \<Rightarrow> nsname list option \<Rightarrow> secret list \<Rightarrow>
   (go_error + nsname list option \<times> secret list) remote_action" where
  "supersededAmong E r current ns refs [] = ret (Inr (refs, []))"
| "supersededAmong E r current ns refs (s # ss) =
     (if secretKey s = secretKey current \<or> \<not> hasPrefix (mName (scMeta s)) (UnleashSecretNamePrefix @ ''-'')
      then supersededAmong E r current ns refs ss
      else onError (supersedable E r ns refs s) (\<lambda>e. ret (Inl e)) (\<lambda>(refs, eligible).
           onError (supersededAmong E r current ns refs ss) (\<lambda>e. ret (Inl e)) (\<lambda>(refs, found).
           ret (Inr (refs, if eligible \<and> federationTokensEqual r s current then s # found else found)))))"

definition managedLabels :: "string \<Rightarrow> string dict" where
  "managedLabels name = [(''app.kubernetes.io/instance'', name), (''app.kubernetes.io/part-of'', ''unleasherator''),
     (''app.kubernetes.io/created-by'', ''controller-manager'')]"

fun supersededIn ::
  "'v remote_env \<Rightarrow> remote_unleash \<Rightarrow> secret \<Rightarrow> nsname list option \<Rightarrow> string list \<Rightarrow> (go_error + secret list) remote_action" where
  "supersededIn E r current refs [] = ret (Inr [])"
| "supersededIn E r current refs (ns # nss) =
     onError (selectObjects (mSecretsDirect E) OnRemoteSecretDirect ns (managedLabels (ruName r))) (\<lambda>e. ret (Inl e)) (\<lambda>ss.
     onError (supersededAmong E r current ns refs ss) (\<lambda>e. ret (Inl e)) (\<lambda>(refs, found).
     onError (supersededIn E r current refs nss) (\<lambda>e. ret (Inl e)) (\<lambda>more. ret (Inr (found @ more)))))"

definition federationSupersededAdminSecrets ::
  "'v remote_env \<Rightarrow> remote_unleash \<Rightarrow> secret \<Rightarrow> (go_error + secret list) remote_action" where
  "federationSupersededAdminSecrets E r current = supersededIn E r current None
     (ruNamespace r # (if mOperatorNamespace E \<noteq> ruNamespace r then [mOperatorNamespace E] else []))"

section \<open>One item at a time\<close>

text \<open>The loops over the items of a message skip an item that does not pass its checks and stop at
  the first error.\<close>

fun checkEach :: "('a \<Rightarrow> (go_error + 'b option) remote_action) \<Rightarrow> 'a list \<Rightarrow> (go_error + 'b list) remote_action" where
  "checkEach check [] = ret (Inr [])"
| "checkEach check (x # xs) = onError (check x) (\<lambda>e. ret (Inl e)) (\<lambda>y.
     onError (checkEach check xs) (\<lambda>e. ret (Inl e)) (\<lambda>ys.
     ret (Inr (case y of None \<Rightarrow> ys | Some y \<Rightarrow> y # ys))))"

definition skipItem :: "string \<Rightarrow> string \<Rightarrow> (go_error + 'b option) remote_action" where
  "skipItem state reason = do { _ \<leftarrow> emit (CountReceived state reason); ret (Inr None) }"

definition checkRemoval ::
  "'v remote_env \<Rightarrow> string \<Rightarrow> int \<Rightarrow> remote_unleash \<times> secret \<Rightarrow> (go_error + (remote_unleash \<times> secret) option) remote_action" where
  "checkRemoval E state publishTime item = (case item of (r, incoming) \<Rightarrow>
     onError (getObject (mRemotesDirect E) OnRemoteDirect (remoteKey r))
       (\<lambda>e. ret (if isNotFound e then Inr None else Inl e))
       (\<lambda>existing. let lastApplied = federationLastAppliedPublishTime existing in
          if lastApplied \<noteq> 0 \<and> \<not> lastApplied < publishTime then skipItem state ''stale''
          else if ruURL existing \<noteq> ruURL r then skipItem state ''rejected''
          else onError (federationAdminSecret E existing)
            (\<lambda>e. if isNotFound e then skipItem state ''missing_secret'' else ret (Inl e))
            (\<lambda>s. if \<not> federationTokensEqual existing s incoming then skipItem state ''rejected''
                 else ret (Inr (Some (existing, s))))))"

text \<open>What an accepted item asks for: a resource, its secret, and the secrets it replaces.\<close>

type_synonym provisioning = "remote_unleash \<times> secret \<times> secret list"

definition acceptItem ::
  "'v remote_env \<Rightarrow> int \<Rightarrow> remote_unleash \<Rightarrow> secret \<Rightarrow> int \<Rightarrow> secret list \<Rightarrow>
   (go_error + provisioning option) remote_action" where
  "acceptItem E publishTime r incoming lastApplied replaced =
     onError (federationSupersededAdminSecrets E r incoming) (\<lambda>e. ret (Inl e))
       (\<lambda>discovered. ret (Inr (Some (setFederationPublishTime (max publishTime lastApplied) r, incoming,
                                     replaced @ discovered))))"

definition checkExisting ::
  "'v remote_env \<Rightarrow> int \<Rightarrow> remote_unleash \<Rightarrow> secret \<Rightarrow> remote_unleash \<Rightarrow>
   (go_error + provisioning option) remote_action" where
  "checkExisting E publishTime r incoming existing = (let
       lastApplied = federationLastAppliedPublishTime existing in
     if ruURL existing \<noteq> ruURL r then skipItem ''provisioned'' ''rejected''
     else onError (federationAdminSecret E existing) (\<lambda>e. ret (Inl e)) (\<lambda>s.
       if \<not> federationTokensEqual existing s incoming then skipItem ''provisioned'' ''rejected''
       else if secretKey s = secretKey incoming then acceptItem E publishTime r incoming lastApplied []
       else onError (referencedByOther E (secretKey s) (remoteKey existing)) (\<lambda>e. ret (Inl e))
         (\<lambda>shared. acceptItem E publishTime r incoming lastApplied (if shared then [] else [s]))))"

definition checkProvision ::
  "'v remote_env \<Rightarrow> int \<Rightarrow> remote_unleash \<times> secret \<Rightarrow> (go_error + provisioning option) remote_action" where
  "checkProvision E publishTime item = (case item of (r, incoming) \<Rightarrow>
     if \<not> federationServerURLIsSecure (mWeb E) (ruURL r) then skipItem ''provisioned'' ''insecure_url''
     else onError (getObject (mRemotesDirect E) OnRemoteDirect (remoteKey r))
       (\<lambda>e. if isNotFound e then acceptItem E publishTime r incoming 0 [] else ret (Inl e))
       (checkExisting E publishTime r incoming))"

section \<open>A whole message\<close>

definition applyRemoval ::
  "'v remote_env \<Rightarrow> string \<Rightarrow> int \<Rightarrow> (remote_unleash \<times> secret) list \<Rightarrow> message_error option remote_action" where
  "applyRemoval E state publishTime items =
     onError (checkEach (checkRemoval E state publishTime) items) answerError (\<lambda>safe.
       if safe = [] then ret None
       else do {
         errs \<leftarrow> DeleteAllObjects (mPick E) (mRemotes E) OnRemote (map fst safe);
         afterBatch state errs (do {
           errs \<leftarrow> DeleteAllObjects (mPick E) (mSecrets E) OnRemoteSecret (map snd safe);
           afterBatch state errs (do { _ \<leftarrow> emit (CountReceived state ''success''); ret None })
         })
       })"

text \<open>A namespace that does not exist is passed over, any other error ends the loop.\<close>

fun toleratingNamespaces :: "go_error list \<Rightarrow> message_error option remote_action \<Rightarrow> message_error option remote_action" where
  "toleratingNamespaces [] next = next"
| "toleratingNamespaces (e # es) next = do {
     _ \<leftarrow> emit (CountReceived ''provisioned'' ''failed'');
     (if namespaceNotFoundError e then toleratingNamespaces es next else answerError e)
   }"

text \<open>A map by key: Go visits it in no particular order, and the deletions are interleaved anyway.\<close>

definition supersededSecrets :: "provisioning list \<Rightarrow> secret list" where
  "supersededSecrets ps =
     map snd (fold (\<lambda>s m. AList.update (secretKey s) s m) (concat (map (\<lambda>(r, s, old). old) ps)) [])"

definition applyProvisioning ::
  "'v remote_env \<Rightarrow> int \<Rightarrow> (remote_unleash \<times> secret) list \<Rightarrow> message_error option remote_action" where
  "applyProvisioning E publishTime items =
     onError (checkEach (checkProvision E publishTime) items) answerError (\<lambda>safe.
       if safe = [] then ret None
       else do {
         errs \<leftarrow> UpsertAllObjects (mPick E) (mSecrets E) OnRemoteSecret scMeta scMeta_update (map (\<lambda>(r, s, old). s) safe);
         afterBatch ''provisioned'' errs (do {
           errs \<leftarrow> UpsertAllObjects (mPick E) (mRemotes E) OnRemote ruMeta ruMeta_update (map fst safe);
           toleratingNamespaces errs (do {
             errs \<leftarrow> DeleteAllObjects (mPick E) (mSecrets E) OnRemoteSecret (supersededSecrets safe);
             afterBatch ''provisioned'' errs (do { _ \<leftarrow> emit (CountReceived ''provisioned'' ''success''); ret None })
           })
         })
       })"

definition ignoreMessage :: "string \<Rightarrow> message_error option remote_action" where
  "ignoreMessage reason = do { _ \<leftarrow> emit (CountReceived ''provisioned'' reason); ret None }"

definition handleProvisioned ::
  "'v remote_env \<Rightarrow> string list \<Rightarrow> int \<Rightarrow> (remote_unleash \<times> secret) list \<Rightarrow> message_error option remote_action" where
  "handleProvisioned E clusters publishTime items = (let ownCluster = trimSpace (mClusterName E) in
     if ownCluster = [] then ignoreMessage ''cluster_name_unset''
     else (case matchClusterList ownCluster clusters of
        clusterListNamed \<Rightarrow> applyProvisioning E publishTime items
      | clusterListNoStatement \<Rightarrow> ignoreMessage ''no_clusters''
      | clusterListCaseMismatch \<Rightarrow> ignoreMessage ''cluster_name_case_mismatch''
      | clusterListExcluded \<Rightarrow> applyRemoval E ''deprovisioned'' publishTime items))"

definition federationHandler ::
  "'v remote_env \<Rightarrow> remote_unleash list \<Rightarrow> secret list \<Rightarrow> string list \<Rightarrow> pb_status \<Rightarrow> int \<Rightarrow>
   message_error option remote_action" where
  "federationHandler E rs ss clusters status publishTime =
     (if rs = [] then ret None
      else if length rs \<noteq> length ss
      then ret (Some (Poison (errorf (''federation payload produced '' @ showNat (length rs) @
             '' RemoteUnleash resources and '' @ showNat (length ss) @ '' admin secrets''))))
      else (case status of
         Status_Provisioned \<Rightarrow> handleProvisioned E clusters publishTime (zip rs ss)
       | Status_Removed \<Rightarrow> applyRemoval E ''removed'' publishTime (zip rs ss)
       | _ \<Rightarrow> do { _ \<leftarrow> emit (CountReceived ''unknown'' ''failed''); ret None }))"

end
