(* ===== verification/FederationSubscriber.thy ===== *)
theory FederationSubscriber
  imports FederationReceive
begin

text \<open>
  Receiving federation messages: \<open>internal/federation/subscriber.go\<close> turns a message into the
  resources and secrets it asks for, hands them to a handler and answers the message;
  \<open>RemoteUnleashReconciler.FederationSubscribe\<close> keeps the subscription running.
\<close>

section \<open>Which namespaces can be a tenant?\<close>

definition namespaceRefusal :: "'v remote_env \<Rightarrow> string \<Rightarrow> string option" where
  "namespaceRefusal E ns =
     (if ns = [] then Some ''blank''
      else if ns = mOperatorNamespace E then Some ''operator_namespace''
      else if hasPrefix ns ''kube-'' then Some ''reserved_namespace''
      else if \<not> mIsDNS1123Label E ns then Some ''invalid_name''
      else None)"

fun tenantNamespaces :: "'v remote_env \<Rightarrow> string list \<Rightarrow> string list remote_action" where
  "tenantNamespaces E [] = ret []"
| "tenantNamespaces E (entry # entries) = (let ns = trimSpace entry in
     (case namespaceRefusal E ns of
        Some reason \<Rightarrow> do { _ \<leftarrow> emit (CountRejectedNamespace reason); tenantNamespaces E entries }
      | None \<Rightarrow> do { accepted \<leftarrow> tenantNamespaces E entries; ret (ns # accepted) }))"

section \<open>From a message to its objects\<close>

definition boundObjects :: "string \<Rightarrow> pb_instance \<Rightarrow> string \<Rightarrow> string \<Rightarrow> remote_unleash \<times> secret" where
  "boundObjects operatorNs i nonce ns = (let secretName = boundSecretName (pbName i) ns nonce in
     (RemoteunleashInstance (pbName i) (pbUrl i) ns secretName operatorNs,
      authorizedFor ns (OperatorSecretForUnleash (pbName i) secretName operatorNs (pbSecretToken i) (pbUrl i))))"

definition legacyObjects :: "pb_instance \<Rightarrow> string \<Rightarrow> string \<Rightarrow> remote_unleash \<times> secret" where
  "legacyObjects i nonce ns = (let secretName = ''unleasherator-'' @ pbName i @ ''-'' @ nonce in
     (RemoteunleashInstance (pbName i) (pbUrl i) ns secretName [],
      authorizedFor ns (OperatorSecretForUnleash (pbName i) secretName ns (pbSecretToken i) (pbUrl i))))"

definition messageObjects :: "'v remote_env \<Rightarrow> pb_instance \<Rightarrow> string \<Rightarrow> string \<Rightarrow> remote_unleash \<times> secret" where
  "messageObjects E i nonce =
     (if mNamespaceBound E then boundObjects (mOperatorNamespace E) i nonce else legacyObjects i nonce)"

definition messageNonce :: "'v remote_env \<Rightarrow> pb_instance \<Rightarrow> go_error + string" where
  "messageNonce E i =
     (if pbSecretNonce i \<noteq> [] then Inr (pbSecretNonce i)
      else StableSecretNonce (mSha256 E) (pbName i) (pbUrl i) (pbSecretToken i))"

type_synonym message_handler =
  "remote_unleash list \<Rightarrow> secret list \<Rightarrow> string list \<Rightarrow> pb_status \<Rightarrow> int \<Rightarrow> message_error option remote_action"

definition handleMessage :: "'v remote_env \<Rightarrow> message_handler \<Rightarrow> pubsub_message \<Rightarrow> message_error option remote_action" where
  "handleMessage E handler msg =
     (case mUnmarshal E (msgData msg) of
        Inl e \<Rightarrow> ret (Some (Poison (wrapf ''unmarshal federation message'' e)))
      | Inr i \<Rightarrow>
          if pbStatus i = Status_Removed \<and> pbSecretToken i = [] then ret None
          else (case messageNonce E i of
            Inl e \<Rightarrow> ret (Some (Redeliver e))
          | Inr nonce \<Rightarrow> do {
              namespaces \<leftarrow> tenantNamespaces E (pbNamespaces i);
              (let objects = map (messageObjects E i nonce) namespaces in
                 handler (map fst objects) (map snd objects) (pbClusters i) (pbStatus i) (msgPublishTime msg))
            }))"

definition receiveMessage :: "'v remote_env \<Rightarrow> message_handler \<Rightarrow> pubsub_message \<Rightarrow> unit remote_action" where
  "receiveMessage E handler msg = do {
     r \<leftarrow> handleMessage E handler msg;
     (case r of
        None \<Rightarrow> emit AckMessage
      | Some (Poison e) \<Rightarrow> do { _ \<leftarrow> emit CountPoison; emit AckMessage }
      | Some (Redeliver e) \<Rightarrow> emit NackMessage)
   }"

section \<open>The receive loop\<close>

text \<open>
  \<open>Subscribe\<close> calls back for every message until the subscription ends. The fuel bounds the
  events of all runs together; a run that uses it up has no result. Callbacks for different
  ordering keys run at the same time; here they come one after the other, and what others do
  meanwhile is up to the API server's answers.
\<close>

fun subscribe :: "nat \<Rightarrow> 'v remote_env \<Rightarrow> message_handler \<Rightarrow> (nat \<times> go_error option) option remote_action" where
  "subscribe 0 E handler = ret None"
| "subscribe (Suc n) E handler = do {
     event \<leftarrow> perform (mNextEvent E) OnSubscription;
     (case event of
        SubscriptionEnded err \<Rightarrow> ret (Some (n, err))
      | Delivered msg \<Rightarrow> do { _ \<leftarrow> receiveMessage E handler msg; subscribe n E handler })
   }"

text \<open>The cause with which a run was cancelled: the first one counts.\<close>

fun stopCause :: "remote_call list \<Rightarrow> go_error option" where
  "stopCause [] = None"
| "stopCause (StopReceiving e # cs) = Some e"
| "stopCause (_ # cs) = stopCause cs"

definition federationReceiveBackoffBase :: int where "federationReceiveBackoffBase = second"
definition federationReceiveBackoffMax :: int where "federationReceiveBackoffMax = 5 * minute"

definition contextDone :: "'v remote_env \<Rightarrow> bool remote_action" where
  "contextDone E = perform (mContextDone E) CheckContext"

definition receiveClock :: "'v remote_env \<Rightarrow> int remote_action" where
  "receiveClock E = perform (mNow E) ReceiveClock"

definition endReceiving :: "go_error option option remote_action" where
  "endReceiving = do { _ \<leftarrow> emit (SetConsecutiveErrors 0); ret (Some None) }"

text \<open>What follows a run that ended with \<open>err\<close>: a pause before the next one, or the end. The timer
  of a long run has reset the gauge while it was up.\<close>

definition afterRun ::
  "'v remote_env \<Rightarrow> int \<Rightarrow> go_error option \<Rightarrow> int \<Rightarrow> int \<Rightarrow>
   (int \<Rightarrow> int \<Rightarrow> go_error option option remote_action) \<Rightarrow> go_error option option remote_action" where
  "afterRun E elapsed err backoff errors again = (let
       recovered = (err = None \<or> elapsed > federationReceiveBackoffMax);
       backoff = (if recovered then federationReceiveBackoffBase else backoff);
       errors = (if recovered then 0 else errors) in do {
     _ \<leftarrow> (if recovered then emit (SetConsecutiveErrors 0) else ret ());
     (case err of
        None \<Rightarrow> endReceiving
      | Some e \<Rightarrow> do {
          _ \<leftarrow> emit (SetConsecutiveErrors (errors + 1));
          interrupted \<leftarrow> perform (\<lambda>l. mWaitInterrupted E l backoff) (WaitBackoff backoff);
          (if interrupted then endReceiving
           else again (min (2 * backoff) federationReceiveBackoffMax) (errors + 1))
        })
   })"

fun receiveLoop ::
  "nat \<Rightarrow> nat \<Rightarrow> 'v remote_env \<Rightarrow> message_handler \<Rightarrow> int \<Rightarrow> int \<Rightarrow> go_error option option remote_action" where
  "receiveLoop events 0 E handler backoff errors = ret None"
| "receiveLoop events (Suc n) E handler backoff errors = do {
     finished \<leftarrow> contextDone E;
     (if finished then endReceiving
      else do {
        started \<leftarrow> receiveClock E;
        before \<leftarrow> State_Monad.get;
        run \<leftarrow> subscribe events E handler;
        after \<leftarrow> State_Monad.get;
        (case run of
           None \<Rightarrow> ret None
         | Some (events, err) \<Rightarrow> do {
             now \<leftarrow> receiveClock E;
             _ \<leftarrow> (if now - started \<ge> federationReceiveBackoffMax then emit (SetConsecutiveErrors 0) else ret ());
             finished \<leftarrow> contextDone E;
             (if finished then endReceiving
              else (case stopCause (drop (length before) after) of
                 Some e \<Rightarrow> ret (Some (Some e))
               | None \<Rightarrow> afterRun E (now - started) err backoff errors
                   (\<lambda>backoff errors. receiveLoop events n E handler backoff errors)))
           })
      })
   }"

definition FederationSubscribe :: "nat \<Rightarrow> nat \<Rightarrow> 'v remote_env \<Rightarrow> go_error option option remote_action" where
  "FederationSubscribe events attempts E =
     (if \<not> mFederationEnabled E then ret (Some None)
      else receiveLoop events attempts E (federationHandler E) federationReceiveBackoffBase 0)"

end
