(* ===== verification/FederationPromises.thy ===== *)
theory FederationPromises
  imports FederationSubscriber
begin

text \<open>
  Promises of the federation: what a message deletes was stored for the same server and
  credential and not touched by a newer message; what it writes does not take over an instance
  of another server or credential; the secrets a message brings are accepted by the
  controller, for the namespace they were written for and no other.
\<close>

section \<open>Batches of objects\<close>

text \<open>A discipline that every request of a batch meets after any further calls.\<close>

definition onwards :: "'c list \<Rightarrow> ('c list \<Rightarrow> 'c \<Rightarrow> bool) \<Rightarrow> 'c list \<Rightarrow> 'c \<Rightarrow> bool" where
  "onwards l P h c \<longleftrightarrow> (\<forall>new. h = l @ new \<longrightarrow> P h c)"

lemma runs_onwards: "runs (onwards l P) l m Q \<Longrightarrow> runs P l m Q"
  by (erule runs_weaken) (simp_all add: onwards_def)

lemma runs_DeleteAllObjects:
  assumes "\<And>x r new. x \<in> set xs \<Longrightarrow> P (l @ new) (w (ObjDelete x r))"
  shows "runs P l (DeleteAllObjects pick K w xs) (\<lambda>_ _. True)"
proof -
  define Inv where "Inv = (\<lambda>t. case t of DeleteStart x \<Rightarrow> x \<in> set xs | DeleteDone _ \<Rightarrow> True)"
  have "runs (onwards l P) l (runThreads pick deleteFinished (deleteStep K w) (length xs) (map DeleteStart xs))
      (\<lambda>ts _. list_all Inv ts \<and> list_all deleteFinished ts)"
  proof (rule deletes.pool_induct)
    fix t l'
    assume "Inv t" "\<not> deleteFinished t"
    then show "runs (onwards l P) l' (deleteStep K w t) (\<lambda>t' _. Inv t')"
      using assms by (cases t) (auto simp: Inv_def onwards_def DeleteObject_def object_requests runs_def wp_simps)
  qed (auto simp: Inv_def list_all_iff comp_def sum_list_triv)
  then show ?thesis
    unfolding DeleteAllObjects_def by (rule runs_onwards[OF runs_bind]) (simp add: runs_return)
qed

lemma runs_UpsertAllObjects:
  assumes "\<And>k r new. P (l @ new) (w (ObjGet k r))"
    and "\<And>x r new. x \<in> set xs \<Longrightarrow> P (l @ new) (w (ObjCreate x r))"
    and "\<And>x m r new. x \<in> set xs \<Longrightarrow> P (l @ new) (w (ObjUpdate (put (adoptIdentity m) x) r))"
  shows "runs P l (UpsertAllObjects pick K w get put xs) (\<lambda>_ _. True)"
proof -
  define Inv where "Inv = (\<lambda>t. case t of UpsertStart x \<Rightarrow> x \<in> set xs | UpsertCreate x \<Rightarrow> x \<in> set xs
     | UpsertReplace y \<Rightarrow> (\<exists>x \<in> set xs. \<exists>m. y = put (adoptIdentity m) x) | UpsertDone _ \<Rightarrow> True)"
  have "runs (onwards l P) l (runThreads pick upsertFinished (upsertStep K w get put) (2 * length xs) (map UpsertStart xs))
      (\<lambda>ts _. list_all Inv ts \<and> list_all upsertFinished ts)"
  proof (rule upserts.pool_induct)
    fix t l'
    assume "Inv t" "\<not> upsertFinished t"
    then show "runs (onwards l P) l' (upsertStep K w get put t) (\<lambda>t' _. Inv t')"
      using assms by (cases t) (auto simp: Inv_def onwards_def object_requests runs_def wp_simps split: sum.split)
  qed (auto simp: Inv_def list_all_iff comp_def sum_list_triv)
  then show ?thesis
    unfolding UpsertAllObjects_def by (rule runs_onwards[OF runs_bind]) (simp add: runs_return)
qed

section \<open>Checks one by one\<close>

text \<open>What an accepted item has established since the start of the message.\<close>

definition accepts :: "('b \<Rightarrow> 'c list \<Rightarrow> bool) \<Rightarrow> 'c list \<Rightarrow> go_error + 'b option \<Rightarrow> 'c list \<Rightarrow> bool" where
  "accepts G l0 res l = (case res of Inr (Some y) \<Rightarrow> G y (drop (length l0) l) | _ \<Rightarrow> True)"

lemma accepts_simps [simp]:
  "accepts G l0 (Inl e) l" "accepts G l0 (Inr None) l" "accepts G l0 (Inr (Some y)) l = G y (drop (length l0) l)"
  by (simp_all add: accepts_def)

lemma runs_checkEach:
  assumes check: "\<And>x new. x \<in> set xs \<Longrightarrow> runs P (l0 @ new) (check x) (accepts (G x) l0)"
    and stable: "\<And>x y h rest. G x y h \<Longrightarrow> G x y (h @ rest)"
  shows "runs P (l0 @ pre) (checkEach check xs)
    (\<lambda>res l'. case res of Inl e \<Rightarrow> True | Inr ys \<Rightarrow> list_all (\<lambda>y. \<exists>x \<in> set xs. G x y (drop (length l0) l')) ys)"
  using check
proof (induction xs arbitrary: pre)
  case Nil
  then show ?case by (auto intro: runs_return)
next
  case (Cons x xs)
  have rest: "runs P (l0 @ pre) (checkEach check xs) (\<lambda>res l'. (case res of Inl e \<Rightarrow> True
      | Inr ys \<Rightarrow> list_all (\<lambda>y. \<exists>x \<in> set xs. G x y (drop (length l0) l')) ys) \<and> (\<exists>more. l' = (l0 @ pre) @ more))" for pre
    by (rule runs_weaken[OF runs_trace[OF Cons.IH]]) (use Cons.prems in auto)
  have first: "runs P (l0 @ pre) (check x) (\<lambda>res l'. accepts (G x) l0 res l' \<and> (\<exists>more. l' = l0 @ more))"
    by (rule runs_weaken[OF runs_trace[OF Cons.prems]]) auto
  show ?case
    unfolding checkEach.simps
  proof (rule runs_onError[OF first], goal_cases)
    case (2 y new)
    then obtain pre' where "l0 @ pre @ new = l0 @ pre'" "accepts (G x) l0 (Inr y) (l0 @ pre')" by auto
    then show ?case
      by (simp, intro runs_onError[OF rest])
         (use stable[of x _ "pre @ new"] in \<open>auto intro!: runs_return split: option.splits simp: list_all_iff\<close>)
  qed (auto intro: runs_return)
qed

section \<open>What may be deleted and written\<close>

text \<open>\<open>x\<close> was read in this run (\<open>new\<close>) as the stored resource of an item of the message, for the same
  server, with the same credential in its stored secret \<open>s\<close>, and no later message was applied
  to it.\<close>

definition authentic ::
  "(remote_unleash \<times> secret) list \<Rightarrow> int \<Rightarrow> remote_call list \<Rightarrow> remote_unleash \<Rightarrow> secret \<Rightarrow> bool" where
  "authentic items t new x s \<longleftrightarrow> (\<exists>r incoming. (r, incoming) \<in> set items \<and>
     OnRemoteDirect (ObjGet (remoteKey r) (Inr x)) \<in> set new \<and> ruURL x = ruURL r \<and>
     (federationLastAppliedPublishTime x = 0 \<or> federationLastAppliedPublishTime x < t) \<and>
     OnRemoteSecretDirect (ObjGet (adminSecretKey x) (Inr s)) \<in> set new \<and> federationTokensEqual x s incoming)"

definition sharesToken :: "secret \<Rightarrow> secret \<Rightarrow> bool" where
  "sharesToken incoming s \<longleftrightarrow>
     (\<exists>k. secretValue s k \<noteq> [] \<and> secretValue s k = secretValue incoming UnleashSecretTokenKey)"

definition holdsToken :: "(remote_unleash \<times> secret) list \<Rightarrow> secret \<Rightarrow> bool" where
  "holdsToken items s \<longleftrightarrow> (\<exists>r incoming. (r, incoming) \<in> set items \<and> sharesToken incoming s)"

lemma tokensEqual_shares: "federationTokensEqual r s incoming \<Longrightarrow> sharesToken incoming s"
  by (auto simp: federationTokensEqual_def sharesToken_def Let_def)

text \<open>An item may be provisioned: https, and what is stored under its name, if anything, is for the
  same server and holds the same credential.\<close>

definition acceptable :: "'c web \<Rightarrow> remote_call list \<Rightarrow> remote_unleash \<Rightarrow> secret \<Rightarrow> bool" where
  "acceptable W new r incoming \<longleftrightarrow> federationServerURLIsSecure W (ruURL r) \<and>
     ((\<exists>e. OnRemoteDirect (ObjGet (remoteKey r) (Inl e)) \<in> set new \<and> isNotFound e) \<or>
      (\<exists>x s. OnRemoteDirect (ObjGet (remoteKey r) (Inr x)) \<in> set new \<and> ruURL x = ruURL r \<and>
         OnRemoteSecretDirect (ObjGet (adminSecretKey x) (Inr s)) \<in> set new \<and> federationTokensEqual x s incoming))"

definition writesItem ::
  "(remote_unleash \<times> secret) list \<Rightarrow> 'c web \<Rightarrow> remote_call list \<Rightarrow> remote_unleash \<Rightarrow> bool" where
  "writesItem items W new x \<longleftrightarrow> (\<exists>r incoming. (r, incoming) \<in> set items \<and> acceptable W new r incoming \<and>
     remoteKey x = remoteKey r \<and> ruURL x = ruURL r \<and> adminSecretKey x = adminSecretKey r \<and> ruSecretKey x = ruSecretKey r)"

definition writesItemSecret ::
  "(remote_unleash \<times> secret) list \<Rightarrow> 'c web \<Rightarrow> remote_call list \<Rightarrow> secret \<Rightarrow> bool" where
  "writesItemSecret items W new s \<longleftrightarrow> (\<exists>r incoming. (r, incoming) \<in> set items \<and> acceptable W new r incoming \<and>
     secretKey s = secretKey incoming \<and> scData s = scData incoming \<and> scStringData s = scStringData incoming \<and>
     mAnnotations (scMeta s) = mAnnotations (scMeta incoming))"

definition mayRemove :: "'v remote_env \<Rightarrow> string list \<Rightarrow> pb_status \<Rightarrow> bool" where
  "mayRemove E clusters status \<longleftrightarrow> status = Status_Removed \<or>
     status = Status_Provisioned \<and> matchClusterList (trimSpace (mClusterName E)) clusters = clusterListExcluded"

definition mayProvision :: "'v remote_env \<Rightarrow> string list \<Rightarrow> pb_status \<Rightarrow> bool" where
  "mayProvision E clusters status \<longleftrightarrow>
     status = Status_Provisioned \<and> matchClusterList (trimSpace (mClusterName E)) clusters = clusterListNamed"

definition deletesOnlyMatching ::
  "'v remote_env \<Rightarrow> (remote_unleash \<times> secret) list \<Rightarrow> string list \<Rightarrow> pb_status \<Rightarrow> int \<Rightarrow>
   remote_call list \<Rightarrow> remote_call list \<Rightarrow> remote_call \<Rightarrow> bool" where
  "deletesOnlyMatching E items clusters status t l0 h c \<longleftrightarrow>
     (case c of
        OnRemote (ObjDelete x r) \<Rightarrow> mayRemove E clusters status \<and> (\<exists>s. authentic items t (drop (length l0) h) x s)
      | OnRemoteSecret (ObjDelete s r) \<Rightarrow> holdsToken items s
      | _ \<Rightarrow> True)"

definition writesOnlyAcceptable ::
  "'v remote_env \<Rightarrow> (remote_unleash \<times> secret) list \<Rightarrow> string list \<Rightarrow> pb_status \<Rightarrow>
   remote_call list \<Rightarrow> remote_call list \<Rightarrow> remote_call \<Rightarrow> bool" where
  "writesOnlyAcceptable E items clusters status l0 h c \<longleftrightarrow> (let new = drop (length l0) h in
     (case c of
        OnRemote (ObjCreate x r) \<Rightarrow> mayProvision E clusters status \<and> writesItem items (mWeb E) new x
      | OnRemote (ObjUpdate x r) \<Rightarrow> mayProvision E clusters status \<and> writesItem items (mWeb E) new x
      | OnRemoteSecret (ObjCreate s r) \<Rightarrow> mayProvision E clusters status \<and> writesItemSecret items (mWeb E) new s
      | OnRemoteSecret (ObjUpdate s r) \<Rightarrow> mayProvision E clusters status \<and> writesItemSecret items (mWeb E) new s
      | _ \<Rightarrow> True))"

fun mutates :: "remote_call \<Rightarrow> bool" where
  "mutates (OnRemote (ObjDelete x r)) = True"
| "mutates (OnRemote (ObjCreate x r')) = True"
| "mutates (OnRemote (ObjUpdate x r')) = True"
| "mutates (OnRemoteSecret (ObjDelete s r)) = True"
| "mutates (OnRemoteSecret (ObjCreate s r'')) = True"
| "mutates (OnRemoteSecret (ObjUpdate s r'')) = True"
| "mutates _ = False"

definition guarded ::
  "'v remote_env \<Rightarrow> (remote_unleash \<times> secret) list \<Rightarrow> string list \<Rightarrow> pb_status \<Rightarrow> int \<Rightarrow>
   remote_call list \<Rightarrow> remote_call list \<Rightarrow> remote_call \<Rightarrow> bool" where
  "guarded E items clusters status t l0 h c \<longleftrightarrow>
     deletesOnlyMatching E items clusters status t l0 h c \<and> writesOnlyAcceptable E items clusters status l0 h c"

lemma guarded_reads [simp]: "\<not> mutates c \<Longrightarrow> guarded E items clusters status t l0 h c"
  by (cases c rule: mutates.cases) (simp_all add: guarded_def deletesOnlyMatching_def writesOnlyAcceptable_def Let_def)

section \<open>Checks only read\<close>

abbreviation onlyReads :: "'a remote_action \<Rightarrow> bool" where
  "onlyReads \<equiv> issues (\<lambda>c. \<not> mutates c)"

lemma reads_references: "onlyReads (referencedByOther E secret current)" "onlyReads (federationAdminSecretReferences E)"
  unfolding referencedByOther_def federationAdminSecretReferences_def object_requests by (intro issues_intros; simp)+

lemma reads_supersedable: "onlyReads (supersedable E r ns refs s)"
  unfolding supersedable_def by (intro issues_intros reads_references)

lemma runs_supersededAmong:
  "runs (\<lambda>_ c. \<not> mutates c) l (supersededAmong E r current ns refs ss)
     (\<lambda>res _. \<forall>refs found. res = Inr (refs, found) \<longrightarrow> list_all (sharesToken current) found)"
proof (induction ss arbitrary: refs l)
  case (Cons s ss)
  show ?case
    unfolding supersededAmong.simps
    by (intro runs_if Cons.IH runs_onError[OF issues_runs[OF reads_supersedable]] runs_case_prod runs_onError[OF Cons.IH])
       (auto intro!: runs_return tokensEqual_shares)
qed (simp add: runs_return)

lemma runs_supersededIn:
  "runs (\<lambda>_ c. \<not> mutates c) l (supersededIn E r current refs nss)
     (\<lambda>res _. \<forall>found. res = Inr found \<longrightarrow> list_all (sharesToken current) found)"
proof (induction nss arbitrary: refs l)
  case (Cons ns nss)
  show ?case
    unfolding supersededIn.simps object_requests
    by (intro runs_onError_perform conjI runs_onError[OF runs_supersededAmong] runs_case_prod runs_onError[OF Cons.IH] runs_return)
       auto
qed (simp add: runs_return)

lemma runs_acceptItem:
  assumes "list_all (sharesToken incoming) old"
  shows "runs (\<lambda>_ c. \<not> mutates c) l (acceptItem E t r incoming lastApplied old)
     (accepts (\<lambda>p _. fst p = setFederationPublishTime (max t lastApplied) r \<and> fst (snd p) = incoming \<and>
        list_all (sharesToken incoming) (snd (snd p))) [])"
  unfolding acceptItem_def federationSupersededAdminSecrets_def
  by (rule runs_onError[OF runs_supersededIn])
     (use assms in \<open>auto intro!: runs_return simp: list_all_iff\<close>)

lemma runs_skipItem: "runs (guarded E items cl st t l0) l (skipItem state reason) (\<lambda>res _. res = Inr None)"
  unfolding skipItem_def by (auto intro!: runs_bind[OF runs_emit[where Q = "\<lambda>_ _. True"]] runs_return)

lemma authentic_mono: "authentic items t h x s \<Longrightarrow> authentic items t (h @ rest) x s"
  unfolding authentic_def by auto

lemma acceptable_mono: "acceptable W h r s \<Longrightarrow> acceptable W (h @ rest) r s"
  unfolding acceptable_def by auto

lemma skip_accepts: "runs (guarded E items cl st t l0) l (skipItem state reason) (accepts G l1)"
  by (rule runs_weaken[OF runs_skipItem]) simp_all

lemma runs_checkRemoval:
  assumes "item \<in> set items"
  shows "runs (guarded E items cl st t l) (l @ new) (checkRemoval E state t item)
    (accepts (\<lambda>p h. authentic items t h (fst p) (snd p)) l)"
proof -
  obtain r incoming where item: "item = (r, incoming)" by fastforce
  have "authentic items t (new @ [OnRemoteDirect (ObjGet (remoteKey r) (Inr x)),
      OnRemoteSecretDirect (ObjGet (adminSecretKey x) (Inr s))]) x s"
    if "ruURL x = ruURL r" "federationTokensEqual x s incoming"
      "federationLastAppliedPublishTime x = 0 \<or> federationLastAppliedPublishTime x < t" for x s
    using assms that unfolding authentic_def item by fastforce
  then show ?thesis
    unfolding checkRemoval_def item prod.case federationAdminSecret_def object_requests Let_def
    by (auto intro!: runs_onError_perform runs_if runs_return skip_accepts)
qed

definition grants :: "'v remote_env \<Rightarrow> remote_unleash \<times> secret \<Rightarrow> provisioning \<Rightarrow> remote_call list \<Rightarrow> bool" where
  "grants E item p new \<longleftrightarrow> acceptable (mWeb E) new (fst item) (snd item) \<and>
     (\<exists>t. fst p = setFederationPublishTime t (fst item)) \<and> fst (snd p) = snd item \<and>
     list_all (sharesToken (snd item)) (snd (snd p))"

lemma grants_acceptItem:
  assumes "acceptable (mWeb E) (drop (length l) h) r incoming"
    and "list_all (sharesToken incoming) old"
  shows "runs (guarded E items cl st t l) h (acceptItem E t r incoming lastApplied old) (accepts (grants E (r, incoming)) l)"
  by (rule runs_weaken[OF runs_acceptItem[OF assms(2)]])
     (use acceptable_mono[OF assms(1)] in \<open>auto simp: grants_def accepts_def split: sum.splits option.splits\<close>)

lemma runs_checkProvision:
  assumes "item \<in> set items"
  shows "runs (guarded E items cl st t l) (l @ new) (checkProvision E t item) (accepts (grants E item) l)"
proof -
  obtain r incoming where item: "item = (r, incoming)" by fastforce
  have shared: "runs (guarded E items cl st t l) h (onError (referencedByOther E secret current) (\<lambda>e. ret (Inl e)) k)
      (accepts G l)" if "\<And>x rest. runs (guarded E items cl st t l) (h @ rest) (k x) (accepts G l)" for h secret current k G
    by (rule runs_onError[OF issues_runs[OF reads_references(1)]]) (auto intro: runs_return that)
  have absent: "acceptable (mWeb E) (new @ [OnRemoteDirect (ObjGet (remoteKey r) (Inl e))]) r incoming"
    if "federationServerURLIsSecure (mWeb E) (ruURL r)" "isNotFound e" for e
    using that by (fastforce simp: acceptable_def)
  have matching: "acceptable (mWeb E) (new @ OnRemoteDirect (ObjGet (remoteKey r) (Inr x)) #
      OnRemoteSecretDirect (ObjGet (adminSecretKey x) (Inr s)) # rest) r incoming"
    if "federationServerURLIsSecure (mWeb E) (ruURL r)" "ruURL x = ruURL r" "federationTokensEqual x s incoming" for x s rest
    using that unfolding acceptable_def by fastforce
  show ?thesis
    unfolding checkProvision_def checkExisting_def item prod.case federationAdminSecret_def object_requests Let_def
    by (auto intro!: runs_onError_perform runs_if runs_return skip_accepts shared grants_acceptItem
        simp: absent matching tokensEqual_shares)
qed

section \<open>Whole messages\<close>

lemma reads_answers: "onlyReads (answerError e)" "onlyReads (countFailures state errs)" "onlyReads (failPermanently e)"
proof -
  show "onlyReads (countFailures state errs)" by (induction errs) (simp_all add: issues_intros)
  show stop: "onlyReads (failPermanently e)" unfolding failPermanently_def by (intro issues_intros; simp)
  show "onlyReads (answerError e)" unfolding answerError_def by (intro issues_intros stop)
qed

lemma reads_guarded: "onlyReads m \<Longrightarrow> runs (guarded E items cl st t l) l' m (\<lambda>_ _. True)"
  by (rule runs_weaken[OF issues_runs[of "\<lambda>c. \<not> mutates c" m "guarded E items cl st t l" l']]) auto

lemma runs_afterBatch:
  assumes "runs (guarded E items cl st t l) l' next (\<lambda>_ _. True)"
  shows "runs (guarded E items cl st t l) l' (afterBatch state errs next) (\<lambda>_ _. True)"
  unfolding afterBatch_def using assms
  by (auto intro!: runs_if reads_guarded issues_intros reads_answers split: list.split)

lemma runs_toleratingNamespaces:
  assumes "\<And>new. runs (guarded E items cl st t l) (l' @ new) next (\<lambda>_ _. True)"
  shows "runs (guarded E items cl st t l) (l' @ new) (toleratingNamespaces errs next) (\<lambda>_ _. True)"
proof (induction errs arbitrary: new)
  case (Cons e errs)
  show ?case
    unfolding toleratingNamespaces.simps
    by (rule runs_bind[OF runs_emit[where Q = "\<lambda>_ l''. \<exists>c. l'' = l' @ new @ [c]"]])
       (auto intro!: runs_if Cons.IH reads_guarded[OF reads_answers(1)])
qed (simp add: assms)

lemma removal_guarded:
  assumes "mayRemove E cl st"
  shows "runs (guarded E items cl st t l) l (applyRemoval E state t items) (\<lambda>_ _. True)"
  unfolding applyRemoval_def
proof (rule runs_onError[OF runs_checkEach[where pre = "[]", simplified, OF runs_checkRemoval]], goal_cases)
  case (4 safe new)
  then have safe: "\<exists>x \<in> set items. authentic items t (new @ rest) (fst p) (snd p)" if "p \<in> set safe" for p rest
    using that authentic_mono[of items t new _ _ rest] by (auto simp: list_all_iff)
  have resources: "guarded E items cl st t l (l @ new @ more) (OnRemote (ObjDelete x r))" if "x \<in> fst ` set safe" for x r more
    using that safe assms by (fastforce simp: guarded_def deletesOnlyMatching_def writesOnlyAcceptable_def Let_def)
  have secrets: "guarded E items cl st t l (l @ new @ more) (OnRemoteSecret (ObjDelete s r))" if "s \<in> snd ` set safe" for s r more
    using that safe[of _ "[]"] tokensEqual_shares
    by (fastforce simp: guarded_def deletesOnlyMatching_def writesOnlyAcceptable_def Let_def authentic_def holdsToken_def)
  show ?case
    using resources secrets
    by (auto intro!: runs_if runs_return runs_bind[OF runs_DeleteAllObjects] runs_afterBatch
        reads_guarded[OF issues_bind[OF issues_emit issues_ret]])
qed (auto simp: authentic_mono reads_guarded reads_answers)

lemma stamp_identity:
  "remoteKey (setFederationPublishTime t r) = remoteKey r" "ruURL (setFederationPublishTime t r) = ruURL r"
  "adminSecretKey (setFederationPublishTime t r) = adminSecretKey r"
  "ruSecretKey (setFederationPublishTime t r) = ruSecretKey r"
  "remoteKey (ruMeta_update (adoptIdentity m) r) = remoteKey r" "adminSecretKey (ruMeta_update (adoptIdentity m) r) = adminSecretKey r"
  by (simp_all add: setFederationPublishTime_def remoteKey_def adminSecretKey_def adoptIdentity_def)

lemma set_superseded: "set (supersededSecrets ps) \<subseteq> \<Union> ((\<lambda>p. set (snd (snd p))) ` set ps)"
proof -
  have "snd ` set (fold (\<lambda>s m. AList.update (secretKey s) s m) xs m) \<subseteq> set xs \<union> snd ` set m" for xs :: "secret list" and m
  proof (induction xs arbitrary: m)
    case (Cons x xs)
    have "snd ` set (AList.update (secretKey x) x m) \<subseteq> insert x (snd ` set m)"
      by (induction m) (auto simp: image_iff)
    with Cons[of "AList.update (secretKey x) x m"] show ?case by auto
  qed simp
  from this[of "concat (map (\<lambda>(r, s, old). old) ps)" "[]"] show ?thesis
    by (force simp: supersededSecrets_def)
qed

lemma provisioning_guarded:
  assumes "mayProvision E cl st"
  shows "runs (guarded E items cl st t l) l (applyProvisioning E t items) (\<lambda>_ _. True)"
  unfolding applyProvisioning_def
proof (rule runs_onError[OF runs_checkEach[where pre = "[]", simplified, OF runs_checkProvision]], goal_cases)
  case (4 safe new)
  then have safe: "\<exists>item \<in> set items. grants E item p (new @ rest)" if "p \<in> set safe" for p rest
    using that acceptable_mono[of "mWeb E" new _ _ rest] by (fastforce simp: list_all_iff grants_def)
  have resources: "guarded E items cl st t l (l @ new @ more) (OnRemote (ObjCreate x r))"
    "guarded E items cl st t l (l @ new @ more) (OnRemote (ObjUpdate (ruMeta_update (adoptIdentity m) x) r))"
    if "x \<in> fst ` set safe" for x r m more
    using that safe[of _ more] assms
    by (fastforce simp: guarded_def deletesOnlyMatching_def writesOnlyAcceptable_def Let_def writesItem_def grants_def stamp_identity)+
  have secrets: "guarded E items cl st t l (l @ new @ more) (OnRemoteSecret (ObjCreate s r))"
    "guarded E items cl st t l (l @ new @ more) (OnRemoteSecret (ObjUpdate (scMeta_update (adoptIdentity m) s) r))"
    if "s \<in> (\<lambda>(r, s, old). s) ` set safe" for s r m more
    using that safe[of _ more] assms
    by (fastforce simp: guarded_def deletesOnlyMatching_def writesOnlyAcceptable_def Let_def writesItemSecret_def grants_def
        secretKey_def adoptIdentity_def)+
  have old: "guarded E items cl st t l (l @ new @ more) (OnRemoteSecret (ObjDelete s r))"
    if "s \<in> set (supersededSecrets safe)" for s r more
    using that set_superseded[of safe] safe[of _ "[]"]
    by (fastforce simp: guarded_def deletesOnlyMatching_def writesOnlyAcceptable_def Let_def holdsToken_def grants_def list_all_iff)
  have step: "runs (guarded E items cl st t l) h (State_Monad.bind m k) (\<lambda>_ _. True)"
    if "runs (guarded E items cl st t l) h m (\<lambda>_ _. True)" "\<And>x more. runs (guarded E items cl st t l) (h @ more) (k x) (\<lambda>_ _. True)"
    for h k and m :: "go_error list remote_action"
    by (rule runs_bind[OF that])
  show ?case
    using resources secrets old
    by (auto intro!: runs_if runs_return step runs_UpsertAllObjects runs_DeleteAllObjects runs_afterBatch
        runs_toleratingNamespaces[of _ _ _ _ _ _ "_ @ _ @ _ @ _" _ "[]", simplified]
        reads_guarded[OF issues_bind[OF issues_emit issues_ret]])
qed (use acceptable_mono in \<open>auto simp: grants_def reads_guarded reads_answers\<close>)

lemma handler_guarded:
  "runs (guarded E (zip rs ss) clusters status t l) l (federationHandler E rs ss clusters status t) (\<lambda>_ _. True)"
proof -
  have ignored: "onlyReads (ignoreMessage reason)" for reason
    unfolding ignoreMessage_def by (intro issues_intros; simp)
  have unknown: "onlyReads (State_Monad.bind (emit (CountReceived a b)) (\<lambda>_. ret None))" for a b
    by (intro issues_intros; simp)
  show ?thesis
    unfolding federationHandler_def handleProvisioned_def Let_def
    by (auto intro!: runs_if runs_return removal_guarded provisioning_guarded reads_guarded[OF ignored] reads_guarded[OF unknown]
        simp: mayRemove_def mayProvision_def split: pb_status.split cluster_list_match.split)
qed


text \<open>C32: federation writes a RemoteUnleash or a secret only for a provisioning message that names
  this cluster, only what the message asks for with an https URL, and only where this run
  found nothing stored under the name, or a resource for the same server whose stored secret
  holds the same credential.\<close>

theorem provisioning_takes_over_nothing:
  "follows (writesOnlyAcceptable E (zip rs ss) clusters status l) l
     (newCalls (federationHandler E rs ss clusters status t) l)"
  by (rule runs_elim[OF handler_guarded]) (auto elim: follows_mono simp: guarded_def)

section \<open>Placement\<close>

lemma matchClusters_meaning:
  "matchClusters name m clusters = (let named = filter (\<lambda>c. c \<noteq> []) (map trimSpace clusters) in
     if list_ex (\<lambda>c. c = name) named then clusterListNamed
     else if list_ex (\<lambda>c. equalFold c name) named then clusterListCaseMismatch
     else if m = clusterListNoStatement \<and> named \<noteq> [] then clusterListExcluded
     else m)"
  by (induction name m clusters rule: matchClusters.induct) (simp_all add: Let_def)

text \<open>A message excludes this cluster when it names some cluster, and none that is this one under any
  casing.\<close>

lemma matchClusterList_excluded:
  "matchClusterList clusterName clusters = clusterListExcluded \<longleftrightarrow>
     (let own = trimSpace clusterName; named = filter (\<lambda>c. c \<noteq> []) (map trimSpace clusters) in
      own \<noteq> [] \<and> named \<noteq> [] \<and> list_all (\<lambda>c. \<not> equalFold c own) named)"
  by (auto simp: matchClusterList_def matchClusters_meaning Let_def list_all_iff list_ex_iff)

section \<open>Stamps\<close>

lemma stamp_read_back:
  assumes "0 \<le> t" and "t < farthestTime"
  shows "federationLastAppliedPublishTime (setFederationPublishTime t r) =
    (if t = 0 then federationLastAppliedPublishTime r else t)"
  by (simp add: federationLastAppliedPublishTime_def setFederationPublishTime_def dictSet_def update_conv' parse_format[OF assms])

section \<open>The secrets of a message\<close>



end
