(* ===== verification/FederationFlow.thy ===== *)
theory FederationFlow
  imports FederationSubscriber
begin

text \<open>
  The flow of messages: what a handler is given, that every message is answered exactly once,
  and how long the receive loop pauses after a failure.
\<close>

section \<open>What the handler is given\<close>






section \<open>Handlers\<close>

text \<open>The calls that are the subscriber's business, not the handler's.\<close>

fun handlerCall :: "remote_call \<Rightarrow> bool" where
  "handlerCall AckMessage = False"
| "handlerCall NackMessage = False"
| "handlerCall (OnSubscription e) = False"
| "handlerCall (CheckContext b) = False"
| "handlerCall (ReceiveClock t) = False"
| "handlerCall (SetConsecutiveErrors n) = False"
| "handlerCall (WaitBackoff d b) = False"
| "handlerCall _ = True"

lemma issues_get: "(\<And>l. issues p (f l)) \<Longrightarrow> issues p (State_Monad.bind State_Monad.get f)"
  by (simp add: issues_def runs_get)

lemma issues_runThreads: "(\<And>t. issues p (step t)) \<Longrightarrow> issues p (runThreads pick finished step n ts)"
  by (induction n arbitrary: ts) (auto intro!: issues_get issues_intros simp: Let_def)

lemma issues_batches:
  assumes "\<And>x r. p (w (ObjGet x r))" "\<And>x r. p (w (ObjCreate x r))" "\<And>x r. p (w (ObjUpdate x r))" "\<And>x r. p (w (ObjDelete x r))"
  shows "issues p (UpsertAllObjects pick K w get put xs)" "issues p (DeleteAllObjects pick K w xs)"
proof -
  have "issues p (upsertStep K w get put t)" for t
    using assms by (cases t) (auto simp: object_requests intro!: issues_intros)
  then show "issues p (UpsertAllObjects pick K w get put xs)"
    unfolding UpsertAllObjects_def by (intro issues_intros issues_runThreads)
  have "issues p (deleteStep K w t)" for t
    using assms by (cases t) (auto simp: DeleteObject_def object_requests intro!: issues_intros)
  then show "issues p (DeleteAllObjects pick K w xs)"
    unfolding DeleteAllObjects_def by (intro issues_intros issues_runThreads)
qed

fun isAnswer :: "remote_call \<Rightarrow> bool" where
  "isAnswer AckMessage = True"
| "isAnswer NackMessage = True"
| "isAnswer _ = False"

definition answerFor :: "message_error option \<Rightarrow> remote_call" where
  "answerFor r = (case r of Some (Redeliver e) \<Rightarrow> NackMessage | _ \<Rightarrow> AckMessage)"

text \<open>The calls while a subscription runs.\<close>

fun receiveCall :: "remote_call \<Rightarrow> bool" where
  "receiveCall (SetConsecutiveErrors n) = False"
| "receiveCall (WaitBackoff d b) = False"
| "receiveCall _ = True"

lemma handler_calls: "handlerCall c \<Longrightarrow> receiveCall c \<and> \<not> isAnswer c"
  by (cases c) simp_all

text \<open>What the subscriber asks of a handler: it leaves the message and the subscription alone.\<close>

locale message_handler =
  fixes handler :: message_handler
  assumes keeps_to_itself: "issues handlerCall (handler rs ss clusters status t)"
begin

lemma handle_issues: "issues handlerCall (handleMessage E handler msg)"
proof -
  have "issues handlerCall (tenantNamespaces E nss)" for nss
    by (induction nss) (auto simp: Let_def intro!: issues_intros)
  then show ?thesis
    unfolding handleMessage_def Let_def by (intro issues_intros keeps_to_itself)
qed

lemma answered_once:
  "filter isAnswer (newCalls (receiveMessage E handler msg) l) =
     [answerFor (result (handleMessage E handler msg) l)]"
proof -
  obtain r l' where run: "run_state (handleMessage E handler msg) l = (r, l')" by fastforce
  have "runs (\<lambda>_ _. True) l (handleMessage E handler msg) (\<lambda>_ l'. \<exists>new. l' = l @ new \<and> list_all handlerCall new)"
    by (rule issues_runs[OF handle_issues]) simp
  then obtain new where new: "l' = l @ new" "list_all handlerCall new"
    using run by (auto simp: runs_def wp_def)
  then have "filter isAnswer new = []"
    using handler_calls by (auto simp: filter_empty_conv list_all_iff)
  with new(1) show ?thesis
    by (auto simp: newCalls_def result_def receiveMessage_def answerFor_def run emit_def State_Monad.bind_def
        split: option.split message_error.split)
qed

lemma receive_issues: "issues receiveCall (receiveMessage E handler msg)"
  unfolding receiveMessage_def
  by (intro issues_bind issues_mono[OF handle_issues])
     (auto split: option.split message_error.split intro!: issues_intros simp: handler_calls)

end

lemma handler_issues: "issues handlerCall (federationHandler E rs ss clusters status t)"
proof -
  have each: "issues handlerCall (checkEach check xs)" if "\<And>x. issues handlerCall (check x)" for check xs
    by (induction xs) (auto intro!: issues_intros that)
  have count: "issues handlerCall (countFailures state errs)" for state errs
    by (induction errs) (auto intro!: issues_intros)
  have answer: "issues handlerCall (answerError e)" "issues handlerCall (failPermanently e)" for e
    by (auto simp: answerError_def failPermanently_def intro!: issues_intros)
  have batch: "issues handlerCall (afterBatch state errs k)" if "issues handlerCall k" for state errs k
    using that by (auto simp: afterBatch_def intro!: issues_intros count answer split: list.split)
  have tolerate: "issues handlerCall (toleratingNamespaces errs k)" if "issues handlerCall k" for errs k
    using that by (induction errs) (auto intro!: issues_intros answer)
  have among: "issues handlerCall (supersededAmong E r current ns refs ss)" for r current ns refs ss
    by (induction ss arbitrary: refs)
       (auto simp: supersedable_def federationAdminSecretReferences_def object_requests intro!: issues_intros)
  have superseded: "issues handlerCall (supersededIn E r current refs nss)" for r current refs nss
    by (induction nss arbitrary: refs) (auto simp: object_requests intro!: issues_intros among)
  have provision: "issues handlerCall (checkProvision E t item)" for t item
    by (auto simp: checkProvision_def checkExisting_def acceptItem_def federationSupersededAdminSecrets_def skipItem_def
        referencedByOther_def federationAdminSecret_def object_requests Let_def intro!: issues_intros superseded among)
  have removal: "issues handlerCall (checkRemoval E state t item)" for state t item
    by (auto simp: checkRemoval_def skipItem_def federationAdminSecret_def object_requests Let_def intro!: issues_intros)
  have removed: "issues handlerCall (applyRemoval E state t items)" for state items
    unfolding applyRemoval_def by (auto intro!: issues_intros each removal batch answer issues_batches)
  have provisioned: "issues handlerCall (applyProvisioning E t items)" for items
    unfolding applyProvisioning_def by (auto intro!: issues_intros each provision batch tolerate answer issues_batches)
  show ?thesis
    by (auto simp: federationHandler_def handleProvisioned_def ignoreMessage_def Let_def
        intro!: issues_intros removed provisioned split: pb_status.split cluster_list_match.split)
qed

interpretation federation: message_handler "federationHandler E" for E
  by unfold_locales (rule handler_issues)


section \<open>The receive loop\<close>

fun errorGauge :: "remote_call \<Rightarrow> int option" where
  "errorGauge (SetConsecutiveErrors n) = Some n"
| "errorGauge _ = None"

definition pausesByErrors :: "remote_call list \<Rightarrow> remote_call \<Rightarrow> bool" where
  "pausesByErrors h c \<longleftrightarrow> (case c of
     WaitBackoff d b \<Rightarrow> (\<exists>k. latestOf errorGauge h = Some (int (Suc k)) \<and> d = min (2 ^ k * second) (5 * minute))
   | _ \<Rightarrow> True)"

lemma pauses_other [simp]: "receiveCall c \<Longrightarrow> pausesByErrors h c" "pausesByErrors h (SetConsecutiveErrors n)"
  by (cases c; simp add: pausesByErrors_def) (simp add: pausesByErrors_def)

lemma subscribe_issues: "issues receiveCall (subscribe n E (federationHandler E))"
  by (induction n) (auto intro!: issues_intros federation.receive_issues split: subscription_event.split)

lemma doubled: "min (2 * min (2 ^ k * second) (5 * minute)) (5 * minute) = min (2 ^ Suc k * second) (5 * minute)"
  by (simp add: second_def minute_def min_def)

lemma receiveLoop_pauses:
  "runs pausesByErrors l (receiveLoop events n E (federationHandler E) (min (2 ^ k * second) (5 * minute)) (int k)) (\<lambda>_ _. True)"
proof (induction n arbitrary: events k l)
  case (Suc n)
  have quiet: "runs pausesByErrors l (subscribe ev E (federationHandler E)) (\<lambda>_ _. True)" for l ev
    by (rule runs_weaken[OF issues_runs[OF subscribe_issues]]) simp_all
  have ending: "runs pausesByErrors l endReceiving (\<lambda>_ _. True)" for l
    unfolding endReceiving_def by (auto intro!: runs_bind[OF runs_emit[where Q = "\<lambda>_ _. True"]] runs_return)
  have base: "federationReceiveBackoffBase = min (2 ^ 0 * second) (5 * minute)"
    by (simp add: federationReceiveBackoffBase_def second_def minute_def)
  have pause: "runs pausesByErrors l (case err of None \<Rightarrow> endReceiving | Some e \<Rightarrow>
      State_Monad.bind (emit (SetConsecutiveErrors (m + 1))) (\<lambda>_.
      State_Monad.bind (perform (\<lambda>l. mWaitInterrupted E l d) (WaitBackoff d)) (\<lambda>interrupted.
        if interrupted then endReceiving
        else receiveLoop ev n E (federationHandler E) (min (2 * d) federationReceiveBackoffMax) (m + 1)))) (\<lambda>_ _. True)"
    if d: "d = min (2 ^ j * second) (5 * minute)" and m: "m = int j" for l err ev j d m
  proof (intro runs_case_option ending runs_bind[OF runs_emit[where Q = "\<lambda>_ l'. latestOf errorGauge l' = Some (int (Suc j))"]], goal_cases)
    case (3 e x new)
    have "min (2 * d) federationReceiveBackoffMax = min (2 ^ Suc j * second) (5 * minute)"
      unfolding d federationReceiveBackoffMax_def by (rule doubled)
    moreover have "pausesByErrors (l @ new) (WaitBackoff d b)" for b
      using 3 d by (auto simp: pausesByErrors_def simp del: latestOf_append of_nat_Suc intro!: exI[of _ j])
    moreover have "m + 1 = int (Suc j)" using m by simp
    ultimately show ?case
      using Suc.IH[of _ ev "Suc j"] by (intro runs_bind_perform runs_if ending) (simp_all del: of_nat_Suc power_Suc)
  qed (simp_all add: m)
  have after: "runs pausesByErrors l (afterRun E elapsed err (min (2 ^ k * second) (5 * minute)) (int k)
      (\<lambda>backoff errors. receiveLoop ev n E (federationHandler E) backoff errors)) (\<lambda>_ _. True)" for l elapsed err ev
  proof (cases "err = None \<or> elapsed > federationReceiveBackoffMax")
    case True
    show ?thesis
      unfolding afterRun_def Let_def if_P[OF True]
      by (rule runs_bind[OF runs_emit[where Q = "\<lambda>_ _. True"]]) (auto intro!: pause[OF base])
  next
    case False
    show ?thesis
      unfolding afterRun_def Let_def if_not_P[OF False] runs_ret_bind by (rule pause[OF refl refl])
  qed
  show ?case
    unfolding receiveLoop.simps contextDone_def receiveClock_def
    by (auto intro!: runs_bind_perform runs_if ending runs_get runs_bind[OF quiet] runs_case_option
        runs_case_prod runs_return after runs_bind[OF runs_emit[where Q = "\<lambda>_ _. True"]] simp: runs_ret_bind)
qed (simp add: runs_return)

text \<open>After the k-th consecutive failure of the subscription, which is what the gauge says, the
  operator pauses for two to the power of k - 1 seconds, at most five minutes, before it
  subscribes again.\<close>

theorem reconnects_with_backoff:
  "follows pausesByErrors l (newCalls (FederationSubscribe events attempts E) l)"
proof -
  have "runs pausesByErrors l (FederationSubscribe events attempts E) (\<lambda>_ _. True)"
    using receiveLoop_pauses[where k = 0]
    by (auto simp: FederationSubscribe_def federationReceiveBackoffBase_def second_def minute_def intro!: runs_if runs_return)
  then show ?thesis by (elim runs_elim)
qed

end
