(* ===== verification/FederationShutdown.thy ===== *)
theory FederationShutdown
  imports FederationFlow SampleInstance
begin

text \<open>
  The receive loop ends: how much fuel \<open>receiveLoop\<close> and \<open>subscribe\<close> need once the operator shuts
  down, and that the loop then returns whatever the handler does.
\<close>

section \<open>Shutting down\<close>

text \<open>How many messages arrived and how often the context was looked at.\<close>

definition deliveries :: "remote_call list \<Rightarrow> nat" where
  "deliveries l = length (filter (\<lambda>c. case c of OnSubscription (Delivered _) \<Rightarrow> True | _ \<Rightarrow> False) l)"

definition contextChecks :: "remote_call list \<Rightarrow> nat" where
  "contextChecks l = length (filter (\<lambda>c. case c of CheckContext _ \<Rightarrow> True | _ \<Rightarrow> False) l)"

lemma counts_append [simp]:
  "deliveries (l @ l') = deliveries l + deliveries l'" "contextChecks (l @ l') = contextChecks l + contextChecks l'"
  by (simp_all add: deliveries_def contextChecks_def)

lemma counts_Cons [simp]:
  "deliveries [] = 0" "contextChecks [] = 0"
  "deliveries (c # l) = (case c of OnSubscription (Delivered _) \<Rightarrow> 1 | _ \<Rightarrow> 0) + deliveries l"
  "contextChecks (c # l) = (case c of CheckContext _ \<Rightarrow> 1 | _ \<Rightarrow> 0) + contextChecks l"
  by (auto simp: deliveries_def contextChecks_def split: remote_call.split subscription_event.split)

text \<open>A shutdown: no more than \<open>k\<close> messages arrive before the subscription ends for good, and
  the context is done at the latest when it is looked at after \<open>c\<close> times.\<close>

definition shutsDown :: "nat \<Rightarrow> nat \<Rightarrow> 'v remote_env \<Rightarrow> bool" where
  "shutsDown k c E \<longleftrightarrow> (\<forall>l. k \<le> deliveries l \<longrightarrow> (\<exists>err. mNextEvent E l = SubscriptionEnded err)) \<and>
     (\<forall>l. c \<le> contextChecks l \<longrightarrow> mContextDone E l)"

lemma subscribe_returns:
  assumes "shutsDown k c E" and "k - deliveries l < n"
  shows "runs (\<lambda>_ _. True) l (subscribe n E (federationHandler E)) (\<lambda>r l'. \<exists>m err. r = Some (m, err) \<and>
    n + (k - deliveries l') \<le> m + (k - deliveries l) + 1 \<and> contextChecks l \<le> contextChecks l')"
  using assms(2)
proof (induction n arbitrary: l)
  case (Suc n)
  have quiet: "runs (\<lambda>_ _. True) l (receiveMessage E (federationHandler E) msg) (\<lambda>_ _. True)" for l msg
    by (rule runs_weaken[OF issues_runs[OF federation.receive_issues]]) simp_all
  show ?case
  proof (cases "mNextEvent E l")
    case (Delivered msg)
    with assms have fewer: "deliveries l < k"
      unfolding shutsDown_def by (metis linorder_not_less subscription_event.distinct(1))
    have "runs (\<lambda>_ _. True) (l @ [OnSubscription (Delivered msg)])
        (State_Monad.bind (receiveMessage E (federationHandler E) msg) (\<lambda>_. subscribe n E (federationHandler E)))
        (\<lambda>r l'. \<exists>m err. r = Some (m, err) \<and>
           Suc n + (k - deliveries l') \<le> m + (k - deliveries l) + 1 \<and> contextChecks l \<le> contextChecks l')"
      by (rule runs_bind[OF quiet], rule runs_weaken[OF Suc.IH]) (use Suc.prems fewer in auto)
    then show ?thesis
      unfolding subscribe.simps by (intro runs_bind_perform) (simp_all add: Delivered)
  next
    case (SubscriptionEnded err)
    then show ?thesis
      unfolding subscribe.simps by (intro runs_bind_perform) (auto intro: runs_return)
  qed
qed simp

lemma endReceiving_returns: "runs (\<lambda>_ _. True) l endReceiving (\<lambda>r _. r \<noteq> None)"
  unfolding endReceiving_def by (auto intro!: runs_bind[OF runs_emit[where Q = "\<lambda>_ _. True"]] runs_return)

lemma afterRun_returns:
  assumes "\<And>new b e. runs (\<lambda>_ _. True) (l @ new) (again b e) (\<lambda>r _. r \<noteq> None)"
  shows "runs (\<lambda>_ _. True) l (afterRun E elapsed err backoff errors again) (\<lambda>r _. r \<noteq> None)"
  unfolding afterRun_def Let_def
  by (rule runs_bind[where Q' = "\<lambda>_ _. True"])
     (auto intro!: runs_if runs_case_option runs_return runs_emit runs_bind[OF runs_emit[where Q = "\<lambda>_ _. True"]]
       runs_bind_perform endReceiving_returns assms simp del: not_None_eq)

lemma receiveLoop_returns:
  assumes "shutsDown k c E" and "k - deliveries l + (c - contextChecks l) < events" and "c - contextChecks l < n"
  shows "runs (\<lambda>_ _. True) l (receiveLoop events n E (federationHandler E) backoff errors) (\<lambda>r _. r \<noteq> None)"
  using assms(2,3)
proof (induction n arbitrary: events l backoff errors)
  case (Suc n)
  define again where "again = (\<lambda>m backoff errors. receiveLoop m n E (federationHandler E) backoff errors)"
  define rest where "rest = (\<lambda>started (before :: remote_call list) run. do {
      after \<leftarrow> State_Monad.get;
      (case run of
         None \<Rightarrow> ret None
       | Some (events, err) \<Rightarrow> do {
           now \<leftarrow> receiveClock E;
           _ \<leftarrow> (if now - started \<ge> federationReceiveBackoffMax then emit (SetConsecutiveErrors 0) else ret ());
           finished \<leftarrow> contextDone E;
           (if finished then endReceiving
            else (case stopCause (drop (length before) after) of
               Some e \<Rightarrow> ret (Some (Some e))
             | None \<Rightarrow> afterRun E (now - started) err backoff errors (again events)))
         })
    })"
  have step: "receiveLoop events (Suc n) E (federationHandler E) backoff errors = do {
      finished \<leftarrow> contextDone E;
      (if finished then endReceiving
       else do {
         started \<leftarrow> receiveClock E;
         before \<leftarrow> State_Monad.get;
         run \<leftarrow> subscribe events E (federationHandler E);
         rest started before run
       })
    }"
    unfolding rest_def again_def by simp
  show ?case
  proof (cases "mContextDone E l")
    case True
    then show ?thesis
      unfolding step contextDone_def by (intro runs_bind_perform) (simp_all add: endReceiving_returns del: not_None_eq)
  next
    case False
    then have more_checks: "contextChecks l < c"
      using assms(1) unfolding shutsDown_def by (metis linorder_not_less)
    have loop: "runs (\<lambda>_ _. True) l' (again m b e) (\<lambda>r _. r \<noteq> None)"
      if "k - deliveries l' + (c - contextChecks l') < m" "contextChecks l < contextChecks l'" for l' m b e
      unfolding again_def by (rule Suc.IH[OF that(1)]) (use Suc.prems(2) that(2) more_checks in simp)
    have rest: "runs (\<lambda>_ _. True) l' (rest started before (Some (m, err))) (\<lambda>r _. r \<noteq> None)"
      if "k - deliveries l' + (c - contextChecks l') < m" "contextChecks l < contextChecks l'" for l' m started before err
      unfolding rest_def contextDone_def receiveClock_def
      by (rule runs_get)
         (use that in \<open>auto intro!: runs_bind_perform runs_if runs_case_option runs_return afterRun_returns loop
            endReceiving_returns runs_bind[OF runs_emit[where Q = "\<lambda>_ _. True"]] simp: runs_ret_bind simp del: not_None_eq\<close>)
    have "runs (\<lambda>_ _. True) ((l @ [CheckContext False]) @ [ReceiveClock t])
        (State_Monad.bind (subscribe events E (federationHandler E)) (rest t before)) (\<lambda>r _. r \<noteq> None)" for t before
      by (rule runs_bind[OF subscribe_returns[OF assms(1)]]) (use Suc.prems more_checks in \<open>auto intro!: rest simp del: not_None_eq\<close>)
    then show ?thesis
      unfolding step contextDone_def receiveClock_def
      by (intro runs_bind_perform) (auto simp: False intro!: runs_bind_perform runs_get simp del: not_None_eq)
  qed
qed simp

text \<open>C38: however messages are handled and however often the subscription fails in between, once
  the operator shuts down the receive loop returns: when at most \<open>k\<close> more messages arrive and the
  context is done after it was looked at \<open>c\<close> times, fuel for \<open>k + c + 1\<close> events and \<open>c + 1\<close> runs is
  enough.\<close>

theorem receiving_returns:
  assumes "shutsDown k c E" and "k + c < events" and "c < attempts"
  shows "result (FederationSubscribe events attempts E) l \<noteq> None"
proof -
  have "runs (\<lambda>_ _. True) l (receiveLoop events attempts E (federationHandler E) federationReceiveBackoffBase 0)
      (\<lambda>r _. r \<noteq> None)"
    by (rule receiveLoop_returns[OF assms(1)]) (use assms(2,3) in auto)
  from runs_result[OF this] show ?thesis
    by (simp add: FederationSubscribe_def result_def)
qed

section \<open>A concrete shutdown\<close>

text \<open>A cluster that receives one unreadable message; then the subscription fails whenever it is
  tried, until the context is done the third time it is looked at.\<close>

definition sampleShutdown :: "nat remote_env" where
  "sampleShutdown = apimachinery.extend sampleMachinery
     \<lparr>mRemotes = emptyKind, mRemotesDirect = emptyKind, mSecrets = emptyKind, mSecretsDirect = emptyKind,
      mWeb = sampleWeb, mInt63n = (\<lambda>l n. 0), mPick = (\<lambda>l. 0), mSha256 = id,
      mOperatorNamespace = ''op'', mClusterName = ''c'', mLegacySecrets = True, mNamespaceBound = True, mRetries = 4,
      mNextEvent = (\<lambda>l. if deliveries l = 0 then Delivered \<lparr>msgData = ''?'', msgPublishTime = 0\<rparr>
                        else SubscriptionEnded (Some absent)),
      mContextDone = (\<lambda>l. 2 \<le> contextChecks l), mNow = (\<lambda>l. 0), mWaitInterrupted = (\<lambda>l d. False),
      mUnmarshal = (\<lambda>s. Inl absent), mIsDNS1123Label = (\<lambda>s. s \<noteq> []), mFederationEnabled = True\<rparr>"

theorem receiving_returns_witness:
  "shutsDown 1 2 sampleShutdown \<and> result (FederationSubscribe 4 3 sampleShutdown) [] \<noteq> None"
proof -
  have shut: "shutsDown 1 2 sampleShutdown"
    by (simp add: shutsDown_def sampleShutdown_def apimachinery.defs)
  then show ?thesis
    using receiving_returns[OF shut, of 4 3 "[]"] by simp
qed

end
