(* ===== verification/FederationDelivery.thy ===== *)
theory FederationDelivery
  imports FederationPromises FederationShutdown
begin

text \<open>
  From one cluster to the other: what the Unleash controller of the first publishes is turned by
  the subscriber of the second into a resource and a secret that the RemoteUnleash controller
  accepts.
\<close>

section \<open>A cluster that has not heard of the instance\<close>





section \<open>The handler on such a cluster\<close>









section \<open>From publication to access\<close>









section \<open>A concrete publication\<close>







end
