(* ===== verification/MigrationPromises.thy ===== *)
theory MigrationPromises
  imports RemoteUnleashController
begin

text \<open>
  Promises of the move to namespace-bound secrets: an instance is never left without a working
  reference, and the legacy secret goes last.
\<close>

section \<open>The order of the steps\<close>

text \<open>The token of the legacy secret, as read in this run: the secret is the operator's and nobody
  else refers to it.\<close>

definition legacyToken :: "remote_unleash \<Rightarrow> remote_call list \<Rightarrow> string \<Rightarrow> bool" where
  "legacyToken r new token \<longleftrightarrow>
     (\<exists>legacy. OnRemoteSecretDirect (ObjGet (adminSecretKey r) (Inr legacy)) \<in> set new \<and> operatorManaged r legacy \<and>
        token = dictGet (scData legacy) (ruSecretKey r) \<and> token \<noteq> []) \<and>
     (\<exists>rs. OnRemoteDirect (ObjList [] (Inr rs)) \<in> set new \<and>
        filter (\<lambda>x. adminSecretKey x = adminSecretKey r) (filter (\<lambda>x. remoteKey x \<noteq> remoteKey r) rs) = [])"

text \<open>The secret of that name grants the instance the token: it was created in this run, or someone
  else created it meanwhile, or it was read and agreed.\<close>

definition showsReplacement :: "'v remote_env \<Rightarrow> remote_unleash \<Rightarrow> string \<Rightarrow> string \<Rightarrow> remote_call \<Rightarrow> bool" where
  "showsReplacement E r token name c \<longleftrightarrow> (let s = replacementSecret (mOperatorNamespace E) r name token in
     (case c of
        OnRemoteSecret (ObjCreate s' (Inr x)) \<Rightarrow> s' = s
      | OnRemoteSecret (ObjCreate s' (Inl e)) \<Rightarrow> s' = s \<and> errorKind e = AlreadyExists
      | OnRemoteSecretDirect (ObjGet k (Inr x)) \<Rightarrow> k = secretKey s \<and> carriesGrant r token x
      | _ \<Rightarrow> False))"

definition replacementReady :: "'v remote_env \<Rightarrow> remote_unleash \<Rightarrow> remote_call list \<Rightarrow> string \<Rightarrow> string \<Rightarrow> bool" where
  "replacementReady E r new token name \<longleftrightarrow> list_ex (showsReplacement E r token name) new"

fun remoteRead :: "remote_call \<Rightarrow> remote_unleash option" where
  "remoteRead (OnRemote (ObjGet k (Inr r))) = Some r"
| "remoteRead _ = None"

text \<open>The legacy secret as it was read, or as it was answered when its URL was recorded.\<close>

definition showsLegacy :: "remote_unleash \<Rightarrow> secret \<Rightarrow> remote_call \<Rightarrow> bool" where
  "showsLegacy r s c \<longleftrightarrow>
     (case c of
        OnRemoteSecretDirect (ObjGet k (Inr s')) \<Rightarrow> k = adminSecretKey r \<and> s' = s
      | OnRemoteSecret (ObjPatchLocked old stamped (Inr s')) \<Rightarrow> s' = s
      | _ \<Rightarrow> False)"

definition legacyKnown :: "remote_unleash \<Rightarrow> remote_call list \<Rightarrow> secret \<Rightarrow> bool" where
  "legacyKnown r new s \<longleftrightarrow> list_ex (showsLegacy r s) new"

fun repointStored :: "remote_call \<Rightarrow> bool" where
  "repointStored (OnRemote (ObjUpdate p (Inr stored))) = True"
| "repointStored _ = False"

definition migratesInOrder ::
  "'v remote_env \<Rightarrow> remote_unleash \<Rightarrow> remote_call list \<Rightarrow> remote_call list \<Rightarrow> remote_call \<Rightarrow> bool" where
  "migratesInOrder E r l0 h c \<longleftrightarrow> (let new = drop (length l0) h in
     (case c of
        OnRemote (ObjUpdate p res) \<Rightarrow>
          (\<exists>fresh token name. latestOf remoteRead h = Some fresh \<and> p = repointed E name fresh \<and>
             adminSecretKey fresh = adminSecretKey r \<and> ruURL fresh = ruURL r \<and>
             legacyToken r new token \<and> replacementReady E r new token name)
      | OnRemoteSecret (ObjPatchLocked old s res) \<Rightarrow>
          OnRemoteSecretDirect (ObjGet (adminSecretKey r) (Inr old)) \<in> set new \<and> operatorManaged r old \<and>
          fst (adminSecretKey r) = ruNamespace r \<and> s = old\<lparr>scData := dictSet UnleashSecretServerURLKey (ruURL r) (scData old)\<rparr>
      | OnRemoteSecret (ObjDeleteExact s res) \<Rightarrow>
          list_ex repointStored new \<and> legacyKnown r new s
      | _ \<Rightarrow> True))"

fun migrationWrite :: "remote_call \<Rightarrow> bool" where
  "migrationWrite (OnRemote (ObjUpdate p res)) = True"
| "migrationWrite (OnRemoteSecret (ObjPatchLocked old s res')) = True"
| "migrationWrite (OnRemoteSecret (ObjDeleteExact s res'')) = True"
| "migrationWrite _ = False"

lemma inOrder_other [simp]: "\<not> migrationWrite c \<Longrightarrow> migratesInOrder E r l0 h c"
  by (cases c rule: migrationWrite.cases) (simp_all add: migratesInOrder_def Let_def)










end
