(* ===== verification/RemotePromises.thy ===== *)
theory RemotePromises
  imports MigrationPromises
begin

text \<open>
  Promises of a reconcile of a RemoteUnleash: its admin token is sent only to the server that
  the secret grants it for, and the instance counts as connected only when that server has
  answered.
\<close>

section \<open>The promise\<close>

text \<open>What \<open>r\<close> may send: a token that a secret read in this run grants, to the server of \<open>r\<close>.\<close>

definition grantedRequest :: "'v remote_env \<Rightarrow> remote_call list \<Rightarrow> remote_unleash \<Rightarrow> http_request \<Rightarrow> bool" where
  "grantedRequest E new r rq \<longleftrightarrow>
     (\<exists>s u. OnRemoteSecret (ObjGet (adminSecretKey r) (Inr s)) \<in> set new \<and>
        tokenFromSecret (mLegacySecrets E) r s = Inr (rqToken rq) \<and> wParseURL (mWeb E) (ruURL r) = Inr u \<and>
        rqURL rq = requestURL \<lparr>clURL = u, clToken = rqToken rq\<rparr> InstanceAdminStatsEndpoint)"

definition answeredOK :: "remote_call list \<Rightarrow> bool" where
  "answeredOK new \<longleftrightarrow> (\<exists>rq stream. OnRemoteHttp (HttpCall rq (HttpReply 200 stream)) \<in> set new)"

definition connectsHonestly ::
  "'v remote_env \<Rightarrow> nsname \<Rightarrow> remote_call list \<Rightarrow> remote_call list \<Rightarrow> remote_call \<Rightarrow> bool" where
  "connectsHonestly E k l0 h c \<longleftrightarrow> (let new = drop (length l0) h in
     (case c of
        OnRemoteHttp (HttpCall rq res) \<Rightarrow>
          (\<exists>r. OnRemote (ObjGet k (Inr r)) \<in> set new \<and> grantedRequest E new r rq)
      | OnRemote (ObjUpdateStatus p res) \<Rightarrow>
          (if rtConnected (ruStatus p)
           then (\<exists>fresh. latestOf remoteRead h = Some fresh \<and> rtConnected (ruStatus fresh)) \<or> answeredOK new
           else True)
      | _ \<Rightarrow> True))"

fun connectionCall :: "remote_call \<Rightarrow> bool" where
  "connectionCall (OnRemoteHttp (HttpCall rq res)) = True"
| "connectionCall (OnRemote (ObjUpdateStatus p res')) = True"
| "connectionCall _ = False"

lemma honest_other [simp]: "\<not> connectionCall c \<Longrightarrow> connectsHonestly E k l0 h c"
  by (cases c rule: connectionCall.cases) (simp_all add: connectsHonestly_def Let_def)

lemma honest_quiet:
  "issues (\<lambda>c. \<not> connectionCall c) m \<Longrightarrow> runs (connectsHonestly E k l0) h m (\<lambda>_ _. True)"
  by (rule runs_weaken[OF issues_runs[of "\<lambda>c. \<not> connectionCall c" m "connectsHonestly E k l0" h]]) auto

lemma fail_quiet: "issues p (failWith e)"
  by (simp add: failWith_def issues_ret)

lemma fail_honest: "runs (connectsHonestly E k l0) h (failWith e) (\<lambda>_ _. True)"
  by (rule honest_quiet[OF fail_quiet])

section \<open>Writes that leave the connection alone\<close>

lemma honest_unconnected: "\<not> rtConnected (ruStatus p) \<Longrightarrow> connectsHonestly E k l0 h (OnRemote (ObjUpdateStatus p res))"
  by (simp add: connectsHonestly_def)

lemma honest_unchanged:
  assumes "rtConnected (ruStatus p) = rtConnected (ruStatus fresh)"
  shows "connectsHonestly E k l0 (h @ [OnRemote (ObjGet k' (Inr fresh))]) (OnRemote (ObjUpdateStatus p res))"
  using assms by (auto simp: connectsHonestly_def Let_def)

lemma unchanged_write:
  assumes "\<And>fresh. rtConnected (ruStatus (change fresh)) = rtConnected (ruStatus fresh)"
  shows "runs (connectsHonestly E k l0) l (onFreshRemote E k' (\<lambda>fresh.
      if skip fresh then ret (None, fresh) else putBack (change fresh) (writeRemoteStatus E (change fresh))) r) (\<lambda>_ _. True)"
  unfolding onFresh_def putBack_def object_requests
  by (rule runs_retry[where I = "\<lambda>_ _. True"])
     (auto intro!: runs_onError_perform runs_if runs_return runs_bind_perform honest_unchanged assms)

lemma condition_keeps_connection: "rtConnected (ruStatus (remoteCondition E c r)) = rtConnected (ruStatus r)"
  by (simp add: remoteCondition_def)

lemma initialize_honest:
  "runs (connectsHonestly E k l0) l (initializeRemote E k r)
     (\<lambda>res l'. \<forall>r'. res = Inr r' \<longrightarrow> r' = r \<or> OnRemote (ObjGet k (Inr r')) \<in> set (drop (length l) l'))"
  unfolding initializeRemote_def ensured_def
proof (intro runs_if runs_onFailure[OF unchanged_write], goal_cases)
  case (4 x new)
  show ?case
    unfolding getObject_def by (rule runs_perform) auto
qed (auto intro: runs_return simp: condition_keeps_connection)

lemma claim_honest:
  "runs (connectsHonestly E k l0) l (claimRemote E k r)
     (\<lambda>res l'. \<forall>r'. res = Inr r' \<longrightarrow> r' = r \<or> OnRemote (ObjGet k (Inr r')) \<in> set (drop (length l) l'))"
proof -
  have quiet: "issues (\<lambda>c. \<not> connectionCall c) (onFreshRemote E k (\<lambda>fresh. if hasRemoteFinalizer E fresh then ret (None, fresh)
      else putBack (change fresh) (writeRemote E (change fresh))) r)" for change
    unfolding onFresh_def putBack_def object_requests by (intro issues_intros; simp)
  show ?thesis
    unfolding claimRemote_def ensured_def
  proof (intro runs_if runs_onFailure[OF honest_quiet[OF quiet]], goal_cases)
    case (3 x new)
    show ?case
      unfolding getObject_def by (rule runs_perform) auto
  qed (auto intro: runs_return fail_honest)
qed

lemma failed_honest: "runs (connectsHonestly E k l0) l (remoteStatusReconcileFailed E r stats m) (\<lambda>_ _. True)"
proof -
  have "rtConnected (ruStatus (markRemote E stats (newCondition ConditionReconciled ConditionFalse ''Reconciling'' m) fresh)) =
      rtConnected (ruStatus fresh)" for fresh
    by (simp add: markRemote_def condition_keeps_connection newCondition_def reportRemoteVersion_def Let_def split: option.split)
  note keep = unchanged_write[where skip = "\<lambda>_. False", OF this, unfolded if_False]
  show ?thesis
    unfolding remoteStatusReconcileFailed_def updateRemoteStatus_def Let_def
    by (rule runs_bind[OF runs_emit[where Q = "\<lambda>_ _. True"]]) (auto intro!: keep)
qed

section \<open>The connection\<close>

text \<open>A client is made from a secret that grants its token.\<close>

definition clientGranted :: "'v remote_env \<Rightarrow> remote_call list \<Rightarrow> remote_unleash \<Rightarrow> http_client \<Rightarrow> bool" where
  "clientGranted E new r c \<longleftrightarrow>
     (\<exists>s u. OnRemoteSecret (ObjGet (adminSecretKey r) (Inr s)) \<in> set new \<and>
        tokenFromSecret (mLegacySecrets E) r s = Inr (clToken c) \<and> wParseURL (mWeb E) (ruURL r) = Inr u \<and>
        c = \<lparr>clURL = u, clToken = clToken c\<rparr>)"

lemma client_honest:
  "runs (connectsHonestly E k l0) (l0 @ new)
     (validatedRemoteUnleashAPIClient (mSecrets E) OnRemoteSecret (mWeb E) (mOperatorNamespace E) (mLegacySecrets E) r)
     (\<lambda>res l'. \<exists>rest. l' = l0 @ new @ rest \<and> (\<forall>c. res = Inr c \<longrightarrow> clientGranted E (new @ rest) r c))"
proof -
  let ?P = "connectsHonestly E k l0"
  let ?Q = "\<lambda>res l'. \<exists>rest. l' = l0 @ new @ rest \<and>
    (\<forall>token. res = Inr token \<longrightarrow> (\<exists>s. OnRemoteSecret (ObjGet (adminSecretKey r) (Inr s)) \<in> set rest \<and>
        tokenFromSecret (mLegacySecrets E) r s = Inr token))"
  have token: "runs ?P (l0 @ new) (validatedRemoteUnleashAdminToken (mSecrets E) OnRemoteSecret
      (mOperatorNamespace E) (mLegacySecrets E) r) ?Q"
    unfolding validatedRemoteUnleashAdminToken_def getObject_def
    by (auto intro!: runs_if runs_return runs_onError_perform)
  show ?thesis
    unfolding validatedRemoteUnleashAPIClient_def
    by (rule runs_onError[OF token])
       (auto intro!: runs_return simp: NewClient_def clientGranted_def split: sum.splits if_splits)
qed

lemma stats_honest:
  assumes r: "OnRemote (ObjGet k (Inr r)) \<in> set new" and c: "clientGranted E new r c"
  shows "runs (connectsHonestly E k l0) (l0 @ new) (GetInstanceAdminStats (mWeb E) OnRemoteHttp c)
    (\<lambda>(stats, response, err) l'. err = None \<longrightarrow> answeredOK (drop (length l0) l'))"
proof -
  define rq where "rq = newRequest c ''GET'' (requestURL c InstanceAdminStatsEndpoint) None"
  have "grantedRequest E (new @ rest) r rq" for rest
    using c unfolding clientGranted_def grantedRequest_def rq_def newRequest_def by (cases c) fastforce
  then have sent: "connectsHonestly E k l0 (l0 @ new @ rest) (OnRemoteHttp (HttpCall rq res))" for rest res
    using r by (auto simp: connectsHonestly_def)
  have ok: "answeredOK (new @ rest @ [OnRemoteHttp (HttpCall rq res)])"
    if "expectBody (mWeb E) 200 res = Inr b" for rest res b
    using that by (cases res) (auto simp: answeredOK_def expectBody_def split: sum.splits if_splits)
  have "newTransport (mWeb E) OnRemoteHttp rq =
      do { _ \<leftarrow> emit (OnRemoteHttp (HttpSpan (rqURL rq))); baseTransport (mWeb E) OnRemoteHttp rq }"
    by (simp add: newTransport_def redactingTransport_def otelTransport_def restoringTransport_def rq_def newRequest_def)
  then have steps: "GetInstanceAdminStats (mWeb E) OnRemoteHttp c = do {
      _ \<leftarrow> emit (OnRemoteHttp (HttpSpan (rqURL rq)));
      res \<leftarrow> perform (\<lambda>l. wDo (mWeb E) l rq) (\<lambda>r. OnRemoteHttp (HttpCall rq r));
      ret (case expectBody (mWeb E) 200 res of Inl e \<Rightarrow> (zeroStats, res, Some e)
           | Inr b \<Rightarrow> (case wDecodeStats (mWeb E) b of (err, stats) \<Rightarrow> (stats, res, err)))
    }"
    by (simp add: GetInstanceAdminStats_def httpGetURL_def rq_def[symmetric] baseTransport_def)
  show ?thesis
    unfolding steps
  proof (rule runs_bind[OF runs_emit[where Q = "\<lambda>_ l'. l' = l0 @ new @ [OnRemoteHttp (HttpSpan (rqURL rq))]"]], goal_cases)
    case (3 x rest)
    then show ?case
      using sent[of "[OnRemoteHttp (HttpSpan (rqURL rq))]"] ok[of _ _ "[OnRemoteHttp (HttpSpan (rqURL rq))]"]
      by (intro runs_bind_perform runs_return) (auto split: sum.splits prod.splits)
  qed simp_all
qed

section \<open>A whole reconcile\<close>

lemma answeredOK_mono: "answeredOK new \<Longrightarrow> answeredOK (new @ rest)"
  by (auto simp: answeredOK_def)

lemma writeConnection_honest:
  assumes "connected \<longrightarrow> answeredOK new"
  shows "runs (connectsHonestly E k l0) (l0 @ new) (writeConnection E stats connected m r) (\<lambda>_ _. True)"
proof -
  have "rtConnected (ruStatus (connectionStatus E stats connected m fresh)) = connected" for fresh
    by (simp add: connectionStatus_def remoteCondition_def Let_def)
  with assms have status: "connectsHonestly E k l0 (l0 @ new @ rest) (OnRemote (ObjUpdateStatus (connectionStatus E stats connected m fresh) res))"
    for rest fresh res
    by (auto simp: connectsHonestly_def Let_def intro: answeredOK_mono)
  have gauge: "runs (connectsHonestly E k l0) h (State_Monad.bind (emit (SetRemoteGauge a t b)) f) (\<lambda>_ _. True)"
    if "runs (connectsHonestly E k l0) (h @ [SetRemoteGauge a t b]) (f ()) (\<lambda>_ _. True)" for h a t b f
    by (rule runs_bind[OF runs_emit[where Q = "\<lambda>_ l'. l' = h @ [SetRemoteGauge a t b]"]]) (use that in auto)
  show ?thesis
    unfolding writeConnection_def putBack_def object_requests Let_def
    by (auto intro!: runs_onError_perform runs_return gauge runs_bind_perform status)
qed

lemma migration_quiet: "issues (\<lambda>c. \<not> connectionCall c) (migrateLegacyAdminSecret E r)"
  unfolding migrateLegacyAdminSecret_def assertURL_def replaceSecret_def repoint_def deleteLegacy_def migrationFails_def
    referencedByOther_def onFresh_def putBack_def object_requests
  by (intro issues_intros; simp)

lemma connected_honest:
  assumes "answeredOK new"
  shows "runs (connectsHonestly E k l0) (l0 @ new) (connectedRemote E stats r) (\<lambda>_ _. True)"
proof -
  have "issues (\<lambda>c. \<not> connectionCall c) (requeueRemote E)"
    unfolding requeueRemote_def by (intro issues_intros; simp)
  then have tail: "issues (\<lambda>c. \<not> connectionCall c) (if b
      then onError (migrateLegacyAdminSecret E x) failWith (\<lambda>migrated. requeueRemote E) else requeueRemote E)" for b x
    by (intro issues_intros migration_quiet fail_quiet)
  show ?thesis
    unfolding connectedRemote_def remoteStatusSuccess_def
    by (rule runs_onFailure[OF writeConnection_honest]) (use assms in \<open>auto intro: runs_return fail_honest intro!: honest_quiet[OF tail] split del: if_split\<close>)
qed

lemma reconcile_honest:
  assumes r: "OnRemote (ObjGet k (Inr r)) \<in> set new"
  shows "runs (connectsHonestly E k l0) (l0 @ new) (reconcileRemote E r) (\<lambda>_ _. True)"
  unfolding reconcileRemote_def
proof (rule runs_onError[OF client_honest], goal_cases)
  case (1 e rest)
  show ?case
    by (rule runs_onFailure[OF failed_honest]) (auto intro: runs_return fail_honest)
next
  case (2 c rest)
  then have c: "clientGranted E (new @ rest) r c" by auto
  have r': "OnRemote (ObjGet k (Inr r)) \<in> set (new @ rest)" using r by simp
  have failed: "runs (connectsHonestly E k l0) (l0 @ new @ rest') (onFailure (remoteStatusConnectionFailed E r stats m)
      (\<lambda>e' r. failWith e') (\<lambda>r. failWith e)) (\<lambda>_ _. True)" for rest' stats m e
    unfolding remoteStatusConnectionFailed_def
    by (rule runs_onFailure[OF writeConnection_honest]) (auto intro: runs_return fail_honest)
  have connected: "runs (connectsHonestly E k l0) (l0 @ new @ rest') (connectedRemote E stats r) (\<lambda>_ _. True)"
    if "answeredOK (new @ rest')" for rest' stats
    using connected_honest[of "new @ rest'"] that by simp
  show ?case
    unfolding append_assoc
    by (rule runs_bind[OF stats_honest[OF r' c, unfolded append_assoc]])
       (auto intro!: runs_case_prod runs_case_option failed connected fail_honest)
qed

lemma finalize_honest: "runs (connectsHonestly E k l0) l (finalizeRemote E k r) (\<lambda>_ _. True)"
proof -
  note degraded = unchanged_write[where skip = "\<lambda>_. False" and change = "remoteCondition E c" for c, OF condition_keeps_connection, unfolded if_False]
  have "issues (\<lambda>c. \<not> connectionCall c) (removeRemoteFinalizer E k r)" for r
    unfolding removeRemoteFinalizer_def onFresh_def putBack_def object_requests by (intro issues_intros; simp)
  then have free: "issues (\<lambda>c. \<not> connectionCall c) (onFailure (removeRemoteFinalizer E k r) (\<lambda>e r. failWith e)
      (\<lambda>r. ret (resultZero, None)))" for r
    by (intro issues_intros fail_quiet)
  show ?thesis
    unfolding finalizeRemote_def Let_def
    by (intro runs_if runs_return runs_bind[OF degraded] runs_case_prod honest_quiet[OF free]) simp
qed

text \<open>C30: a reconcile of a remote instance sends an admin token only in the request for statistics
  to the server of an instance it has read, and only a token that a secret read in the same run
  grants for this instance and this server; and it writes an instance as connected only if
  that is what it last read or a server has answered with success in this run.\<close>

theorem token_stays_with_its_server:
  "follows (connectsHonestly E k l) l (newCalls (ReconcileRemoteUnleash E k) l)"
proof -
  have claim: "runs (connectsHonestly E k l) (l @ new) (onError (claimRemote E k r) failWith (reconcileRemote E)) (\<lambda>_ _. True)"
    if r: "OnRemote (ObjGet k (Inr r)) \<in> set new" for new r
    by (rule runs_onError[OF claim_honest]) (use r in \<open>auto intro!: runs_return reconcile_honest fail_honest\<close>)
  have init: "runs (connectsHonestly E k l) (l @ new) (onError (initializeRemote E k r) failWith (\<lambda>r.
      onError (claimRemote E k r) failWith (reconcileRemote E))) (\<lambda>_ _. True)"
    if r: "OnRemote (ObjGet k (Inr r)) \<in> set new" for new r
    by (rule runs_onError[OF initialize_honest]) (use r in \<open>auto intro!: runs_return claim fail_honest\<close>)
  have gone: "issues (\<lambda>c. \<not> connectionCall c) (if isNotFound e then do { _ \<leftarrow> emit (DropRemoteGauges k); ret (resultZero, None) }
      else failWith e)" for e
    by (intro issues_intros fail_quiet; simp)
  have "runs (connectsHonestly E k l) l (ReconcileRemoteUnleash E k) (\<lambda>_ _. True)"
    unfolding ReconcileRemoteUnleash_def getObject_def
    by (rule runs_onError_perform) (intro conjI honest_quiet[OF gone], (simp add: finalize_honest init)+)
  then show ?thesis by (elim runs_elim)
qed

end
