(* ===== verification/InstanceImages.thy ===== *)
theory InstanceImages
  imports Assignments UnleashResources
begin

text \<open>
  The two controllers meet in the assignments of a channel: \<open>deployToInstances\<close> writes them, an
  instance pulls its image from them (\<open>imageFromChannel\<close>). This theory says what a deployment
  means for the instances.
\<close>

definition reachesOnly ::
  "('v, 'z) apimachinery_scheme \<Rightarrow> release_channel \<Rightarrow> unleash list \<Rightarrow> log \<Rightarrow> call \<Rightarrow> bool" where
  "reachesOnly L rc us h c \<longleftrightarrow>
     (case statusWrite c of
        None \<Rightarrow> True
      | Some p \<Rightarrow> (case latestRead (channelKey rc) h of
          None \<Rightarrow> False
        | Some fresh \<Rightarrow>
            (\<forall>u. uName u \<notin> uName ` set us \<longrightarrow> imageFromChannel p u = imageFromChannel fresh u) \<and>
            (\<forall>u \<in> set us. \<exists>v \<in> set us. \<exists>img. uName v = uName u \<and> allowedImage L (rcImage rc) h v img \<and>
               (img \<noteq> [] \<longrightarrow> imageFromChannel p u = Inr img))))"

lemma deployedFrom_reaches:
  assumes "deployedFrom L target us h fresh p"
  shows "uName u \<notin> uName ` set us \<Longrightarrow> imageFromChannel p u = imageFromChannel fresh u"
    and "u \<in> set us \<Longrightarrow> \<exists>v \<in> set us. \<exists>img. uName v = uName u \<and> allowedImage L target h v img \<and>
           (img \<noteq> [] \<longrightarrow> imageFromChannel p u = Inr img)"
proof -
  show "imageFromChannel p u = imageFromChannel fresh u" if "uName u \<notin> uName ` set us"
    using assms that by (intro imageFromChannel_cong) (simp_all add: deployedFrom_def)
  assume "u \<in> set us"
  with assms obtain v where "v \<in> set us" "uName v = uName u" "allowedImage L target h v (assignedImage (rcStatus p) (uName u))"
    unfolding deployedFrom_def by blast
  with imageFromChannel_assigned[of p u]
  show "\<exists>v \<in> set us. \<exists>img. uName v = uName u \<and> allowedImage L target h v img \<and>
           (img \<noteq> [] \<longrightarrow> imageFromChannel p u = Inr img)" by blast
qed

lemma deployWrites_reaches: "deployWrites L rc us h c \<Longrightarrow> reachesOnly L rc us h c"
  using deployedFrom_reaches by (fastforce simp: deployWrites_def reachesOnly_def split: option.splits)

lemma deployToInstances_reaches: "runs (reachesOnly E rc us) l (deployToInstances E rc us) (\<lambda>_ _. True)"
  by (rule runs_weaken[OF deployToInstances_runs]) (simp_all add: deployWrites_reaches)

end
