(* ===== verification/Watches.thy ===== *)
theory Watches
  imports InstanceImages UnleashController
begin

text \<open>
  Who wakes whom. The Unleash controller watches channels, the ReleaseChannel controller watches
  instances (\<open>SetupWithManager\<close> of both); a change that passes neither filter waits for the
  next periodic reconcile.
\<close>

section \<open>From channels to instances\<close>

text \<open>A write that changes what some instance pulls passes the filter of the Unleash controller.\<close>

definition wakesMoved :: "release_channel \<Rightarrow> log \<Rightarrow> call \<Rightarrow> bool" where
  "wakesMoved rc h c \<longleftrightarrow>
     (case statusWrite c of
        None \<Rightarrow> True
      | Some p \<Rightarrow> (case latestRead (channelKey rc) h of
          None \<Rightarrow> False
        | Some fresh \<Rightarrow> (\<forall>u. if imageFromChannel p u = imageFromChannel fresh u then True else channelUpdateTriggers fresh p)))"

lemma dictEq_lookup: "dictEq a b \<Longrightarrow> map_of a k = map_of b k"
  by (simp add: dictEq_iff)

lemma unwoken_assignment:
  assumes "\<not> channelUpdateTriggers a b"
  shows "assignedImage (rcStatus b) n = assignedImage (rcStatus a) n"
  using assms dictEq_lookup[of "orEmpty (stInstanceImages (rcStatus a))" "orEmpty (stInstanceImages (rcStatus b))" n]
  by (simp add: channelUpdateTriggers_def dictGet_def split: if_splits)

lemma deployedFrom_wakes:
  assumes "deployedFrom L target us h fresh p" and "imageFromChannel p u \<noteq> imageFromChannel fresh u"
  shows "channelUpdateTriggers fresh p"
proof (rule ccontr)
  assume "\<not> channelUpdateTriggers fresh p"
  then have "imageFromChannel p u = imageFromChannel fresh u"
    using assms(1) by (intro imageFromChannel_cong unwoken_assignment) (simp_all add: deployedFrom_def)
  with assms(2) show False by simp
qed

text \<open>C9: nobody who is moved sleeps on: whenever a deployment writes a status after which some
  instance, of the batch or not, pulls another image from the channel than before, the update
  passes the filter with which the Unleash controller watches channels.\<close>

theorem moved_instances_are_woken:
  "follows (wakesMoved rc) l (newCalls (deployToInstances E rc us) l)"
proof -
  have "runs (wakesMoved rc) l (deployToInstances E rc us) (\<lambda>_ _. True)"
    by (rule runs_weaken[OF deployToInstances_runs])
       (use deployedFrom_wakes in \<open>fastforce simp: deployWrites_def wakesMoved_def split: option.splits\<close>, simp)
  then show ?thesis by (elim runs_elim)
qed

text \<open>The requests that follow are those of the instances that name the channel.\<close>

lemma woken_requests:
  "k \<in> set (result (findUnleashesForReleaseChannel E rc) l) \<longleftrightarrow>
     (\<exists>us u. kList (uUnleashes E) l (rcNamespace rc) = Inr us \<and> u \<in> set us \<and>
        usReleaseChannelName (uSpec u) = rcName rc \<and> k = unleashKey u)"
  by (cases "kList (uUnleashes E) l (rcNamespace rc)")
    (auto simp: findUnleashesForReleaseChannel_def listObjects_def result_def perform_def State_Monad.bind_def
      State_Monad.return_def Let_def)

section \<open>From instances to channels\<close>

text \<open>The filter compares conditions without the generation they were observed for. An instance
  that catches up with its specification, and is ready from then on, does not wake its channel
  when nothing else in its status changes.\<close>

lemma catching_up_is_missed:
  fixes u :: unleash
  defines "at \<equiv> (\<lambda>gen. uStatus_update (\<lambda>st. st\<lparr>utConditions :=
      [(newCondition ConditionReconciled ConditionTrue ''r'' ''m'')\<lparr>cObservedGeneration := gen\<rparr>,
       (newCondition ConditionConnected ConditionTrue ''r'' ''m'')\<lparr>cObservedGeneration := gen\<rparr>]\<rparr>)
    (uMeta_update (\<lambda>m. m\<lparr>mGeneration := 2\<rparr>) u))"
  shows "\<not> unleashIsReady (at 1) \<and> unleashIsReady (at 2) \<and> \<not> updateTriggers (at 1) (at 2)"
  by (simp add: at_def unleashIsReady_def conditionStatusIsReadyForGeneration_def updateTriggers_def conditionsEqual_def
      newCondition_def condition_types conditionStatusIsReady_def)

end
