(* ===== verification/Configuration.thy ===== *)
theory Configuration
  imports FederationSubscriber
begin

text \<open>
  The configuration of the operator and the checks it has to pass before the operator starts
  (\<open>internal/config/config.go\<close>). Reading the environment is left to the \<open>envconfig\<close> package.
\<close>

datatype federation_mode = FederationModeDisabled | FederationModePublish | FederationModeSubscribe

record features =
  ftTokenUpdate :: bool
  ftTokenDeduplication :: bool
  ftNamespaceBoundSecrets :: bool
  ftLegacySecrets :: bool

record telemetry_config =
  otTracesExporter :: string
  otEndpoint :: string
  otProtocol :: string

record operator_config =
  cfTokenNameSuffix :: string
  cfMode :: federation_mode
  cfPubsubProject :: string
  cfPubsubTopic :: string
  cfPubsubSubscription :: string
  cfHealthProbeAddress :: string
  cfLeaderElection :: bool
  cfLeaderElectionName :: string
  cfMetricsAddress :: string
  cfClusterName :: string
  cfPodName :: string
  cfPodNamespace :: string
  cfLogLevel :: string
  cfWriteTimeout :: int
  cfWebhookPort :: int
  cfFeatures :: features
  cfTelemetry :: telemetry_config

definition setFederationMode :: "string \<Rightarrow> go_error + federation_mode" where
  "setFederationMode text =
     (if text = [] then Inr FederationModeDisabled
      else if text = ''publish'' then Inr FederationModePublish
      else if text = ''subscribe'' then Inr FederationModeSubscribe
      else Inl (errorf (''unsupported federation mode '' @ showQuoted text)))"

definition isFederationEnabled :: "operator_config \<Rightarrow> bool" where
  "isFederationEnabled c \<longleftrightarrow> cfMode c \<noteq> FederationModeDisabled"

definition validateFeatures :: "features \<Rightarrow> go_error option" where
  "validateFeatures f =
     (if \<not> ftNamespaceBoundSecrets f \<and> \<not> ftLegacySecrets f
      then Some (errorf (''invalid feature flag combination: FEATURE_FEDERATION_NAMESPACE_BOUND_SECRETS=false and '' @
             ''FEATURE_ALLOW_LEGACY_NAME_BOUND_SECRETS=false leaves no valid secret format; set '' @
             ''FEATURE_FEDERATION_NAMESPACE_BOUND_SECRETS=true before disabling legacy name-bound secrets''))
      else None)"

definition validateConfig :: "operator_config \<Rightarrow> go_error option" where
  "validateConfig c =
     (if trimSpace (cfClusterName c) = []
      then Some (errorf (''CLUSTER_NAME must be set to a non-empty value; federation uses it to decide whether '' @
             ''an instance belongs in this cluster''))
      else validateFeatures (cfFeatures c))"

section \<open>What is built from a configuration\<close>

text \<open>Secrets are never served from the cache.\<close>

record manager_options =
  moLeaderElection :: bool
  moLeaderElectionNamespace :: string
  moLeaderElectionID :: string
  moMetricsAddress :: string
  moHealthProbeAddress :: string
  moUncached :: "string list"

definition ManagerOptions :: "operator_config \<Rightarrow> manager_options" where
  "ManagerOptions c = \<lparr>moLeaderElection = cfLeaderElection c, moLeaderElectionNamespace = cfPodNamespace c,
     moLeaderElectionID = cfLeaderElectionName c, moMetricsAddress = cfMetricsAddress c,
     moHealthProbeAddress = cfHealthProbeAddress c, moUncached = [''Secret'']\<rparr>"

text \<open>The two ends of Pub/Sub, as far as the configuration determines them. Both are \<^const>\<open>None\<close> in
  any mode but their own; a client that cannot be made is an error.\<close>

record subscriber_settings =
  ssSubscription :: string
  ssNamespace :: string
  ssNamespaceBound :: bool

definition pubsubSubscription :: "operator_config \<Rightarrow> subscriber_settings" where
  "pubsubSubscription c = \<lparr>ssSubscription = cfPubsubSubscription c, ssNamespace = cfPodNamespace c,
     ssNamespaceBound = ftNamespaceBoundSecrets (cfFeatures c)\<rparr>"

end
