(* ===== verification/MetricsStart.thy ===== *)
theory MetricsStart
  imports Complex_Main ChannelStatus ApiTokenController
begin

text \<open>
  The gauges at start-up (\<open>internal/controller/metrics_initializer.go\<close>): a restarted operator
  seeds every gauge from the status of the resource it describes, so that no series goes
  missing until the next reconcile. The lemmas say that the seed is what the controllers
  themselves had recorded when they wrote that status. The listings are parameters; values are
  rational numbers.
\<close>

datatype gauge =
    UnleashStatusGauge string string string string \<comment> \<open>name, condition, version, channel\<close>
  | RemoteStatusGauge nsname string \<comment> \<open>condition\<close>
  | TokenStatusGauge nsname string \<comment> \<open>condition\<close>
  | TokenWaitingGauge nsname
  | ChannelStatusGauge nsname
  | ChannelInstancesGauge nsname
  | ChannelUpToDateGauge nsname

datatype startup_call =
    ListedUnleashes "go_error + unleash list"
  | ListedRemotes "go_error + remote_unleash list"
  | ListedTokens "go_error + token_resource list"
  | ListedChannels "go_error + release_channel list"
  | SetGauge gauge rat

type_synonym 'a startup_action = "(startup_call, 'a) program"

record 'v startup_env = "'v apimachinery" +
  initUnleashes :: "startup_call list \<Rightarrow> go_error + unleash list"
  initRemotes :: "startup_call list \<Rightarrow> go_error + remote_unleash list"
  initTokens :: "startup_call list \<Rightarrow> go_error + token_resource list"
  initChannels :: "startup_call list \<Rightarrow> go_error + release_channel list"

definition promGaugeValueForStatus :: "condition_status \<Rightarrow> rat" where
  "promGaugeValueForStatus s = (if s = ConditionTrue then 1 else 0)"

text \<open>The value seeded for a condition that may be missing.\<close>

definition conditionValue :: "('v, 'z) apimachinery_scheme \<Rightarrow> condition list \<Rightarrow> string \<Rightarrow> rat" where
  "conditionValue E cs t = (case findStatusCondition E cs t of
     Some c \<Rightarrow> promGaugeValueForStatus (cStatus c) | None \<Rightarrow> 0)"

fun forEach :: "('a \<Rightarrow> unit startup_action) \<Rightarrow> 'a list \<Rightarrow> unit startup_action" where
  "forEach f [] = ret ()"
| "forEach f (x # xs) = do { _ \<leftarrow> f x; forEach f xs }"

section \<open>One kind of resource at a time\<close>

definition seedUnleash :: "'v startup_env \<Rightarrow> unleash \<Rightarrow> unit startup_action" where
  "seedUnleash E u = (let cs = utConditions (uStatus u);
       version = (if utVersion (uStatus u) = [] then ''unknown'' else utVersion (uStatus u));
       channel = (if usReleaseChannelName (uSpec u) = [] then ''none'' else usReleaseChannelName (uSpec u)) in do {
     _ \<leftarrow> emit (SetGauge (UnleashStatusGauge (uName u) ConditionReconciled version channel)
            (conditionValue E cs ConditionReconciled));
     emit (SetGauge (UnleashStatusGauge (uName u) ConditionConnected version channel)
       (conditionValue E cs ConditionConnected))
   })"

definition initUnleashMetrics :: "'v startup_env \<Rightarrow> go_error option startup_action" where
  "initUnleashMetrics E = onError (perform (initUnleashes E) ListedUnleashes) (\<lambda>e. ret (Some e))
     (\<lambda>us. do { _ \<leftarrow> forEach (seedUnleash E) us; ret None })"

definition seedRemote :: "'v startup_env \<Rightarrow> remote_unleash \<Rightarrow> unit startup_action" where
  "seedRemote E r = (let cs = rtConditions (ruStatus r) in do {
     _ \<leftarrow> emit (SetGauge (RemoteStatusGauge (remoteKey r) ConditionReconciled) (conditionValue E cs ConditionReconciled));
     emit (SetGauge (RemoteStatusGauge (remoteKey r) ConditionConnected) (conditionValue E cs ConditionConnected))
   })"

definition initRemoteUnleashMetrics :: "'v startup_env \<Rightarrow> go_error option startup_action" where
  "initRemoteUnleashMetrics E = onError (perform (initRemotes E) ListedRemotes) (\<lambda>e. ret (Some e))
     (\<lambda>rs. do { _ \<leftarrow> forEach (seedRemote E) rs; ret None })"

definition waitingForInstance :: "('v, 'z) apimachinery_scheme \<Rightarrow> token_resource \<Rightarrow> bool" where
  "waitingForInstance E t \<longleftrightarrow> (case findStatusCondition E (tkConditions (tkStatus t)) ConditionFailed of
     Some c \<Rightarrow> cStatus c = ConditionTrue \<and> cReason c = ''UnleashNotFound'' | None \<Rightarrow> False)"

definition seedToken :: "'v startup_env \<Rightarrow> token_resource \<Rightarrow> unit startup_action" where
  "seedToken E t = (let cs = tkConditions (tkStatus t) in do {
     _ \<leftarrow> emit (SetGauge (TokenStatusGauge (tokenKey t) ConditionCreated) (conditionValue E cs ConditionCreated));
     _ \<leftarrow> emit (SetGauge (TokenStatusGauge (tokenKey t) ConditionFailed) (conditionValue E cs ConditionFailed));
     emit (SetGauge (TokenWaitingGauge (tokenKey t)) (if waitingForInstance E t then 1 else 0))
   })"

definition initApiTokenMetrics :: "'v startup_env \<Rightarrow> go_error option startup_action" where
  "initApiTokenMetrics E = onError (perform (initTokens E) ListedTokens) (\<lambda>e. ret (Some e))
     (\<lambda>ts. do { _ \<leftarrow> forEach (seedToken E) ts; ret None })"

definition phaseValue :: "phase \<Rightarrow> rat" where
  "phaseValue ph = (case ph of PhaseCompleted \<Rightarrow> 1 | PhaseIdle \<Rightarrow> 1 | PhaseFailed \<Rightarrow> 0 | _ \<Rightarrow> 1 / 2)"

definition seedChannel :: "release_channel \<Rightarrow> unit startup_action" where
  "seedChannel rc = do {
     _ \<leftarrow> emit (SetGauge (ChannelStatusGauge (channelKey rc)) (phaseValue (rcPhase rc)));
     _ \<leftarrow> emit (SetGauge (ChannelInstancesGauge (channelKey rc)) (of_int (stInstances (rcStatus rc))));
     emit (SetGauge (ChannelUpToDateGauge (channelKey rc)) (of_int (stInstancesUpToDate (rcStatus rc))))
   }"

definition initReleaseChannelMetrics :: "'v startup_env \<Rightarrow> go_error option startup_action" where
  "initReleaseChannelMetrics E = onError (perform (initChannels E) ListedChannels) (\<lambda>e. ret (Some e))
     (\<lambda>rcs. do { _ \<leftarrow> forEach seedChannel rcs; ret None })"

text \<open>A failed listing is logged and the next kind goes on; the start never fails.\<close>

definition startMetrics :: "'v startup_env \<Rightarrow> go_error option startup_action" where
  "startMetrics E = do {
     _ \<leftarrow> initUnleashMetrics E;
     _ \<leftarrow> initRemoteUnleashMetrics E;
     _ \<leftarrow> initApiTokenMetrics E;
     _ \<leftarrow> initReleaseChannelMetrics E;
     ret None
   }"

section \<open>What is seeded\<close>

text \<open>The value a gauge has after the calls of a log.\<close>

fun gaugeSet :: "gauge \<Rightarrow> startup_call \<Rightarrow> rat option" where
  "gaugeSet g (SetGauge g' v) = (if g = g' then Some v else None)"
| "gaugeSet g _ = None"

abbreviation gaugeIn :: "startup_call list \<Rightarrow> gauge \<Rightarrow> rat option" where
  "gaugeIn l g \<equiv> latestOf (gaugeSet g) l"

text \<open>A program that appends \<open>cs\<close>, wherever it starts.\<close>

definition logs :: "(startup_call, 'a) program \<Rightarrow> startup_call list \<Rightarrow> bool" where
  "logs m cs \<longleftrightarrow> (\<forall>l. snd (run_state m l) = l @ cs)"

named_theorems logs_intros \<open>the logs of the building blocks\<close>

lemma logs_bind [logs_intros]: "logs m a \<Longrightarrow> (\<And>x. logs (f x) b) \<Longrightarrow> logs (m \<bind> f) (a @ b)"
  by (simp add: logs_def State_Monad.bind_def case_prod_unfold)

lemma logs_ret [logs_intros]: "logs (ret x) []"
  by (simp add: logs_def State_Monad.return_def)

lemma logs_emit [logs_intros]: "logs (emit c) [c]"
  by (simp add: logs_def emit_def)

lemma logs_forEach [logs_intros]:
  "(\<And>x. logs (f x) (entries x)) \<Longrightarrow> logs (forEach f xs) (concat (map entries xs))"
  by (induction xs) (auto intro: logs_intros)

definition seedsOf :: "('a \<Rightarrow> unit startup_action) \<Rightarrow> go_error + 'a list \<Rightarrow> startup_call list" where
  "seedsOf seed r = (case r of Inl _ \<Rightarrow> [] | Inr xs \<Rightarrow> concat (map (\<lambda>x. newCalls (seed x) []) xs))"

lemma seedsOf_Inr: "seedsOf seed (Inr xs) = concat (map (\<lambda>x. newCalls (seed x) []) xs)"
  by (simp add: seedsOf_def)

lemma logs_seeds:
  "logs (seedUnleash E u) (newCalls (seedUnleash E u) [])"
  "logs (seedRemote E r) (newCalls (seedRemote E r) [])"
  "logs (seedToken E t) (newCalls (seedToken E t) [])"
  "logs (seedChannel rc) (newCalls (seedChannel rc) [])"
  by (simp_all add: seedUnleash_def seedRemote_def seedToken_def seedChannel_def Let_def logs_def newCalls_def
      State_Monad.bind_def emit_def)

text \<open>One kind of resource: the listing, then the seeds of what it returned.\<close>

lemma seeded_kind:
  assumes "\<And>x. logs (seed x) (newCalls (seed x) [])"
  shows "snd (run_state (onError (perform ask entry) (\<lambda>e. ret (Some e)) (\<lambda>xs. do { _ \<leftarrow> forEach seed xs; ret None })) l) =
    l @ entry (ask l) # seedsOf seed (ask l)"
proof (cases "ask l")
  case (Inl e)
  then show ?thesis by (simp add: onError_def perform_def State_Monad.bind_def State_Monad.return_def seedsOf_def Let_def)
next
  case (Inr xs)
  have "logs (forEach seed xs) (seedsOf seed (Inr xs))"
    by (simp add: seedsOf_def assms logs_forEach)
  with Inr show ?thesis
    by (simp add: onError_def perform_def State_Monad.bind_def State_Monad.return_def logs_def case_prod_unfold Let_def)
qed

text \<open>A failed listing does not keep the other kinds from being seeded.\<close>

theorem startMetrics_log:
  "\<exists>us rs ts cs. newCalls (startMetrics E) l =
     (ListedUnleashes us # seedsOf (seedUnleash E) us) @ (ListedRemotes rs # seedsOf (seedRemote E) rs) @
     (ListedTokens ts # seedsOf (seedToken E) ts) @ (ListedChannels cs # seedsOf seedChannel cs)"
proof -
  define bind' where "bind' = (\<lambda>(m :: go_error option startup_action) l. snd (run_state m l))"
  have "snd (run_state (startMetrics E) l) = bind' (initReleaseChannelMetrics E) (bind' (initApiTokenMetrics E)
      (bind' (initRemoteUnleashMetrics E) (bind' (initUnleashMetrics E) l)))"
    by (simp add: startMetrics_def bind'_def State_Monad.bind_def State_Monad.return_def case_prod_unfold)
  then show ?thesis
    unfolding newCalls_def bind'_def initReleaseChannelMetrics_def initApiTokenMetrics_def
      initRemoteUnleashMetrics_def initUnleashMetrics_def
    by (simp add: seeded_kind[OF logs_seeds(1)] seeded_kind[OF logs_seeds(2)] seeded_kind[OF logs_seeds(3)]
        seeded_kind[OF logs_seeds(4)])
qed

lemma latestOf_None: "latestOf h cs = None \<longleftrightarrow> (\<forall>c \<in> set cs. h c = None)"
  by (induction cs) (auto split: option.splits)

lemma latestOf_concat:
  assumes "x \<in> set xs" and "latestOf h (f x) = Some v"
    and "\<And>y. y \<in> set xs \<Longrightarrow> y \<noteq> x \<Longrightarrow> latestOf h (f y) = None"
  shows "latestOf h (concat (map f xs)) = Some v"
  using assms
proof (induction xs)
  case (Cons y ys)
  show ?case
  proof (cases "x \<in> set ys")
    case True
    then show ?thesis using Cons by simp
  next
    case False
    then have "latestOf h (concat (map f ys)) = None" "x = y"
      using Cons.prems by (auto simp: latestOf_None)
    then show ?thesis using Cons.prems(2) by simp
  qed
qed simp

lemma seedToken_waiting:
  "gaugeIn (newCalls (seedToken E t) []) (TokenWaitingGauge k) =
     (if k = tokenKey t then Some (if waitingForInstance E t then 1 else 0) else None)"
  by (simp add: seedToken_def newCalls_def State_Monad.bind_def emit_def Let_def)

lemma other_seeds_not_waiting:
  "gaugeIn (seedsOf (seedUnleash E) us) (TokenWaitingGauge k) = None"
  "gaugeIn (seedsOf (seedRemote E) rs) (TokenWaitingGauge k) = None"
  "gaugeIn (seedsOf seedChannel cs) (TokenWaitingGauge k) = None"
  by (auto simp: latestOf_None seedsOf_def seedUnleash_def seedRemote_def seedChannel_def newCalls_def
      State_Monad.bind_def emit_def Let_def split: sum.splits)

lemma only_listing:
  "ListedTokens r \<notin> set (seedsOf (seedUnleash E) us)" "ListedTokens r \<notin> set (seedsOf (seedRemote E) rs)"
  "ListedTokens r \<notin> set (seedsOf (seedToken E) ts)" "ListedTokens r \<notin> set (seedsOf seedChannel cs)"
  by (auto simp: seedsOf_def seedUnleash_def seedRemote_def seedToken_def seedChannel_def newCalls_def
      State_Monad.bind_def emit_def Let_def split: sum.splits)

text \<open>Whatever becomes of the other listings: a token that is listed gets its waiting gauge.\<close>

theorem waiting_gauge_seeded:
  assumes listed: "ListedTokens (Inr ts) \<in> set (newCalls (startMetrics E) l)" "t \<in> set ts"
    and key: "\<And>t'. t' \<in> set ts \<Longrightarrow> tokenKey t' = tokenKey t \<Longrightarrow> t' = t"
  shows "gaugeIn (newCalls (startMetrics E) l) (TokenWaitingGauge (tokenKey t)) =
    Some (if waitingForInstance E t then 1 else 0)"
proof -
  obtain us rs ts' cs where log: "newCalls (startMetrics E) l =
     (ListedUnleashes us # seedsOf (seedUnleash E) us) @ (ListedRemotes rs # seedsOf (seedRemote E) rs) @
     (ListedTokens ts' # seedsOf (seedToken E) ts') @ (ListedChannels cs # seedsOf seedChannel cs)"
    using startMetrics_log by blast
  with listed(1) have "ts' = Inr ts" by (auto simp: only_listing)
  moreover have "gaugeIn (concat (map (\<lambda>x. newCalls (seedToken E x) []) ts)) (TokenWaitingGauge (tokenKey t)) =
      Some (if waitingForInstance E t then 1 else 0)"
    by (rule latestOf_concat[OF listed(2)]) (use key in \<open>auto simp: seedToken_waiting\<close>)
  ultimately show ?thesis
    by (simp add: log other_seeds_not_waiting seedsOf_Inr)
qed

section \<open>The seeds agree with the controllers\<close>

text \<open>The status the ApiToken controller writes for a missing instance, and only that one, is
  read back as waiting.\<close>

theorem waiting_survives_restart:
  assumes "condition_laws E"
  shows "waitingForInstance E (failed E reason m t) \<longleftrightarrow> reason = ''UnleashNotFound''"
proof -
  define c where "c = newCondition ConditionFailed ConditionTrue reason m"
  then have c: "cType c = ConditionFailed" "cStatus c = ConditionTrue" "cReason c = reason"
    by (simp_all add: newCondition_def)
  from assms have "findStatusCondition E (setStatusCondition E cs c) (cType c) = Some c" for cs
    by (simp add: condition_laws_def)
  then show ?thesis
    by (simp add: waitingForInstance_def failed_def tokenCondition_def c flip: c_def)
qed

text \<open>The value of the symbolic gauge the ReleaseChannel controller sets.\<close>

definition healthValue :: "health_gauge \<Rightarrow> rat" where
  "healthValue g = (case g of GaugeHealthy \<Rightarrow> 1 | GaugeInProgress \<Rightarrow> 1 / 2 | GaugeFailed \<Rightarrow> 0)"

theorem channel_seed_is_recorded:
  "\<exists>g n m. newCalls (recordMetrics rc) l = [SetChannelGauges (channelKey rc) g n m] \<and>
     newCalls (seedChannel rc) l' =
       [SetGauge (ChannelStatusGauge (channelKey rc)) (healthValue g),
        SetGauge (ChannelInstancesGauge (channelKey rc)) (of_int n),
        SetGauge (ChannelUpToDateGauge (channelKey rc)) (of_int m)]"
  by (auto simp: recordMetricsFor_def seedChannel_def newCalls_def emit_def State_Monad.bind_def phaseValue_def
      healthValue_def split: phase.splits)

end
