(* ===== verification/Startup.thy ===== *)
theory Startup
  imports Configuration MetricsStart
begin

text \<open>
  The start of the operator (\<open>cmd/main.go\<close>), with the tracing it sets up
  (\<open>internal/o11y/tracing.go\<close>) and the clients it makes from its configuration
  (\<open>internal/config/config.go\<close>). Each step on a library is one entry of the log with its answer.
\<close>

section \<open>Steps\<close>

datatype trace_exporter = StdoutExporter | OtlpGrpcExporter string bool | OtlpHttpExporter string bool
  \<comment> \<open>host and port, insecure\<close>

record trace_resource =
  trServiceName :: string
  trInstance :: string
  trNamespace :: string
  trCluster :: string

text \<open>What a reconciler is given of the configuration.\<close>

datatype controller_setup =
    SetupUnleash string bool \<comment> \<open>operator namespace, federation\<close>
  | SetupRemoteUnleash string int bool string bool bool
      \<comment> \<open>operator namespace, write timeout, federation, cluster, legacy secrets, bound secrets\<close>
  | SetupApiToken string string bool bool \<comment> \<open>operator namespace, suffix, update, legacy secrets\<close>
  | SetupReleaseChannel

datatype boot_call =
    LoadedConfig "go_error + operator_config"
  | MadeExporter trace_exporter "go_error option"
  | MergedResource trace_resource "go_error option"
  | RegisteredSpanProcessor
  | MadeManager manager_options "go_error option"
  | MadePubsubClient string "go_error option" \<comment> \<open>project\<close>
  | SetUpController controller_setup "go_error option"
  | AddedMetricsInitializer "go_error option"
  | StartedSubscriber
  | AddedHealthCheck string "go_error option"
  | RanManager "go_error option"
  | ClosedPublisher
  | ClosedSubscriber
  | ShutDownTracing

type_synonym 'a boot_action = "(boot_call, 'a) program"

text \<open>\<open>bootParseURL\<close> is \<open>url.Parse\<close> with \<open>Hostname\<close>, \<open>Port\<close> and \<open>Scheme\<close> of its result.\<close>

record boot_env =
  bootLoad :: "boot_call list \<Rightarrow> go_error + operator_config"
  bootParseURL :: "string \<Rightarrow> go_error + string \<times> string \<times> string"
  bootExporter :: "boot_call list \<Rightarrow> trace_exporter \<Rightarrow> go_error option"
  bootResource :: "boot_call list \<Rightarrow> trace_resource \<Rightarrow> go_error option"
  bootManager :: "boot_call list \<Rightarrow> manager_options \<Rightarrow> go_error option"
  bootPubsub :: "boot_call list \<Rightarrow> string \<Rightarrow> go_error option"
  bootSetUp :: "boot_call list \<Rightarrow> controller_setup \<Rightarrow> go_error option"
  bootMetrics :: "boot_call list \<Rightarrow> go_error option"
  bootHealth :: "boot_call list \<Rightarrow> string \<Rightarrow> go_error option"
  bootRun :: "boot_call list \<Rightarrow> go_error option"

section \<open>Tracing\<close>

definition hostportSchemeFromUrl :: "boot_env \<Rightarrow> string \<Rightarrow> go_error + string \<times> string" where
  "hostportSchemeFromUrl E rawUrl =
     (case bootParseURL E rawUrl of
        Inl e \<Rightarrow> Inl e
      | Inr (host, port, scheme) \<Rightarrow> (let
          port = (if port = [] then (if scheme = ''http'' then ''80'' else ''443'') else port) in
        Inr (host @ '':'' @ port, scheme)))"

definition makeExporter :: "boot_env \<Rightarrow> trace_exporter \<Rightarrow> (go_error + trace_exporter option) boot_action" where
  "makeExporter E x = do {
     r \<leftarrow> perform (\<lambda>l. bootExporter E l x) (MadeExporter x);
     ret (case r of Some e \<Rightarrow> Inl e | None \<Rightarrow> Inr (Some x))
   }"

definition newOtlpTraceExporter ::
  "boot_env \<Rightarrow> (string \<Rightarrow> bool \<Rightarrow> trace_exporter) \<Rightarrow> operator_config \<Rightarrow> (go_error + trace_exporter option) boot_action" where
  "newOtlpTraceExporter E protocol c =
     (case hostportSchemeFromUrl E (otEndpoint (cfTelemetry c)) of
        Inl e \<Rightarrow> ret (Inl e)
      | Inr (hostport, scheme) \<Rightarrow> makeExporter E (protocol hostport (scheme = ''http'')))"

definition newTraceExporter :: "boot_env \<Rightarrow> operator_config \<Rightarrow> (go_error + trace_exporter option) boot_action" where
  "newTraceExporter E c = (let kind = otTracesExporter (cfTelemetry c); protocol = otProtocol (cfTelemetry c) in
     if kind = ''stdout'' then makeExporter E StdoutExporter
     else if kind = ''otlp'' then
       (if protocol = ''grpc'' then newOtlpTraceExporter E OtlpGrpcExporter c
        else if protocol = ''http'' then newOtlpTraceExporter E OtlpHttpExporter c
        else ret (Inl (errorf (''unsupported otlp exporter protocol '' @ showQuoted protocol))))
     else if kind = ''none'' then ret (Inr None)
     else ret (Inl (errorf (''unsupported traces exporter '' @ showQuoted kind))))"

definition resourceFromConfig :: "operator_config \<Rightarrow> trace_resource" where
  "resourceFromConfig c = \<lparr>trServiceName = ''unleasherator-'' @ cfClusterName c, trInstance = cfPodName c,
     trNamespace = cfPodNamespace c, trCluster = cfClusterName c\<rparr>"

definition InitTracing :: "boot_env \<Rightarrow> operator_config \<Rightarrow> go_error option boot_action" where
  "InitTracing E c = onError (newTraceExporter E c) (\<lambda>e. ret (Some e)) (\<lambda>exporter. do {
     r \<leftarrow> perform (\<lambda>l. bootResource E l (resourceFromConfig c)) (MergedResource (resourceFromConfig c));
     (case r of
        Some e \<Rightarrow> ret (Some e)
      | None \<Rightarrow>
          if otTracesExporter (cfTelemetry c) \<noteq> ''none'' then do { _ \<leftarrow> emit RegisteredSpanProcessor; ret None }
          else ret None)
   })"

section \<open>Pub/Sub\<close>

definition pubsubClient :: "boot_env \<Rightarrow> operator_config \<Rightarrow> go_error option boot_action" where
  "pubsubClient E c = perform (\<lambda>l. bootPubsub E l (cfPubsubProject c)) (MadePubsubClient (cfPubsubProject c))"

definition PubsubSubscriber :: "boot_env \<Rightarrow> operator_config \<Rightarrow> (go_error + subscriber_settings option) boot_action" where
  "PubsubSubscriber E c =
     (if cfMode c \<noteq> FederationModeSubscribe then ret (Inr None)
      else do {
        r \<leftarrow> pubsubClient E c;
        ret (case r of Some e \<Rightarrow> Inl e | None \<Rightarrow> Inr (Some (pubsubSubscription c)))
      })"

text \<open>A publisher is determined by its topic, on which messages are ordered.\<close>

definition PubsubPublisher :: "boot_env \<Rightarrow> operator_config \<Rightarrow> (go_error + string option) boot_action" where
  "PubsubPublisher E c =
     (if cfMode c \<noteq> FederationModePublish then ret (Inr None)
      else do {
        r \<leftarrow> pubsubClient E c;
        ret (case r of Some e \<Rightarrow> Inl e | None \<Rightarrow> Inr (Some (cfPubsubTopic c)))
      })"

section \<open>The program\<close>

text \<open>\<open>os.Exit(1)\<close> on an error; deferred calls are not made then.\<close>

definition orExit :: "go_error option boot_action \<Rightarrow> int boot_action \<Rightarrow> int boot_action" where
  "orExit m next = do { r \<leftarrow> m; (case r of Some e \<Rightarrow> ret 1 | None \<Rightarrow> next) }"

definition setUp :: "boot_env \<Rightarrow> controller_setup \<Rightarrow> int boot_action \<Rightarrow> int boot_action" where
  "setUp E s = orExit (perform (\<lambda>l. bootSetUp E l s) (SetUpController s))"

definition healthCheck :: "boot_env \<Rightarrow> string \<Rightarrow> int boot_action \<Rightarrow> int boot_action" where
  "healthCheck E name = orExit (perform (\<lambda>l. bootHealth E l name) (AddedHealthCheck name))"

definition unleashSetup :: "operator_config \<Rightarrow> string option \<Rightarrow> controller_setup" where
  "unleashSetup c publisher = SetupUnleash (cfPodNamespace c) (isFederationEnabled c \<and> publisher \<noteq> None)"

definition remoteSetup :: "operator_config \<Rightarrow> subscriber_settings option \<Rightarrow> controller_setup" where
  "remoteSetup c subscriber = SetupRemoteUnleash (cfPodNamespace c) (cfWriteTimeout c)
     (isFederationEnabled c \<and> subscriber \<noteq> None) (cfClusterName c)
     (ftLegacySecrets (cfFeatures c)) (ftNamespaceBoundSecrets (cfFeatures c))"

definition tokenSetup :: "operator_config \<Rightarrow> controller_setup" where
  "tokenSetup c = SetupApiToken (cfPodNamespace c) (cfTokenNameSuffix c) (ftTokenUpdate (cfFeatures c))
     (ftLegacySecrets (cfFeatures c))"

definition closeAll :: "string option \<Rightarrow> subscriber_settings option \<Rightarrow> int boot_action" where
  "closeAll publisher subscriber = do {
     _ \<leftarrow> (if publisher \<noteq> None then emit ClosedPublisher else ret ());
     _ \<leftarrow> (if subscriber \<noteq> None then emit ClosedSubscriber else ret ());
     _ \<leftarrow> emit ShutDownTracing;
     ret 0
   }"

text \<open>From the controllers on. \<open>FederationSubscribe\<close> runs beside the manager from here; when it
  fails it ends the context the manager runs in.\<close>

definition runControllers ::
  "boot_env \<Rightarrow> operator_config \<Rightarrow> subscriber_settings option \<Rightarrow> string option \<Rightarrow> int boot_action" where
  "runControllers E c subscriber publisher =
     setUp E (unleashSetup c publisher) (
     setUp E (remoteSetup c subscriber) (
     setUp E (tokenSetup c) (
     setUp E SetupReleaseChannel (
     orExit (perform (bootMetrics E) AddedMetricsInitializer) (do {
       _ \<leftarrow> emit StartedSubscriber;
       healthCheck E ''healthz'' (
       healthCheck E ''readyz'' (
       orExit (perform (bootRun E) RanManager) (closeAll publisher subscriber)))
     })))))"

definition main :: "boot_env \<Rightarrow> int boot_action" where
  "main E = onError (perform (bootLoad E) LoadedConfig) (\<lambda>e. ret 1) (\<lambda>c.
     if validateConfig c \<noteq> None then ret 1
     else orExit (InitTracing E c) (
       orExit (perform (\<lambda>l. bootManager E l (ManagerOptions c)) (MadeManager (ManagerOptions c))) (
       onError (PubsubSubscriber E c) (\<lambda>e. ret 1) (\<lambda>subscriber.
       onError (PubsubPublisher E c) (\<lambda>e. ret 1) (\<lambda>publisher.
       runControllers E c subscriber publisher)))))"

section \<open>What is running once the operator runs\<close>

text \<open>The configuration that was loaded is valid, and the controllers were set up from it.\<close>

definition controllersFor :: "operator_config \<Rightarrow> controller_setup list" where
  "controllersFor c =
     [SetupUnleash (cfPodNamespace c) (cfMode c = FederationModePublish),
      SetupRemoteUnleash (cfPodNamespace c) (cfWriteTimeout c) (cfMode c = FederationModeSubscribe) (cfClusterName c)
        (ftLegacySecrets (cfFeatures c)) (ftNamespaceBoundSecrets (cfFeatures c)),
      SetupApiToken (cfPodNamespace c) (cfTokenNameSuffix c) (ftTokenUpdate (cfFeatures c)) (ftLegacySecrets (cfFeatures c)),
      SetupReleaseChannel]"

fun loadedIn :: "boot_call \<Rightarrow> operator_config option" where
  "loadedIn (LoadedConfig (Inr c)) = Some c"
| "loadedIn _ = None"

fun readyIn :: "boot_call \<Rightarrow> controller_setup option" where
  "readyIn (SetUpController s None) = Some s"
| "readyIn _ = None"

definition startsValidated :: "boot_call list \<Rightarrow> boot_call list \<Rightarrow> boot_call \<Rightarrow> bool" where
  "startsValidated l0 h x \<longleftrightarrow> (let new = drop (length l0) h in
     (case x of
        SetUpController s r \<Rightarrow> (\<exists>c. latestOf loadedIn new = Some c \<and> validateConfig c = None \<and>
          (\<exists>rest. controllersFor c = List.map_filter readyIn new @ s # rest))
      | StartedSubscriber \<Rightarrow> (\<exists>c. latestOf loadedIn new = Some c \<and> List.map_filter readyIn new = controllersFor c)
      | RanManager r \<Rightarrow> (\<exists>c. latestOf loadedIn new = Some c \<and> List.map_filter readyIn new = controllersFor c)
      | MadePubsubClient p r \<Rightarrow> (\<exists>c. latestOf loadedIn new = Some c \<and> isFederationEnabled c \<and> p = cfPubsubProject c)
      | _ \<Rightarrow> True))"

text \<open>How far the start has come: the configuration, and the controllers that are set up.\<close>

definition reached :: "boot_call list \<Rightarrow> operator_config \<Rightarrow> controller_setup list \<Rightarrow> boot_call list \<Rightarrow> bool" where
  "reached l0 c ready l \<longleftrightarrow> (\<exists>new. l = l0 @ new \<and> latestOf loadedIn new = Some c \<and> List.map_filter readyIn new = ready)"

lemma map_filter_append: "List.map_filter f (xs @ ys) = List.map_filter f xs @ List.map_filter f ys"
  by (simp add: List.map_filter_def)

fun neutral :: "boot_call \<Rightarrow> bool" where
  "neutral (LoadedConfig r) = False"
| "neutral (SetUpController s r) = False"
| "neutral _ = True"

lemma reached_neutral:
  assumes "reached l0 c ready l" and "list_all neutral new"
  shows "reached l0 c ready (l @ new)"
proof -
  have "latestOf loadedIn new = None \<and> List.map_filter readyIn new = []"
    using assms(2)
  proof (induction new)
    case (Cons x new)
    then show ?case by (cases x) (simp_all add: List.map_filter_simps)
  qed (simp add: List.map_filter_simps)
  with assms(1) show ?thesis
    by (auto simp: reached_def map_filter_append)
qed

lemma reached_setUp: "reached l0 c ready l \<Longrightarrow> reached l0 c (ready @ [s]) (l @ [SetUpController s None])"
  by (auto simp: reached_def map_filter_append List.map_filter_simps)

text \<open>Steps before the controllers: they use Pub/Sub only if federation is on.\<close>

definition preparing :: "operator_config \<Rightarrow> boot_call \<Rightarrow> bool" where
  "preparing c x \<longleftrightarrow> neutral x \<and> (case x of
     MadePubsubClient p r \<Rightarrow> isFederationEnabled c \<and> p = cfPubsubProject c
   | StartedSubscriber \<Rightarrow> False | RanManager r \<Rightarrow> False | _ \<Rightarrow> True)"

lemma preparing_valid: "preparing c x \<Longrightarrow> reached l0 c ready h \<Longrightarrow> startsValidated l0 h x"
  by (cases x) (auto simp: preparing_def startsValidated_def reached_def)

lemma preparing_follows:
  assumes "list_all (preparing c) new" and "reached l0 c ready l"
  shows "follows (startsValidated l0) l new \<and> reached l0 c ready (l @ new)"
  using assms
proof (induction new arbitrary: l)
  case (Cons x new)
  then have "reached l0 c ready (l @ [x])"
    by (intro reached_neutral) (simp_all add: preparing_def)
  with Cons show ?case using preparing_valid[of c x l0 ready l] by force
qed simp

lemma prepare:
  assumes "issues (preparing c) m" and "reached l0 c ready l"
  shows "runs (startsValidated l0) l m (\<lambda>_ l'. reached l0 c ready l')"
proof -
  have "wp m (\<lambda>x l'. \<exists>new. l' = l @ new \<and> follows (\<lambda>_. preparing c) l new) l"
    using assms(1) by (simp add: issues_def runs_def)
  then show ?thesis
    unfolding runs_def by (rule wp_mono) (use preparing_follows[OF _ assms(2)] in \<open>auto simp: follows_all list_all_iff\<close>)
qed

lemma prepare_tracing: "issues (preparing c) (InitTracing E c)"
proof -
  have exporter: "issues (preparing c) (makeExporter E x)" for x
    unfolding makeExporter_def by (intro issues_intros) (simp add: preparing_def)
  then have "issues (preparing c) (newTraceExporter E c)"
    unfolding newTraceExporter_def newOtlpTraceExporter_def Let_def by (intro issues_intros)
  then show ?thesis
    unfolding InitTracing_def by (intro issues_intros) (simp_all add: preparing_def)
qed

lemma prepare_pubsub: "issues (preparing c) (PubsubSubscriber E c)" "issues (preparing c) (PubsubPublisher E c)"
  unfolding PubsubSubscriber_def PubsubPublisher_def pubsubClient_def
  by (auto intro!: issues_intros simp: preparing_def isFederationEnabled_def)

lemma runs_orExit:
  assumes "runs P l m Q'" and "\<And>new. Q' None (l @ new) \<Longrightarrow> runs P (l @ new) next Q" and "\<And>e l'. Q' (Some e) l' \<Longrightarrow> Q 1 l'"
  shows "runs P l (orExit m next) Q"
  unfolding orExit_def by (rule runs_bind[OF assms(1)]) (auto intro!: runs_case_option runs_return assms(2,3))

lemma setUp_step:
  assumes "reached l0 c ready l" and "validateConfig c = None" and "controllersFor c = ready @ s # rest"
    and "\<And>l'. reached l0 c (ready @ [s]) l' \<Longrightarrow> runs (startsValidated l0) l' next (\<lambda>_ _. True)"
  shows "runs (startsValidated l0) l (setUp E s next) (\<lambda>_ _. True)"
  unfolding setUp_def
proof (rule runs_orExit[where Q' = "\<lambda>r l'. r = None \<longrightarrow> reached l0 c (ready @ [s]) l'"], goal_cases)
  case 1
  show ?case
    by (rule runs_perform) (use assms(1-3) reached_setUp in \<open>auto simp: startsValidated_def reached_def\<close>)
qed (use assms(4) in auto)

text \<open>Steps after the controllers are set up.\<close>

lemma running:
  assumes "reached l0 c (controllersFor c) l" and "neutral x" and "\<And>p r. x \<noteq> MadePubsubClient p r"
  shows "startsValidated l0 l x"
  using assms by (cases x) (auto simp: startsValidated_def reached_def)

lemma runControllers_valid:
  assumes "reached l0 c [] l" and "validateConfig c = None"
    and "(subscriber \<noteq> None) = (cfMode c = FederationModeSubscribe)" and "(publisher \<noteq> None) = (cfMode c = FederationModePublish)"
  shows "runs (startsValidated l0) l (runControllers E c subscriber publisher) (\<lambda>_ _. True)"
proof -
  let ?P = "startsValidated l0" and ?ready = "reached l0 c (controllersFor c)"
  have setups: "controllersFor c = [unleashSetup c publisher, remoteSetup c subscriber, tokenSetup c, SetupReleaseChannel]"
    using assms(3,4) by (auto simp: controllersFor_def unleashSetup_def remoteSetup_def tokenSetup_def isFederationEnabled_def)
  have ask: "runs ?P h (orExit (perform ask entry) k) (\<lambda>_ _. True)"
    if "?ready h" "\<And>r. neutral (entry r) \<and> (\<forall>p r'. entry r \<noteq> MadePubsubClient p r')"
      "\<And>h'. ?ready h' \<Longrightarrow> runs ?P h' k (\<lambda>_ _. True)" for h ask entry k
    by (rule runs_orExit[where Q' = "\<lambda>_ l'. ?ready l'"])
       (use that in \<open>auto intro!: runs_perform running[OF that(1)] reached_neutral[OF that(1)]\<close>)
  have note_it: "runs ?P h (emit x) (\<lambda>_ l'. ?ready l')" if "?ready h" "neutral x" "\<And>p r. x \<noteq> MadePubsubClient p r" for h x
    using that by (auto intro!: runs_emit running reached_neutral)
  have close: "runs ?P h (closeAll publisher subscriber) (\<lambda>_ _. True)" if "?ready h" for h
    unfolding closeAll_def using that
    by (auto intro!: runs_bind[where Q' = "\<lambda>_ l'. ?ready l'"] runs_if note_it runs_return)
  have rest: "runs ?P h (orExit (perform (bootMetrics E) AddedMetricsInitializer) (do {
       _ \<leftarrow> emit StartedSubscriber;
       healthCheck E ''healthz'' (healthCheck E ''readyz'' (orExit (perform (bootRun E) RanManager) (closeAll publisher subscriber)))
     })) (\<lambda>_ _. True)" if "?ready h" for h
    unfolding healthCheck_def using that
    by (intro ask) (auto intro!: ask runs_bind[OF note_it] close)
  show ?thesis
    unfolding runControllers_def
    by (rule setUp_step[OF assms(1,2), of _ "[remoteSetup c subscriber, tokenSetup c, SetupReleaseChannel]"], simp add: setups,
        rule setUp_step[OF _ assms(2), of _ _ _ _ "[tokenSetup c, SetupReleaseChannel]"], assumption, simp add: setups,
        rule setUp_step[OF _ assms(2), of _ _ _ _ "[SetupReleaseChannel]"], assumption, simp add: setups,
        rule setUp_step[OF _ assms(2), of _ _ _ _ "[]"], assumption, simp add: setups, rule rest, simp add: setups)
qed

lemma pubsub_modes:
  "runs (\<lambda>_ _. True) l (PubsubSubscriber E c)
     (\<lambda>r _. \<forall>x. r = Inr x \<longrightarrow> (x \<noteq> None) = (cfMode c = FederationModeSubscribe))"
  "runs (\<lambda>_ _. True) l (PubsubPublisher E c)
     (\<lambda>r _. \<forall>x. r = Inr x \<longrightarrow> (x \<noteq> None) = (cfMode c = FederationModePublish))"
  unfolding PubsubSubscriber_def PubsubPublisher_def pubsubClient_def
  by (auto intro!: runs_if runs_return runs_bind_perform split: option.splits)

text \<open>C40: the operator runs only with a valid configuration: controllers are set up one after the
  other from the configuration that was loaded and passed its checks, with publishing enabled
  in publish mode only and receiving in subscribe mode only; the subscriber and the manager
  start after all four are set up without an error; and Pub/Sub is contacted only when
  federation is on.\<close>

theorem starts_from_valid_configuration:
  "follows (startsValidated l) l (newCalls (main E) l)"
proof -
  have "runs (startsValidated l) l (main E) (\<lambda>_ _. True)"
    unfolding main_def
  proof (rule runs_onError_perform, goal_cases)
    case (2 c)
    have loaded: "reached l c [] (l @ [LoadedConfig (Inr c)])"
      by (simp add: reached_def List.map_filter_simps)
    have first: "startsValidated l l (LoadedConfig (Inr c))" by (simp add: startsValidated_def)
    have modes: "runs (startsValidated l) h (PubsubSubscriber E c) (\<lambda>r h'. reached l c [] h' \<and>
          (\<forall>x. r = Inr x \<longrightarrow> (x \<noteq> None) = (cfMode c = FederationModeSubscribe)))"
        "runs (startsValidated l) h (PubsubPublisher E c) (\<lambda>r h'. reached l c [] h' \<and>
          (\<forall>x. r = Inr x \<longrightarrow> (x \<noteq> None) = (cfMode c = FederationModePublish)))" if "reached l c [] h" for h
      by (rule runs_weaken[OF runs_conj[OF prepare[OF prepare_pubsub(1) that] pubsub_modes(1)]]; simp)
         (rule runs_weaken[OF runs_conj[OF prepare[OF prepare_pubsub(2) that] pubsub_modes(2)]]; simp)
    have manager: "issues (preparing c) (perform ask (MadeManager opts))" for ask opts
      by (intro issues_intros) (simp add: preparing_def)
    have valid: "runs (startsValidated l) (l @ [LoadedConfig (Inr c)]) (orExit (InitTracing E c) (
        orExit (perform (\<lambda>l. bootManager E l (ManagerOptions c)) (MadeManager (ManagerOptions c))) (
        onError (PubsubSubscriber E c) (\<lambda>e. ret 1) (\<lambda>subscriber.
        onError (PubsubPublisher E c) (\<lambda>e. ret 1) (\<lambda>publisher.
        runControllers E c subscriber publisher))))) (\<lambda>_ _. True)" if "validateConfig c = None"
      by (intro runs_orExit[OF prepare[OF prepare_tracing loaded]] runs_orExit[OF prepare[OF manager]]
            runs_onError[OF modes(1)] runs_onError[OF modes(2)])
         (auto intro!: runs_return runControllers_valid that)
    show ?case
      using first valid by (auto intro!: runs_return)
  qed (auto intro: runs_return simp: startsValidated_def)
  then show ?thesis by (elim runs_elim)
qed

end
