(* ===== verification/Spec2Isabelle.thy ===== *)
theory Spec2Isabelle
  imports RolloutBatches SampleInstance ApiTokenPromises FederationDelivery RemotePromises Watches Startup
begin

text \<open>
  The verification library of unleasherator, a Kubernetes operator that runs Unleash (a feature
  flag server) for many teams. The development follows the Go code under \<open>src/internal\<close>,
  \<open>src/api/v1\<close> and \<open>src/cmd\<close>.

  \<^bold>\<open>The program.\<close> Four controllers bring resources of the API server in line with what was asked
  for. The ReleaseChannel controller rolls an image out to a fleet of instances: it assigns
  images in its status, waits for readiness, and rolls back. The Unleash controller reads its
  assignment from there, deploys the instance, reports readiness back, and publishes the
  instance to other clusters. The federation subscriber of another cluster turns such a message
  into RemoteUnleash resources and secrets; the RemoteUnleash controller checks and connects
  them and moves old secrets to a namespace-bound layout. The ApiToken controller keeps one
  token per resource on an Unleash or RemoteUnleash server and hands it out as a secret. The
  controllers share nothing but the resources of the API server.

  \<^bold>\<open>How effects are modelled.\<close> A handler is a program in the state monad over the log of its
  interactions (\<open>Effects\<close>): each request to the API server, an Unleash server, the message topic,
  the clock or a metric appends one entry with the request and the answer. An answer is an
  arbitrary function of the log so far, so other actors, conflicts, timeouts and crashes between
  two reconciles are all choices of the environment. Errors are values with a kind and the
  message (\<open>go_error\<close>); every error path is a branch. \<open>runs\<close> states a discipline on the calls
  relative to the history before them, \<open>issues\<close> which calls a program may issue at all,
  \<open>latestOf\<close> what was read or written last.

  \<^bold>\<open>Theories and code.\<close>
  \<^item> Foundations: \<open>Prelude\<close> (Go strings, maps, errors), \<open>Durations\<close> (64-bit \<open>time.Duration\<close>),
    \<open>Timestamps\<close> (RFC 3339), \<open>Effects\<close>, \<open>KubeEnv\<close> (the environment of the channel controller),
    \<open>ObjectApi\<close> (the client of controller-runtime for one kind of object, and \<open>utils/k8s.go\<close> with
    its goroutines), \<open>Utilities\<close> (\<open>utils/strings.go\<close>, \<open>utils/jitter.go\<close>).
  \<^item> Resources: \<open>ApiTypes\<close> (\<open>api/v1\<close>: Unleash and ReleaseChannel, conditions, admission),
    \<open>ApiTokens\<close> (\<open>apitoken_types.go\<close>, \<open>resources/apitoken.go\<close>), \<open>InstanceAccess\<close>
    (\<open>remoteunleash_types.go\<close>, \<open>resources/remoteunleash.go\<close>, \<open>remoteunleash_validation.go\<close>).
  \<^item> \<open>releasechannel_controller.go\<close> and \<open>releasechannel_version.go\<close>: \<open>ImageVersions\<close>, \<open>ChannelStatus\<close>
    (status, counters, comparison, writes), \<open>RolloutPolicy\<close> (decisions), \<open>ChannelDeploy\<close> (steps),
    \<open>ChannelPhases\<close> (handlers), \<open>ChannelReconcile\<close> (the loop).
  \<^item> \<open>unleash_controller.go\<close> and \<open>resources/unleash.go\<close>: \<open>UnleashResources\<close>, \<open>UnleashObjects\<close>,
    \<open>UnleashController\<close>; \<open>unleashclient\<close>: \<open>UnleashClient\<close>.
  \<^item> \<open>remoteunleash_controller.go\<close>, \<open>remoteunleash_migration.go\<close> and \<open>federation\<close>:
    \<open>FederationMessages\<close> (publishing), \<open>FederationSubscriber\<close> (receiving), \<open>FederationReceive\<close> (the
    handler), \<open>RemoteUnleashController\<close>.
  \<^item> \<open>apitoken_controller.go\<close>: \<open>ApiTokenController\<close>; \<open>metrics_initializer.go\<close>: \<open>MetricsStart\<close>.
  \<^item> The start of the program: \<open>Configuration\<close> (\<open>config/config.go\<close>) and \<open>Startup\<close> (\<open>cmd/main.go\<close>,
    \<open>o11y/tracing.go\<close>, the clients that \<open>config.go\<close> makes), one logged step per call of a library,
    with the exit status as the result.

  Records carry the names of the Go structs with a prefix per type (\<open>st\<close> for the status of a
  channel, \<open>sp\<close> for its specification, \<open>ut\<close>, \<open>us\<close>, \<open>rt\<close>, \<open>tk\<close> and so on); operations carry the
  names of the Go functions. Loop bodies and long branches of a Go function are definitions of
  their own next to it.

  \<^bold>\<open>What is shown.\<close>
  \<^item> Life cycle of a channel (\<open>PhaseMachine\<close>, \<open>RolloutGates\<close>, \<open>RolloutBatches\<close>): \<open>transition\<close> is the
    abstract machine that the dispatcher refines; reconciles of all channels in any order stay
    within it; promotion, completion and the end of a batch need instances that were read back
    healthy; batches are bounded and enough of them finish the fleet.
  \<^item> Single operations of the channel controller (\<open>Assignments\<close>, \<open>ChannelOutcomes\<close>): what a
    deployment, a rollback, a refusal, a baseline capture, a deletion and an error write.
  \<^item> The two controllers together (\<open>UnleashReadiness\<close>, \<open>UnleashPromises\<close>, \<open>InstanceImages\<close>): every
    status write of the Unleash controller is a step of an abstract relation that justifies the
    readiness a channel waits for; an assignment reaches the given instances only; the image
    that is deployed was announced in the status before; and the watch between them (\<open>Watches\<close>)
    misses no instance whose image moved.
  \<^item> Tokens and secrets (\<open>ApiTokenPromises\<close>, \<open>InstanceAccess\<close>, \<open>RemotePromises\<close>,
    \<open>MigrationPromises\<close>): replacement before deletion, release of the finalizer, who is granted a
    remote token and where it is sent, and the order in which a secret is moved.
  \<^item> Federation (\<open>FederationPromises\<close>, \<open>FederationFlow\<close>, \<open>FederationShutdown\<close>): what a message may
    delete and overwrite, that its secrets grant what they should, that every message is
    answered once, the pauses between subscriptions, and the end of the loop.
    \<open>FederationDelivery\<close> joins the two ends: a published instance arrives in a cluster that has not
    heard of it, with a secret that the RemoteUnleash controller accepts there.
  \<^item> Goroutines (\<open>ObjectApi\<close>): a batch ends under every schedule and reports the errors of its
    objects and no others. Start (\<open>Startup\<close>): nothing runs without a valid configuration.
  \<^item> Routines against their meaning: version parsing, URL construction, comparison of statuses,
    fingerprints of messages, the derived time budget without wrap-around, the gauges that a
    restart seeds.

  \<open>SampleCluster\<close> and \<open>SampleInstance\<close> are concrete surroundings that satisfy every assumed law;
  the witnesses run the controllers in them. Locales state the interfaces: \<open>string_map\<close>
  (maps of strings), \<open>phase_handler\<close> (what the dispatcher expects of a handler), \<open>thread_pool\<close>
  (goroutines that are waited for), \<open>message_handler\<close> (what the subscriber expects of a handler);
  each is interpreted on the definitions of the code.

  \<^bold>\<open>Bounds and fuel.\<close> The number of retries after a conflict (\<open>eRetries\<close>, \<open>uRetries\<close>, \<open>kRetries\<close>,
  \<open>mRetries\<close>) is a parameter; the theorems hold for every number. A pool of \<open>n\<close> threads gets fuel
  for all requests they can issue (two per upsert, one per delete), and the lemmas of
  \<open>thread_pool\<close> show that it suffices under every schedule. The receive loop of the subscriber may
  run for ever; it has fuel for events and for runs, its answer is \<^const>\<open>None\<close> when that is used
  up, safety is shown for every amount, and \<open>receiving_returns\<close> says how much is enough after a
  shutdown. Everything else recurses on data.

  \<^bold>\<open>Parameters.\<close> The API server, one record of answers per kind of object; the semver library, with
  the order it documents; the helpers of apimachinery (conditions, finalizers, label selectors,
  semantic comparison of specifications); the HTTP transport, URL parser and JSON codec; the
  protobuf codec, SHA-256 and the check of DNS labels; Pub/Sub; the scheduler of goroutines,
  clock, random numbers and environment variables; the libraries the start calls (tracing, the
  manager, Pub/Sub clients), by the errors they answer with. Laws about them are named hypotheses
  (\<open>semver_laws\<close>, \<open>condition_laws\<close>, \<open>finalizer_laws\<close>, \<open>storing_laws\<close>, \<open>storesStatus\<close>).

  \<^bold>\<open>Not modelled.\<close> Generated code (deep copies, protobuf accessors); command line flags, the type
  scheme and the filling of the configuration from environment variables, which are done by
  libraries; logging, spans and the registration of metrics, which nothing reads back (updates of
  metrics are logged calls); the builders of the controllers, except for the watch between channels
  and instances: the other predicates are those of controller-runtime and only select when a
  reconcile runs; \<open>GetHealth\<close> and \<open>CheckAPITokenExists\<close>, which nothing calls. Deadlines of contexts are
  errors that a request may answer with. Callbacks of the subscriber run one after the other,
  reconciles one at a time; what runs at the same time is visible as what the API server answers
  in between.
\<close>

section \<open>The life cycle of a ReleaseChannel\<close>

text \<open>C1: as long as no other actor writes a channel's status, any number of reconciles of any
  channels, with any failures of the API server in between, persists only the phases of the
  life cycle; in particular never Validating and never an unknown phase.\<close>

theorem phases_stay_in_lifecycle:
  assumes "reconciled E l" and "soleWriter l"
  shows "set (writtenPhases l) \<subseteq> lifecycle"
  using phases_closed[OF assms(2) reconciled_writes[OF assms(1)]] by blast

theorem phases_stay_in_lifecycle_witness:
  "reconciled sampleOutage sampleOutageLog \<and> writtenPhases sampleOutageLog = [PhaseFailed] \<and>
   set (writtenPhases sampleOutageLog) \<subseteq> lifecycle"
  using phases_stay_in_lifecycle[OF sampleOutage_reconciled sampleOutage_soleWriter]
    sampleOutage_reconciled sampleOutage_written by blast


text \<open>C3: a rolling channel is written as Completed only after every target instance of a listing
  of this very run was read back ready and connected at its current generation.\<close>

theorem completion_requires_healthy_fleet:
  "follows (gatedWrites PhaseCompleted (fleetSeenHealthy rc l) rollingOthers) l
     (newCalls (executeRollingPhase E (setPhase PhaseRolling rc)) l)"
proof -
  have "fleetSeenHealthy (setPhase PhaseRolling rc) l = fleetSeenHealthy rc l"
    by (intro ext) (simp add: fleetSeenHealthy_def isTarget_def[abs_def] setPhase_def)
  then show ?thesis
    using rolling_gated[of "setPhase PhaseRolling rc" l E] by (auto simp: gated_def elim: runs_elim)
qed

text \<open>C4: a canary channel is promoted to Rolling only after every canary among the target
  instances of a listing of this run was read back ready and connected.\<close>

theorem promotion_requires_healthy_canaries:
  "follows (gatedWrites PhaseRolling (canariesSeenHealthy E (setPhase PhaseCanary rc) l) canaryOthers) l
     (newCalls (executeCanaryPhase E (setPhase PhaseCanary rc)) l)"
  using canary_gated[of "setPhase PhaseCanary rc" E l] by (auto simp: gated_def elim: runs_elim)

section \<open>Assignments and batches\<close>


text \<open>C7: one batch of a rolling upgrade moves at most \<open>maxParallel\<close> instances, all of them among
  the pending ones, and the batch it records names exactly the instances it was given.\<close>

theorem batch_bounded_by_maxParallel:
  "follows (batchWrites rc pending) l (newCalls (deployToInstances E rc (nextBatch rc pending)) l)"
proof -
  have "runs (batchWrites rc pending) l (deployToInstances E rc (nextBatch rc pending)) (\<lambda>_ _. True)"
    by (rule runs_weaken[OF deployToInstances_runs]) (auto intro: deploy_batch)
  then show ?thesis by (elim runs_elim)
qed


text \<open>C8: when each batch settles, the number of batches the time budget reckons with brings the
  whole fleet to the target image.\<close>

theorem budgeted_batches_finish_rollout:
  assumes "distinct (map uName us)" and "stInstances (rcStatus rc) = int (length us)"
    and "length us \<le> 2 ^ 31" and "effectiveMaxParallel rc \<le> 2 ^ 31"
  shows "list_all (\<lambda>u. resolvedImage u = rcImage rc) ((settleBatch rc ^^ nat (budgetBatches rc)) us)"
proof -
  have "int (length us) \<le> 2 ^ 31" using assms(3) by (metis of_nat_le_iff of_nat_numeral of_nat_power)
  then have "int (length us) \<le> budgetBatches rc * effectiveMaxParallel rc" and "0 \<le> budgetBatches rc"
    using budgetBatches_enough[of rc] assms by simp_all
  then have "length us \<le> nat (budgetBatches rc) * nat (effectiveMaxParallel rc)"
    by (simp flip: nat_mult_distrib add: nat_le_iff le_nat_iff)
  then have "length (getInstancesToUpdate us rc) \<le> nat (budgetBatches rc) * nat (effectiveMaxParallel rc)"
    unfolding getInstancesToUpdate_def by (rule le_trans[OF length_filter_le])
  then have "getInstancesToUpdate ((settleBatch rc ^^ nat (budgetBatches rc)) us) rc = []"
    using settleBatches_pending[OF assms(1)] by simp
  then show ?thesis by (simp add: getInstancesToUpdate_def filter_empty_conv list_all_iff)
qed

theorem budgeted_batches_finish_rollout_witness:
  "list_all (\<lambda>u. resolvedImage u = ''r:2'')
     ((settleBatch sampleRolling ^^ nat (budgetBatches sampleRolling)) sampleFleet)"
proof -
  have "distinct (map uName sampleFleet)" "stInstances (rcStatus sampleRolling) = int (length sampleFleet)"
    "length sampleFleet \<le> 2" "effectiveMaxParallel sampleRolling = 1" "rcImage sampleRolling = ''r:2''"
    by code_simp+
  then show ?thesis using budgeted_batches_finish_rollout[of sampleFleet sampleRolling] by simp
qed

text \<open>An instance that already runs the target is adopted without being moved: adoption adds
  the target as the assignment of such an instance and changes no assignment that exists.\<close>

theorem adoption_never_moves:
  "map_of (orEmpty (stInstanceImages (rcStatus (adoptUpToDateInstances rc us)))) n =
     (case map_of (orEmpty (stInstanceImages (rcStatus rc))) n of
        Some img \<Rightarrow> Some img
      | None \<Rightarrow> if adopts rc us n then Some (rcImage rc) else None)"
  by (rule adopt_lookup)

text \<open>A rollback assigns its image to every target instance and to no one else: the other
  names, including those of instances that are gone, end up unassigned.\<close>

theorem rollback_assigns_whole_fleet:
  "assignedImage (rcStatus (assignRollback img us (updateInstanceCounts E rc us))) n =
     (if n \<in> uName ` set us then img else [])"
  unfolding assignRollback_lookup assignedImage_updateInstanceCounts by simp

section \<open>Baseline and downgrades\<close>



text \<open>Refusing a downgrade writes nothing but an Idle channel without an active batch whose
  assignments are those it had (or dropped with their instance), and it refuses exactly
  when the fleet image is newer than the target.\<close>

theorem refusal_moves_nothing:
  "follows (refusesOnly rc) l (newCalls (refuseDowngrade E rc us) l) \<and>
   (fst (result (refuseDowngrade E rc us) l) = None) = (downgradeFrom E rc us = None)"
  using refuseDowngrade_runs[of rc l E us] by (elim runs_elim) simp

section \<open>Status writes\<close>

text \<open>A status update only ever writes the requested status over the channel it read last,
  and only when that channel carried a different one; on success the caller holds the
  stored object, on failure the one it had.\<close>

theorem status_update_writes_over_latest:
  "follows (writesOver (channelKey rc) (rcStatus rc)) l (newCalls (updateReleaseChannelStatus E rc) l) \<and>
   statusOutcome rc (result (updateReleaseChannelStatus E rc) l) (l @ newCalls (updateReleaseChannelStatus E rc) l)"
  using updateReleaseChannelStatus_runs[of rc l E] by (elim runs_elim) simp

text \<open>A status update ends after at most three calls per attempt, however often the API server
  reports a conflict.\<close>

theorem status_update_bounded:
  "length (newCalls (updateReleaseChannelStatus E rc) l) \<le> 3 * Suc (eRetries E)"
  by (rule callsAtMost_length[OF statusUpdate_calls])




section \<open>Deletion and errors\<close>

text \<open>C10: a channel that is being deleted loses its finalizer only after a listing of this run
  without a referencing instance, and by writing the channel it read last without the
  finalizer; if instances still refer to it the deletion is retried after the check
  interval without an error.\<close>

theorem deletion_protects_orphans:
  "follows (deletionGuard E rc l) l (newCalls (handleDeletion E rc) l) \<and>
   (unreferenced rc l (l @ newCalls (handleDeletion E rc) l) \<or>
    result (handleDeletion E rc) l = (resultAfter releaseChannelDeletionCheckInterval, None))"
  using handleDeletion_runs[of E rc l] by (elim runs_elim) (auto simp: blocked_unreferenced)

text \<open>C11: the phase step of a reconcile never reports a conflict as an error, and when it does
  report an error, its last call was a status write in phase Failed with that error as the
  reason.\<close>

theorem reconcile_records_errors:
  "errorsRecorded (result (reconcilePhase E k rc) l) (newCalls (reconcilePhase E k rc) l)"
  using reconcilePhase_errors[of l E k rc] by (elim runs_elim) auto

section \<open>Instances\<close>

text \<open>C18: the Unleash controller earns the readiness a rollout waits for: a status write makes an
  instance ready only if this run had seen its deployment available, connected only if an
  answer 200 of the instance was seen as well, and either only for the generation the run
  began with.\<close>

theorem ready_only_when_available:
  assumes "storing_laws E"
  shows "follows (trustworthy k (runGeneration E k l) l) l (newCalls (ReconcileUnleash E k) l)"
  using ReconcileUnleash_promises[OF assms, of k l] by (elim runs_elim) (auto elim: follows_mono)

theorem ready_only_when_available_witness:
  "follows (trustworthy (''n'', ''a'') 0 []) [] (newCalls (ReconcileUnleash sampleInstanceEnv (''n'', ''a'')) [])"
  using ready_only_when_available[OF sampleInstance_storing, of "(''n'', ''a'')" "[]"]
  by (simp add: sampleInstance_generation)



text \<open>C21: a deployment reaches the instances it was given and no others: after each of its status
  writes an instance outside the batch pulls from the channel what it pulled before, and one
  inside pulls an image that was allowed for it.\<close>

theorem deployment_reaches_only_its_instances:
  "follows (reachesOnly E rc us) l (newCalls (deployToInstances E rc us) l)"
  using deployToInstances_reaches[of E rc us l] by (elim runs_elim)

end
